(* ===== verification/Prelude.thy ===== *)
theory Prelude
  imports Main "HOL-Library.Word"
begin

text \<open>
  What every component shares: instants and durations as the code computes with them, Go
  errors with their wrapping and \<open>errors.Is\<close>, and the named collections the
  component theories fill.
\<close>

named_theorems pool_ops "definitions of the atomic operations of the runner pool"
named_theorems pool_frame "fields an operation of the runner pool leaves unchanged"

section \<open>Instants and durations\<close>

text \<open>
  An instant is the number of nanoseconds since Go's zero time, so the zero value
  \<open>time.Time{}\<close> is 0 and \<open>IsZero\<close> tests for it. A duration is a signed count of
  nanoseconds. \<open>Time.Sub\<close> saturates at the ends of the signed 64-bit range.
\<close>

type_synonym time = int
type_synonym duration = int

definition time_zero :: time where
  "time_zero = 0"

definition time_IsZero :: "time \<Rightarrow> bool" where
  "time_IsZero t = (t = time_zero)"

definition max_duration :: duration where
  "max_duration = 9223372036854775807"

definition min_duration :: duration where
  "min_duration = - 9223372036854775808"

definition time_Sub :: "time \<Rightarrow> time \<Rightarrow> duration" where
  "time_Sub t u = max min_duration (min max_duration (t - u))"

definition second :: duration where
  "second = 1000000000"

lemma time_IsZero_zero [simp]: "time_IsZero time_zero"
  by (simp add: time_IsZero_def)

lemma time_Sub_le: "d \<le> max_duration \<Longrightarrow> min_duration < d \<Longrightarrow> d \<le> time_Sub t u \<longleftrightarrow> d \<le> t - u"
  by (auto simp: time_Sub_def)

lemma time_Sub_in_range: "min_duration \<le> time_Sub t u \<and> time_Sub t u \<le> max_duration"
  by (auto simp: time_Sub_def min_duration_def max_duration_def)

section \<open>Errors\<close>

text \<open>
  A Go error is a sentinel (compared by identity), a message, an error wrapped with
  \<open>%w\<close> between two texts, or a join. \<open>errors.Is\<close> walks the chain.
\<close>

datatype sentinel =
    ContextCanceled
  | DeadlineExceeded
  | ErrRecycle
  | ErrCancelRun
  | ErrDrainStalled
  | ErrJobTerminal
  | ErrDrainIdle
  | ErrDraining
  | ErrExecutionNotFound
  | IoEOF
  | ErrNotExist

datatype err =
    Sentinel sentinel
  | Msg string
  | Wrapf string err string
  | Joined "err list"

fun errors_Is :: "err \<Rightarrow> sentinel \<Rightarrow> bool" where
  "errors_Is (Sentinel s) t = (s = t)"
| "errors_Is (Msg m) t = False"
| "errors_Is (Wrapf pre e post) t = errors_Is e t"
| "errors_Is (Joined es) t = list_ex (\<lambda>e. errors_Is e t) es"

fun errors_Join :: "err option list \<Rightarrow> err option" where
  "errors_Join es = (case List.map_filter id es of [] \<Rightarrow> None | e # rest \<Rightarrow> Some (Joined (e # rest)))"

section \<open>Lists\<close>

lemma list_update_nth_same [simp]: "i < length xs \<Longrightarrow> xs[i := f] ! i = f"
  by simp

lemma nth_list_update_if: "j < length xs \<Longrightarrow> xs[i := v] ! j = (if i = j then v else xs ! j)"
  by simp

lemma set_list_updateD: "x \<in> set (xs[i := v]) \<Longrightarrow> x = v \<or> x \<in> set xs"
  using set_update_subset_insert by fastforce

lemma in_set_list_update_other:
  "j \<noteq> i \<Longrightarrow> j < length xs \<Longrightarrow> xs ! j \<in> set (xs[i := v])"
  by (metis length_list_update nth_list_update_neq nth_mem)

lemma length_takeWhile_less': "\<exists>x \<in> set xs. \<not> P x \<Longrightarrow> length (takeWhile P xs) < length xs"
  by (induction xs) auto

text \<open>\<open>sum_list\<close> of counts over a list updated in one place.\<close>

lemma sum_list_map_list_update:
  fixes f :: "'a \<Rightarrow> nat"
  assumes "i < length xs"
  shows "sum_list (map f (xs[i := v])) + f (xs ! i) = sum_list (map f xs) + f v"
  using assms
proof (induction xs arbitrary: i)
  case Nil
  then show ?case by simp
next
  case (Cons x xs)
  then show ?case by (cases i) (auto simp: algebra_simps)
qed

lemma unat_of_nat64: "n < 2 ^ 64 \<Longrightarrow> unat (of_nat n :: 64 word) = n"
  by (simp add: unat_of_nat)

end
