(* ===== verification/Go_Path.thy ===== *)
theory Go_Path
  imports Go_Strings
begin

text \<open>
  The lexical part of Go's \<open>path/filepath\<close> on Unix (\<open>IsAbs\<close>, \<open>Clean\<close>, \<open>Join\<close>, \<open>Dir\<close>,
  \<open>Base\<close>) and \<open>strings.Split\<close> on one byte.
\<close>

fun SplitOn :: "char \<Rightarrow> string \<Rightarrow> string list" where
  "SplitOn c [] = [[]]"
| "SplitOn c (x # xs) =
     (if x = c then [] # SplitOn c xs
      else (case SplitOn c xs of [] \<Rightarrow> [[x]] | f # fs \<Rightarrow> (x # f) # fs))"

definition slash :: char where "slash = CHR 0x2F"

definition filepath_IsAbs :: "string \<Rightarrow> bool" where
  "filepath_IsAbs p = HasPrefix p ''/''"

text \<open>The elements of a cleaned path, with the innermost first in the accumulator.\<close>

fun clean_elems :: "bool \<Rightarrow> string list \<Rightarrow> string list \<Rightarrow> string list" where
  "clean_elems rooted acc [] = rev acc"
| "clean_elems rooted acc (e # es) =
     (if e = [] \<or> e = ''.'' then clean_elems rooted acc es
      else if e = ''..'' then
        (if acc = [] \<or> hd acc = ''..''
         then clean_elems rooted (if rooted then acc else ''..'' # acc) es
         else clean_elems rooted (tl acc) es)
      else clean_elems rooted (e # acc) es)"

definition filepath_Clean :: "string \<Rightarrow> string" where
  "filepath_Clean p =
     (if p = [] then ''.''
      else let rooted = filepath_IsAbs p;
               body = JoinStr (clean_elems rooted [] (SplitOn slash p)) ''/''
           in if rooted then ''/'' @ body else if body = [] then ''.'' else body)"

definition filepath_Join :: "string list \<Rightarrow> string" where
  "filepath_Join elems =
     (let es = filter (\<lambda>e. e \<noteq> []) elems in if es = [] then [] else filepath_Clean (JoinStr es ''/''))"

text \<open>Everything up to and including the last slash.\<close>

definition dir_prefix :: "string \<Rightarrow> string" where
  "dir_prefix p = rev (dropWhile (\<lambda>c. c \<noteq> slash) (rev p))"

definition filepath_Dir :: "string \<Rightarrow> string" where
  "filepath_Dir p = filepath_Clean (dir_prefix p)"

definition filepath_Base :: "string \<Rightarrow> string" where
  "filepath_Base p =
     (if p = [] then ''.''
      else let q = rev (dropWhile (\<lambda>c. c = slash) (rev p))
           in if q = [] then ''/'' else rev (takeWhile (\<lambda>c. c \<noteq> slash) (rev q)))"

section \<open>Facts\<close>

lemma SplitOn_ne [simp]: "SplitOn c s \<noteq> []"
  by (induction s) (auto split: list.splits)

lemma SplitOn_no_sep: "f \<in> set (SplitOn c s) \<Longrightarrow> c \<notin> set f"
proof (induction s arbitrary: f)
  case Nil
  then show ?case by simp
next
  case (Cons x xs)
  then show ?case by (auto split: if_splits list.splits)
qed

lemma SplitOn_plain: "c \<notin> set s \<Longrightarrow> SplitOn c s = [s]"
  by (induction s) auto

lemma SplitOn_append: "c \<notin> set t \<Longrightarrow> SplitOn c (s @ c # t) = SplitOn c s @ [t]"
  by (induction s) (auto simp: SplitOn_plain split: list.splits)

lemma JoinStr_SplitOn: "JoinStr (SplitOn c s) [c] = s"
proof (induction s)
  case Nil
  then show ?case by simp
next
  case (Cons x xs)
  show ?case
  proof (cases "SplitOn c xs")
    case Nil
    then show ?thesis by simp
  next
    case (Cons f fs)
    then show ?thesis using Cons.IH by (cases fs) auto
  qed
qed

text \<open>A clean absolute path: joining one plain element appends it.\<close>

definition plain_elem :: "string \<Rightarrow> bool" where
  "plain_elem e = (e \<noteq> [] \<and> e \<noteq> ''.'' \<and> e \<noteq> ''..'' \<and> slash \<notin> set e)"

definition clean_path :: "string \<Rightarrow> bool" where
  "clean_path p = (filepath_IsAbs p \<and> p \<noteq> ''/'' \<and> filepath_Clean p = p)"

lemma clean_elems_acc:
  "clean_elems rooted acc (es @ [e]) =
     (if e = [] \<or> e = ''.'' then clean_elems rooted acc es
      else if e = ''..'' then clean_elems rooted (rev (clean_elems rooted acc es)) [''..'']
      else clean_elems rooted acc es @ [e])"
  by (induction rooted acc es rule: clean_elems.induct) auto

lemma JoinStr_snoc: "xs \<noteq> [] \<Longrightarrow> JoinStr (xs @ [e]) sep = JoinStr xs sep @ sep @ e"
  by (induction xs sep rule: JoinStr.induct) auto

lemma clean_elems_nonempty:
  assumes "clean_path p"
  shows "clean_elems True [] (SplitOn slash p) \<noteq> []"
proof
  assume "clean_elems True [] (SplitOn slash p) = []"
  moreover have abs: "filepath_IsAbs p" "p \<noteq> []"
    using assms by (auto simp: clean_path_def filepath_IsAbs_def HasPrefix_def)
  ultimately have "filepath_Clean p = ''/''" by (simp add: filepath_Clean_def)
  then show False using assms by (auto simp: clean_path_def)
qed

lemma Join_plain:
  assumes p: "clean_path p" and e: "plain_elem e"
  shows "filepath_Join [p, e] = p @ ''/'' @ e"
proof -
  let ?c = "clean_elems True [] (SplitOn slash p)"
  have abs: "filepath_IsAbs p" "p \<noteq> []"
    using p by (auto simp: clean_path_def filepath_IsAbs_def HasPrefix_def)
  have slash: "[slash] = ''/''" by (simp add: slash_def)
  have s: "SplitOn slash (p @ CHR 0x2F # e) = SplitOn slash p @ [e]"
    using SplitOn_append [of slash e p] e by (simp add: plain_elem_def slash_def)
  have "filepath_IsAbs (p @ ''/'' @ e)"
    using abs by (cases p) (auto simp: filepath_IsAbs_def HasPrefix_def)
  then have "filepath_Clean (p @ ''/'' @ e) = ''/'' @ JoinStr (?c @ [e]) ''/''"
    using e by (simp add: filepath_Clean_def Let_def s clean_elems_acc plain_elem_def)
  also have "\<dots> = (''/'' @ JoinStr ?c ''/'') @ ''/'' @ e"
    using clean_elems_nonempty [OF p] by (simp add: JoinStr_snoc)
  also have "''/'' @ JoinStr ?c ''/'' = p"
    using p abs by (auto simp: clean_path_def filepath_Clean_def Let_def)
  finally show ?thesis using abs e by (simp add: filepath_Join_def plain_elem_def)
qed

end
