(* ===== verification/Exec_Types.thy ===== *)
theory Exec_Types
  imports Go_Path "HOL-Library.List_Lexorder"
begin

text \<open>
  The data of \<open>internal/guestexec\<close>: outcomes, execution specs, events and their payloads,
  executions and the registry. Byte slices are strings of bytes. A \<open>*execution\<close> is a pointer
  that outlives its entry in the registry's table, so executions live in a store, a list the
  registry only appends to, and the table maps an id to a position of it. The table is an
  association list with distinct keys whose order stands for the order Go happens to range over
  the map in. A channel is known by whether it is closed, or, for the buffered \<open>exitReport\<close>, by
  its content.
\<close>

section \<open>Data\<close>

datatype Outcome =
    OutcomeUnspecified
  | OutcomeAccepted
  | OutcomeAlreadyRunning
  | OutcomeAlreadyCompleted
  | OutcomeConflict

fun Outcome_String :: "Outcome \<Rightarrow> string" where
  "Outcome_String OutcomeUnspecified = ''OUTCOME_UNSPECIFIED''"
| "Outcome_String OutcomeAccepted = ''ACCEPTED''"
| "Outcome_String OutcomeAlreadyRunning = ''ALREADY_RUNNING''"
| "Outcome_String OutcomeAlreadyCompleted = ''ALREADY_COMPLETED''"
| "Outcome_String OutcomeConflict = ''CONFLICT''"

datatype Stream = StreamUnspecified | StreamStdout | StreamStderr

record jobMeta =
  jmRepo :: string
  jmJobID :: int
  jmRunID :: int
  jmRunnerName :: string

record execSpec =
  specID :: string
  specSlot :: "32 word"
  specMeta :: jobMeta
  Command :: string
  Args :: "string list"
  Env :: "(string \<times> string) list"
  WorkingDir :: string

record exitReport =
  erPID :: int
  erExitCode :: int
  erMessage :: string

datatype payload =
    PhaseChange string
  | LogChunk Stream string
  | Heartbeat int
  | TerminalResult "32 word" string

record event =
  Sequence :: "64 word"
  Payload :: payload

record execution =
  eid :: string
  eslot :: "32 word"
  emeta :: jobMeta
  processID :: int
  pgid :: int
  phase :: string
  running :: bool
  reaped :: bool
  cancelled :: bool
  events :: "event list"
  retainedLogBytes :: int
  logCapCursor :: nat
  completedAt :: time
  exitReported :: bool
  exitCode :: int
  exitMsg :: string
  notified :: nat
  doneClosed :: bool
  exitReportChan :: "exitReport option"
  reapOnce :: bool
  readers :: nat

record registry =
  store :: "execution list"
  executions :: "(string \<times> nat) list"
  rslots :: "32 word \<rightharpoonup> string"
  retention :: duration
  heartbeatInterval :: duration
  draining :: bool
  activeCount :: "32 word"
  drainedClosed :: bool

record executionState =
  xsID :: string
  xsSlot :: "32 word"
  xsMeta :: jobMeta
  xsPhase :: string
  xsRunning :: bool
  xsLastSequence :: "64 word"

record drainState =
  dsIdle :: bool
  dsActiveExecutions :: "32 word"

section \<open>Constants\<close>

definition defaultRetention :: duration where "defaultRetention = 5 * 60 * second"
definition defaultHeartbeatInterval :: duration where "defaultHeartbeatInterval = 10 * second"
definition outputReadBufferSize :: nat where "outputReadBufferSize = 32 * 1024"
definition maximumProcessExitCode :: int where "maximumProcessExitCode = 2 ^ 31 - 1"
definition maxRetainedLogBytes :: int where "maxRetainedLogBytes = 4 * 1024 * 1024"

section \<open>The byte accounting of a log\<close>

fun payload_bytes :: "payload \<Rightarrow> int" where
  "payload_bytes (LogChunk st d) = int (length d)"
| "payload_bytes _ = 0"

definition log_bytes :: "event list \<Rightarrow> int" where
  "log_bytes evs = sum_list (map (payload_bytes \<circ> Payload) evs)"

lemma payload_bytes_nonneg [simp]: "0 \<le> payload_bytes p"
  by (cases p) auto

lemma log_bytes_Nil [simp]: "log_bytes [] = 0"
  and log_bytes_Cons [simp]: "log_bytes (e # es) = payload_bytes (Payload e) + log_bytes es"
  and log_bytes_append [simp]: "log_bytes (xs @ ys) = log_bytes xs + log_bytes ys"
  by (simp_all add: log_bytes_def)

lemma log_bytes_nonneg [simp]: "0 \<le> log_bytes evs"
  by (induction evs) auto

lemma log_bytes_update:
  "i < length evs \<Longrightarrow> log_bytes (evs[i := e]) = log_bytes evs - payload_bytes (Payload (evs ! i)) + payload_bytes (Payload e)"
  by (induction evs arbitrary: i) (auto split: nat.splits)

text \<open>Truncating a chunk keeps its place, its sequence number and its stream.\<close>

fun truncated :: "payload \<Rightarrow> payload" where
  "truncated (LogChunk st d) = LogChunk st []"
| "truncated p = p"

definition truncate_event :: "event \<Rightarrow> event" where
  "truncate_event e = e\<lparr>Payload := truncated (Payload e)\<rparr>"

lemma Sequence_truncate [simp]: "Sequence (truncate_event e) = Sequence e"
  by (simp add: truncate_event_def)

lemma payload_bytes_truncated [simp]: "payload_bytes (truncated p) = 0"
  by (cases p) auto

lemma Payload_truncate [simp]: "Payload (truncate_event e) = truncated (Payload e)"
  by (simp add: truncate_event_def)

lemma payload_bytes_pos: "0 < payload_bytes p \<longleftrightarrow> (\<exists>st d. p = LogChunk st d \<and> d \<noteq> [])"
  by (cases p) auto

lemma truncated_dead: "payload_bytes p = 0 \<Longrightarrow> truncated p = p"
  by (cases p) auto

lemma truncate_dead: "payload_bytes (Payload e) = 0 \<Longrightarrow> truncate_event e = e"
  by (simp add: truncate_event_def truncated_dead)

end
