(* ===== verification/Exec_Ops.thy ===== *)
theory Exec_Ops
  imports Exec_Types
begin

text \<open>
  The operations of the registry and of one execution (\<open>registry.go\<close>). A definition is one
  critical section, or a function that runs inside one; the machine of \<open>Exec_Machine\<close>
  interleaves them.
\<close>

section \<open>One execution's log\<close>

text \<open>
  \<open>enforceLogByteCapLocked\<close>: one pass of its loop per call, from the cursor on.
\<close>

function enforceLogByteCap :: "execution \<Rightarrow> execution" where
  "enforceLogByteCap e =
     (if logCapCursor e < length (events e) then
        if retainedLogBytes e \<le> maxRetainedLogBytes then e
        else
          (let k = logCapCursor e; chunk = Payload (events e ! k)
           in if payload_bytes chunk = 0 then enforceLogByteCap (e\<lparr>logCapCursor := Suc k\<rparr>)
              else enforceLogByteCap
                     (e\<lparr>retainedLogBytes := retainedLogBytes e - payload_bytes chunk,
                        events := (events e)[k := truncate_event (events e ! k)],
                        logCapCursor := Suc k\<rparr>))
      else e)"
  by auto
termination
  by (relation "measure (\<lambda>e. length (events e) - logCapCursor e)") auto

declare enforceLogByteCap.simps [simp del]

definition is_chunk :: "payload \<Rightarrow> bool" where
  "is_chunk p = (case p of LogChunk _ _ \<Rightarrow> True | _ \<Rightarrow> False)"

definition appendEventLocked :: "execution \<Rightarrow> payload \<Rightarrow> execution" where
  "appendEventLocked e p =
     (let sequence = of_nat (length (events e) + 1);
          e1 = e\<lparr>events := events e @ [\<lparr>Sequence = sequence, Payload = p\<rparr>]\<rparr>;
          e2 = (if is_chunk p
                then enforceLogByteCap (e1\<lparr>retainedLogBytes := retainedLogBytes e1 + payload_bytes p\<rparr>)
                else e1)
      in e2\<lparr>notified := Suc (notified e2)\<rparr>)"

definition appendHeartbeat :: "execution \<Rightarrow> int \<Rightarrow> execution" where
  "appendHeartbeat e now = (if \<not> running e then e else appendEventLocked e (Heartbeat now))"

definition clampExitCode :: "int \<Rightarrow> 32 word" where
  "clampExitCode c = (if c < 0 \<or> maximumProcessExitCode < c then - 1 else word_of_int c)"

section \<open>Admission\<close>

definition newRegistry :: "duration \<Rightarrow> duration \<Rightarrow> registry" where
  "newRegistry optRetention optHeartbeat =
     \<lparr>store = [], executions = [], rslots = (\<lambda>_. None),
      retention = (if optRetention \<le> 0 then defaultRetention else optRetention),
      heartbeatInterval = (if optHeartbeat \<le> 0 then defaultHeartbeatInterval else optHeartbeat),
      draining = False, activeCount = 0, drainedClosed = False\<rparr>"

definition lookupExecution :: "registry \<Rightarrow> string \<Rightarrow> execution option" where
  "lookupExecution r i = map_option ((!) (store r)) (map_of (executions r) i)"

definition checkAdmissionLocked :: "registry \<Rightarrow> execSpec \<Rightarrow> Outcome \<times> bool \<times> err option" where
  "checkAdmissionLocked r spec =
     (if draining r then (OutcomeUnspecified, False, Some (Sentinel ErrDraining))
      else
        (case lookupExecution r (specID spec) of
           Some existing \<Rightarrow>
             if eslot existing \<noteq> specSlot spec then (OutcomeConflict, False, None)
             else if running existing then (OutcomeAlreadyRunning, False, None)
             else (OutcomeAlreadyCompleted, False, None)
         | None \<Rightarrow>
             if rslots r (specSlot spec) \<noteq> None then (OutcomeConflict, False, None)
             else (OutcomeAccepted, True, None)))"

definition CheckAdmission :: "registry \<Rightarrow> execSpec \<Rightarrow> Outcome \<times> err option" where
  "CheckAdmission r spec =
     (if specID spec = [] then (OutcomeUnspecified, Some (Msg ''guestexec: execution ID is required''))
      else let (outcome, proceed, e) = checkAdmissionLocked r spec in (outcome, e))"

text \<open>The validation \<open>Start\<close> and \<open>Register\<close> share.\<close>

definition specError :: "execSpec \<Rightarrow> err option" where
  "specError spec =
     (if specID spec = [] then Some (Msg ''guestexec: execution ID is required'')
      else if Command spec = [] then Some (Msg ''guestexec: command is required'')
      else if \<not> filepath_IsAbs (Command spec) then Some (Msg ''guestexec: command path must be absolute'')
      else None)"

definition newExecution :: "execSpec \<Rightarrow> int \<Rightarrow> int \<Rightarrow> execution" where
  "newExecution spec pid pg =
     \<lparr>eid = specID spec, eslot = specSlot spec, emeta = specMeta spec, processID = pid, pgid = pg,
      phase = ''running'', running = True, reaped = False, cancelled = False, events = [],
      retainedLogBytes = 0, logCapCursor = 0, completedAt = time_zero, exitReported = False,
      exitCode = 0, exitMsg = [], notified = 0, doneClosed = False, exitReportChan = None,
      reapOnce = False, readers = 2\<rparr>"

definition Register :: "registry \<Rightarrow> execSpec \<Rightarrow> int \<Rightarrow> int \<Rightarrow> Outcome \<times> err option \<times> registry" where
  "Register r spec pid pg =
     (case specError spec of
        Some e \<Rightarrow> (OutcomeUnspecified, Some e, r)
      | None \<Rightarrow>
          (case checkAdmissionLocked r spec of
             (outcome, False, e) \<Rightarrow> (outcome, e, r)
           | (_, True, _) \<Rightarrow>
               let x = appendEventLocked (newExecution spec pid pg) (PhaseChange ''running'')
               in (OutcomeAccepted, None,
                   r\<lparr>store := store r @ [x],
                     executions := executions r @ [(specID spec, length (store r))],
                     rslots := (rslots r)(specSlot spec \<mapsto> specID spec),
                     activeCount := activeCount r + 1\<rparr>)))"

text \<open>
  \<open>Launch\<close> validates the command and forks; what the operating system answers is the argument
  \<open>os\<close>: an error, or the pid of the child, which leads its own group.
\<close>

definition Launch :: "execSpec \<Rightarrow> err + int \<Rightarrow> err + int \<times> int" where
  "Launch spec os =
     (if Command spec = [] then Inl (Msg ''guestexec: command is required'')
      else if \<not> filepath_IsAbs (Command spec) then Inl (Msg ''guestexec: command path must be absolute'')
      else (case os of Inl e \<Rightarrow> Inl e | Inr pid \<Rightarrow> Inr (pid, pid)))"

text \<open>
  \<open>Start\<close>: \<open>r\<close> is the registry at the admission peek, \<open>r'\<close> the registry when \<open>Register\<close> gets the
  lock. The last component lists the process groups \<open>discardLaunched\<close> kills.
\<close>

definition Start_exec ::
  "registry \<Rightarrow> registry \<Rightarrow> execSpec \<Rightarrow> err + int \<Rightarrow> Outcome \<times> err option \<times> registry \<times> int list \<times> int list" where
  "Start_exec r r' spec os =
     (case specError spec of
        Some e \<Rightarrow> (OutcomeUnspecified, Some e, r', [], [])
      | None \<Rightarrow>
          (case checkAdmissionLocked r spec of
             (outcome, False, e) \<Rightarrow> (outcome, e, r', [], [])
           | (_, True, _) \<Rightarrow>
               (case Launch spec os of
                  Inl e \<Rightarrow> (OutcomeUnspecified, Some e, r', [], [])
                | Inr (pid, pg) \<Rightarrow>
                    let (outcome, e, r'') = Register r' spec pid pg
                    in if e \<noteq> None \<or> outcome \<noteq> OutcomeAccepted
                       then (outcome, e, r'', [pg], [pg])
                       else (OutcomeAccepted, None, r'', [pg], []))))"

section \<open>Exits\<close>

definition executionByPID :: "registry \<Rightarrow> int \<Rightarrow> nat option" where
  "executionByPID r pid =
     (let owned = filter (\<lambda>u. processID (store r ! u) = pid) (map snd (executions r))
      in case filter (\<lambda>u. running (store r ! u) \<and> \<not> reaped (store r ! u)) owned of
           u # _ \<Rightarrow> Some u
         | [] \<Rightarrow> (case owned of u # _ \<Rightarrow> Some u | [] \<Rightarrow> None))"

definition upd_exec :: "registry \<Rightarrow> nat \<Rightarrow> (execution \<Rightarrow> execution) \<Rightarrow> registry" where
  "upd_exec r u f = r\<lparr>store := (store r)[u := f (store r ! u)]\<rparr>"

definition exitStale :: "execution \<Rightarrow> bool" where
  "exitStale e = (exitReported e \<or> \<not> running e)"

text \<open>The send under \<open>reapOnce\<close>: into the buffer of one, at most once.\<close>

definition deliverReport :: "exitReport \<Rightarrow> execution \<Rightarrow> execution" where
  "deliverReport rep e =
     (if reapOnce e then e else e\<lparr>reapOnce := True, exitReportChan := Some rep\<rparr>)"

definition ReportExit :: "registry \<Rightarrow> int \<Rightarrow> int \<Rightarrow> string \<Rightarrow> registry" where
  "ReportExit r pid code msg =
     (case executionByPID r pid of
        None \<Rightarrow> r
      | Some u \<Rightarrow>
          if exitStale (store r ! u) then r
          else upd_exec r u (deliverReport \<lparr>erPID = pid, erExitCode = code, erMessage = msg\<rparr>))"

text \<open>The first critical section of \<open>reapAndComplete\<close>, with the report \<open>superviseExecution\<close> received.\<close>

definition receiveReport :: "execution \<Rightarrow> (exitReport \<times> execution) option" where
  "receiveReport e =
     (case exitReportChan e of None \<Rightarrow> None | Some rep \<Rightarrow> Some (rep, e\<lparr>exitReportChan := None\<rparr>))"

definition reapReport :: "exitReport \<Rightarrow> execution \<Rightarrow> execution" where
  "reapReport rep e =
     e\<lparr>reaped := True, exitReported := True, exitCode := erExitCode rep, exitMsg := erMessage rep\<rparr>"

definition closeDrainedLocked :: "registry \<Rightarrow> registry" where
  "closeDrainedLocked r = (if drainedClosed r then r else r\<lparr>drainedClosed := True\<rparr>)"

definition completedExecution :: "time \<Rightarrow> execution \<Rightarrow> execution" where
  "completedExecution now e =
     (let message = (if cancelled e then ''execution cancelled'' else exitMsg e);
          e1 = e\<lparr>phase := ''completed'', running := False, completedAt := now\<rparr>;
          e2 = appendEventLocked e1 (PhaseChange ''completed'');
          e3 = appendEventLocked e2 (TerminalResult (clampExitCode (exitCode e2)) message)
      in e3\<lparr>doneClosed := True\<rparr>)"

definition completeExecution :: "registry \<Rightarrow> nat \<Rightarrow> time \<Rightarrow> registry" where
  "completeExecution r u now =
     (let e = store r ! u;
          r1 = upd_exec r u (completedExecution now);
          r2 = r1\<lparr>rslots := (rslots r1)(eslot e := None), activeCount := activeCount r1 - 1\<rparr>
      in if draining r2 \<and> activeCount r2 = 0 then closeDrainedLocked r2 else r2)"

definition expire :: "registry \<Rightarrow> nat \<Rightarrow> registry" where
  "expire r u =
     (let i = eid (store r ! u)
      in if map_of (executions r) i = Some u
         then r\<lparr>executions := filter (\<lambda>(j, _). j \<noteq> i) (executions r)\<rparr> else r)"

section \<open>Cancelling, draining, listing\<close>

text \<open>\<open>kill\<close> is what the kernel answers to killing a process group.\<close>

definition Cancel :: "registry \<Rightarrow> string \<Rightarrow> (int \<Rightarrow> err option) \<Rightarrow> err option \<times> registry" where
  "Cancel r i kill =
     (case map_of (executions r) i of
        None \<Rightarrow> (Some (Wrapf [] (Sentinel ErrExecutionNotFound) ('': '' @ i)), r)
      | Some u \<Rightarrow>
          let e = store r ! u
          in if \<not> running e \<or> reaped e \<or> cancelled e then (None, r)
             else (case kill (pgid e) of
                     None \<Rightarrow> (None, upd_exec r u (cancelled_update (\<lambda>_. True)))
                   | Some er \<Rightarrow> (Some (Wrapf (''guestexec: cancel '' @ i @ '': '') er []), r)))"

definition Drain :: "registry \<Rightarrow> drainState \<times> registry" where
  "Drain r =
     (let r1 = r\<lparr>draining := True\<rparr>;
          r2 = (if activeCount r1 = 0 then closeDrainedLocked r1 else r1)
      in (\<lparr>dsIdle = (activeCount r2 = 0), dsActiveExecutions = activeCount r2\<rparr>, r2))"

definition executionStateOf :: "execution \<Rightarrow> executionState" where
  "executionStateOf e =
     \<lparr>xsID = eid e, xsSlot = eslot e, xsMeta = emeta e, xsPhase = phase e, xsRunning = running e,
      xsLastSequence = (if 0 < length (events e) then Sequence (last (events e)) else 0)\<rparr>"

definition List_exec :: "registry \<Rightarrow> executionState list" where
  "List_exec r = sort_key xsID (map (\<lambda>(_, u). executionStateOf (store r ! u)) (executions r))"

section \<open>Subscribing\<close>

definition Subscribe :: "registry \<Rightarrow> string \<Rightarrow> err + nat" where
  "Subscribe r i =
     (case map_of (executions r) i of
        None \<Rightarrow> Inl (Wrapf [] (Sentinel ErrExecutionNotFound) ('': '' @ i))
      | Some u \<Rightarrow> Inr u)"

text \<open>
  One pass of the loop of \<open>stream\<close>: send the event at \<open>nextSequence\<close>, end, or wait for the next
  notification. \<open>cloneEvent\<close> copies the bytes, which is the identity on values.
\<close>

datatype stream_verdict = StreamSend event | StreamEnd | StreamWait

definition stream_pass :: "execution \<Rightarrow> 64 word \<Rightarrow> stream_verdict" where
  "stream_pass e nextSequence =
     (if 0 < nextSequence \<and> nextSequence \<le> of_nat (length (events e))
      then StreamSend (events e ! (unat nextSequence - 1))
      else if \<not> running e then StreamEnd else StreamWait)"

text \<open>\<open>mergedEnvironment\<close>: the process's environment followed by the overrides in the order of their keys.\<close>

definition mergedEnvironment :: "string list \<Rightarrow> (string \<times> string) list \<Rightarrow> string list" where
  "mergedEnvironment environ overrides =
     environ @ map (\<lambda>k. k @ ''='' @ the (map_of overrides k)) (sort (map fst overrides))"

end
