(* ===== verification/Effects.thy ===== *)
theory Effects
  imports Prelude
begin

text \<open>
  Code that acts on the world outside the program (tart, the file system, the guest's tools). The world is
  a parameter: what it answers to an operation may depend on every operation before, the trace, so it
  can be any deterministic environment, failures included. Code that acts takes the trace and
  returns it extended by what it did; \<open>andThen\<close> is the early return of \<open>if err := a; err != nil\<close>.
\<close>

definition perform :: "('op list \<Rightarrow> 'op \<Rightarrow> 'a) \<Rightarrow> 'op \<Rightarrow> 'op list \<Rightarrow> 'a \<times> 'op list" where
  "perform w x tr = (w tr x, tr @ [x])"

definition andThen ::
  "('op list \<Rightarrow> err option \<times> 'op list) \<Rightarrow> ('op list \<Rightarrow> err option \<times> 'op list) \<Rightarrow> 'op list \<Rightarrow> err option \<times> 'op list" where
  "andThen a b tr = (case a tr of (Some e, tr') \<Rightarrow> (Some e, tr') | (None, tr') \<Rightarrow> b tr')"

text \<open>An operation whose failure is only logged.\<close>

definition attempt_op :: "('op list \<Rightarrow> 'op \<Rightarrow> 'a) \<Rightarrow> 'op \<Rightarrow> 'op list \<Rightarrow> 'op list" where
  "attempt_op w x tr = snd (perform w x tr)"

lemma snd_perform [simp]: "snd (perform w x tr) = tr @ [x]"
  by (simp add: perform_def)

lemma fst_perform [simp]: "fst (perform w x tr) = w tr x"
  by (simp add: perform_def)

lemma attempt_op_eq [simp]: "attempt_op w x tr = tr @ [x]"
  by (simp add: attempt_op_def)

section \<open>What may be done\<close>

text \<open>\<open>grows_by Q tr tr'\<close>: \<open>tr'\<close> extends \<open>tr\<close> by operations that satisfy \<open>Q\<close>; \<open>only Q f\<close>: \<open>f\<close> does that.\<close>

definition grows_by :: "('op \<Rightarrow> bool) \<Rightarrow> 'op list \<Rightarrow> 'op list \<Rightarrow> bool" where
  "grows_by Q tr tr' = (\<exists>xs. tr' = tr @ xs \<and> list_all Q xs)"

definition only :: "('op \<Rightarrow> bool) \<Rightarrow> ('op list \<Rightarrow> 'a \<times> 'op list) \<Rightarrow> bool" where
  "only Q f = (\<forall>tr. grows_by Q tr (snd (f tr)))"

lemma grows_refl [simp]: "grows_by Q tr tr"
  by (simp add: grows_by_def)

lemma grows_snoc: "grows_by Q tr tr' \<Longrightarrow> Q x \<Longrightarrow> grows_by Q tr (tr' @ [x])"
  by (auto simp: grows_by_def)

lemma grows_more: "grows_by Q tr tr' \<Longrightarrow> list_all Q xs \<Longrightarrow> grows_by Q tr (tr' @ xs)"
  by (auto simp: grows_by_def)

lemma grows_trans: "grows_by Q tr tr' \<Longrightarrow> grows_by Q tr' tr'' \<Longrightarrow> grows_by Q tr tr''"
  by (auto simp: grows_by_def)

lemma grows_mono: "grows_by Q tr tr' \<Longrightarrow> (\<And>x. Q x \<Longrightarrow> Q' x) \<Longrightarrow> grows_by Q' tr tr'"
  by (auto simp: grows_by_def list_all_iff)

lemma grows_append: "grows_by Q tr (tr @ xs) \<longleftrightarrow> list_all Q xs"
  by (simp add: grows_by_def)

lemma onlyI: "(\<And>tr. grows_by Q tr (snd (f tr))) \<Longrightarrow> only Q f"
  by (simp add: only_def)

lemma only_grows: "only Q f \<Longrightarrow> grows_by Q tr (snd (f tr))"
  by (simp add: only_def)

lemma grows_onto: "only Q f \<Longrightarrow> f tr1 = (r, tr2) \<Longrightarrow> grows_by Q tr tr1 \<Longrightarrow> grows_by Q tr tr2"
  by (metis grows_trans only_grows snd_conv)

lemma only_perform: "Q x \<Longrightarrow> only Q (perform w x)"
  by (simp add: only_def grows_snoc)

lemma only_mono: "only Q f \<Longrightarrow> (\<And>x. Q x \<Longrightarrow> Q' x) \<Longrightarrow> only Q' f"
  unfolding only_def by (blast intro: grows_mono)

lemma andThen_None:
  "fst (andThen a b tr) = None \<Longrightarrow> fst (a tr) = None \<and> andThen a b tr = b (snd (a tr))"
  by (auto simp: andThen_def split: prod.splits option.splits)

lemma andThen_None_snd:
  "fst (andThen a b tr) = None \<Longrightarrow> snd (andThen a b tr) = snd (b (snd (a tr))) \<and> fst (b (snd (a tr))) = None"
  using andThen_None [of a b tr] by simp

lemma andThen_cases:
  obtains e where "fst (a tr) = Some e" "andThen a b tr = a tr"
  | "fst (a tr) = None" "andThen a b tr = b (snd (a tr))"
  by (cases "a tr"; cases "fst (a tr)") (auto simp: andThen_def)

lemma only_andThen:
  assumes "only Q a" and "only Q b"
  shows "only Q (andThen a b)"
proof (rule onlyI)
  fix tr
  have 1: "grows_by Q tr (snd (a tr))" using assms(1) by (rule only_grows)
  have 2: "grows_by Q (snd (a tr)) (snd (b (snd (a tr))))" using assms(2) by (rule only_grows)
  show "grows_by Q tr (snd (andThen a b tr))"
    by (rule andThen_cases [of a tr b]) (use 1 grows_trans [OF 1 2] in simp_all)
qed

text \<open>The rules that take code apart by its result: \<open>only_rules\<close> decide most of \<open>only\<close> by \<open>intro\<close>.\<close>

lemma only_bind:
  assumes "only Q f" and "\<And>r. only Q (k r)"
  shows "only Q (\<lambda>tr. case f tr of (r, tr1) \<Rightarrow> k r tr1)"
proof (rule onlyI)
  fix tr
  obtain r tr1 where f: "f tr = (r, tr1)" by (cases "f tr")
  have 1: "grows_by Q tr tr1" using only_grows [OF assms(1), of tr] f by simp
  have 2: "grows_by Q tr1 (snd (k r tr1))" using assms(2) by (rule only_grows)
  show "grows_by Q tr (snd (case f tr of (r, tr1) \<Rightarrow> k r tr1))"
    using grows_trans [OF 1 2] by (simp add: f)
qed

lemma only_return: "only Q (\<lambda>tr. (r, tr))"
  by (simp add: only_def)

lemma only_sum: "(\<And>e. only Q (A e)) \<Longrightarrow> (\<And>x. only Q (B x)) \<Longrightarrow>
    only Q (\<lambda>tr. case r of Inl e \<Rightarrow> A e tr | Inr x \<Rightarrow> B x tr)"
  by (cases r) simp_all

lemma only_option: "only Q A \<Longrightarrow> (\<And>x. only Q (B x)) \<Longrightarrow>
    only Q (\<lambda>tr. case r of None \<Rightarrow> A tr | Some x \<Rightarrow> B x tr)"
  by (cases r) simp_all

lemma only_if: "only Q A \<Longrightarrow> only Q B \<Longrightarrow> only Q (\<lambda>tr. if b then A tr else B tr)"
  by (cases b) simp_all

lemma only_pair: "(\<And>x y. only Q (A x y)) \<Longrightarrow> only Q (\<lambda>tr. case p of (x, y) \<Rightarrow> A x y tr)"
  by (cases p) simp

lemma only_andThen_tr: "only Q a \<Longrightarrow> only Q b \<Longrightarrow> only Q (\<lambda>tr. andThen a b tr)"
  by (simp add: only_andThen)

lemmas only_rules = only_return only_andThen_tr only_sum only_option only_if only_bind

text \<open>What was done can be left to a function that only undoes.\<close>

lemma only_map: "only Q f \<Longrightarrow> (\<And>tr tr1. grows_by Q tr tr1 \<Longrightarrow> grows_by Q tr (h tr1)) \<Longrightarrow>
    only Q (\<lambda>tr. case f tr of (r, tr1) \<Rightarrow> (r, h tr1))"
  by (simp add: only_def split_beta)

end
