(* ===== verification/Guest_Runner.thy ===== *)
theory Guest_Runner
  imports Exec_Ops Effects
begin

text \<open>
  The spec builder of \<open>internal/guestagent/runner.go\<close>: it refreshes Homebrew once per boot,
  provisions a slot on first use, sets up the slot's keychain on every job of a multi-slot guest, and
  assembles the \<open>ExecSpec\<close>. The file system and the system tools are the world of \<^theory_text>\<open>Effects\<close>; logging is left out, except what it prints of a command (\<open>guestCommandLogValues\<close>).
\<close>

section \<open>Effects\<close>

datatype guest_op =
    RunTool string "string list" "(string \<times> string) list"
  | RemoveAll string
  | MkdirAll string
  | Stat string
  | RemoveFile string
  | MarkerOpen string
  | MarkerCreate string
  | LookBrew
  | SleepRetry

type_synonym trace = "guest_op list"

text \<open>An answer: the error, if any, and the output (of a tool).\<close>

type_synonym world = "trace \<Rightarrow> guest_op \<Rightarrow> err option \<times> string"

definition runTool :: "world \<Rightarrow> string \<Rightarrow> string \<Rightarrow> string list \<Rightarrow> (string \<times> string) list \<Rightarrow> trace \<Rightarrow> err option \<times> trace" where
  "runTool w step name args env tr =
     (let ((e, output), tr') = perform w (RunTool name args env) tr
      in case e of
           None \<Rightarrow> (None, tr')
         | Some er \<Rightarrow> (Some (Wrapf (''guestagent: '' @ step @ '': '') er []), tr'))"

definition removeDir :: "world \<Rightarrow> string \<Rightarrow> string \<Rightarrow> trace \<Rightarrow> err option \<times> trace" where
  "removeDir w label path tr =
     (let ((e, _), tr') = perform w (RemoveAll path) tr
      in case e of
           None \<Rightarrow> (None, tr')
         | Some er \<Rightarrow> (Some (Wrapf (''guestagent: remove '' @ label @ '' '' @ Quote path @ '': '') er []), tr'))"

definition makeDir :: "world \<Rightarrow> string \<Rightarrow> string \<Rightarrow> trace \<Rightarrow> err option \<times> trace" where
  "makeDir w label path tr =
     (let ((e, _), tr') = perform w (MkdirAll path) tr
      in case e of
           None \<Rightarrow> (None, tr')
         | Some er \<Rightarrow> (Some (Wrapf (''guestagent: create '' @ label @ '' '' @ Quote path @ '': '') er []), tr'))"

section \<open>Paths and environment\<close>

definition goldenRunnerDir :: string where "goldenRunnerDir = ''actions-runner''"
definition runnerLaunchScript :: string where "runnerLaunchScript = ''run.sh''"
definition loginKeychainRelPath :: string where "loginKeychainRelPath = ''Library/Keychains/login.keychain-db''"
definition brewBootRefreshMarker :: string where "brewBootRefreshMarker = ''/tmp/swift-mk-brew-boot-refreshed''"
definition brewRefreshMaxAttempts :: nat where "brewRefreshMaxAttempts = 3"
definition redactedLogValue :: string where "redactedLogValue = ''[redacted]''"

definition warmCachePaths :: "string list" where
  "warmCachePaths = [''.local'', ''.swiftpm'', ''.cache'', ''Library/Caches/org.swift.swiftpm'',
     ''Library/Caches/Homebrew'', ''Library/Developer/Xcode/DerivedData'', ''.gitconfig'', ''.netrc'']"

record jobRequest =
  jrExecutionID :: string
  jrSlot :: "32 word"
  jrMeta :: jobMeta
  jrJitConfig :: string
  jrEnv :: "(string \<times> string) list"

record runnerExecutor =
  baseHome :: string
  reSlotCount :: "32 word"
  markerPath :: string
  markerCleared :: bool
  provisionedSlots :: "32 word \<Rightarrow> bool"

definition newRunnerExecutor :: "string \<Rightarrow> string option \<Rightarrow> 32 word \<Rightarrow> runnerExecutor" where
  "newRunnerExecutor envHome userHomeDir n =
     \<lparr>baseHome = (if envHome = [] then (case userHomeDir of Some h \<Rightarrow> h | None \<Rightarrow> []) else envHome),
      reSlotCount = n, markerPath = brewBootRefreshMarker, markerCleared = False,
      provisionedSlots = (\<lambda>_. False)\<rparr>"

definition singleSlot :: "runnerExecutor \<Rightarrow> bool" where
  "singleSlot x = (reSlotCount x \<le> 1)"

definition slotNumber :: "32 word \<Rightarrow> string" where
  "slotNumber slot = Itoa (uint slot)"

definition runnerHome :: "runnerExecutor \<Rightarrow> 32 word \<Rightarrow> string" where
  "runnerHome x slot = filepath_Join [baseHome x, ''actions-runner-'' @ slotNumber slot]"

definition tmpDir :: "runnerExecutor \<Rightarrow> 32 word \<Rightarrow> string" where
  "tmpDir x slot = filepath_Join [baseHome x, ''tmp-'' @ slotNumber slot]"

definition slotHome :: "runnerExecutor \<Rightarrow> 32 word \<Rightarrow> string" where
  "slotHome x slot = filepath_Join [baseHome x, ''slot-home-'' @ slotNumber slot]"

text \<open>Assigning to a Go map: the key's old entry goes.\<close>

definition put :: "string \<Rightarrow> string \<Rightarrow> (string \<times> string) list \<Rightarrow> (string \<times> string) list" where
  "put k v m = (k, v) # filter (\<lambda>(k', _). k' \<noteq> k) m"

definition runnerEnv :: "runnerExecutor \<Rightarrow> 32 word \<Rightarrow> (string \<times> string) list \<Rightarrow> (string \<times> string) list" where
  "runnerEnv x slot callerEnv =
     (let env1 = put ''GIT_CONFIG_COUNT'' ''1'' callerEnv;
          env2 = put ''GIT_CONFIG_KEY_0'' ''credential.helper'' env1;
          env3 = put ''GIT_CONFIG_VALUE_0'' [] env2;
          env4 = put ''GIT_TERMINAL_PROMPT'' ''0'' env3;
          env5 = put ''TMPDIR'' (tmpDir x slot) env4
      in put ''HOME'' (if singleSlot x then baseHome x else slotHome x slot) env5)"

text \<open>\<open>wrapRunnerForAquaSession\<close>: the current user (or why it is unknown), the uid and the process's environment are given.\<close>

definition envAssignments :: "(string \<times> string) list \<Rightarrow> string list" where
  "envAssignments env = map (\<lambda>k. k @ ''='' @ the (map_of env k)) (sort (map fst env))"

definition wrapRunnerForAquaSession ::
  "err + string \<Rightarrow> int \<Rightarrow> string list \<Rightarrow> string \<Rightarrow> string list \<Rightarrow> (string \<times> string) list \<Rightarrow> err + string \<times> string list" where
  "wrapRunnerForAquaSession currentUser uid environ command args env =
     (case currentUser of
        Inl e \<Rightarrow> Inl e
      | Inr username \<Rightarrow>
          Inr (''/usr/bin/sudo'',
               [''-n'', ''/bin/launchctl'', ''asuser'', Itoa uid, ''/usr/bin/sudo'', ''-n'', ''-u'', username, ''/usr/bin/env'']
               @ environ @ envAssignments env @ [command] @ args))"

section \<open>Provisioning a slot\<close>

fun seedCaches :: "world \<Rightarrow> runnerExecutor \<Rightarrow> string \<Rightarrow> string list \<Rightarrow> trace \<Rightarrow> err option \<times> trace" where
  "seedCaches w x home [] tr = (None, tr)"
| "seedCaches w x home (cachePath # rest) tr =
     (let source = filepath_Join [baseHome x, cachePath];
          ((absent, _), tr1) = perform w (Stat source) tr
      in if absent \<noteq> None then seedCaches w x home rest tr1
         else
           let dest = filepath_Join [home, cachePath]
           in andThen (makeDir w ''cache parent'' (filepath_Dir dest))
                (\<lambda>tr2.
                   let ((e, _), tr3) = perform w (RunTool ''cp'' [''-cR'', source, dest] []) tr2
                   in if e \<noteq> None then
                        andThen (\<lambda>t. (None, snd (perform w (RemoveAll dest) t)))
                          (andThen (runTool w (''seed cache '' @ cachePath) ''cp'' [''-R'', source, dest] [])
                             (seedCaches w x home rest)) tr3
                      else seedCaches w x home rest tr3) tr1)"

definition seedSlotHome :: "world \<Rightarrow> runnerExecutor \<Rightarrow> string \<Rightarrow> trace \<Rightarrow> err option \<times> trace" where
  "seedSlotHome w x home = andThen (makeDir w ''slot home'' home) (seedCaches w x home warmCachePaths)"

text \<open>\<open>isNotExist\<close> is \<open>os.IsNotExist\<close> on the error of the stat.\<close>

definition provisionSlot :: "world \<Rightarrow> (err \<Rightarrow> bool) \<Rightarrow> runnerExecutor \<Rightarrow> 32 word \<Rightarrow> trace \<Rightarrow> err option \<times> trace" where
  "provisionSlot w isNotExist x slot =
     andThen (removeDir w ''runner home'' (runnerHome x slot))
     (andThen (removeDir w ''tmp dir'' (tmpDir x slot))
     (andThen (runTool w ''clone runner home'' ''cp'' [''-R'', filepath_Join [baseHome x, goldenRunnerDir], runnerHome x slot] [])
     (andThen (makeDir w ''tmp dir'' (tmpDir x slot))
       (\<lambda>tr.
          if singleSlot x then (None, tr)
          else
            let ((e, _), tr1) = perform w (Stat (slotHome x slot)) tr
            in case e of
                 None \<Rightarrow> (None, tr1)
               | Some er \<Rightarrow>
                   if \<not> isNotExist er
                   then (Some (Wrapf (''guestagent: stat slot home '' @ Quote (slotHome x slot) @ '': '') er []), tr1)
                   else seedSlotHome w x (slotHome x slot) tr1))))"

definition ensureSlotProvisioned ::
  "world \<Rightarrow> (err \<Rightarrow> bool) \<Rightarrow> runnerExecutor \<Rightarrow> 32 word \<Rightarrow> trace \<Rightarrow> err option \<times> runnerExecutor \<times> trace" where
  "ensureSlotProvisioned w isNotExist x slot tr =
     (if provisionedSlots x slot then (None, x, tr)
      else
        (case provisionSlot w isNotExist x slot tr of
           (Some e, tr1) \<Rightarrow> (Some e, x, tr1)
         | (None, tr1) \<Rightarrow> (None, x\<lparr>provisionedSlots := (provisionedSlots x)(slot := True)\<rparr>, tr1)))"

section \<open>The slot's keychain\<close>

definition quote :: char where "quote = CHR 0x22"

text \<open>\<open>strings.Trim\<close> with the cutset of one byte.\<close>

definition TrimByte :: "char \<Rightarrow> string \<Rightarrow> string" where
  "TrimByte c s = rev (dropWhile (\<lambda>x. x = c) (rev (dropWhile (\<lambda>x. x = c) s)))"

definition parseKeychains :: "string \<Rightarrow> string \<Rightarrow> string list" where
  "parseKeychains slotKeychain output =
     filter (\<lambda>t. \<not> (t = [] \<or> t = slotKeychain))
       (map (\<lambda>line. TrimByte quote (TrimSpace line)) (SplitOn (hd nl) output))"

definition userKeychains ::
  "world \<Rightarrow> string \<Rightarrow> (string \<times> string) list \<Rightarrow> trace \<Rightarrow> (err + string list) \<times> trace" where
  "userKeychains w slotKeychain slotEnv tr =
     (let ((e, output), tr1) = perform w (RunTool ''security'' [''list-keychains'', ''-d'', ''user''] slotEnv) tr
      in case e of
           Some er \<Rightarrow> (Inl (Wrapf ''guestagent: list keychains: '' er []), tr1)
         | None \<Rightarrow> (Inr (parseKeychains slotKeychain output), tr1))"

definition setupSlotKeychain :: "world \<Rightarrow> string \<Rightarrow> trace \<Rightarrow> err option \<times> trace" where
  "setupSlotKeychain w home =
     (let keychain = filepath_Join [home, loginKeychainRelPath];
          slotEnv = [(''HOME'', home)];
          security = (\<lambda>step args. runTool w step ''security'' args slotEnv)
      in andThen (makeDir w ''keychain dir'' (filepath_Dir keychain))
         (andThen
           (\<lambda>tr. let ((e, _), tr1) = perform w (RunTool ''security'' [''show-keychain-info'', keychain] slotEnv) tr
                 in if e \<noteq> None then security ''create keychain'' [''create-keychain'', ''-p'', [], keychain] tr1
                    else (None, tr1))
         (andThen (security ''set default keychain'' [''default-keychain'', ''-d'', ''user'', ''-s'', keychain])
           (\<lambda>tr. (case userKeychains w keychain slotEnv tr of
                    (Inl e, tr1) \<Rightarrow> (Some e, tr1)
                  | (Inr existing, tr1) \<Rightarrow>
                      andThen (security ''set keychain search list'' ([''list-keychains'', ''-d'', ''user'', ''-s'', keychain] @ existing))
                      (andThen (security ''unlock keychain'' [''unlock-keychain'', ''-p'', [], keychain])
                         (security ''set keychain settings'' [''set-keychain-settings'', keychain])) tr1)))))"

section \<open>The Homebrew refresh\<close>

text \<open>\<open>lockContended\<close> is the match of \<open>brewLockContentionPattern\<close>; the loop counts its attempts.\<close>

fun refreshLoop :: "world \<Rightarrow> (string \<Rightarrow> bool) \<Rightarrow> string \<Rightarrow> nat \<Rightarrow> trace \<Rightarrow> trace" where
  "refreshLoop w lockContended marker 0 tr = tr"
| "refreshLoop w lockContended marker (Suc left) tr =
     (let ((e, output), tr1) = perform w (RunTool ''brew'' [''update'', ''--quiet''] []) tr
      in case e of
           None \<Rightarrow> snd (perform w (MarkerCreate marker) tr1)
         | Some er \<Rightarrow>
             if \<not> lockContended output then tr1
             else if left = 0 then tr1
             else refreshLoop w lockContended marker left (snd (perform w SleepRetry tr1)))"

definition refreshHomebrewIndex :: "world \<Rightarrow> (string \<Rightarrow> bool) \<Rightarrow> string \<Rightarrow> trace \<Rightarrow> trace" where
  "refreshHomebrewIndex w lockContended marker tr = refreshLoop w lockContended marker brewRefreshMaxAttempts tr"

definition clearStaleMarker :: "world \<Rightarrow> runnerExecutor \<Rightarrow> trace \<Rightarrow> runnerExecutor \<times> trace" where
  "clearStaleMarker w x tr =
     (if markerCleared x then (x, tr)
      else (x\<lparr>markerCleared := True\<rparr>, snd (perform w (RemoveFile (markerPath x)) tr)))"

definition ensureHomebrewRefreshed ::
  "world \<Rightarrow> (string \<Rightarrow> bool) \<Rightarrow> runnerExecutor \<Rightarrow> trace \<Rightarrow> runnerExecutor \<times> trace" where
  "ensureHomebrewRefreshed w lockContended x tr =
     (let (x1, tr1) = clearStaleMarker w x tr;
          ((absent, _), tr2) = perform w (MarkerOpen (markerPath x1)) tr1
      in if absent = None then (x1, tr2)
         else
           let ((noBrew, _), tr3) = perform w LookBrew tr2
           in if noBrew \<noteq> None then (x1, tr3)
              else (x1, refreshHomebrewIndex w lockContended (markerPath x1) tr3))"

section \<open>Build\<close>

record guest_env =
  geUser :: "err + string"
  geUid :: int
  geEnviron :: "string list"

definition Build ::
  "world \<Rightarrow> (err \<Rightarrow> bool) \<Rightarrow> (string \<Rightarrow> bool) \<Rightarrow> guest_env \<Rightarrow> runnerExecutor \<Rightarrow> jobRequest \<Rightarrow> trace
   \<Rightarrow> (err + execSpec) \<times> runnerExecutor \<times> trace" where
  "Build w isNotExist lockContended g x req tr =
     (if baseHome x = [] then (Inl (Msg ''guestagent: base home is empty''), x, tr)
      else
        let (x1, tr1) = ensureHomebrewRefreshed w lockContended x tr
        in case ensureSlotProvisioned w isNotExist x1 (jrSlot req) tr1 of
             (Some e, x2, tr2) \<Rightarrow> (Inl e, x2, tr2)
           | (None, x2, tr2) \<Rightarrow>
               let tr3 = (if singleSlot x2 then tr2 else snd (setupSlotKeychain w (slotHome x2 (jrSlot req)) tr2));
                   home = runnerHome x2 (jrSlot req);
                   env = runnerEnv x2 (jrSlot req) (jrEnv req)
               in case wrapRunnerForAquaSession (geUser g) (geUid g) (geEnviron g)
                         (filepath_Join [home, runnerLaunchScript]) [''--jitconfig'', jrJitConfig req] env of
                    Inl e \<Rightarrow> (Inl e, x2, tr3)
                  | Inr (command, args) \<Rightarrow>
                      (Inr \<lparr>specID = jrExecutionID req, specSlot = jrSlot req, specMeta = jrMeta req,
                            Command = command, Args = args, Env = env, WorkingDir = home\<rparr>, x2, tr3))"

section \<open>What a command prints in the log\<close>

definition argsContainSensitiveValue :: "string list \<Rightarrow> bool" where
  "argsContainSensitiveValue args =
     list_ex (\<lambda>a. let lower = ToLower a in Contains lower ''jitconfig'' \<or> Contains lower ''base64''
                    \<or> Contains lower ''p12'' \<or> Contains lower ''token'') args"

definition securityArgsContainSecret :: "string list \<Rightarrow> bool" where
  "securityArgsContainSecret args = list_ex (\<lambda>a. a = ''import'' \<or> a = ''-P'' \<or> a = ''-p'') args"

definition securityOutputIsDiagnostic :: "string list \<Rightarrow> bool" where
  "securityOutputIsDiagnostic args =
     (case args of
        [] \<Rightarrow> False
      | command # _ \<Rightarrow> command \<in> {''create-keychain'', ''default-keychain'', ''list-keychains'',
          ''unlock-keychain'', ''set-keychain-settings'', ''show-keychain-info'', ''find-identity''})"

definition guestCommandRedaction :: "string \<Rightarrow> string list \<Rightarrow> bool \<times> bool" where
  "guestCommandRedaction name args =
     (if argsContainSensitiveValue args then (True, True)
      else if filepath_Base name \<noteq> ''security'' \<or> \<not> securityArgsContainSecret args then (False, False)
      else (True, \<not> securityOutputIsDiagnostic args))"

definition guestCommandLogValues :: "string \<Rightarrow> string list \<Rightarrow> string \<Rightarrow> string \<times> string" where
  "guestCommandLogValues name args output =
     (let (redactArgs, redactOutput) = guestCommandRedaction name args
      in (if redactArgs then redactedLogValue else JoinStr args '' '',
          if redactOutput then redactedLogValue else TrimSpace output))"

definition envWithOverrides :: "string list \<Rightarrow> (string \<times> string) list \<Rightarrow> string list" where
  "envWithOverrides base overrides = base @ envAssignments overrides"

end
