(* ===== verification/Runner_Props.thy ===== *)
theory Runner_Props
  imports Guest_Runner
begin

text \<open>The properties of the spec builder: what a slot's runner is given, and what is done to the guest for it.\<close>

section \<open>Operations that only do certain things\<close>

lemma only_runTool: "Q (RunTool name args env) \<Longrightarrow> only Q (runTool w step name args env)"
  by (auto simp: only_def grows_append runTool_def perform_def Let_def split_beta split: option.splits)

lemma only_makeDir: "Q (MkdirAll path) \<Longrightarrow> only Q (makeDir w label path)"
  by (auto simp: only_def grows_append makeDir_def perform_def Let_def split_beta split: option.splits)

lemma snd_if: "snd (if b then x else y) = (if b then snd x else snd y)"
  by simp

definition keychain_op :: "guest_op \<Rightarrow> bool" where
  "keychain_op x = (case x of MkdirAll _ \<Rightarrow> True | RunTool name _ _ \<Rightarrow> name = ''security'' | _ \<Rightarrow> False)"

definition brew_op :: "guest_op \<Rightarrow> bool" where
  "brew_op x = (case x of RemoveFile _ \<Rightarrow> True | MarkerOpen _ \<Rightarrow> True | MarkerCreate _ \<Rightarrow> True | LookBrew \<Rightarrow> True
     | SleepRetry \<Rightarrow> True | RunTool name _ _ \<Rightarrow> name = ''brew'' | _ \<Rightarrow> False)"

lemma only_keychain: "only keychain_op (setupSlotKeychain w home)"
proof -
  let ?kc = "filepath_Join [home, loginKeychainRelPath]" and ?env = "[(''HOME'', home)]"
  let ?sec = "\<lambda>step args. runTool w step ''security'' args ?env"
  have sec: "only keychain_op (?sec step args)" for step args
    by (rule only_runTool) (simp add: keychain_op_def)
  have create: "only keychain_op (\<lambda>tr. let ((e, _), tr1) = perform w (RunTool ''security'' [''show-keychain-info'', ?kc] ?env) tr
                 in if e \<noteq> None then ?sec ''create keychain'' [''create-keychain'', ''-p'', [], ?kc] tr1 else (None, tr1))"
    by (auto simp: only_def grows_append perform_def runTool_def keychain_op_def Let_def split_beta split: option.splits)
  have rest: "only keychain_op (\<lambda>tr. (case userKeychains w ?kc ?env tr of
                    (Inl e, tr1) \<Rightarrow> (Some e, tr1)
                  | (Inr existing, tr1) \<Rightarrow>
                      andThen (?sec ''set keychain search list'' ([''list-keychains'', ''-d'', ''user'', ''-s'', ?kc] @ existing))
                      (andThen (?sec ''unlock keychain'' [''unlock-keychain'', ''-p'', [], ?kc])
                         (?sec ''set keychain settings'' [''set-keychain-settings'', ?kc])) tr1))"
  proof (rule onlyI)
    fix tr
    let ?x = "RunTool ''security'' [''list-keychains'', ''-d'', ''user''] ?env"
    let ?after = "\<lambda>existing. andThen (?sec ''set keychain search list'' ([''list-keychains'', ''-d'', ''user'', ''-s'', ?kc] @ existing))
                      (andThen (?sec ''unlock keychain'' [''unlock-keychain'', ''-p'', [], ?kc])
                         (?sec ''set keychain settings'' [''set-keychain-settings'', ?kc]))"
    have k: "keychain_op ?x" by (simp add: keychain_op_def)
    have "only keychain_op (?after existing)" for existing
      by (intro only_andThen sec)
    then have "grows_by keychain_op (tr @ [?x]) (snd (?after (parseKeychains ?kc (snd (w tr ?x))) (tr @ [?x])))"
      by (rule only_grows)
    moreover have "grows_by keychain_op tr (tr @ [?x])" using k by (simp add: grows_append)
    ultimately show "grows_by keychain_op tr (snd (case userKeychains w ?kc ?env tr of
                    (Inl e, tr1) \<Rightarrow> (Some e, tr1) | (Inr existing, tr1) \<Rightarrow> ?after existing tr1))"
      using grows_trans [of keychain_op tr "tr @ [?x]"]
      by (simp add: userKeychains_def perform_def Let_def split_beta split: option.split)
  qed
  show ?thesis
    unfolding setupSlotKeychain_def Let_def
    by (intro only_andThen only_makeDir sec create [unfolded Let_def] rest) (simp add: keychain_op_def)
qed

lemma grows_refreshLoop: "grows_by brew_op tr (refreshLoop w lc m n tr)"
proof (induction n arbitrary: tr)
  case 0
  then show ?case by simp
next
  case (Suc n)
  let ?x = "RunTool ''brew'' [''update'', ''--quiet''] []"
  have x: "grows_by brew_op tr (tr @ [?x])" by (rule grows_snoc) (simp_all add: brew_op_def)
  have y: "grows_by brew_op tr (tr @ [?x, y])" if "brew_op y" for y
    using grows_snoc [OF x that] by simp
  have "grows_by brew_op tr (refreshLoop w lc m n (tr @ [?x, SleepRetry]))"
    by (rule grows_trans [OF y Suc]) (simp add: brew_op_def)
  then show ?case
    using x y [of "MarkerCreate m"]
    by (auto simp: perform_def Let_def split_beta brew_op_def [of "MarkerCreate m"] split: option.splits)
qed

lemma grows_brew: "grows_by brew_op tr (snd (ensureHomebrewRefreshed w lc x tr))"
proof -
  obtain x1 tr1 where c: "clearStaleMarker w x tr = (x1, tr1)" by (cases "clearStaleMarker w x tr")
  have 1: "grows_by brew_op tr tr1"
    using c by (auto simp: clearStaleMarker_def brew_op_def intro!: grows_snoc split: if_splits)
  let ?tr2 = "tr1 @ [MarkerOpen (markerPath x1)]"
  have 2: "grows_by brew_op tr ?tr2" by (rule grows_snoc [OF 1]) (simp add: brew_op_def)
  have 3: "grows_by brew_op tr (?tr2 @ [LookBrew])" by (rule grows_snoc [OF 2]) (simp add: brew_op_def)
  have 4: "grows_by brew_op tr (refreshHomebrewIndex w lc (markerPath x1) (?tr2 @ [LookBrew]))"
    unfolding refreshHomebrewIndex_def by (rule grows_trans [OF 3 grows_refreshLoop])
  show ?thesis
    using 2 3 4 by (simp add: ensureHomebrewRefreshed_def c Let_def split_beta perform_def)
qed

lemma brew_keeps: "provisionedSlots (fst (ensureHomebrewRefreshed w lc x tr)) = provisionedSlots x
   \<and> reSlotCount (fst (ensureHomebrewRefreshed w lc x tr)) = reSlotCount x
   \<and> baseHome (fst (ensureHomebrewRefreshed w lc x tr)) = baseHome x"
  by (simp add: ensureHomebrewRefreshed_def clearStaleMarker_def Let_def split_beta)

section \<open>The environment of a runner\<close>

lemma map_of_put [simp]: "map_of (put k v m) = (map_of m)(k \<mapsto> v)"
proof -
  have "map_of (filter (\<lambda>(k', _). k' \<noteq> k) m) = (map_of m)(k := None)"
    by (induction m) (auto simp: fun_eq_iff)
  then show ?thesis by (simp add: put_def)
qed

lemma distinct_put: "distinct (map fst m) \<Longrightarrow> distinct (map fst (put k v m))"
  by (auto simp: put_def distinct_map_filter)

lemma Build_cases:
  assumes "Build w ne lc g x req tr = (Inr spec, x', tr')"
  shows "specID spec = jrExecutionID req \<and> specSlot spec = jrSlot req \<and> specMeta spec = jrMeta req
    \<and> Command spec = ''/usr/bin/sudo'' \<and> Env spec = runnerEnv x' (jrSlot req) (jrEnv req)
    \<and> WorkingDir spec = runnerHome x' (jrSlot req)
    \<and> (\<exists>pre. Args spec = pre @ [filepath_Join [runnerHome x' (jrSlot req), runnerLaunchScript], ''--jitconfig'', jrJitConfig req])
    \<and> baseHome x' = baseHome x \<and> reSlotCount x' = reSlotCount x \<and> provisionedSlots x' (jrSlot req)"
  using assms brew_keeps [of w lc x tr]
  by (auto simp: Build_def wrapRunnerForAquaSession_def ensureSlotProvisioned_def Let_def split_beta
      split: if_splits option.splits sum.splits prod.splits)

text \<open>
  The spec built for a job is the job's: its id, slot and metadata are the request's, the command is
  absolute, so the registry accepts the spec of any request with an id, and the runner is
  started with the request's JIT configuration as its last argument. The runner's HOME is the guest
  user's own on a single-slot guest and the slot's on any other, its TMPDIR is the slot's,
  and git's credential helper is off, whatever the caller's environment says.
\<close>

theorem spec_is_the_jobs:
  assumes "Build w ne lc g x req tr = (Inr spec, x', tr')"
  shows "specID spec = jrExecutionID req \<and> specSlot spec = jrSlot req \<and> specMeta spec = jrMeta req
    \<and> (jrExecutionID req \<noteq> [] \<longrightarrow> specError spec = None)
    \<and> last (Args spec) = jrJitConfig req
    \<and> map_of (Env spec) ''HOME'' = Some (if singleSlot x then baseHome x else slotHome x (jrSlot req))
    \<and> map_of (Env spec) ''TMPDIR'' = Some (tmpDir x (jrSlot req))
    \<and> map_of (Env spec) ''GIT_TERMINAL_PROMPT'' = Some ''0''
    \<and> map_of (Env spec) ''GIT_CONFIG_COUNT'' = Some ''1''
    \<and> map_of (Env spec) ''GIT_CONFIG_KEY_0'' = Some ''credential.helper''
    \<and> map_of (Env spec) ''GIT_CONFIG_VALUE_0'' = Some []"
proof -
  note b = Build_cases [OF assms]
  then have "specError spec = None" if "jrExecutionID req \<noteq> []"
    using that by (simp add: specError_def filepath_IsAbs_def HasPrefix_def)
  moreover have "last (Args spec) = jrJitConfig req" using b by auto
  ultimately show ?thesis
    using b by (simp add: runnerEnv_def Let_def singleSlot_def slotHome_def tmpDir_def)
qed

section \<open>Provisioning\<close>

text \<open>Nothing is deleted, cloned or overwritten in a slot by such an operation.\<close>

definition harmless :: "guest_op \<Rightarrow> bool" where
  "harmless x = (brew_op x \<or> keychain_op x)"

text \<open>
  A slot is provisioned once: after a job was built for a slot, a later build for it, whatever the
  guest answers, removes no directory and copies nothing; it only refreshes Homebrew and, on a
  multi-slot guest, resets the slot's keychain. On a single-slot guest it never touches a keychain.
\<close>

theorem slot_provisioned_once:
  assumes "Build w ne lc g x req tr = (Inr spec, x', tr')" and "jrSlot req' = jrSlot req"
  shows "\<exists>xs. snd (snd (Build w' ne' lc' g' x' req' tr'')) = tr'' @ xs \<and> list_all harmless xs
    \<and> (singleSlot x \<longrightarrow> list_all brew_op xs)"
proof -
  note b = Build_cases [OF assms(1)]
  let ?B = "ensureHomebrewRefreshed w' lc' x' tr''"
  have p: "provisionedSlots (fst ?B) (jrSlot req')" using b brew_keeps [of w' lc' x' tr''] assms(2) by simp
  have g1: "grows_by brew_op tr'' (snd ?B)" by (rule grows_brew)
  then have h1: "grows_by harmless tr'' (snd ?B)" by (rule grows_mono) (simp add: harmless_def)
  have "grows_by keychain_op (snd ?B) (snd (setupSlotKeychain w' (slotHome (fst ?B) (jrSlot req')) (snd ?B)))"
    by (rule only_grows [OF only_keychain])
  then have h2: "grows_by harmless (snd ?B) (snd (setupSlotKeychain w' (slotHome (fst ?B) (jrSlot req')) (snd ?B)))"
    by (rule grows_mono) (simp add: harmless_def)
  let ?out = "snd (snd (Build w' ne' lc' g' x' req' tr''))"
  have out: "?out = (if baseHome x' = [] then tr''
      else if singleSlot (fst ?B) then snd ?B
      else snd (setupSlotKeychain w' (slotHome (fst ?B) (jrSlot req')) (snd ?B)))"
    using p by (simp add: Build_def ensureSlotProvisioned_def Let_def split_beta split: sum.splits)
  have single: "singleSlot (fst ?B) = singleSlot x"
    using b brew_keeps [of w' lc' x' tr''] by (simp add: singleSlot_def)
  have "grows_by harmless tr'' ?out" using h1 grows_trans [OF h1 h2] by (simp add: out)
  moreover have "grows_by brew_op tr'' ?out" if "singleSlot x" using g1 that by (simp add: out single)
  ultimately show ?thesis by (auto simp: grows_by_def)
qed

section \<open>Slots do not share directories\<close>

lemma Itoa_nat: "0 \<le> n \<Longrightarrow> Itoa n = dec_nat (nat n)"
  by (simp add: Itoa_def)

lemma slotNumber_inject: "slotNumber a = slotNumber b \<longleftrightarrow> a = b"
  by (simp add: slotNumber_def Itoa_nat word_unat_eq_iff flip: unat_eq_nat_uint)

lemma digits_no_slash: "slash \<notin> set (slotNumber a)"
proof -
  have "\<not> is_digit slash" by (simp add: is_digit_def slash_def)
  then show ?thesis using dec_nat_digits by (auto simp: slotNumber_def Itoa_nat list_all_iff)
qed

lemma plain_slot: "slash \<notin> set p \<Longrightarrow> 2 < length p \<Longrightarrow> plain_elem (p @ slotNumber a)"
  using digits_no_slash [of a] by (auto simp: plain_elem_def dest: arg_cong [of _ _ length])

lemma slot_paths:
  assumes "clean_path (baseHome x)"
  shows "runnerHome x a = baseHome x @ ''/actions-runner-'' @ slotNumber a"
    and "tmpDir x a = baseHome x @ ''/tmp-'' @ slotNumber a"
    and "slotHome x a = baseHome x @ ''/slot-home-'' @ slotNumber a"
  using Join_plain [OF assms plain_slot [of "''actions-runner-''" a]]
    Join_plain [OF assms plain_slot [of "''tmp-''" a]] Join_plain [OF assms plain_slot [of "''slot-home-''" a]]
  by (simp_all add: runnerHome_def tmpDir_def slotHome_def slash_def)

text \<open>
  Co-tenant slots share no directory: the runner tree, the temporary directory and the home of one
  slot are none of another slot's three directories, so what a job of one slot does in its own,
  and the provisioning that deletes them, never touches another slot.
\<close>

theorem slot_dirs_disjoint:
  assumes "clean_path (baseHome x)" and "a \<noteq> b"
  shows "{runnerHome x a, tmpDir x a, slotHome x a} \<inter> {runnerHome x b, tmpDir x b, slotHome x b} = {}
    \<and> distinct [runnerHome x a, tmpDir x a, slotHome x a, filepath_Join [baseHome x, goldenRunnerDir]]"
proof -
  have g: "filepath_Join [baseHome x, goldenRunnerDir] = baseHome x @ ''/'' @ goldenRunnerDir"
    by (rule Join_plain [OF assms(1)]) (simp add: plain_elem_def goldenRunnerDir_def slash_def)
  show ?thesis
    using assms(2) slotNumber_inject by (auto simp: slot_paths [OF assms(1)] g [unfolded goldenRunnerDir_def] goldenRunnerDir_def)
qed

section \<open>The keychain search list\<close>

lemma runTool_None: "snd (runTool w step name args env tr) = tr @ [RunTool name args env]"
  by (simp add: runTool_def perform_def Let_def split_beta split: option.splits)

lemma parseKeychains_clean: "[] \<notin> set (parseKeychains k out) \<and> k \<notin> set (parseKeychains k out)"
  by (auto simp: parseKeychains_def)

text \<open>
  A job finds its slot's keychain first: when the keychain setup succeeds, the list it installs is
  the slot's keychain followed by the user's other keychains, without the slot's a second time
  and without empty entries, and it is installed before the keychain is unlocked.
\<close>

theorem slot_keychain_first:
  assumes "fst (setupSlotKeychain w home tr) = None"
  shows "\<exists>pre existing. snd (setupSlotKeychain w home tr) = pre @
      [RunTool ''security'' ([''list-keychains'', ''-d'', ''user'', ''-s'', filepath_Join [home, loginKeychainRelPath]] @ existing) [(''HOME'', home)],
       RunTool ''security'' [''unlock-keychain'', ''-p'', [], filepath_Join [home, loginKeychainRelPath]] [(''HOME'', home)],
       RunTool ''security'' [''set-keychain-settings'', filepath_Join [home, loginKeychainRelPath]] [(''HOME'', home)]]
    \<and> [] \<notin> set existing \<and> filepath_Join [home, loginKeychainRelPath] \<notin> set existing"
proof -
  let ?kc = "filepath_Join [home, loginKeychainRelPath]" and ?env = "[(''HOME'', home)]"
  let ?sec = "\<lambda>step args. runTool w step ''security'' args ?env"
  let ?after = "\<lambda>existing. andThen (?sec ''set keychain search list'' ([''list-keychains'', ''-d'', ''user'', ''-s'', ?kc] @ existing))
      (andThen (?sec ''unlock keychain'' [''unlock-keychain'', ''-p'', [], ?kc])
         (?sec ''set keychain settings'' [''set-keychain-settings'', ?kc]))"
  let ?last = "\<lambda>t. (case userKeychains w ?kc ?env t of
      (Inl e, tr1) \<Rightarrow> (Some e, tr1) | (Inr existing, tr1) \<Rightarrow> ?after existing tr1)"
  obtain t where t: "setupSlotKeychain w home tr = ?last t"
  proof -
    obtain A B C where s: "setupSlotKeychain w home = andThen A (andThen B (andThen C ?last))"
      unfolding setupSlotKeychain_def Let_def by blast
    have 1: "andThen A (andThen B (andThen C ?last)) tr = andThen B (andThen C ?last) (snd (A tr))"
      using andThen_None [of A _ tr] assms unfolding s by blast
    have 2: "\<dots> = andThen C ?last (snd (B (snd (A tr))))"
      using andThen_None [of B _ "snd (A tr)"] assms unfolding s 1 by blast
    have 3: "\<dots> = ?last (snd (C (snd (B (snd (A tr))))))"
      using andThen_None [of C _ "snd (B (snd (A tr)))"] assms unfolding s 1 2 by blast
    show ?thesis by (rule that) (simp only: s 1 2 3)
  qed
  obtain existing t1 where u: "userKeychains w ?kc ?env t = (Inr existing, t1)" "existing = parseKeychains ?kc (snd (w t (RunTool ''security'' [''list-keychains'', ''-d'', ''user''] ?env)))"
    using assms t by (auto simp: userKeychains_def perform_def Let_def split_beta split: option.splits)
  have a: "setupSlotKeychain w home tr = ?after existing t1" using t u(1) by simp
  then have f: "fst (?after existing t1) = None" using assms by simp
  note f1 = andThen_None_snd [OF f]
  note f2 = andThen_None_snd [OF f1 [THEN conjunct2]]
  have "snd (?after existing t1) = t1 @
      [RunTool ''security'' ([''list-keychains'', ''-d'', ''user'', ''-s'', ?kc] @ existing) ?env,
       RunTool ''security'' [''unlock-keychain'', ''-p'', [], ?kc] ?env,
       RunTool ''security'' [''set-keychain-settings'', ?kc] ?env]"
    unfolding f1 [THEN conjunct1] unfolding f2 [THEN conjunct1] unfolding runTool_None by simp
  then show ?thesis using a u(2) parseKeychains_clean by metis
qed

section \<open>Secrets in the log\<close>

text \<open>
  A secret never reaches the guest's command log: a command with an argument that names a JIT
  configuration, a token, base64 data or a PKCS 12 file is logged with neither its arguments nor
  its output, and a \<open>security\<close> command that carries a password or imports a key never with
  its arguments.
\<close>

theorem secrets_not_logged:
  assumes "argsContainSensitiveValue args \<or> filepath_Base name = ''security'' \<and> securityArgsContainSecret args"
  shows "fst (guestCommandLogValues name args output) = redactedLogValue
    \<and> (argsContainSensitiveValue args \<or> \<not> securityOutputIsDiagnostic args
         \<longrightarrow> snd (guestCommandLogValues name args output) = redactedLogValue)"
  using assms by (auto simp: guestCommandLogValues_def guestCommandRedaction_def)

end
