(* ===== verification/Exec_Log.thy ===== *)
theory Exec_Log
  imports Exec_Ops
begin

text \<open>
  The log of one execution: its well-formedness, the reference definition of the byte cap, which
  rescans the log from its first event, and the equivalence of the code's scan, which resumes from
  a cursor, with it.
\<close>

section \<open>Well-formed logs\<close>

definition contiguous :: "event list \<Rightarrow> bool" where
  "contiguous evs = (\<forall>i < length evs. Sequence (evs ! i) = of_nat (Suc i))"

definition log_wf :: "execution \<Rightarrow> bool" where
  "log_wf e = (contiguous (events e) \<and> retainedLogBytes e = log_bytes (events e)
     \<and> logCapCursor e \<le> length (events e)
     \<and> (\<forall>i < logCapCursor e. payload_bytes (Payload (events e ! i)) = 0))"

lemma contiguous_append:
  "contiguous evs \<Longrightarrow> Sequence ev = of_nat (Suc (length evs)) \<Longrightarrow> contiguous (evs @ [ev])"
  by (auto simp: contiguous_def nth_append less_Suc_eq)

lemma contiguous_update:
  "contiguous evs \<Longrightarrow> Sequence ev = Sequence (evs ! i) \<Longrightarrow> contiguous (evs[i := ev])"
  by (cases "i < length evs") (auto simp: contiguous_def nth_list_update list_update_beyond)

section \<open>The byte cap\<close>

text \<open>The specification: while the tot is over the cap, empty the oldest chunk that is left.\<close>

fun capFromZero :: "int \<Rightarrow> event list \<Rightarrow> event list" where
  "capFromZero tot [] = []"
| "capFromZero tot (e # es) =
     (if tot \<le> maxRetainedLogBytes then e # es
      else truncate_event e # capFromZero (tot - payload_bytes (Payload e)) es)"

lemma capFromZero_under [simp]: "tot \<le> maxRetainedLogBytes \<Longrightarrow> capFromZero tot evs = evs"
  by (cases evs) auto

lemma capFromZero_dead_prefix:
  "\<forall>e \<in> set pre. payload_bytes (Payload e) = 0 \<Longrightarrow> capFromZero tot (pre @ evs) = pre @ capFromZero tot evs"
  by (induction pre) (auto simp: truncate_dead)

lemma length_capFromZero [simp]: "length (capFromZero tot evs) = length evs"
  by (induction evs arbitrary: tot) auto

lemma Sequence_capFromZero [simp]: "map Sequence (capFromZero tot evs) = map Sequence evs"
  by (induction evs arbitrary: tot) auto

lemma log_bytes_capFromZero_le:
  "log_bytes (capFromZero (log_bytes evs + k) evs) \<le> max 0 (maxRetainedLogBytes - k)"
proof (induction evs arbitrary: k)
  case Nil
  then show ?case by simp
next
  case (Cons e es)
  have "log_bytes es + payload_bytes (Payload e) + k - payload_bytes (Payload e) = log_bytes es + k" by simp
  then show ?case using Cons [of k] by (auto simp: add.commute add.left_commute)
qed

lemma log_bytes_capFromZero: "log_bytes (capFromZero (log_bytes evs) evs) \<le> maxRetainedLogBytes"
  using log_bytes_capFromZero_le [of evs 0] by (simp add: maxRetainedLogBytes_def)

text \<open>The cap evicts no more than it must: less than one more chunk below the cap.\<close>

lemma log_bytes_capFromZero_ge:
  assumes "\<forall>e \<in> set evs. payload_bytes (Payload e) \<le> B" and "0 \<le> B" and "maxRetainedLogBytes < log_bytes evs"
  shows "maxRetainedLogBytes - B \<le> log_bytes (capFromZero (log_bytes evs) evs)"
  using assms
proof (induction evs)
  case Nil
  then show ?case by (simp add: maxRetainedLogBytes_def)
next
  case (Cons e es)
  have t: "log_bytes (e # es) - payload_bytes (Payload e) = log_bytes es" by simp
  show ?case
  proof (cases "maxRetainedLogBytes < log_bytes es")
    case True
    then show ?thesis using Cons t by simp
  next
    case False
    then have "log_bytes (capFromZero (log_bytes (e # es)) (e # es)) = log_bytes es"
      using Cons.prems(3) by simp
    then show ?thesis using Cons.prems by (auto intro: order_trans)
  qed
qed

text \<open>The newest event is never touched when it fits the cap by itself.\<close>

lemma capFromZero_snoc:
  "payload_bytes (Payload e) \<le> maxRetainedLogBytes \<Longrightarrow>
     capFromZero (log_bytes (evs @ [e])) (evs @ [e])
       = (capFromZero (log_bytes (evs @ [e])) evs) @ [e]"
  by (induction evs) (auto simp: algebra_simps)

section \<open>The scan from the cursor meets the specification\<close>

lemma take_update_drop:
  "k < length xs \<Longrightarrow> take k xs @ y # drop (Suc k) xs = xs[k := y]"
  by (simp add: upd_conv_take_nth_drop)

lemma enforce_spec:
  assumes "logCapCursor e \<le> length (events e)"
  shows "events (enforceLogByteCap e)
     = take (logCapCursor e) (events e) @ capFromZero (retainedLogBytes e) (drop (logCapCursor e) (events e))"
  using assms
proof (induction e rule: enforceLogByteCap.induct)
  case (1 e)
  let ?k = "logCapCursor e"
  show ?case
  proof (cases "?k < length (events e) \<and> maxRetainedLogBytes < retainedLogBytes e")
    case False
    then show ?thesis by (subst enforceLogByteCap.simps) (auto simp: not_less not_le)
  next
    case True
    let ?ev = "events e ! ?k"
    have drop: "drop ?k (events e) = ?ev # drop (Suc ?k) (events e)"
      using True by (simp add: Cons_nth_drop_Suc)
    have take: "take (Suc ?k) (events e) = take ?k (events e) @ [?ev]"
      using True by (simp add: take_Suc_conv_app_nth)
    show ?thesis
    proof (cases "payload_bytes (Payload ?ev) = 0")
      case dead: True
      have "enforceLogByteCap e = enforceLogByteCap (e\<lparr>logCapCursor := Suc ?k\<rparr>)"
        using True dead by (subst enforceLogByteCap.simps) (simp add: Let_def)
      then show ?thesis
        using "1.IH"(1) [of ?k "Payload ?ev"] True dead by (simp add: drop take truncate_dead)
    next
      case live: False
      let ?e' = "e\<lparr>retainedLogBytes := retainedLogBytes e - payload_bytes (Payload ?ev),
          events := (events e)[?k := truncate_event ?ev], logCapCursor := Suc ?k\<rparr>"
      have "enforceLogByteCap e = enforceLogByteCap ?e'"
        using True live by (subst enforceLogByteCap.simps) (simp add: Let_def)
      moreover have "take (Suc ?k) ((events e)[?k := truncate_event ?ev]) = take ?k (events e) @ [truncate_event ?ev]"
        using True by (simp add: take_Suc_conv_app_nth)
      ultimately show ?thesis
        using "1.IH"(2) [of ?k "Payload ?ev"] True live by (simp add: drop)
    qed
  qed
qed

text \<open>The fields the scan leaves alone.\<close>

lemma enforce_frame:
  "eid (enforceLogByteCap e) = eid e \<and> eslot (enforceLogByteCap e) = eslot e
   \<and> emeta (enforceLogByteCap e) = emeta e \<and> processID (enforceLogByteCap e) = processID e
   \<and> pgid (enforceLogByteCap e) = pgid e \<and> phase (enforceLogByteCap e) = phase e
   \<and> running (enforceLogByteCap e) = running e \<and> reaped (enforceLogByteCap e) = reaped e
   \<and> cancelled (enforceLogByteCap e) = cancelled e \<and> exitReported (enforceLogByteCap e) = exitReported e
   \<and> exitCode (enforceLogByteCap e) = exitCode e \<and> exitMsg (enforceLogByteCap e) = exitMsg e
   \<and> completedAt (enforceLogByteCap e) = completedAt e \<and> doneClosed (enforceLogByteCap e) = doneClosed e
   \<and> exitReportChan (enforceLogByteCap e) = exitReportChan e \<and> reapOnce (enforceLogByteCap e) = reapOnce e
   \<and> readers (enforceLogByteCap e) = readers e \<and> notified (enforceLogByteCap e) = notified e"
  by (induction e rule: enforceLogByteCap.induct, subst (1 2 3 4 5 6 7 8 9 10 11 12 13 14 15 16 17 18) enforceLogByteCap.simps)
     (simp add: Let_def)

text \<open>The accounting and the cursor's invariant survive the scan.\<close>

lemma enforce_log_wf: "log_wf e \<Longrightarrow> log_wf (enforceLogByteCap e)"
proof (induction e rule: enforceLogByteCap.induct)
  case (1 e)
  let ?k = "logCapCursor e"
  show ?case
  proof (cases "?k < length (events e) \<and> maxRetainedLogBytes < retainedLogBytes e")
    case False
    then show ?thesis using 1 by (subst enforceLogByteCap.simps) (auto simp: not_less not_le)
  next
    case True
    let ?ev = "events e ! ?k"
    show ?thesis
    proof (cases "payload_bytes (Payload ?ev) = 0")
      case dead: True
      have "log_wf (e\<lparr>logCapCursor := Suc ?k\<rparr>)"
        using 1(3) True dead by (auto simp: log_wf_def less_Suc_eq)
      then have "log_wf (enforceLogByteCap (e\<lparr>logCapCursor := Suc ?k\<rparr>))"
        using "1.IH"(1) [of ?k "Payload ?ev"] True dead by simp
      then show ?thesis using True dead by (subst enforceLogByteCap.simps) (simp add: Let_def)
    next
      case live: False
      let ?e' = "e\<lparr>retainedLogBytes := retainedLogBytes e - payload_bytes (Payload ?ev),
          events := (events e)[?k := truncate_event ?ev], logCapCursor := Suc ?k\<rparr>"
      have "log_wf ?e'"
        using 1(3) True
        by (auto simp: log_wf_def less_Suc_eq nth_list_update log_bytes_update contiguous_update)
      then have "log_wf (enforceLogByteCap ?e')"
        using "1.IH"(2) [of ?k "Payload ?ev"] True live by simp
      then show ?thesis using True live by (subst enforceLogByteCap.simps) (simp add: Let_def)
    qed
  qed
qed

section \<open>Appending\<close>

lemma appendEvent_frame [simp]:
  "eid (appendEventLocked e p) = eid e" "eslot (appendEventLocked e p) = eslot e"
  "processID (appendEventLocked e p) = processID e" "pgid (appendEventLocked e p) = pgid e"
  "emeta (appendEventLocked e p) = emeta e"
  "phase (appendEventLocked e p) = phase e" "running (appendEventLocked e p) = running e"
  "reaped (appendEventLocked e p) = reaped e" "cancelled (appendEventLocked e p) = cancelled e"
  "exitReported (appendEventLocked e p) = exitReported e" "exitCode (appendEventLocked e p) = exitCode e"
  "exitMsg (appendEventLocked e p) = exitMsg e" "doneClosed (appendEventLocked e p) = doneClosed e"
  "exitReportChan (appendEventLocked e p) = exitReportChan e" "reapOnce (appendEventLocked e p) = reapOnce e"
  "readers (appendEventLocked e p) = readers e" "completedAt (appendEventLocked e p) = completedAt e"
  by (simp_all add: appendEventLocked_def Let_def enforce_frame)

definition nextEvent :: "execution \<Rightarrow> payload \<Rightarrow> event" where
  "nextEvent e p = \<lparr>Sequence = of_nat (length (events e) + 1), Payload = p\<rparr>"

lemma appendEvent_eq:
  "appendEventLocked e p =
     (if is_chunk p
      then enforceLogByteCap (e\<lparr>events := events e @ [nextEvent e p], retainedLogBytes := retainedLogBytes e + payload_bytes p\<rparr>)
      else e\<lparr>events := events e @ [nextEvent e p]\<rparr>)\<lparr>notified := Suc (notified e)\<rparr>"
  by (simp add: appendEventLocked_def Let_def nextEvent_def enforce_frame)

lemma not_chunk_bytes: "\<not> is_chunk p \<Longrightarrow> payload_bytes p = 0"
  by (cases p) (auto simp: is_chunk_def)

lemma Payload_nextEvent [simp]: "Payload (nextEvent e p) = p"
  and Sequence_nextEvent: "Sequence (nextEvent e p) = of_nat (Suc (length (events e)))"
  by (simp_all add: nextEvent_def)

lemma log_wf_notified [simp]: "log_wf (e\<lparr>notified := n\<rparr>) = log_wf e"
  by (simp add: log_wf_def)

text \<open>Appending is the specification's append followed by the cap from the first event.\<close>

lemma appendEvent_events:
  assumes "log_wf e" and "retainedLogBytes e \<le> maxRetainedLogBytes"
  shows "events (appendEventLocked e p)
     = capFromZero (log_bytes (events e @ [nextEvent e p])) (events e @ [nextEvent e p])"
proof (cases "is_chunk p")
  case False
  then show ?thesis
    using assms by (simp add: appendEvent_eq not_chunk_bytes log_wf_def)
next
  case True
  let ?evs = "events e @ [nextEvent e p]" and ?c = "logCapCursor e"
  have c: "?c \<le> length (events e)" using assms by (simp add: log_wf_def)
  have dead: "\<forall>x \<in> set (take ?c ?evs). payload_bytes (Payload x) = 0"
    using assms c by (auto simp: log_wf_def in_set_conv_nth)
  have "capFromZero (log_bytes ?evs) ?evs = capFromZero (log_bytes ?evs) (take ?c ?evs @ drop ?c ?evs)"
    by (simp only: append_take_drop_id)
  also have "\<dots> = take ?c ?evs @ capFromZero (log_bytes ?evs) (drop ?c ?evs)"
    by (rule capFromZero_dead_prefix [OF dead])
  also have "\<dots> = events (appendEventLocked e p)"
    using True assms c by (simp add: appendEvent_eq log_wf_def enforce_spec)
  finally show ?thesis by simp
qed

lemma appendEvent_length [simp]: "log_wf e \<Longrightarrow> retainedLogBytes e \<le> maxRetainedLogBytes \<Longrightarrow>
    length (events (appendEventLocked e p)) = Suc (length (events e))"
  by (simp add: appendEvent_events)

lemma appendEvent_log_wf:
  assumes "log_wf e"
  shows "log_wf (appendEventLocked e p)"
proof -
  let ?e1 = "e\<lparr>events := events e @ [nextEvent e p], retainedLogBytes := retainedLogBytes e + payload_bytes p\<rparr>"
  have "contiguous (events e @ [nextEvent e p])"
    using assms by (intro contiguous_append) (auto simp: log_wf_def Sequence_nextEvent)
  then have wf: "log_wf ?e1"
    using assms by (auto simp: log_wf_def nth_append)
  show ?thesis
  proof (cases "is_chunk p")
    case True
    then show ?thesis using enforce_log_wf [OF wf] by (simp add: appendEvent_eq)
  next
    case False
    then have "?e1 = e\<lparr>events := events e @ [nextEvent e p]\<rparr>" by (simp add: not_chunk_bytes)
    then show ?thesis using False wf by (simp add: appendEvent_eq)
  qed
qed

lemma appendEvent_bounded:
  assumes "log_wf e" and "retainedLogBytes e \<le> maxRetainedLogBytes"
  shows "retainedLogBytes (appendEventLocked e p) \<le> maxRetainedLogBytes"
  using appendEvent_log_wf [OF assms(1), of p] log_bytes_capFromZero [of "events e @ [nextEvent e p]"]
  by (simp add: log_wf_def appendEvent_events [OF assms])

end
