(* ===== verification/Exec_Machine.thy ===== *)
theory Exec_Machine
  imports Exec_Log
begin

text \<open>
  The goroutines of the registry as a step relation: two capture goroutines (\<open>captureOutput\<close>), a
  heartbeat (\<open>emitHeartbeats\<close>) and a supervisor (\<open>superviseExecution\<close>, \<open>reapAndComplete\<close>) per
  execution, and any number of subscribers (\<open>stream\<close>). The callers' operations may come between
  any two steps. What a pipe read returns, when the child exits and what the kernel answers are
  free. An exit report may reach any execution at any time, which covers every stale
  lookup \<open>ReportExit\<close> could act on. A registration assumes that fewer than \<open>2 ^ 32 - 1\<close>
  executions run, a bound no operating system lets a process count reach.
\<close>

section \<open>Program counters\<close>

datatype read_result = ReadOK | ReadEOF | ReadDeadline | ReadFail string

datatype cap_pc = CapNone | CapReading | CapGot read_result | CapDone

datatype sup_pc = SupNone | SupWait | SupReap exitReport | SupDrain | SupRetain | SupGone

record subscriber =
  sbExec :: nat
  sbFrom :: "64 word"
  sbNext :: "64 word"
  sbOut :: "event list"
  sbOpen :: bool
  sbEnded :: bool

record esys =
  Reg :: registry
  Cap :: "nat \<Rightarrow> Stream \<Rightarrow> cap_pc"
  Spv :: "nat \<Rightarrow> sup_pc"
  Subs :: "subscriber list"

definition init_esys :: "duration \<Rightarrow> duration \<Rightarrow> esys" where
  "init_esys ret hb = \<lparr>Reg = newRegistry ret hb, Cap = (\<lambda>_ _. CapNone), Spv = (\<lambda>_. SupNone), Subs = []\<rparr>"

section \<open>Capturing output\<close>

text \<open>
  One read of \<open>captureOutput\<close>: what was read is appended as a chunk; a failure that is neither
  an end of file nor a deadline adds a chunk that reports it on standard error; \<open>readers.Done\<close>
  runs when the goroutine returns.
\<close>

definition captureData :: "Stream \<Rightarrow> string \<Rightarrow> execution \<Rightarrow> execution" where
  "captureData st data e = (if 0 < length data then appendEventLocked e (LogChunk st data) else e)"

definition captureFailure :: "string \<Rightarrow> execution \<Rightarrow> execution" where
  "captureFailure msg e = appendEventLocked e (LogChunk StreamStderr (''guestexec: capture '' @ msg))"

definition captureReturns :: "execution \<Rightarrow> execution" where
  "captureReturns e = e\<lparr>readers := readers e - 1\<rparr>"

abbreviation cap_at :: "(nat \<Rightarrow> Stream \<Rightarrow> cap_pc) \<Rightarrow> nat \<Rightarrow> Stream \<Rightarrow> cap_pc \<Rightarrow> nat \<Rightarrow> Stream \<Rightarrow> cap_pc" where
  "cap_at c u st q \<equiv> c(u := (c u)(st := q))"

section \<open>Steps\<close>

definition runningCount :: "registry \<Rightarrow> nat" where
  "runningCount r = length (filter running (store r))"

inductive exec_step :: "esys \<Rightarrow> esys \<Rightarrow> bool" where
  x_register: "Register (Reg s) spec pid pg = (OutcomeAccepted, None, r') \<Longrightarrow>
     runningCount (Reg s) < 2 ^ 32 - 1 \<Longrightarrow> u = length (store (Reg s)) \<Longrightarrow>
     exec_step s (s\<lparr>Reg := r', Cap := (Cap s)(u := (\<lambda>st. if st = StreamUnspecified then CapNone else CapReading)),
                   Spv := (Spv s)(u := SupWait)\<rparr>)"
| x_read: "Cap s u st = CapReading \<Longrightarrow> length data \<le> outputReadBufferSize \<Longrightarrow>
     exec_step s (s\<lparr>Reg := upd_exec (Reg s) u (captureData st data), Cap := cap_at (Cap s) u st (CapGot res)\<rparr>)"
| x_readOn: "Cap s u st = CapGot ReadOK \<Longrightarrow>
     exec_step s (s\<lparr>Cap := cap_at (Cap s) u st CapReading\<rparr>)"
| x_readFails: "Cap s u st = CapGot (ReadFail msg) \<Longrightarrow>
     exec_step s (s\<lparr>Reg := upd_exec (Reg s) u (captureFailure msg), Cap := cap_at (Cap s) u st (CapGot ReadEOF)\<rparr>)"
| x_readEnds: "Cap s u st = CapGot res \<Longrightarrow> res \<in> {ReadEOF, ReadDeadline} \<Longrightarrow>
     exec_step s (s\<lparr>Reg := upd_exec (Reg s) u captureReturns, Cap := cap_at (Cap s) u st CapDone\<rparr>)"
| x_heartbeat: "u < length (store (Reg s)) \<Longrightarrow>
     exec_step s (s\<lparr>Reg := upd_exec (Reg s) u (\<lambda>e. appendHeartbeat e now)\<rparr>)"
| x_report: "u < length (store (Reg s)) \<Longrightarrow>
     exec_step s (s\<lparr>Reg := upd_exec (Reg s) u (deliverReport rep)\<rparr>)"
| x_receive: "Spv s u = SupWait \<Longrightarrow> receiveReport (store (Reg s) ! u) = Some (rep, e') \<Longrightarrow>
     exec_step s (s\<lparr>Reg := upd_exec (Reg s) u (\<lambda>_. e'), Spv := (Spv s)(u := SupReap rep)\<rparr>)"
| x_reap: "Spv s u = SupReap rep \<Longrightarrow>
     exec_step s (s\<lparr>Reg := upd_exec (Reg s) u (reapReport rep), Spv := (Spv s)(u := SupDrain)\<rparr>)"
| x_complete: "Spv s u = SupDrain \<Longrightarrow> readers (store (Reg s) ! u) = 0 \<Longrightarrow>
     exec_step s (s\<lparr>Reg := completeExecution (Reg s) u now, Spv := (Spv s)(u := SupRetain)\<rparr>)"
| x_expire: "Spv s u = SupRetain \<Longrightarrow>
     exec_step s (s\<lparr>Reg := expire (Reg s) u, Spv := (Spv s)(u := SupGone)\<rparr>)"
| x_cancel: "Cancel (Reg s) i kill = (e, r') \<Longrightarrow> exec_step s (s\<lparr>Reg := r'\<rparr>)"
| x_drain: "Drain (Reg s) = (d, r') \<Longrightarrow> exec_step s (s\<lparr>Reg := r'\<rparr>)"
| x_subscribe: "Subscribe (Reg s) i = Inr u \<Longrightarrow>
     exec_step s (s\<lparr>Subs := Subs s @ [\<lparr>sbExec = u, sbFrom = fromSeq, sbNext = fromSeq + 1, sbOut = [],
                                        sbOpen = True, sbEnded = False\<rparr>]\<rparr>)"
| x_send: "k < length (Subs s) \<Longrightarrow> b = Subs s ! k \<Longrightarrow> sbOpen b \<Longrightarrow>
     stream_pass (store (Reg s) ! sbExec b) (sbNext b) = StreamSend ev \<Longrightarrow>
     exec_step s (s\<lparr>Subs := (Subs s)[k := b\<lparr>sbOut := sbOut b @ [ev], sbNext := sbNext b + 1\<rparr>]\<rparr>)"
| x_streamEnds: "k < length (Subs s) \<Longrightarrow> b = Subs s ! k \<Longrightarrow> sbOpen b \<Longrightarrow>
     stream_pass (store (Reg s) ! sbExec b) (sbNext b) = StreamEnd \<Longrightarrow>
     exec_step s (s\<lparr>Subs := (Subs s)[k := b\<lparr>sbOpen := False, sbEnded := True\<rparr>]\<rparr>)"
| x_unsubscribe: "k < length (Subs s) \<Longrightarrow> b = Subs s ! k \<Longrightarrow>
     exec_step s (s\<lparr>Subs := (Subs s)[k := b\<lparr>sbOpen := False\<rparr>]\<rparr>)"

inductive exec_reachable :: "esys \<Rightarrow> bool" where
  xr_init: "exec_reachable (init_esys ret hb)"
| xr_step: "exec_reachable s \<Longrightarrow> exec_step s s' \<Longrightarrow> exec_reachable s'"

inductive_cases exec_stepE: "exec_step s s'"

end
