(* ===== verification/Exec_Inv.thy ===== *)
theory Exec_Inv
  imports Exec_Machine
begin

text \<open>
  The invariants of the registry: one execution's (its log, its supervisor and its readers) and
  the table's (ids, slots, the active count, the drained channel), each kept by every operation.
\<close>

section \<open>Terminal results\<close>

definition is_terminal :: "payload \<Rightarrow> bool" where
  "is_terminal p = (case p of TerminalResult _ _ \<Rightarrow> True | _ \<Rightarrow> False)"

definition no_terminal :: "event list \<Rightarrow> bool" where
  "no_terminal evs = list_all (\<lambda>ev. \<not> is_terminal (Payload ev)) evs"

definition ends_terminal :: "event list \<Rightarrow> bool" where
  "ends_terminal evs = (evs \<noteq> [] \<and> no_terminal (butlast evs) \<and> is_terminal (Payload (last evs)))"

lemma is_terminal_truncated [simp]: "is_terminal (truncated p) = is_terminal p"
  by (cases p) (auto simp: is_terminal_def)

lemma no_terminal_simps [simp]:
  "no_terminal []" "no_terminal (e # es) = (\<not> is_terminal (Payload e) \<and> no_terminal es)"
  "no_terminal (xs @ ys) = (no_terminal xs \<and> no_terminal ys)"
  by (simp_all add: no_terminal_def)

lemma no_terminal_cap [simp]: "no_terminal (capFromZero tot evs) = no_terminal evs"
  by (induction evs arbitrary: tot) auto

definition sound_log :: "execution \<Rightarrow> bool" where
  "sound_log e = (log_wf e \<and> retainedLogBytes e \<le> maxRetainedLogBytes)"

lemma sound_append: "sound_log e \<Longrightarrow> sound_log (appendEventLocked e p)"
  by (simp add: sound_log_def appendEvent_log_wf appendEvent_bounded)

lemma no_terminal_append:
  "sound_log e \<Longrightarrow> no_terminal (events (appendEventLocked e p)) = (no_terminal (events e) \<and> \<not> is_terminal p)"
  by (simp add: sound_log_def appendEvent_events)

lemma ends_terminal_append:
  assumes "sound_log e" and "no_terminal (events e)" and "is_terminal p"
  shows "ends_terminal (events (appendEventLocked e p))"
proof -
  have "payload_bytes p = 0" using assms(3) by (cases p) (auto simp: is_terminal_def)
  then have "events (appendEventLocked e p) = capFromZero (log_bytes (events e @ [nextEvent e p])) (events e) @ [nextEvent e p]"
    using assms(1) capFromZero_snoc [of "nextEvent e p" "events e"]
    by (simp add: sound_log_def appendEvent_events maxRetainedLogBytes_def)
  then show ?thesis using assms by (simp add: ends_terminal_def)
qed

section \<open>One execution\<close>

fun alive_sup :: "sup_pc \<Rightarrow> bool" where
  "alive_sup SupWait = True" | "alive_sup (SupReap _) = True" | "alive_sup SupDrain = True"
| "alive_sup _ = False"

fun reaped_sup :: "sup_pc \<Rightarrow> bool" where
  "reaped_sup SupDrain = True" | "reaped_sup SupRetain = True" | "reaped_sup SupGone = True"
| "reaped_sup _ = False"

definition open_readers :: "(Stream \<Rightarrow> cap_pc) \<Rightarrow> nat" where
  "open_readers c = (if c StreamStdout = CapDone then 0 else 1) + (if c StreamStderr = CapDone then 0 else 1)"

definition exec_inv :: "sup_pc \<Rightarrow> (Stream \<Rightarrow> cap_pc) \<Rightarrow> execution \<Rightarrow> bool" where
  "exec_inv q c e = (sound_log e \<and> q \<noteq> SupNone \<and> running e = alive_sup q \<and> reaped e = reaped_sup q
     \<and> exitReported e = reaped_sup q
     \<and> (exitReportChan e \<noteq> None) = (q = SupWait \<and> reapOnce e) \<and> (q \<noteq> SupWait \<longrightarrow> reapOnce e)
     \<and> c StreamUnspecified = CapNone \<and> c StreamStdout \<noteq> CapNone \<and> c StreamStderr \<noteq> CapNone
     \<and> readers e = open_readers c \<and> (\<not> running e \<longrightarrow> readers e = 0)
     \<and> (if running e then no_terminal (events e) else ends_terminal (events e))
     \<and> doneClosed e = (\<not> running e) \<and> phase e = (if running e then ''running'' else ''completed''))"

lemma open_readers_pos: "c st \<noteq> CapNone \<Longrightarrow> c st \<noteq> CapDone \<Longrightarrow> c StreamUnspecified = CapNone \<Longrightarrow> 0 < open_readers c"
  by (cases st) (auto simp: open_readers_def)

lemma open_readers_live:
  "c st \<noteq> CapNone \<Longrightarrow> c st \<noteq> CapDone \<Longrightarrow> q \<noteq> CapDone \<Longrightarrow> c StreamUnspecified = CapNone \<Longrightarrow>
     open_readers (c(st := q)) = open_readers c"
  by (cases st) (auto simp: open_readers_def)

lemma open_readers_done:
  "c st \<noteq> CapNone \<Longrightarrow> c st \<noteq> CapDone \<Longrightarrow> c StreamUnspecified = CapNone \<Longrightarrow>
     open_readers (c(st := CapDone)) = open_readers c - 1"
  by (cases st) (auto simp: open_readers_def)

lemma exec_inv_capturing:
  "exec_inv q c e \<Longrightarrow> c st \<noteq> CapNone \<Longrightarrow> c st \<noteq> CapDone \<Longrightarrow> running e"
  using open_readers_pos [of c st] by (auto simp: exec_inv_def)

lemma exec_inv_new:
  "specError spec = None \<Longrightarrow>
   exec_inv SupWait (\<lambda>st. if st = StreamUnspecified then CapNone else CapReading)
     (appendEventLocked (newExecution spec pid pg) (PhaseChange ''running''))"
proof -
  have s: "sound_log (newExecution spec pid pg)"
    by (simp add: sound_log_def log_wf_def newExecution_def contiguous_def maxRetainedLogBytes_def)
  show ?thesis
    using sound_append [OF s] no_terminal_append [OF s]
    by (auto simp: exec_inv_def newExecution_def open_readers_def is_terminal_def)
qed

lemma exec_inv_append:
  "exec_inv q c e \<Longrightarrow> running e \<Longrightarrow> \<not> is_terminal p \<Longrightarrow> exec_inv q c (appendEventLocked e p)"
  by (auto simp: exec_inv_def sound_append no_terminal_append)

lemma exec_inv_capture_live:
  "exec_inv q c e \<Longrightarrow> c st \<noteq> CapNone \<Longrightarrow> c st \<noteq> CapDone \<Longrightarrow> q' \<noteq> CapNone \<Longrightarrow> q' \<noteq> CapDone \<Longrightarrow>
     exec_inv q (c(st := q')) e"
  by (cases st) (auto simp: exec_inv_def open_readers_live open_readers_def)

lemma exec_inv_captureData:
  "exec_inv q c e \<Longrightarrow> running e \<Longrightarrow> exec_inv q c (captureData st data e)"
  by (auto simp: captureData_def is_terminal_def intro: exec_inv_append)

lemma exec_inv_captureFailure:
  "exec_inv q c e \<Longrightarrow> running e \<Longrightarrow> exec_inv q c (captureFailure msg e)"
  by (auto simp: captureFailure_def is_terminal_def intro: exec_inv_append)

lemma sound_log_frame [simp]:
  "sound_log (e\<lparr>readers := n\<rparr>) = sound_log e" "sound_log (e\<lparr>reapOnce := b\<rparr>) = sound_log e"
  "sound_log (e\<lparr>exitReportChan := rc\<rparr>) = sound_log e" "sound_log (e\<lparr>cancelled := b\<rparr>) = sound_log e"
  "sound_log (e\<lparr>reaped := b\<rparr>) = sound_log e" "sound_log (e\<lparr>exitReported := b\<rparr>) = sound_log e"
  "sound_log (e\<lparr>exitCode := x\<rparr>) = sound_log e" "sound_log (e\<lparr>exitMsg := m\<rparr>) = sound_log e"
  "sound_log (e\<lparr>phase := m\<rparr>) = sound_log e" "sound_log (e\<lparr>running := b\<rparr>) = sound_log e"
  "sound_log (e\<lparr>completedAt := t\<rparr>) = sound_log e" "sound_log (e\<lparr>doneClosed := b\<rparr>) = sound_log e"
  by (simp_all add: sound_log_def log_wf_def)

lemma exec_inv_captureReturns:
  assumes inv: "exec_inv q c e" and st: "c st \<noteq> CapNone" "c st \<noteq> CapDone"
  shows "exec_inv q (c(st := CapDone)) (captureReturns e)"
proof -
  have run: "running e" by (rule exec_inv_capturing [OF inv st])
  have u: "c StreamUnspecified = CapNone" using inv by (simp add: exec_inv_def)
  then have ne: "st \<noteq> StreamUnspecified" using st by auto
  have r: "open_readers (c(st := CapDone)) = open_readers c - 1"
    by (rule open_readers_done [OF st u])
  show ?thesis
    using inv run ne r unfolding exec_inv_def captureReturns_def by auto
qed

lemma exec_inv_heartbeat: "exec_inv q c e \<Longrightarrow> exec_inv q c (appendHeartbeat e now)"
  by (auto simp: appendHeartbeat_def is_terminal_def intro: exec_inv_append)

lemma exec_inv_deliver: "exec_inv q c e \<Longrightarrow> exec_inv q c (deliverReport rep e)"
  by (auto simp: exec_inv_def deliverReport_def)

lemma exec_inv_receive:
  "exec_inv SupWait c e \<Longrightarrow> receiveReport e = Some (rep, e') \<Longrightarrow> exec_inv (SupReap rep) c e'"
  by (auto simp: exec_inv_def receiveReport_def split: option.splits)

lemma exec_inv_reap: "exec_inv (SupReap rep) c e \<Longrightarrow> exec_inv SupDrain c (reapReport rep e)"
  by (auto simp: exec_inv_def reapReport_def)

lemma exec_inv_complete:
  assumes "exec_inv SupDrain c e" and "readers e = 0"
  shows "exec_inv SupRetain c (completedExecution now e)"
proof -
  let ?e1 = "e\<lparr>phase := ''completed'', running := False, completedAt := now\<rparr>"
  let ?e2 = "appendEventLocked ?e1 (PhaseChange ''completed'')"
  have s1: "sound_log ?e1" using assms by (simp add: exec_inv_def)
  then have s2: "sound_log ?e2" by (rule sound_append)
  have n2: "no_terminal (events ?e2)"
    using assms s1 by (simp add: no_terminal_append is_terminal_def exec_inv_def)
  show ?thesis
    using assms sound_append [OF s2] ends_terminal_append [OF s2 n2]
    by (auto simp: exec_inv_def completedExecution_def Let_def is_terminal_def)
qed

lemma exec_inv_retained: "exec_inv SupRetain c e \<Longrightarrow> exec_inv SupGone c e"
  by (auto simp: exec_inv_def)

lemma exec_inv_cancelled: "exec_inv q c e \<Longrightarrow> exec_inv q c (cancelled_update f e)"
  by (auto simp: exec_inv_def sound_log_def log_wf_def)

section \<open>The table\<close>

text \<open>What the table's invariant reads of an execution.\<close>

definition entry :: "execution \<Rightarrow> string \<times> 32 word \<times> bool" where
  "entry e = (eid e, eslot e, running e)"

lemma entry_frame [simp]:
  "entry (appendEventLocked e p) = entry e" "entry (captureData st d e) = entry e"
  "entry (captureFailure m e) = entry e" "entry (captureReturns e) = entry e"
  "entry (appendHeartbeat e t) = entry e" "entry (deliverReport rep e) = entry e"
  "entry (reapReport rep e) = entry e" "entry (cancelled_update f e) = entry e"
  by (simp_all add: entry_def captureData_def captureFailure_def captureReturns_def appendHeartbeat_def
      deliverReport_def reapReport_def)

lemma entry_receive: "receiveReport e = Some (rep, e') \<Longrightarrow> entry e' = entry e"
  by (auto simp: receiveReport_def entry_def split: option.splits)

definition table_wf :: "registry \<Rightarrow> bool" where
  "table_wf r = (distinct (map fst (executions r))
     \<and> (\<forall>(i, u) \<in> set (executions r). u < length (store r) \<and> eid (store r ! u) = i)
     \<and> (\<forall>u < length (store r). running (store r ! u) \<longrightarrow> (eid (store r ! u), u) \<in> set (executions r)))"

definition slots_wf :: "registry \<Rightarrow> bool" where
  "slots_wf r = ((\<forall>u < length (store r). running (store r ! u) \<longrightarrow>
         rslots r (eslot (store r ! u)) = Some (eid (store r ! u)))
     \<and> (\<forall>sl i. rslots r sl = Some i \<longrightarrow> (\<exists>u < length (store r).
         running (store r ! u) \<and> eslot (store r ! u) = sl \<and> eid (store r ! u) = i)))"

definition count_wf :: "registry \<Rightarrow> bool" where
  "count_wf r = (activeCount r = of_nat (runningCount r) \<and> runningCount r < 2 ^ 32
     \<and> drainedClosed r = (draining r \<and> runningCount r = 0))"

definition reg_wf :: "registry \<Rightarrow> bool" where
  "reg_wf r = (table_wf r \<and> slots_wf r \<and> count_wf r)"

lemma entry_upd:
  "entry (f (store r ! u)) = entry (store r ! u) \<Longrightarrow> map entry (store (upd_exec r u f)) = map entry (store r)"
  by (cases "u < length (store r)") (auto simp: upd_exec_def map_update list_update_same_conv list_update_beyond)

lemma runningCount_entry: "runningCount r = length (filter (snd \<circ> snd) (map entry (store r)))"
  by (simp add: runningCount_def entry_def filter_map comp_def)

lemma reg_wf_upd:
  assumes "reg_wf r" and "entry (f (store r ! u)) = entry (store r ! u)"
  shows "reg_wf (upd_exec r u f)"
proof -
  let ?r = "upd_exec r u f"
  have m: "map entry (store ?r) = map entry (store r)" using assms(2) by (rule entry_upd)
  then have len: "length (store ?r) = length (store r)" by (metis length_map)
  have nth: "entry (store ?r ! v) = entry (store r ! v)" if "v < length (store r)" for v
    using m that by (metis len nth_map)
  have e: "eid (store ?r ! v) = eid (store r ! v)" "eslot (store ?r ! v) = eslot (store r ! v)"
    "running (store ?r ! v) = running (store r ! v)" if "v < length (store r)" for v
    using nth [OF that] by (auto simp: entry_def)
  have rest: "executions ?r = executions r" "rslots ?r = rslots r" "activeCount ?r = activeCount r"
    "draining ?r = draining r" "drainedClosed ?r = drainedClosed r"
    by (simp_all add: upd_exec_def)
  have "runningCount ?r = runningCount r" using m by (simp add: runningCount_entry)
  then have "count_wf ?r" using assms(1) rest by (simp add: reg_wf_def count_wf_def)
  moreover have "table_wf ?r" using assms(1) rest len e by (fastforce simp: reg_wf_def table_wf_def)
  moreover have "slots_wf ?r"
    using assms(1) rest len e unfolding reg_wf_def slots_wf_def by (metis (no_types, lifting))
  ultimately show ?thesis by (simp add: reg_wf_def)
qed

lemma reg_wf_new: "reg_wf (newRegistry ret hb)"
  by (simp add: reg_wf_def table_wf_def slots_wf_def count_wf_def newRegistry_def runningCount_def)

end
