(* ===== verification/Exec_Table.thy ===== *)
theory Exec_Table
  imports Exec_Inv
begin

text \<open>
  The table operations keep the registry's invariant, and the invariant of the whole system holds
  in every reachable state.
\<close>

section \<open>Counting the running executions\<close>

lemma runningCount_append:
  "length (filter running (xs @ [e])) = length (filter running xs) + (if running e then 1 else 0)"
  by simp

lemma filter_update_off:
  "u < length xs \<Longrightarrow> running (xs ! u) \<Longrightarrow> \<not> running e \<Longrightarrow>
     Suc (length (filter running (xs[u := e]))) = length (filter running xs)"
proof (induction xs arbitrary: u)
  case Nil
  then show ?case by simp
next
  case (Cons x xs)
  then show ?case by (cases u) auto
qed

lemma count_word_zero: "n < 2 ^ 32 \<Longrightarrow> (of_nat n = (0 :: 32 word)) = (n = 0)"
  by (auto simp: word_of_nat_eq_0_iff dest: dvd_imp_le)

lemma runningCount_pos: "u < length (store r) \<Longrightarrow> running (store r ! u) \<Longrightarrow> 0 < runningCount r"
  unfolding runningCount_def length_greater_0_conv filter_empty_conv by (metis nth_mem)

lemma runningCount_zero: "runningCount r = 0 \<longleftrightarrow> (\<forall>u < length (store r). \<not> running (store r ! u))"
  unfolding runningCount_def length_0_conv filter_empty_conv by (metis in_set_conv_nth)

section \<open>Registering\<close>

lemma Register_accepted:
  assumes "Register r spec pid pg = (OutcomeAccepted, e, r')"
  shows "specError spec = None \<and> \<not> draining r \<and> map_of (executions r) (specID spec) = None
    \<and> rslots r (specSlot spec) = None \<and> e = None
    \<and> r' = r\<lparr>store := store r @ [appendEventLocked (newExecution spec pid pg) (PhaseChange ''running'')],
             executions := executions r @ [(specID spec, length (store r))],
             rslots := (rslots r)(specSlot spec \<mapsto> specID spec), activeCount := activeCount r + 1\<rparr>"
  using assms
  by (auto simp: Register_def checkAdmissionLocked_def lookupExecution_def Let_def
      split: option.splits if_splits)

lemma reg_wf_Register:
  assumes "reg_wf r" and acc: "Register r spec pid pg = (OutcomeAccepted, e, r')"
    and "runningCount r < 2 ^ 32 - 1"
  shows "reg_wf r'"
proof -
  let ?x = "appendEventLocked (newExecution spec pid pg) (PhaseChange ''running'')"
  have x: "eid ?x = specID spec" "eslot ?x = specSlot spec" "running ?x"
    by (simp_all add: newExecution_def)
  note a = Register_accepted [OF acc]
  then have new: "specID spec \<notin> fst ` set (executions r)" by (simp add: map_of_eq_None_iff)
  have free: "eslot (store r ! u) \<noteq> specSlot spec" if "u < length (store r)" "running (store r ! u)" for u
    using assms(1) a that by (auto simp: reg_wf_def slots_wf_def)
  have c: "runningCount r' = Suc (runningCount r)" using a x by (simp add: runningCount_def)
  have "count_wf r'"
    using assms(1,3) a c by (simp add: reg_wf_def count_wf_def)
  moreover have "table_wf r'"
    using assms(1) a new x
    by (auto simp: reg_wf_def table_wf_def nth_append less_Suc_eq split: prod.splits)
  moreover have "slots_wf r'"
  proof -
    have st: "store r' = store r @ [?x]" and sl: "rslots r' = (rslots r)(specSlot spec \<mapsto> specID spec)"
      using a by simp_all
    have 1: "\<forall>u < length (store r'). running (store r' ! u) \<longrightarrow>
        rslots r' (eslot (store r' ! u)) = Some (eid (store r' ! u))"
      using assms(1) free x by (auto simp: st sl reg_wf_def slots_wf_def nth_append less_Suc_eq)
    have 2: "\<exists>u < length (store r'). running (store r' ! u) \<and> eslot (store r' ! u) = k \<and> eid (store r' ! u) = i"
      if "rslots r' k = Some i" for k i
    proof (cases "k = specSlot spec")
      case True
      then have "i = specID spec" using that sl by simp
      then show ?thesis using x True by (intro exI [of _ "length (store r)"]) (simp add: st)
    next
      case False
      then have "rslots r k = Some i" using that sl by simp
      moreover have "\<forall>sl i. rslots r sl = Some i \<longrightarrow> (\<exists>u < length (store r).
          running (store r ! u) \<and> eslot (store r ! u) = sl \<and> eid (store r ! u) = i)"
        using assms(1) by (simp add: reg_wf_def slots_wf_def)
      ultimately obtain u where "u < length (store r)" "running (store r ! u)" "eslot (store r ! u) = k" "eid (store r ! u) = i"
        by blast
      then show ?thesis by (intro exI [of _ u]) (simp add: st nth_append)
    qed
    show ?thesis using 1 2 by (simp add: slots_wf_def)
  qed
  ultimately show ?thesis by (simp add: reg_wf_def)
qed

section \<open>Completing\<close>

lemma entry_completed: "entry (completedExecution now e) = (eid e, eslot e, False)"
  by (simp add: entry_def completedExecution_def Let_def)

lemma completed_simps [simp]:
  "eid (completedExecution now e) = eid e" "eslot (completedExecution now e) = eslot e"
  "\<not> running (completedExecution now e)"
  by (simp_all add: completedExecution_def Let_def)

lemma completeExecution_eq:
  "completeExecution r u now =
     r\<lparr>store := (store r)[u := completedExecution now (store r ! u)],
       rslots := (rslots r)(eslot (store r ! u) := None), activeCount := activeCount r - 1,
       drainedClosed := (drainedClosed r \<or> draining r \<and> activeCount r - 1 = 0)\<rparr>"
  by (simp add: completeExecution_def upd_exec_def closeDrainedLocked_def Let_def)

text \<open>Two running executions never share a slot, nor an id.\<close>

lemma slots_wf_unique:
  assumes "table_wf r" and "slots_wf r" and "u < length (store r)" "running (store r ! u)"
    and "v < length (store r)" "running (store r ! v)" and "eslot (store r ! u) = eslot (store r ! v)"
  shows "u = v"
proof -
  have "eid (store r ! u) = eid (store r ! v)"
    using assms unfolding slots_wf_def by (metis option.inject)
  moreover have "(eid (store r ! u), u) \<in> set (executions r)" "(eid (store r ! v), v) \<in> set (executions r)"
    using assms by (auto simp: table_wf_def)
  moreover have "distinct (map fst (executions r))" using assms(1) by (simp add: table_wf_def)
  ultimately show ?thesis by (metis eq_key_imp_eq_value)
qed

lemma reg_wf_complete:
  assumes wf: "reg_wf r" and u: "u < length (store r)" and run: "running (store r ! u)"
  shows "reg_wf (completeExecution r u now)"
proof -
  let ?r = "completeExecution r u now"
  let ?e = "store r ! u"
  have t: "table_wf r" and s: "slots_wf r" and c: "count_wf r" using wf by (simp_all add: reg_wf_def)
  have n: "Suc (runningCount ?r) = runningCount r"
    using filter_update_off [OF u run, of "completedExecution now ?e"]
    by (simp add: completeExecution_eq runningCount_def)
  have pos: "0 < runningCount r" by (rule runningCount_pos [OF u run])
  have act: "activeCount r - 1 = of_nat (runningCount ?r)"
  proof -
    have "activeCount r = of_nat (Suc (runningCount ?r))"
      using c by (simp only: n count_wf_def)
    then show ?thesis by simp
  qed
  have "runningCount r < 2 ^ 32" using c by (simp only: count_wf_def)
  then have lt: "runningCount ?r < 2 ^ 32" using n by linarith
  have zero: "(activeCount r - 1 = 0) = (runningCount ?r = 0)"
    unfolding act by (rule count_word_zero [OF lt])
  have fields: "activeCount ?r = activeCount r - 1" "draining ?r = draining r"
    "drainedClosed ?r = (drainedClosed r \<or> draining r \<and> activeCount r - 1 = 0)"
    by (simp_all add: completeExecution_eq)
  have "drainedClosed r = False" using c pos by (simp add: count_wf_def)
  then have "count_wf ?r"
    unfolding count_wf_def fields zero using act lt by simp
  moreover have "table_wf ?r"
  proof -
    have p: "length (store ?r) = length (store r)" "executions ?r = executions r"
      by (simp_all add: completeExecution_eq)
    have q: "eid (store ?r ! v) = eid (store r ! v)" "running (store ?r ! v) \<longrightarrow> running (store r ! v)"
      if "v < length (store r)" for v
      using that run u by (auto simp: completeExecution_eq nth_list_update)
    show ?thesis using t unfolding table_wf_def p by (auto simp: q)
  qed
  moreover have "slots_wf ?r"
  proof -
    have other: "eslot (store r ! v) \<noteq> eslot ?e" if "v < length (store r)" "running (store r ! v)" "v \<noteq> u" for v
      using slots_wf_unique [OF t s that(1,2) u run] that(3) by blast
    have 1: "\<forall>v < length (store ?r). running (store ?r ! v) \<longrightarrow>
        rslots ?r (eslot (store ?r ! v)) = Some (eid (store ?r ! v))"
      using s other u by (auto simp: completeExecution_eq slots_wf_def nth_list_update)
    have 2: "\<exists>v < length (store ?r). running (store ?r ! v) \<and> eslot (store ?r ! v) = k \<and> eid (store ?r ! v) = i"
      if "rslots ?r k = Some i" for k i
    proof -
      have k: "k \<noteq> eslot ?e" "rslots r k = Some i"
        using that by (auto simp: completeExecution_eq split: if_splits)
      then obtain v where v: "v < length (store r)" "running (store r ! v)" "eslot (store r ! v) = k" "eid (store r ! v) = i"
        using s unfolding slots_wf_def by blast
      then have "v \<noteq> u" using k by auto
      then show ?thesis using v by (intro exI [of _ v]) (simp add: completeExecution_eq)
    qed
    show ?thesis using 1 2 by (simp add: slots_wf_def)
  qed
  ultimately show ?thesis by (simp add: reg_wf_def)
qed

section \<open>Expiring, cancelling, draining\<close>

lemma reg_wf_expire:
  assumes "reg_wf r" and "u < length (store r)" and "\<not> running (store r ! u)"
  shows "reg_wf (expire r u)"
proof -
  have keep: "(eid (store r ! v), v) \<in> set (filter (\<lambda>(j, _). j \<noteq> eid (store r ! u)) (executions r))"
    if "map_of (executions r) (eid (store r ! u)) = Some u" "v < length (store r)" "running (store r ! v)" for v
  proof -
    have v: "(eid (store r ! v), v) \<in> set (executions r)"
      using assms(1) that by (auto simp: reg_wf_def table_wf_def)
    moreover have "eid (store r ! v) \<noteq> eid (store r ! u)"
    proof
      assume "eid (store r ! v) = eid (store r ! u)"
      then have "map_of (executions r) (eid (store r ! u)) = Some v"
        using v assms(1) by (metis map_of_is_SomeI reg_wf_def table_wf_def)
      then show False using that assms(3) by simp
    qed
    ultimately show ?thesis by simp
  qed
  have d: "distinct (map fst (filter P (executions r)))" for P
    using assms(1) by (simp add: reg_wf_def table_wf_def distinct_map_filter)
  show ?thesis
    using assms(1) keep d
    by (auto simp: expire_def Let_def reg_wf_def table_wf_def slots_wf_def count_wf_def runningCount_def)
qed

lemma reg_wf_Cancel: "reg_wf r \<Longrightarrow> Cancel r i kill = (e, r') \<Longrightarrow> reg_wf r'"
  by (auto simp: Cancel_def Let_def intro!: reg_wf_upd split: option.splits if_splits)

lemma reg_wf_Drain: "reg_wf r \<Longrightarrow> Drain r = (d, r') \<Longrightarrow> reg_wf r'"
  using count_word_zero [of "runningCount r"]
  by (auto simp: Drain_def Let_def reg_wf_def table_wf_def slots_wf_def count_wf_def closeDrainedLocked_def
      runningCount_def split: if_splits)

section \<open>The invariant of the system\<close>

definition sys_inv :: "esys \<Rightarrow> bool" where
  "sys_inv s = (reg_wf (Reg s)
     \<and> (\<forall>u < length (store (Reg s)). exec_inv (Spv s u) (Cap s u) (store (Reg s) ! u))
     \<and> (\<forall>u \<ge> length (store (Reg s)). Spv s u = SupNone \<and> Cap s u = (\<lambda>_. CapNone)))"

lemma sys_inv_init: "sys_inv (init_esys ret hb)"
  by (simp add: sys_inv_def init_esys_def reg_wf_new) (simp add: newRegistry_def)

lemma sys_inv_cap: "sys_inv s \<Longrightarrow> Cap s u st \<noteq> CapNone \<Longrightarrow> u < length (store (Reg s))"
  by (metis not_le sys_inv_def)

lemma sys_inv_sup: "sys_inv s \<Longrightarrow> Spv s u \<noteq> SupNone \<Longrightarrow> u < length (store (Reg s))"
  by (metis not_le sys_inv_def)

text \<open>A step that updates one execution and the program counters of its goroutines.\<close>

lemma sys_inv_upd:
  assumes inv: "sys_inv s" and u: "u < length (store (Reg s))"
    and ent: "entry (f (store (Reg s) ! u)) = entry (store (Reg s) ! u)"
    and e: "exec_inv q c (f (store (Reg s) ! u))"
  shows "sys_inv (s\<lparr>Reg := upd_exec (Reg s) u f, Cap := (Cap s)(u := c), Spv := (Spv s)(u := q)\<rparr>)"
proof -
  have "reg_wf (upd_exec (Reg s) u f)"
    using inv ent by (intro reg_wf_upd) (auto simp: sys_inv_def)
  then show ?thesis
    using inv u e by (auto simp: sys_inv_def upd_exec_def nth_list_update)
qed

lemma sys_inv_upd_reg:
  assumes "sys_inv s" and "u < length (store (Reg s))"
    and "entry (f (store (Reg s) ! u)) = entry (store (Reg s) ! u)"
    and "exec_inv (Spv s u) (Cap s u) (f (store (Reg s) ! u))"
  shows "sys_inv (s\<lparr>Reg := upd_exec (Reg s) u f\<rparr>)"
  using sys_inv_upd [where s = s and u = u and f = f, OF assms] by simp

lemma sys_inv_upd_cap:
  assumes "sys_inv s" and "u < length (store (Reg s))"
    and "entry (f (store (Reg s) ! u)) = entry (store (Reg s) ! u)"
    and "exec_inv (Spv s u) c (f (store (Reg s) ! u))"
  shows "sys_inv (s\<lparr>Reg := upd_exec (Reg s) u f, Cap := (Cap s)(u := c)\<rparr>)"
  using sys_inv_upd [where s = s and u = u and f = f, OF assms] by simp

lemma sys_inv_upd_sup:
  assumes "sys_inv s" and "u < length (store (Reg s))"
    and "entry (f (store (Reg s) ! u)) = entry (store (Reg s) ! u)"
    and "exec_inv q (Cap s u) (f (store (Reg s) ! u))"
  shows "sys_inv (s\<lparr>Reg := upd_exec (Reg s) u f, Spv := (Spv s)(u := q)\<rparr>)"
  using sys_inv_upd [where s = s and u = u and f = f, OF assms] by simp

lemma sys_inv_exec: "sys_inv s \<Longrightarrow> u < length (store (Reg s)) \<Longrightarrow> exec_inv (Spv s u) (Cap s u) (store (Reg s) ! u)"
  by (simp add: sys_inv_def)

lemma sys_inv_subs [simp]: "sys_inv (s\<lparr>Subs := b\<rparr>) = sys_inv s"
  by (simp add: sys_inv_def)

text \<open>One lemma per kind of step, so that the induction is a case split.\<close>

lemma sys_inv_register:
  assumes inv: "sys_inv s" and reg: "Register (Reg s) spec pid pg = (OutcomeAccepted, None, r')"
    and "runningCount (Reg s) < 2 ^ 32 - 1" and u: "u = length (store (Reg s))"
  shows "sys_inv (s\<lparr>Reg := r', Cap := (Cap s)(u := (\<lambda>st. if st = StreamUnspecified then CapNone else CapReading)),
                   Spv := (Spv s)(u := SupWait)\<rparr>)"
proof -
  note a = Register_accepted [OF reg]
  have "reg_wf r'" using inv assms(3) reg by (auto simp: sys_inv_def intro: reg_wf_Register)
  then show ?thesis
    using inv a exec_inv_new [of spec pid pg]
    by (auto simp: sys_inv_def u nth_append less_Suc_eq)
qed

lemma sys_inv_capture:
  assumes inv: "sys_inv s" and c: "Cap s u st \<noteq> CapNone" "Cap s u st \<noteq> CapDone"
    and ent: "entry (f (store (Reg s) ! u)) = entry (store (Reg s) ! u)"
    and pres: "exec_inv (Spv s u) (Cap s u) (f (store (Reg s) ! u))"
    and q: "q \<noteq> CapNone" "q \<noteq> CapDone"
  shows "sys_inv (s\<lparr>Reg := upd_exec (Reg s) u f, Cap := cap_at (Cap s) u st q\<rparr>)"
proof (rule sys_inv_upd_cap [OF inv])
  show "u < length (store (Reg s))" by (rule sys_inv_cap [OF inv c(1)])
  show "exec_inv (Spv s u) ((Cap s u)(st := q)) (f (store (Reg s) ! u))"
    by (rule exec_inv_capture_live [OF pres c q])
qed (rule ent)

lemma sys_inv_running:
  "sys_inv s \<Longrightarrow> Cap s u st \<noteq> CapNone \<Longrightarrow> Cap s u st \<noteq> CapDone \<Longrightarrow> running (store (Reg s) ! u)"
  using exec_inv_capturing sys_inv_cap sys_inv_exec by metis

lemma sys_inv_step: "exec_step s s' \<Longrightarrow> sys_inv s \<Longrightarrow> sys_inv s'"
proof (induction rule: exec_step.induct)
  case (x_register s spec pid pg r' u)
  then show ?case by (intro sys_inv_register)
next
  case (x_read s u st data res)
  then show ?case
    using sys_inv_running [of s u st] sys_inv_cap [of s u st]
    by (intro sys_inv_capture) (auto intro!: exec_inv_captureData sys_inv_exec)
next
  case (x_readOn s u st)
  then show ?case
    using sys_inv_capture [of s u st "\<lambda>e. e" CapReading] sys_inv_exec [of s u] sys_inv_cap [of s u st]
    by (simp add: upd_exec_def)
next
  case (x_readFails s u st msg)
  then show ?case
    using sys_inv_running [of s u st] sys_inv_cap [of s u st]
    by (intro sys_inv_capture) (auto intro!: exec_inv_captureFailure sys_inv_exec)
next
  case (x_readEnds s u st res)
  then have c: "Cap s u st \<noteq> CapNone" "Cap s u st \<noteq> CapDone" by auto
  have u: "u < length (store (Reg s))" using x_readEnds.prems c(1) by (rule sys_inv_cap)
  show ?case
    using x_readEnds.prems u
      exec_inv_captureReturns [OF sys_inv_exec [OF x_readEnds.prems u] c]
    by (intro sys_inv_upd_cap) simp_all
next
  case (x_heartbeat u s now)
  then show ?case by (intro sys_inv_upd_reg) (simp_all add: exec_inv_heartbeat sys_inv_exec)
next
  case (x_report u s rep)
  then show ?case by (intro sys_inv_upd_reg) (simp_all add: exec_inv_deliver sys_inv_exec)
next
  case (x_receive s u rep e')
  then have u: "u < length (store (Reg s))" using sys_inv_sup [of s u] by simp
  then show ?case
    using x_receive exec_inv_receive [of "Cap s u" _ rep e'] sys_inv_exec [of s u]
    by (intro sys_inv_upd_sup) (auto simp: entry_receive)
next
  case (x_reap s u rep)
  then have u: "u < length (store (Reg s))" using sys_inv_sup [of s u] by simp
  then show ?case
    using x_reap exec_inv_reap [of rep "Cap s u"] sys_inv_exec [of s u]
    by (intro sys_inv_upd_sup) auto
next
  case (x_complete s u now)
  then have u: "u < length (store (Reg s))" using sys_inv_sup [of s u] by simp
  have e: "exec_inv SupDrain (Cap s u) (store (Reg s) ! u)"
    using sys_inv_exec [of s u] x_complete u by simp
  then have "running (store (Reg s) ! u)" by (simp add: exec_inv_def)
  then have "reg_wf (completeExecution (Reg s) u now)"
    using x_complete u by (intro reg_wf_complete) (auto simp: sys_inv_def)
  then show ?case
    using x_complete u exec_inv_complete [OF e]
    by (auto simp: sys_inv_def completeExecution_eq nth_list_update)
next
  case (x_expire s u)
  then have u: "u < length (store (Reg s))" using sys_inv_sup [of s u] by simp
  have e: "exec_inv SupRetain (Cap s u) (store (Reg s) ! u)"
    using sys_inv_exec [of s u] x_expire u by simp
  then have "\<not> running (store (Reg s) ! u)" by (simp add: exec_inv_def)
  then have "reg_wf (expire (Reg s) u)"
    using x_expire u by (intro reg_wf_expire) (auto simp: sys_inv_def)
  then show ?case
    using x_expire u exec_inv_retained [OF e]
    by (auto simp: sys_inv_def expire_def Let_def)
next
  case (x_cancel s i kill e r')
  show ?case
  proof (cases "r' = Reg s")
    case True
    then show ?thesis using x_cancel by simp
  next
    case False
    then obtain u where u: "map_of (executions (Reg s)) i = Some u" and r': "r' = upd_exec (Reg s) u (cancelled_update (\<lambda>_. True))"
      using x_cancel by (auto simp: Cancel_def Let_def split: option.splits if_splits)
    have lt: "u < length (store (Reg s))"
      using x_cancel.prems map_of_SomeD [OF u] by (auto simp: sys_inv_def reg_wf_def table_wf_def)
    show ?thesis unfolding r'
      using x_cancel.prems lt by (intro sys_inv_upd_reg) (simp_all add: exec_inv_cancelled sys_inv_exec)
  qed
next
  case (x_drain s d r')
  then have wf: "reg_wf r'" by (auto simp: sys_inv_def intro: reg_wf_Drain)
  from x_drain show ?case
    using wf by (auto simp: sys_inv_def Drain_def Let_def closeDrainedLocked_def split: if_splits)
qed simp_all

lemma reachable_sys_inv: "exec_reachable s \<Longrightarrow> sys_inv s"
  by (induction rule: exec_reachable.induct) (auto intro: sys_inv_init sys_inv_step)

end
