(* ===== verification/Event_Log.thy ===== *)
theory Event_Log
  imports Exec_Log
begin

text \<open>
  The interface between the guest's registry, which provides event logs, and the readers of a
  log: a subscriber in the guest and the drain on the host. A log is numbered from 1, only grows,
  and an entry changes only by losing the bytes of its chunk. The locale \<open>growing_log\<close> states this
  as its laws, and proves once what a reader with a cursor may rely on.
\<close>

definition log_extends :: "event list \<Rightarrow> event list \<Rightarrow> bool" where
  "log_extends xs ys = (length xs \<le> length ys
     \<and> (\<forall>i < length xs. ys ! i = xs ! i \<or> ys ! i = truncate_event (xs ! i)))"

text \<open>
  An original log is what was appended, whole. \<open>copy_of orig n out\<close>: \<open>out\<close> holds the events of the
  original after the first \<open>n\<close>, in order, each whole or with its bytes evicted. \<open>view_of orig evs\<close>:
  the log is such a copy of all of the original.
\<close>

definition copy_of :: "event list \<Rightarrow> nat \<Rightarrow> event list \<Rightarrow> bool" where
  "copy_of orig n out = (n + length out \<le> length orig
     \<and> (\<forall>j < length out. out ! j = orig ! (n + j) \<or> out ! j = truncate_event (orig ! (n + j))))"

definition view_of :: "event list \<Rightarrow> event list \<Rightarrow> bool" where
  "view_of orig evs = (length evs = length orig \<and> copy_of orig 0 evs)"

lemma truncate_truncate [simp]: "truncate_event (truncate_event e) = truncate_event e"
  by (cases "Payload e") (simp_all add: truncate_event_def)

lemma log_extends_refl [simp]: "log_extends xs xs"
  by (simp add: log_extends_def)

lemma log_extends_trans: "log_extends xs ys \<Longrightarrow> log_extends ys zs \<Longrightarrow> log_extends xs zs"
  unfolding log_extends_def by (metis order_less_le_trans order_trans truncate_truncate)

lemma log_extends_append: "log_extends xs (xs @ ys)"
  by (simp add: log_extends_def nth_append)

lemma capFromZero_extends: "log_extends evs (capFromZero tot evs)"
proof (induction evs arbitrary: tot)
  case Nil
  then show ?case by simp
next
  case (Cons e es)
  then show ?case by (auto simp: log_extends_def nth_Cons split: nat.splits)
qed

lemma appendEvent_extends:
  assumes "log_wf e" and "retainedLogBytes e \<le> maxRetainedLogBytes"
  shows "log_extends (events e) (events (appendEventLocked e p))"
  using log_extends_trans [OF log_extends_append capFromZero_extends]
  by (simp add: appendEvent_events [OF assms])

lemma view_nth:
  "view_of orig evs \<Longrightarrow> i < length evs \<Longrightarrow> evs ! i = orig ! i \<or> evs ! i = truncate_event (orig ! i)"
  by (simp add: view_of_def copy_of_def)

lemma copy_more: "copy_of orig n out \<Longrightarrow> copy_of (orig @ new) n out"
  by (auto simp: copy_of_def nth_append)

lemma copy_Nil [simp]: "n \<le> length orig \<Longrightarrow> copy_of orig n []"
  by (simp add: copy_of_def)

lemma copy_send:
  assumes "view_of orig evs" and "copy_of orig n out" and "n + length out < length evs"
  shows "copy_of orig n (out @ [evs ! (n + length out)])"
  using assms view_nth [OF assms(1,3)] by (auto simp: copy_of_def view_of_def nth_append less_Suc_eq)

lemma copy_take: "copy_of orig n xs \<Longrightarrow> copy_of orig n (take k xs)"
  by (auto simp: copy_of_def)

lemma view_extends:
  assumes v: "view_of orig xs" and e: "log_extends xs ys"
  shows "view_of (orig @ drop (length xs) ys) ys"
proof -
  have len: "length xs = length orig" "length xs \<le> length ys" using v e by (simp_all add: view_of_def log_extends_def)
  have "ys ! i = (orig @ drop (length xs) ys) ! i \<or> ys ! i = truncate_event ((orig @ drop (length xs) ys) ! i)"
    if i: "i < length ys" for i
  proof (cases "i < length xs")
    case True
    then have "ys ! i = xs ! i \<or> ys ! i = truncate_event (xs ! i)" using e by (simp add: log_extends_def)
    moreover have "xs ! i = orig ! i \<or> xs ! i = truncate_event (orig ! i)" by (rule view_nth [OF v True])
    ultimately show ?thesis using True len by (auto simp: nth_append)
  next
    case False
    then show ?thesis using len i by (simp add: nth_append)
  qed
  then show ?thesis using len by (simp add: view_of_def copy_of_def)
qed

text \<open>The sequence number and whether it is a terminal result are never evicted.\<close>

lemma copy_Sequence: "copy_of orig n out \<Longrightarrow> j < length out \<Longrightarrow> Sequence (out ! j) = Sequence (orig ! (n + j))"
  by (auto simp: copy_of_def dest!: spec [of _ j])

lemma copy_truncated:
  "copy_of orig n out \<Longrightarrow> j < length out \<Longrightarrow> truncated (Payload (out ! j)) = truncated (Payload (orig ! (n + j)))"
  by (metis Payload_truncate copy_of_def truncate_truncate)

lemma contiguous_view: "view_of orig evs \<Longrightarrow> contiguous evs = contiguous orig"
  using copy_Sequence [of orig 0 evs] by (auto simp: view_of_def contiguous_def)

lemma copy_numbers:
  assumes "contiguous orig" and "copy_of orig n out"
  shows "map Sequence out = map (\<lambda>j. of_nat (Suc j)) [n ..< n + length out]"
  using assms copy_Sequence [OF assms(2)]
  by (intro nth_equalityI) (auto simp: contiguous_def copy_of_def)

locale growing_log =
  fixes log :: "'s \<Rightarrow> event list" and step :: "'s \<Rightarrow> 's \<Rightarrow> bool" and ok :: "'s \<Rightarrow> bool"
  assumes numbered: "ok s \<Longrightarrow> contiguous (log s)"
    and grows: "ok s \<Longrightarrow> step s s' \<Longrightarrow> log_extends (log s) (log s')"
begin

text \<open>An original of the log grows with it, and every copy taken of it stays a copy.\<close>

lemma original_grows:
  assumes "ok s" and "step s s'" and "view_of orig (log s)"
  obtains new where "view_of (orig @ new) (log s')"
    and "\<And>n out. copy_of orig n out \<Longrightarrow> copy_of (orig @ new) n out"
  using view_extends [OF assms(3) grows [OF assms(1,2)]] copy_more by blast

lemma reads_numbered:
  assumes "ok s" and "view_of orig (log s)" and "copy_of orig n out"
  shows "map Sequence out = map (\<lambda>j. of_nat (Suc j)) [n ..< n + length out]"
  using numbered [OF assms(1)] assms(2,3) copy_numbers contiguous_view by blast

end

end
