(* ===== verification/Exec_Subs.thy ===== *)
theory Exec_Subs
  imports Exec_Table Event_Log
begin

text \<open>
  The registry provides a growing log per execution, and what its subscribers have received is a
  copy of it from their cursor on.
\<close>

section \<open>Every step extends the logs\<close>

abbreviation evs_of :: "esys \<Rightarrow> nat \<Rightarrow> event list" where
  "evs_of s u \<equiv> events (store (Reg s) ! u)"

lemma sys_inv_sound: "sys_inv s \<Longrightarrow> u < length (store (Reg s)) \<Longrightarrow> sound_log (store (Reg s) ! u)"
  using sys_inv_exec [of s u] by (simp add: exec_inv_def)

lemma append_extends: "sound_log e \<Longrightarrow> log_extends (events e) (events (appendEventLocked e p))"
  by (simp add: sound_log_def appendEvent_extends)

lemma events_frame [simp]:
  "events (captureReturns e) = events e" "events (deliverReport rep e) = events e"
  "events (reapReport rep e) = events e" "events (cancelled_update f e) = events e"
  by (simp_all add: captureReturns_def deliverReport_def reapReport_def)

lemma completed_extends:
  assumes "sound_log e"
  shows "log_extends (events e) (events (completedExecution now e))"
proof -
  let ?e1 = "e\<lparr>phase := ''completed'', running := False, completedAt := now\<rparr>"
  have s: "sound_log ?e1" using assms by simp
  show ?thesis
    using log_extends_trans [OF append_extends [OF s] append_extends [OF sound_append [OF s]]]
    by (simp add: completedExecution_def Let_def)
qed

lemma upd_extends:
  "v < length (store r) \<Longrightarrow> log_extends (events (store r ! u)) (events (f (store r ! u))) \<Longrightarrow>
     log_extends (events (store r ! v)) (events (store (upd_exec r u f) ! v))"
  by (cases "u = v") (auto simp: upd_exec_def)

lemma step_extends:
  assumes "exec_step s s'" and "sys_inv s" and "v < length (store (Reg s))"
  shows "length (store (Reg s)) \<le> length (store (Reg s')) \<and> log_extends (evs_of s v) (evs_of s' v)"
  using assms
proof (induction rule: exec_step.induct)
  case (x_register s spec pid pg r' u)
  then show ?case using Register_accepted [of "Reg s" spec pid pg None r'] by (simp add: nth_append)
next
  case (x_read s u st data res)
  then show ?case
    using sys_inv_cap [of s u st] sys_inv_sound [of s u]
    by (auto intro!: upd_extends simp: captureData_def append_extends) (simp_all add: upd_exec_def)
next
  case (x_readFails s u st msg)
  then show ?case
    using sys_inv_cap [of s u st] sys_inv_sound [of s u]
    by (auto intro!: upd_extends simp: captureFailure_def append_extends) (simp add: upd_exec_def)
next
  case (x_readEnds s u st res)
  then show ?case by (auto intro!: upd_extends) (simp_all add: upd_exec_def)
next
  case (x_heartbeat u s now)
  then show ?case
    using sys_inv_sound [of s u]
    by (auto intro!: upd_extends simp: appendHeartbeat_def append_extends) (simp_all add: upd_exec_def)
next
  case (x_report u s rep)
  then show ?case by (auto intro!: upd_extends) (simp add: upd_exec_def)
next
  case (x_receive s u rep e')
  then show ?case
    by (auto intro!: upd_extends simp: receiveReport_def split: option.splits) (simp_all add: upd_exec_def)
next
  case (x_reap s u rep)
  then show ?case by (auto intro!: upd_extends) (simp add: upd_exec_def)
next
  case (x_complete s u now)
  then show ?case
    using sys_inv_sup [of s u] sys_inv_sound [of s u] completed_extends
    by (cases "u = v") (auto simp: completeExecution_eq)
next
  case (x_expire s u)
  then show ?case by (simp add: expire_def Let_def)
next
  case (x_cancel s i kill e r')
  then show ?case
    by (auto simp: Cancel_def Let_def intro!: upd_extends split: option.splits if_splits) (simp add: upd_exec_def)
next
  case (x_drain s d r')
  then show ?case by (auto simp: Drain_def Let_def closeDrainedLocked_def split: if_splits)
qed simp_all

interpretation registry_log: growing_log "\<lambda>s. evs_of s u" exec_step "\<lambda>s. sys_inv s \<and> u < length (store (Reg s))" for u
proof unfold_locales
  fix s assume "sys_inv s \<and> u < length (store (Reg s))"
  then show "contiguous (evs_of s u)" using sys_inv_sound [of s u] by (simp add: sound_log_def log_wf_def)
next
  fix s s' assume "sys_inv s \<and> u < length (store (Reg s))" and "exec_step s s'"
  then show "log_extends (evs_of s u) (evs_of s' u)" using step_extends by blast
qed

section \<open>A completed execution's log is frozen\<close>

lemma upd_frozen:
  "v < length (store r) \<Longrightarrow> (u = v \<Longrightarrow> events (f (store r ! v)) = events (store r ! v) \<and> running (f (store r ! v)) = running (store r ! v)) \<Longrightarrow>
     events (store (upd_exec r u f) ! v) = events (store r ! v) \<and> running (store (upd_exec r u f) ! v) = running (store r ! v)"
  by (cases "u = v") (auto simp: upd_exec_def)

lemma running_frame [simp]:
  "running (captureReturns e) = running e" "running (deliverReport rep e) = running e"
  "running (reapReport rep e) = running e" "running (cancelled_update f e) = running e"
  by (simp_all add: captureReturns_def deliverReport_def reapReport_def)

lemma step_frozen:
  assumes "exec_step s s'" and "sys_inv s" and "v < length (store (Reg s))" and "\<not> running (store (Reg s) ! v)"
  shows "evs_of s' v = evs_of s v \<and> \<not> running (store (Reg s') ! v)"
  using assms
proof (induction rule: exec_step.induct)
  case (x_register s spec pid pg r' u)
  then show ?case using Register_accepted [of "Reg s" spec pid pg None r'] by (simp add: nth_append)
next
  case (x_read s u st data res)
  then have "u \<noteq> v" using sys_inv_running [of s u st] by auto
  then show ?case using x_read by (simp add: upd_exec_def)
next
  case (x_readFails s u st msg)
  then have "u \<noteq> v" using sys_inv_running [of s u st] by auto
  then show ?case using x_readFails by (simp add: upd_exec_def)
next
  case (x_readEnds s u st res)
  then show ?case using upd_frozen [of v "Reg s" u captureReturns] by simp
next
  case (x_heartbeat u s now)
  then show ?case using upd_frozen [of v "Reg s" u "\<lambda>e. appendHeartbeat e now"] by (simp add: appendHeartbeat_def)
next
  case (x_report u s rep)
  then show ?case using upd_frozen [of v "Reg s" u "deliverReport rep"] by simp
next
  case (x_receive s u rep e')
  then have "u \<noteq> v" using sys_inv_exec [of s u] sys_inv_sup [of s u] by (auto simp: exec_inv_def)
  then show ?case using x_receive by (simp add: upd_exec_def)
next
  case (x_reap s u rep)
  then show ?case using upd_frozen [of v "Reg s" u "reapReport rep"] by simp
next
  case (x_complete s u now)
  then have "u \<noteq> v" using sys_inv_exec [of s u] sys_inv_sup [of s u] by (auto simp: exec_inv_def)
  then show ?case using x_complete by (simp add: completeExecution_eq)
next
  case (x_expire s u)
  then show ?case by (simp add: expire_def Let_def)
next
  case (x_cancel s i kill e r')
  then show ?case
    using upd_frozen [of v "Reg s" _ "cancelled_update (\<lambda>_. True)"]
    by (auto simp: Cancel_def Let_def split: option.splits if_splits)
next
  case (x_drain s d r')
  then show ?case by (auto simp: Drain_def Let_def closeDrainedLocked_def split: if_splits)
qed simp_all

section \<open>Subscribers\<close>

text \<open>
  What holds of a subscriber of an execution whose original log is \<open>orig\<close>, while that is short of
  \<open>2 ^ 64\<close> events, the range of a sequence number: it has received a copy from its cursor on, its
  next number follows, and if its stream ended by itself it has received everything.
\<close>

definition sub_inv :: "esys \<Rightarrow> event list \<Rightarrow> subscriber \<Rightarrow> bool" where
  "sub_inv s orig b =
     (let n = unat (sbFrom b); out = sbOut b
      in length orig < 2 ^ 64 \<longrightarrow>
         (out \<noteq> [] \<longrightarrow> copy_of orig n out) \<and> sbNext b = sbFrom b + 1 + of_nat (length out)
         \<and> (sbEnded b \<longrightarrow> \<not> running (store (Reg s) ! sbExec b)
              \<and> (n < length orig \<longrightarrow> n + length out = length orig)))"

lemma unat_lt64: "unat (w :: 64 word) < 2 ^ 64"
  using unsigned_less [of w] by simp

lemma next_word:
  fixes w :: "64 word"
  assumes "0 < w + 1 + of_nat k" and "unat w + k < 2 ^ 64"
  shows "unat (w + 1 + of_nat k) = unat w + k + 1"
proof -
  have e: "w + 1 + of_nat k = of_nat (unat w + k + 1)" by simp
  have "unat w + k + 1 \<noteq> 2 ^ 64"
  proof
    assume "unat w + k + 1 = 2 ^ 64"
    then have "w + 1 + of_nat k = of_nat (2 ^ 64)" using e by (simp only:)
    also have "(of_nat (2 ^ 64) :: 64 word) = 0" by (simp add: word_of_nat_eq_0_iff)
    finally show False using assms(1) by (simp only: less_irrefl)
  qed
  then have "unat w + k + 1 < 2 ^ 64" using assms(2) by linarith
  then show ?thesis unfolding e by (rule unat_of_nat64)
qed

lemma le_word_nat:
  fixes w :: "64 word"
  assumes "n < 2 ^ 64"
  shows "(w \<le> of_nat n) = (unat w \<le> n)"
  using assms by (simp add: word_le_nat_alt unat_of_nat64)

text \<open>The pass that sends reads the entry after the copy; the pass that ends has nothing left.\<close>

lemma next_index:
  assumes inv: "out \<noteq> [] \<longrightarrow> copy_of evs (unat f) out" and lt: "length evs < 2 ^ 64"
    and "0 < f + 1 + of_nat (length out)"
  shows "unat (f + 1 + of_nat (length out) :: 64 word) = unat f + length out + 1"
proof (rule next_word [OF assms(3)])
  show "unat f + length out < 2 ^ 64"
  proof (cases "out = []")
    case True
    then show ?thesis using unat_lt64 [of f] by simp
  next
    case False
    then show ?thesis using inv lt by (simp add: copy_of_def)
  qed
qed

lemma copy_from: "n < length evs \<Longrightarrow> (out \<noteq> [] \<longrightarrow> copy_of evs n out) \<Longrightarrow> copy_of evs n out"
  by (cases "out = []") auto

lemma sub_inv_send:
  assumes inv: "sub_inv s orig b" and v: "view_of orig (evs_of s (sbExec b))"
    and p: "stream_pass (store (Reg s) ! sbExec b) (sbNext b) = StreamSend ev" and ne: "\<not> sbEnded b"
  shows "sub_inv s orig (b\<lparr>sbOut := sbOut b @ [ev], sbNext := sbNext b + 1\<rparr>)"
proof -
  let ?evs = "evs_of s (sbExec b)" and ?n = "unat (sbFrom b)" and ?out = "sbOut b"
  have le: "length ?evs = length orig" using v by (simp add: view_of_def)
  have "copy_of orig ?n (?out @ [ev]) \<and> sbNext b + 1 = sbFrom b + 1 + of_nat (length (?out @ [ev]))"
    if len: "length orig < 2 ^ 64"
  proof -
    have c: "?out \<noteq> [] \<longrightarrow> copy_of orig ?n ?out" and nx: "sbNext b = sbFrom b + 1 + of_nat (length ?out)"
      using inv len by (simp_all add: sub_inv_def Let_def)
    have p': "0 < sbNext b" "sbNext b \<le> of_nat (length orig)" "ev = ?evs ! (unat (sbNext b) - 1)"
      using p le by (auto simp: stream_pass_def split: if_splits)
    have u: "unat (sbNext b) = ?n + length ?out + 1"
      using next_index [OF c len] p'(1) by (simp add: nx)
    then have i: "?n + length ?out < length orig" using p'(2) le_word_nat [OF len, of "sbNext b"] by simp
    then have "copy_of orig ?n ?out" using c by (intro copy_from) simp_all
    then have "copy_of orig ?n (?out @ [?evs ! (?n + length ?out)])" using v i le by (intro copy_send) simp_all
    then show ?thesis using p'(3) u nx by simp
  qed
  then show ?thesis using ne by (simp add: sub_inv_def Let_def)
qed

lemma sub_inv_end:
  assumes inv: "sub_inv s orig b" and v: "view_of orig (evs_of s (sbExec b))"
    and p: "stream_pass (store (Reg s) ! sbExec b) (sbNext b) = StreamEnd"
  shows "sub_inv s orig (b\<lparr>sbOpen := False, sbEnded := True\<rparr>)"
proof -
  let ?n = "unat (sbFrom b)" and ?out = "sbOut b"
  have le: "length (evs_of s (sbExec b)) = length orig" using v by (simp add: view_of_def)
  have p': "\<not> (0 < sbNext b \<and> sbNext b \<le> of_nat (length orig))" "\<not> running (store (Reg s) ! sbExec b)"
    using p le by (auto simp: stream_pass_def split: if_splits)
  have "?n + length ?out = length orig" if len: "length orig < 2 ^ 64" and n: "?n < length orig"
  proof (rule ccontr)
    assume ne: "?n + length ?out \<noteq> length orig"
    have c: "?out \<noteq> [] \<longrightarrow> copy_of orig ?n ?out" and nx: "sbNext b = sbFrom b + 1 + of_nat (length ?out)"
      using inv len by (simp_all add: sub_inv_def Let_def)
    then have "?n + length ?out < length orig"
      using ne copy_from [OF n c] by (simp add: copy_of_def)
    moreover have "sbNext b = of_nat (?n + length ?out + 1)" by (simp add: nx)
    moreover from calculation have "unat (sbNext b) = ?n + length ?out + 1"
      using len by (simp only: unat_of_nat64)
    ultimately show False using p'(1) le_word_nat [OF len, of "sbNext b"] by (auto simp: word_greater_zero_iff)
  qed
  then show ?thesis using inv p'(2) by (auto simp: sub_inv_def Let_def)
qed

end
