(* ===== verification/Exec_Props.thy ===== *)
theory Exec_Props
  imports Exec_Subs
begin

text \<open>The properties of the guest's execution registry, over every interleaving of its goroutines.\<close>

section \<open>Subscribers in every reachable state\<close>

text \<open>Each execution has an original log that the log views and every subscriber copies.\<close>

definition subs_ok :: "esys \<Rightarrow> nat \<Rightarrow> event list \<Rightarrow> bool" where
  "subs_ok s u orig = (view_of orig (evs_of s u)
     \<and> (\<forall>b \<in> set (Subs s). sbExec b = u \<longrightarrow> sub_inv s orig b))"

definition subs_inv :: "esys \<Rightarrow> bool" where
  "subs_inv s = ((\<forall>u < length (store (Reg s)). \<exists>orig. subs_ok s u orig)
     \<and> (\<forall>b \<in> set (Subs s). sbExec b < length (store (Reg s)) \<and> (sbOpen b \<longrightarrow> \<not> sbEnded b)))"

lemma sub_inv_Subs [simp]: "sub_inv (s\<lparr>Subs := bs\<rparr>) orig b = sub_inv s orig b"
  by (simp add: sub_inv_def)

lemma view_frozen: "view_of (orig @ new) evs \<Longrightarrow> length evs = length orig \<Longrightarrow> new = []"
  by (simp add: view_of_def)

lemma subs_ok_step:
  assumes step: "exec_step s s'" and inv: "sys_inv s" and u: "u < length (store (Reg s))"
    and ok: "subs_ok s u orig" and same: "Subs s' = Subs s"
  shows "\<exists>orig'. subs_ok s' u orig'"
proof -
  have v: "view_of orig (evs_of s u)" using ok by (simp add: subs_ok_def)
  obtain new where v': "view_of (orig @ new) (evs_of s' u)"
    and cp: "\<And>n out. copy_of orig n out \<Longrightarrow> copy_of (orig @ new) n out"
    using registry_log.original_grows [of s u s' orig] inv u step v by blast
  have frozen: "\<not> running (store (Reg s) ! u) \<Longrightarrow> new = [] \<and> \<not> running (store (Reg s') ! u)"
    using step_frozen [OF step inv u] view_frozen [OF v'] v by (simp add: view_of_def)
  have "sub_inv s' (orig @ new) b" if b: "b \<in> set (Subs s)" "sbExec b = u" for b
    using ok b cp frozen by (auto simp: subs_ok_def sub_inv_def Let_def)
  then show ?thesis using v' same by (auto simp: subs_ok_def)
qed

lemma subs_frame: "exec_step s s' \<Longrightarrow> Subs s' = Subs s \<or> Reg s' = Reg s"
  by (induction rule: exec_step.induct) auto

lemma view_self: "view_of evs evs"
  by (simp add: view_of_def copy_of_def)

lemma store_grows:
  "exec_step s s' \<Longrightarrow> length (store (Reg s')) \<le> Suc (length (store (Reg s)))"
proof (induction rule: exec_step.induct)
  case (x_register s spec pid pg r' u)
  then show ?case using Register_accepted [of "Reg s" spec pid pg None r'] by simp
next
  case (x_cancel s i kill e r')
  then show ?case by (auto simp: Cancel_def Let_def upd_exec_def split: option.splits if_splits)
next
  case (x_drain s d r')
  then show ?case by (auto simp: Drain_def Let_def closeDrainedLocked_def split: if_splits)
qed (auto simp: upd_exec_def completeExecution_eq expire_def Let_def)

lemma store_keeps:
  "exec_step s s' \<Longrightarrow> length (store (Reg s)) \<le> length (store (Reg s'))"
proof (induction rule: exec_step.induct)
  case (x_register s spec pid pg r' u)
  then show ?case using Register_accepted [of "Reg s" spec pid pg None r'] by simp
next
  case (x_cancel s i kill e r')
  then show ?case by (auto simp: Cancel_def Let_def upd_exec_def split: option.splits if_splits)
next
  case (x_drain s d r')
  then show ?case by (auto simp: Drain_def Let_def closeDrainedLocked_def split: if_splits)
qed (auto simp: upd_exec_def completeExecution_eq expire_def Let_def)

lemma subs_inv_same:
  assumes "exec_step s s'" and "sys_inv s" and "subs_inv s" and "Subs s' = Subs s"
  shows "subs_inv s'"
proof -
  have "\<exists>orig. subs_ok s' u orig" if u: "u < length (store (Reg s'))" for u
  proof (cases "u < length (store (Reg s))")
    case True
    then show ?thesis using assms subs_ok_step [OF assms(1,2) True _ assms(4)] by (auto simp: subs_inv_def)
  next
    case False
    then have "\<forall>b \<in> set (Subs s'). sbExec b \<noteq> u" using assms(3,4) by (auto simp: subs_inv_def)
    then have "subs_ok s' u (evs_of s' u)" by (simp add: subs_ok_def view_self)
    then show ?thesis by blast
  qed
  then show ?thesis using assms(3,4) store_keeps [OF assms(1)] by (auto simp: subs_inv_def)
qed

text \<open>A step that puts one subscriber, whose invariant holds for every original that was good.\<close>

lemma subs_inv_put:
  assumes inv: "subs_inv s" and ex: "sbExec b < length (store (Reg s))" and op: "sbOpen b \<longrightarrow> \<not> sbEnded b"
    and old: "k < length (Subs s)" "sbExec (Subs s ! k) = sbExec b"
    and b: "\<And>orig. view_of orig (evs_of s (sbExec b)) \<Longrightarrow> sub_inv s orig (Subs s ! k) \<Longrightarrow> sub_inv s orig b"
  shows "subs_inv (s\<lparr>Subs := (Subs s)[k := b]\<rparr>)"
proof -
  have "\<exists>orig. subs_ok (s\<lparr>Subs := (Subs s)[k := b]\<rparr>) u orig" if u: "u < length (store (Reg s))" for u
  proof -
    obtain orig where o: "subs_ok s u orig" using inv u by (auto simp: subs_inv_def)
    have "sub_inv s orig c" if c: "c \<in> set ((Subs s)[k := b])" "sbExec c = u" for c
    proof (cases "c = b")
      case True
      then show ?thesis using b [of orig] o c old by (auto simp: subs_ok_def)
    next
      case False
      then show ?thesis using o c by (auto simp: subs_ok_def dest!: set_list_updateD)
    qed
    then show ?thesis using o by (intro exI [of _ orig]) (simp add: subs_ok_def)
  qed
  then show ?thesis using inv ex op by (auto simp: subs_inv_def dest!: set_list_updateD)
qed

lemma subs_inv_new:
  assumes inv: "subs_inv s" and sys: "sys_inv s" and sub: "Subscribe (Reg s) i = Inr u"
  shows "subs_inv (s\<lparr>Subs := Subs s @ [\<lparr>sbExec = u, sbFrom = n, sbNext = n + 1, sbOut = [], sbOpen = True, sbEnded = False\<rparr>]\<rparr>)"
proof -
  have "(i, u) \<in> set (executions (Reg s))"
    using sub by (auto simp: Subscribe_def dest: map_of_SomeD split: option.splits)
  then have "u < length (store (Reg s))" using sys by (auto simp: sys_inv_def reg_wf_def table_wf_def)
  moreover have "sub_inv s orig \<lparr>sbExec = u, sbFrom = n, sbNext = n + 1, sbOut = [], sbOpen = True, sbEnded = False\<rparr>" for orig
    by (simp add: sub_inv_def)
  ultimately show ?thesis using inv unfolding subs_inv_def subs_ok_def by simp metis
qed

lemma subs_inv_step:
  assumes "exec_step s s'" and "sys_inv s" and "subs_inv s"
  shows "subs_inv s'"
proof (cases "Subs s' = Subs s")
  case True
  then show ?thesis using assms subs_inv_same by blast
next
  case False
  from assms(1) assms(2,3) False show ?thesis
  proof (induction rule: exec_step.induct)
    case (x_subscribe s i u n)
    then show ?case using subs_inv_new by blast
  next
    case (x_send k s b ev)
    then have "b \<in> set (Subs s)" by simp
    then have b: "sbExec b < length (store (Reg s))" "\<not> sbEnded b" using x_send by (auto simp: subs_inv_def)
    show ?case
      by (rule subs_inv_put) (use x_send b in \<open>auto intro: sub_inv_send\<close>)
  next
    case (x_streamEnds k s b)
    then have "b \<in> set (Subs s)" by simp
    then have b: "sbExec b < length (store (Reg s))" using x_streamEnds by (auto simp: subs_inv_def)
    show ?case
      by (rule subs_inv_put) (use x_streamEnds b in \<open>auto intro: sub_inv_end\<close>)
  next
    case (x_unsubscribe k s b)
    then have "b \<in> set (Subs s)" by simp
    then have b: "sbExec b < length (store (Reg s))" using x_unsubscribe by (auto simp: subs_inv_def)
    show ?case
      by (rule subs_inv_put) (use x_unsubscribe b in \<open>auto simp: sub_inv_def\<close>)
  qed simp_all
qed

lemma reachable_subs_inv: "exec_reachable s \<Longrightarrow> subs_inv s"
proof (induction rule: exec_reachable.induct)
  case (xr_init ret hb)
  then show ?case by (simp add: subs_inv_def init_esys_def newRegistry_def)
next
  case (xr_step s s')
  then show ?case using subs_inv_step reachable_sys_inv by blast
qed

text \<open>Steps after a given state.\<close>

inductive exec_steps :: "esys \<Rightarrow> esys \<Rightarrow> bool" where
  xs_refl: "exec_steps s s"
| xs_step: "exec_steps s s' \<Longrightarrow> exec_step s' s'' \<Longrightarrow> exec_steps s s''"

lemma steps_sys_inv: "exec_steps s s' \<Longrightarrow> sys_inv s \<Longrightarrow> sys_inv s'"
  by (induction rule: exec_steps.induct) (auto intro: sys_inv_step)

lemma steps_trans: "exec_steps s' s'' \<Longrightarrow> exec_steps s s' \<Longrightarrow> exec_steps s s''"
  by (induction rule: exec_steps.induct) (auto intro: xs_step)

lemma draining_step: "exec_step s s' \<Longrightarrow> draining (Reg s) \<Longrightarrow> draining (Reg s') \<and> length (store (Reg s')) = length (store (Reg s))"
proof (induction rule: exec_step.induct)
  case (x_register s spec pid pg r' u)
  then show ?case using Register_accepted [of "Reg s" spec pid pg None r'] by simp
next
  case (x_cancel s i kill e r')
  then show ?case by (auto simp: Cancel_def Let_def upd_exec_def split: option.splits if_splits)
next
  case (x_drain s d r')
  then show ?case by (auto simp: Drain_def Let_def closeDrainedLocked_def split: if_splits)
qed (auto simp: upd_exec_def completeExecution_eq expire_def Let_def)

section \<open>Logs\<close>

text \<open>
  C37. The cap on retained log bytes, which the code enforces by a scan that resumes from a cursor,
  does exactly what its specification says: it appends the event and then, starting at the oldest
  event, empties chunks while the total is over four mebibytes. The cursor never hides a chunk
  that would have to be evicted.
\<close>

theorem cap_scan_is_rescan:
  assumes "sound_log e"
  shows "events (appendEventLocked e p)
      = capFromZero (log_bytes (events e @ [nextEvent e p])) (events e @ [nextEvent e p])
    \<and> sound_log (appendEventLocked e p)"
  using assms sound_append appendEvent_events by (simp add: sound_log_def)

text \<open>
  C40. An execution's log is bounded, numbered and truthful in every reachable state: its events
  carry the sequence numbers 1, 2, 3 and so on without a gap, whatever was evicted, the byte
  counter is the number of bytes retained, and that is at most four mebibytes.
\<close>

theorem log_bounded_and_numbered:
  assumes "exec_reachable s" and "u < length (store (Reg s))"
  shows "contiguous (events (store (Reg s) ! u))
    \<and> retainedLogBytes (store (Reg s) ! u) = log_bytes (events (store (Reg s) ! u))
    \<and> log_bytes (events (store (Reg s) ! u)) \<le> maxRetainedLogBytes"
  using sys_inv_sound [OF reachable_sys_inv [OF assms(1)] assms(2)]
  by (auto simp: sound_log_def log_wf_def)

text \<open>
  C39. An execution has exactly one terminal result, and it is its last event: none while it runs,
  and once it has completed the log ends in one, which no captured output follows. So a reader
  that stops at the terminal result has seen all of the output.
\<close>

theorem one_terminal_and_last:
  assumes "exec_reachable s" and "u < length (store (Reg s))"
  shows "if running (store (Reg s) ! u) then no_terminal (events (store (Reg s) ! u))
         else ends_terminal (events (store (Reg s) ! u))"
  using sys_inv_exec [OF reachable_sys_inv [OF assms(1)] assms(2)] by (simp add: exec_inv_def)

text \<open>
  What has completed stays as it is: no later step of any goroutine or caller changes the log
  of an execution that has completed, nor revives it.
\<close>

theorem completed_is_final:
  assumes "exec_steps s s'" and "exec_reachable s" and "u < length (store (Reg s))"
    and "\<not> running (store (Reg s) ! u)"
  shows "events (store (Reg s') ! u) = events (store (Reg s) ! u) \<and> \<not> running (store (Reg s') ! u)"
proof -
  have "sys_inv s" using assms(2) by (rule reachable_sys_inv)
  with assms(1,3,4) have "evs_of s' u = evs_of s u \<and> \<not> running (store (Reg s') ! u) \<and> u < length (store (Reg s')) \<and> sys_inv s'"
  proof (induction rule: exec_steps.induct)
    case (xs_refl s)
    then show ?case by simp
  next
    case (xs_step s s' s'')
    then show ?case
      using step_frozen [of s' s'' u] step_extends [of s' s'' u] sys_inv_step [of s' s''] by simp
  qed
  then show ?thesis by simp
qed

text \<open>
  C3. A subscriber receives exactly the events after its cursor: there is one original log of each
  execution, of which the retained log is the same events with old bytes evicted, and what every
  subscriber has received is the original's events after its cursor, in order, without a gap or a
  repetition, each whole or emptied. If the stream ends by itself and the cursor was inside the
  log, the last event received is the terminal result. A log of fewer than \<open>2 ^ 64\<close> events is
  assumed, beyond which sequence numbers wrap.
\<close>

theorem subscriber_receives_suffix:
  assumes "exec_reachable s" and "u < length (store (Reg s))" and "length (events (store (Reg s) ! u)) < 2 ^ 64"
  shows "\<exists>orig. view_of orig (events (store (Reg s) ! u)) \<and> (\<forall>b \<in> set (Subs s). sbExec b = u \<longrightarrow>
      map Sequence (sbOut b)
        = map (\<lambda>j. of_nat (Suc j)) [unat (sbFrom b) ..< unat (sbFrom b) + length (sbOut b)]
      \<and> (sbOut b \<noteq> [] \<longrightarrow> copy_of orig (unat (sbFrom b)) (sbOut b))
      \<and> (sbEnded b \<and> unat (sbFrom b) < length orig \<longrightarrow> sbOut b \<noteq> [] \<and> is_terminal (Payload (last (sbOut b)))))"
proof -
  let ?e = "store (Reg s) ! u"
  have inv: "sys_inv s" using assms(1) by (rule reachable_sys_inv)
  obtain orig where o: "subs_ok s u orig" using reachable_subs_inv [OF assms(1)] assms(2) by (auto simp: subs_inv_def)
  then have v: "view_of orig (events ?e)" and len: "length orig < 2 ^ 64"
    using assms(3) by (auto simp: subs_ok_def view_of_def)
  have main: "map Sequence (sbOut b) = map (\<lambda>j. of_nat (Suc j)) [unat (sbFrom b) ..< unat (sbFrom b) + length (sbOut b)]
      \<and> (sbOut b \<noteq> [] \<longrightarrow> copy_of orig (unat (sbFrom b)) (sbOut b))
      \<and> (sbEnded b \<and> unat (sbFrom b) < length orig \<longrightarrow> sbOut b \<noteq> [] \<and> is_terminal (Payload (last (sbOut b))))"
    if b: "b \<in> set (Subs s)" "sbExec b = u" for b
  proof -
    let ?n = "unat (sbFrom b)" and ?out = "sbOut b"
    have si: "sub_inv s orig b" using o b by (simp add: subs_ok_def)
    have c: "?out \<noteq> [] \<longrightarrow> copy_of orig ?n ?out" using si len by (simp add: sub_inv_def Let_def)
    have "map Sequence ?out = map (\<lambda>j. of_nat (Suc j)) [?n ..< ?n + length ?out]"
      using c registry_log.reads_numbered [of s u orig] inv assms(2) v by (cases "?out = []") auto
    moreover have "?out \<noteq> [] \<and> is_terminal (Payload (last ?out))" if e: "sbEnded b" and n: "?n < length orig"
    proof -
      have full: "?n + length ?out = length orig" and stopped: "\<not> running ?e"
        using si len e n b(2) by (simp_all add: sub_inv_def Let_def)
      then have ne: "?out \<noteq> []" using n by auto
      have ends: "ends_terminal (events ?e)" using sys_inv_exec [OF inv assms(2)] stopped by (simp add: exec_inv_def)
      then have ne': "events ?e \<noteq> []" and t: "is_terminal (Payload (events ?e ! (length (events ?e) - 1)))"
        by (auto simp: ends_terminal_def last_conv_nth)
      let ?k = "length ?out - 1"
      have k: "?k < length ?out" "?n + ?k = length orig - 1" "length (events ?e) - 1 = length orig - 1"
        using full ne v by (cases ?out; simp add: view_of_def)+
      have "truncated (Payload (events ?e ! (length (events ?e) - 1))) = truncated (Payload (orig ! (length orig - 1)))"
        using copy_truncated [of orig 0 "events ?e" "length orig - 1"] v ne'
        by (cases orig) (simp_all add: view_of_def)
      moreover have "truncated (Payload (?out ! ?k)) = truncated (Payload (orig ! (length orig - 1)))"
        using copy_truncated [OF c [rule_format, OF ne] k(1)] by (simp only: k(2))
      ultimately have "is_terminal (Payload (?out ! ?k))" using t by (metis is_terminal_truncated)
      then show ?thesis using ne by (simp add: last_conv_nth)
    qed
    ultimately show ?thesis using c by blast
  qed
  show ?thesis using v main by (intro exI [of _ orig]) blast
qed

section \<open>Slots and draining\<close>

text \<open>
  C35. One execution per slot: in every reachable state two executions that run hold different slots
  and different ids, the slot table names exactly the executions that run, and the active count
  is their number.
\<close>

theorem one_execution_per_slot:
  assumes "exec_reachable s" and "u < length (store (Reg s))" and "running (store (Reg s) ! u)"
  shows "rslots (Reg s) (eslot (store (Reg s) ! u)) = Some (eid (store (Reg s) ! u))
    \<and> map_of (executions (Reg s)) (eid (store (Reg s) ! u)) = Some u
    \<and> (\<forall>v < length (store (Reg s)). running (store (Reg s) ! v)
          \<and> eslot (store (Reg s) ! v) = eslot (store (Reg s) ! u) \<longrightarrow> v = u)
    \<and> unat (activeCount (Reg s)) = runningCount (Reg s)"
proof -
  have wf: "table_wf (Reg s)" "slots_wf (Reg s)" "count_wf (Reg s)"
    using reachable_sys_inv [OF assms(1)] by (simp_all add: sys_inv_def reg_wf_def)
  have "rslots (Reg s) (eslot (store (Reg s) ! u)) = Some (eid (store (Reg s) ! u))"
    using wf(2) assms(2,3) by (simp add: slots_wf_def)
  moreover have "map_of (executions (Reg s)) (eid (store (Reg s) ! u)) = Some u"
    using wf(1) assms(2,3) by (simp add: table_wf_def map_of_is_SomeI)
  moreover have "\<forall>v < length (store (Reg s)). running (store (Reg s) ! v)
          \<and> eslot (store (Reg s) ! v) = eslot (store (Reg s) ! u) \<longrightarrow> v = u"
    using slots_wf_unique [OF wf(1,2)] assms(2,3) by blast
  moreover have "unat (activeCount (Reg s)) = runningCount (Reg s)"
    using wf(3) by (simp add: count_wf_def unat_of_nat)
  ultimately show ?thesis by blast
qed

text \<open>
  A drain that reports done is done for good: once the drained channel is closed, nothing runs
  in any later state and no spec is ever accepted again.
\<close>

theorem drained_stays_drained:
  assumes "exec_steps s s'" and "exec_reachable s" and "drainedClosed (Reg s)"
  shows "(\<forall>u < length (store (Reg s')). \<not> running (store (Reg s') ! u))
    \<and> fst (Register (Reg s') spec pid pg) \<noteq> OutcomeAccepted"
proof -
  have inv: "sys_inv s" using assms(2) by (rule reachable_sys_inv)
  have c: "draining (Reg s)" "runningCount (Reg s) = 0"
    using inv assms(3) by (simp_all add: sys_inv_def reg_wf_def count_wf_def)
  from assms(1) inv c have "draining (Reg s') \<and> runningCount (Reg s') = 0 \<and> sys_inv s'"
  proof (induction rule: exec_steps.induct)
    case (xs_refl s)
    then show ?case by simp
  next
    case (xs_step s s' s'')
    then have i: "sys_inv s'" "draining (Reg s')" "\<forall>u < length (store (Reg s')). \<not> running (store (Reg s') ! u)"
      by (simp_all add: runningCount_zero)
    have "draining (Reg s'')" "length (store (Reg s'')) = length (store (Reg s'))"
      using draining_step [OF xs_step.hyps(2) i(2)] by simp_all
    moreover from this have "\<forall>u < length (store (Reg s'')). \<not> running (store (Reg s'') ! u)"
      using step_frozen [OF xs_step.hyps(2) i(1)] i(3) by simp
    ultimately show ?case using sys_inv_step [OF xs_step.hyps(2) i(1)] by (simp add: runningCount_zero)
  qed
  then have d: "draining (Reg s')" "\<forall>u < length (store (Reg s')). \<not> running (store (Reg s') ! u)"
    by (simp_all add: runningCount_zero)
  have "fst (Register (Reg s') spec pid pg) \<noteq> OutcomeAccepted"
    using Register_accepted [of "Reg s'" spec pid pg] d(1) by (metis prod.collapse)
  then show ?thesis using d(2) by blast
qed

section \<open>Admission\<close>

lemma admission_proceeds: "checkAdmissionLocked r spec = (outcome, proceed, e) \<Longrightarrow> proceed = (outcome = OutcomeAccepted)"
  by (auto simp: checkAdmissionLocked_def split: option.splits if_splits)

text \<open>
  Starting an execution is idempotent: after an execution was accepted, a registry that is
  not draining answers the same id and slot with \<open>ALREADY_RUNNING\<close> while it runs and with
  \<open>ALREADY_COMPLETED\<close> while its result is retained, another slot under the same id with a conflict, and a
  different id on its slot with a conflict; none of these changes the registry.
\<close>

theorem admission_is_idempotent:
  assumes "exec_reachable s" and "map_of (executions (Reg s)) i = Some u" and "\<not> draining (Reg s)"
    and "specError spec = None"
  shows "(specID spec = i \<and> specSlot spec = eslot (store (Reg s) ! u) \<longrightarrow>
       Register (Reg s) spec pid pg =
         (if running (store (Reg s) ! u) then OutcomeAlreadyRunning else OutcomeAlreadyCompleted, None, Reg s))
    \<and> (specID spec = i \<and> specSlot spec \<noteq> eslot (store (Reg s) ! u) \<longrightarrow>
         Register (Reg s) spec pid pg = (OutcomeConflict, None, Reg s))
    \<and> (map_of (executions (Reg s)) (specID spec) = None \<and> running (store (Reg s) ! u)
         \<and> specSlot spec = eslot (store (Reg s) ! u) \<longrightarrow>
       Register (Reg s) spec pid pg = (OutcomeConflict, None, Reg s))"
proof -
  have wf: "reg_wf (Reg s)" using reachable_sys_inv [OF assms(1)] by (simp add: sys_inv_def)
  have "(i, u) \<in> set (executions (Reg s))" using assms(2) by (rule map_of_SomeD)
  then have "u < length (store (Reg s))" using wf by (auto simp: reg_wf_def table_wf_def)
  then have "running (store (Reg s) ! u) \<Longrightarrow> rslots (Reg s) (eslot (store (Reg s) ! u)) \<noteq> None"
    using wf by (simp add: reg_wf_def slots_wf_def)
  then show ?thesis
    using assms(2-4) by (auto simp: Register_def checkAdmissionLocked_def lookupExecution_def)
qed

text \<open>
  \<open>Start\<close> leaks no child: the processes it forks and does not hand to the registry are exactly
  the ones it kills. It forks nothing when the admission peek refuses, and when it answers
  \<open>ACCEPTED\<close> the registry owns the one child it forked.
\<close>

theorem Start_leaks_no_child:
  assumes "Start_exec r r' spec os = (outcome, e, r'', forked, killed)"
  shows "(outcome = OutcomeAccepted \<and> e = None \<longrightarrow> length forked = 1 \<and> killed = []
            \<and> store r'' ! length (store r') = appendEventLocked (newExecution spec (hd forked) (hd forked)) (PhaseChange ''running''))
    \<and> (outcome \<noteq> OutcomeAccepted \<or> e \<noteq> None \<longrightarrow> killed = forked \<and> r'' = r')
    \<and> (\<not> fst (snd (checkAdmissionLocked r spec)) \<longrightarrow> forked = [])"
proof -
  have reg: "store r3 ! length (store r') = appendEventLocked (newExecution spec pid pid) (PhaseChange ''running'')"
    if "Register r' spec pid pid = (OutcomeAccepted, er, r3)" for pid er r3
    using Register_accepted [OF that] by simp
  have same: "r3 = r'" if "Register r' spec pid pid = (o3, er, r3)" "o3 \<noteq> OutcomeAccepted \<or> er \<noteq> None" for pid o3 er r3
    using that by (auto simp: Register_def Let_def checkAdmissionLocked_def split: option.splits prod.splits bool.splits if_splits)
  show ?thesis
    using assms unfolding Start_exec_def
    by (auto simp: Launch_def Let_def reg dest: same admission_proceeds split: option.splits prod.splits bool.splits sum.splits if_splits)
qed

text \<open>
  Cancelling an execution kills its process group at most once: after a cancel that succeeded, a
  further cancel of the same id neither fails nor reaches the kernel, whatever the kernel would
  answer.
\<close>

theorem cancel_kills_once:
  assumes "Cancel r i kill = (None, r')" and "map_of (executions r) i = Some u" and "u < length (store r)"
  shows "Cancel r' i kill' = (None, r') \<and>
    (running (store r ! u) \<and> \<not> reaped (store r ! u) \<and> \<not> cancelled (store r ! u) \<longrightarrow>
       kill (pgid (store r ! u)) = None \<and> cancelled (store r' ! u))"
  using assms by (auto simp: Cancel_def Let_def upd_exec_def split: option.splits if_splits)

section \<open>Exits\<close>

lemma deliver_twice: "deliverReport rep' (deliverReport rep e) = deliverReport rep e"
  by (simp add: deliverReport_def)

lemma executionByPID_upd:
  assumes "\<And>e. processID (f e) = processID e \<and> running (f e) = running e \<and> reaped (f e) = reaped e"
  shows "executionByPID (upd_exec r u f) pid = executionByPID r pid"
proof -
  have "processID (store (upd_exec r u f) ! v) = processID (store r ! v)
      \<and> running (store (upd_exec r u f) ! v) = running (store r ! v)
      \<and> reaped (store (upd_exec r u f) ! v) = reaped (store r ! v)" for v
    using assms by (cases "u < length (store r)"; cases "u = v") (auto simp: upd_exec_def list_update_beyond)
  moreover have "executions (upd_exec r u f) = executions r" by (simp add: upd_exec_def)
  ultimately show ?thesis by (simp add: executionByPID_def)
qed

lemma executionByPID_deliver: "executionByPID (upd_exec r u (deliverReport rep)) pid = executionByPID r pid"
  by (rule executionByPID_upd) (simp add: deliverReport_def)

text \<open>
  A duplicate exit report is a no-op: of two reports for the same pid the first alone counts, so a
  second report can neither change the exit code nor drive a second completion. A report for a
  pid no execution owns changes nothing.
\<close>

theorem duplicate_report_ignored:
  "ReportExit (ReportExit r pid code msg) pid code' msg' = ReportExit r pid code msg
   \<and> (executionByPID r pid = None \<longrightarrow> ReportExit r pid code msg = r)"
proof (cases "executionByPID r pid")
  case None
  then show ?thesis by (simp add: ReportExit_def)
next
  case (Some u)
  show ?thesis
  proof (cases "exitStale (store r ! u)")
    case True
    then show ?thesis using Some by (simp add: ReportExit_def)
  next
    case False
    let ?r = "upd_exec r u (deliverReport \<lparr>erPID = pid, erExitCode = code, erMessage = msg\<rparr>)"
    have "upd_exec ?r u (deliverReport rep) = ?r" for rep
      by (cases "u < length (store r)") (simp_all add: upd_exec_def deliver_twice list_update_beyond)
    then show ?thesis
      using Some False executionByPID_deliver by (simp add: ReportExit_def)
  qed
qed

text \<open>
  A reported exit leads to completion: from every reachable state in which a running execution's
  exit was reported and its two capture goroutines have returned, the supervisor alone completes
  it, by steps nothing can block.
\<close>

theorem reported_exit_completes:
  assumes "exec_reachable s" and "u < length (store (Reg s))" and "running (store (Reg s) ! u)"
    and "reapOnce (store (Reg s) ! u)" and "readers (store (Reg s) ! u) = 0"
  shows "\<exists>s'. exec_steps s s' \<and> \<not> running (store (Reg s') ! u) \<and> doneClosed (store (Reg s') ! u)
     \<and> rslots (Reg s') (eslot (store (Reg s) ! u)) = None"
proof -
  have drain: "\<exists>s'. exec_steps t s' \<and> \<not> running (store (Reg s') ! u) \<and> doneClosed (store (Reg s') ! u)
      \<and> rslots (Reg s') (eslot (store (Reg t) ! u)) = None"
    if "Spv t u = SupDrain" "u < length (store (Reg t))" "readers (store (Reg t) ! u) = 0" for t
  proof -
    have "exec_step t (t\<lparr>Reg := completeExecution (Reg t) u 0, Spv := (Spv t)(u := SupRetain)\<rparr>)"
      using that by (intro x_complete)
    moreover have "doneClosed (completedExecution 0 (store (Reg t) ! u))"
      by (simp add: completedExecution_def Let_def)
    ultimately show ?thesis
      using that(2) xs_step [OF xs_refl] by (fastforce simp: completeExecution_eq)
  qed
  have reap: "\<exists>s'. exec_steps t s' \<and> \<not> running (store (Reg s') ! u) \<and> doneClosed (store (Reg s') ! u)
      \<and> rslots (Reg s') (eslot (store (Reg t) ! u)) = None"
    if r: "Spv t u = SupReap rep" "u < length (store (Reg t))" "readers (store (Reg t) ! u) = 0" for t rep
  proof -
    let ?t = "t\<lparr>Reg := upd_exec (Reg t) u (reapReport rep), Spv := (Spv t)(u := SupDrain)\<rparr>"
    have st: "store (Reg ?t) ! u = reapReport rep (store (Reg t) ! u)" "u < length (store (Reg ?t))"
      using r by (simp_all add: upd_exec_def)
    have "exec_steps t ?t" using xs_step [OF xs_refl x_reap [OF r(1)]] .
    then show ?thesis
      using drain [of ?t] st r(3) steps_trans [of ?t _ t] by (auto simp: reapReport_def)
  qed
  have inv: "exec_inv (Spv s u) (Cap s u) (store (Reg s) ! u)"
    using sys_inv_exec [OF reachable_sys_inv [OF assms(1)] assms(2)] .
  show ?thesis
  proof (cases "Spv s u")
    case SupWait
    then obtain rep where chan: "exitReportChan (store (Reg s) ! u) = Some rep"
      using inv assms(4) by (auto simp: exec_inv_def)
    let ?e = "(store (Reg s) ! u)\<lparr>exitReportChan := None\<rparr>"
    let ?t = "s\<lparr>Reg := upd_exec (Reg s) u (\<lambda>_. ?e), Spv := (Spv s)(u := SupReap rep)\<rparr>"
    have "exec_step s ?t" using SupWait chan by (intro x_receive) (simp_all add: receiveReport_def)
    then have "exec_steps s ?t" using xs_step [OF xs_refl] by blast
    moreover have "store (Reg ?t) ! u = ?e" "u < length (store (Reg ?t))"
      using assms(2) by (simp_all add: upd_exec_def)
    ultimately show ?thesis using reap [of ?t rep] assms(5) steps_trans [of ?t _ s] by auto
  next
    case (SupReap rep)
    then show ?thesis using reap assms by blast
  next
    case SupDrain
    then show ?thesis using drain assms by blast
  qed (use inv assms(3) in \<open>auto simp: exec_inv_def\<close>)
qed

end
