(* ===== verification/Guest_Agent.thy ===== *)
theory Guest_Agent
  imports Runner_Props Exec_Props
begin

text \<open>
  The guest-agent service of \<open>internal/guestagent\<close> (\<open>guestagent.go\<close>, \<open>convert.go\<close>): its handlers over the
  registry, the conversion of events, states and errors to the wire, and the lock per slot that
  serialises admission, provisioning and start. The messages of \<open>guestproto\<close> are generated; the
  records below hold the fields the handlers fill.
\<close>

section \<open>Conversions\<close>

datatype pb_outcome = PB_UNSPECIFIED | PB_ACCEPTED | PB_ALREADY_RUNNING | PB_ALREADY_COMPLETED | PB_CONFLICT
  | PB_other int

datatype connect_code = CodeNotFound | CodeUnavailable | CodeCanceled | CodeDeadlineExceeded | CodeInternal

datatype rpc_error = RpcError connect_code err

datatype pb_event =
    EvPhase string
  | EvLog Stream string
  | EvHeartbeat int
  | EvResult "32 word" string

record jobStatusEvent =
  jsSequence :: "64 word"
  jsEvent :: pb_event

fun outcomeToProto :: "Outcome \<Rightarrow> pb_outcome" where
  "outcomeToProto OutcomeAccepted = PB_ACCEPTED"
| "outcomeToProto OutcomeAlreadyRunning = PB_ALREADY_RUNNING"
| "outcomeToProto OutcomeAlreadyCompleted = PB_ALREADY_COMPLETED"
| "outcomeToProto OutcomeConflict = PB_CONFLICT"
| "outcomeToProto OutcomeUnspecified = PB_UNSPECIFIED"

definition eventToProto :: "event \<Rightarrow> jobStatusEvent \<times> bool" where
  "eventToProto ev =
     (case Payload ev of
        PhaseChange p \<Rightarrow> (\<lparr>jsSequence = Sequence ev, jsEvent = EvPhase p\<rparr>, False)
      | LogChunk st d \<Rightarrow> (\<lparr>jsSequence = Sequence ev, jsEvent = EvLog st d\<rparr>, False)
      | Heartbeat t \<Rightarrow> (\<lparr>jsSequence = Sequence ev, jsEvent = EvHeartbeat t\<rparr>, False)
      | TerminalResult c m \<Rightarrow> (\<lparr>jsSequence = Sequence ev, jsEvent = EvResult c m\<rparr>, True))"

definition mapRegistryError :: "err \<Rightarrow> rpc_error" where
  "mapRegistryError e =
     (if errors_Is e ErrExecutionNotFound then RpcError CodeNotFound e
      else if errors_Is e ErrDraining then RpcError CodeUnavailable e
      else if errors_Is e ContextCanceled then RpcError CodeCanceled e
      else if errors_Is e DeadlineExceeded then RpcError CodeDeadlineExceeded e
      else RpcError CodeInternal e)"

text \<open>\<open>copyEnvironment\<close> and \<open>protoMetaToExec\<close>: an absent map or message is the empty one.\<close>

definition copyEnvironment :: "(string \<times> string) list option \<Rightarrow> (string \<times> string) list" where
  "copyEnvironment e = (case e of None \<Rightarrow> [] | Some m \<Rightarrow> m)"

definition emptyMeta :: jobMeta where
  "emptyMeta = \<lparr>jmRepo = [], jmJobID = 0, jmRunID = 0, jmRunnerName = []\<rparr>"

definition protoMetaToExec :: "jobMeta option \<Rightarrow> jobMeta" where
  "protoMetaToExec m = (case m of None \<Rightarrow> emptyMeta | Some x \<Rightarrow> x)"

record runJobRequest =
  rqExecutionID :: string
  rqSlot :: "32 word"
  rqJitConfig :: string
  rqEnv :: "(string \<times> string) list option"
  rqMeta :: "jobMeta option"

definition jobRequestOf :: "runJobRequest \<Rightarrow> jobRequest" where
  "jobRequestOf rq = \<lparr>jrExecutionID = rqExecutionID rq, jrSlot = rqSlot rq, jrMeta = protoMetaToExec (rqMeta rq),
     jrJitConfig = rqJitConfig rq, jrEnv = copyEnvironment (rqEnv rq)\<rparr>"

section \<open>The handler\<close>

record handler =
  hSlotCount :: "32 word"
  hBootID :: string
  hAgentBuild :: string
  hGoldenFingerprint :: string

definition newHandler :: "handler \<Rightarrow> string \<Rightarrow> string \<Rightarrow> handler" where
  "newHandler opts processBootID version =
     opts\<lparr>hSlotCount := (if hSlotCount opts = 0 then 1 else hSlotCount opts),
          hBootID := (if hBootID opts = [] then processBootID else hBootID opts),
          hAgentBuild := (let b = (if hAgentBuild opts = [] then version else hAgentBuild opts)
                          in if b = [] then ''dev'' else b)\<rparr>"

record slotInfo =
  siIndex :: "32 word"
  siBusy :: bool
  siExecutionID :: string

text \<open>\<open>activeBySlot\<close>: a later running execution of the listing overwrites an earlier one on its slot.\<close>

definition activeBySlot :: "executionState list \<Rightarrow> 32 word \<rightharpoonup> string" where
  "activeBySlot states = foldl (\<lambda>m st. if xsRunning st then m(xsSlot st \<mapsto> xsID st) else m) Map.empty states"

definition slotInfos :: "handler \<Rightarrow> registry \<Rightarrow> slotInfo list" where
  "slotInfos h r =
     map (\<lambda>k. let slot = of_nat k; active = activeBySlot (List_exec r) slot
              in \<lparr>siIndex = slot, siBusy = (active \<noteq> None),
                  siExecutionID = (case active of None \<Rightarrow> [] | Some i \<Rightarrow> i)\<rparr>)
       [0 ..< unat (hSlotCount h)]"

record helloResponse =
  hrBootID :: string
  hrAgentBuild :: string
  hrProtocolMajor :: "32 word"
  hrCapabilities :: "string list"
  hrSlots :: "slotInfo list"
  hrGoldenFingerprint :: string

definition Hello :: "handler \<Rightarrow> registry \<Rightarrow> helloResponse" where
  "Hello h r = \<lparr>hrBootID = hBootID h, hrAgentBuild = hAgentBuild h, hrProtocolMajor = 1,
     hrCapabilities = [''run-job'', ''reattach'', ''drain'', ''cancel-job''],
     hrSlots = slotInfos h r, hrGoldenFingerprint = hGoldenFingerprint h\<rparr>"

definition admissionSpec :: "jobRequest \<Rightarrow> execSpec" where
  "admissionSpec jr = \<lparr>specID = jrExecutionID jr, specSlot = jrSlot jr, specMeta = emptyMeta, Command = [],
     Args = [], Env = [], WorkingDir = []\<rparr>"

text \<open>
  \<open>RunJob\<close> under the slot's lock: \<open>r0\<close> is the registry at the admission check, \<open>r1\<close> and \<open>r2\<close> are the
  registries at the two lock points of \<open>Start\<close>, \<open>built\<close> is what the spec builder returns, asked only
  when the job is admitted. The flag says whether it was asked.
\<close>

definition RunJob ::
  "registry \<Rightarrow> registry \<Rightarrow> registry \<Rightarrow> jobRequest \<Rightarrow> err + execSpec \<Rightarrow> err + int
   \<Rightarrow> (rpc_error + pb_outcome) \<times> registry \<times> bool" where
  "RunJob r0 r1 r2 jr built os =
     (case CheckAdmission r0 (admissionSpec jr) of
        (_, Some e) \<Rightarrow> (Inl (mapRegistryError e), r2, False)
      | (admission, None) \<Rightarrow>
          if admission \<noteq> OutcomeAccepted then (Inr (outcomeToProto admission), r2, False)
          else
            (case built of
               Inl e \<Rightarrow> (Inl (RpcError CodeInternal e), r2, True)
             | Inr spec \<Rightarrow>
                 (case Start_exec r1 r2 spec os of
                    (_, Some e, r3, _, _) \<Rightarrow> (Inl (mapRegistryError e), r3, True)
                  | (outcome, None, r3, _, _) \<Rightarrow> (Inr (outcomeToProto outcome), r3, True))))"

text \<open>\<open>JobStatus\<close> sends what the subscription delivers, up to and including the terminal result.\<close>

fun JobStatus_send :: "event list \<Rightarrow> jobStatusEvent list" where
  "JobStatus_send [] = []"
| "JobStatus_send (ev # evs) =
     (let (pe, terminal) = eventToProto ev in if terminal then [pe] else pe # JobStatus_send evs)"

definition Reattach :: "registry \<Rightarrow> executionState list" where
  "Reattach r = List_exec r"

definition Drain_rpc :: "registry \<Rightarrow> drainState \<times> registry" where
  "Drain_rpc r = Drain r"

definition CancelJob :: "registry \<Rightarrow> string \<Rightarrow> (int \<Rightarrow> err option) \<Rightarrow> rpc_error option \<times> registry" where
  "CancelJob r i kill = (let (e, r') = Cancel r i kill in (map_option mapRegistryError e, r'))"

section \<open>What Hello reports\<close>

lemma activeBySlot_snoc: "activeBySlot (sts @ [st]) = (if xsRunning st then (activeBySlot sts)(xsSlot st \<mapsto> xsID st) else activeBySlot sts)"
  by (simp add: activeBySlot_def)

lemma activeBySlot_None: "activeBySlot sts sl = None \<longleftrightarrow> (\<forall>st \<in> set sts. xsRunning st \<longrightarrow> xsSlot st \<noteq> sl)"
  by (induction sts rule: rev_induct) (auto simp: activeBySlot_snoc activeBySlot_def)

lemma activeBySlot_Some: "activeBySlot sts sl = Some i \<Longrightarrow> \<exists>st \<in> set sts. xsRunning st \<and> xsSlot st = sl \<and> xsID st = i"
  by (induction sts rule: rev_induct) (auto simp: activeBySlot_snoc activeBySlot_def split: if_splits)

lemma set_List_exec: "set (List_exec r) = (\<lambda>(_, u). executionStateOf (store r ! u)) ` set (executions r)"
  by (simp add: List_exec_def image_image case_prod_unfold)

lemma activeBySlot_slots:
  assumes "reg_wf r"
  shows "activeBySlot (List_exec r) = rslots r"
proof
  fix sl
  have t: "table_wf r" and s: "slots_wf r" using assms by (simp_all add: reg_wf_def)
  show "activeBySlot (List_exec r) sl = rslots r sl"
  proof (cases "activeBySlot (List_exec r) sl")
    case (Some i)
    then obtain j u where u: "(j, u) \<in> set (executions r)" "running (store r ! u)" "eslot (store r ! u) = sl" "eid (store r ! u) = i"
      using activeBySlot_Some by (fastforce simp: set_List_exec executionStateOf_def)
    then have "u < length (store r)" using t by (auto simp: table_wf_def)
    then show ?thesis using u s Some by (auto simp: slots_wf_def)
  next
    case None
    have "rslots r sl = None"
    proof (rule ccontr)
      assume "rslots r sl \<noteq> None"
      then obtain u where u: "u < length (store r)" "running (store r ! u)" "eslot (store r ! u) = sl"
        using s unfolding slots_wf_def by blast
      then have "(eid (store r ! u), u) \<in> set (executions r)" using t by (simp add: table_wf_def)
      then have "executionStateOf (store r ! u) \<in> set (List_exec r)" by (force simp: set_List_exec)
      then show False using None u by (auto simp: activeBySlot_None executionStateOf_def)
    qed
    then show ?thesis using None by simp
  qed
qed

lemma slots_busy:
  assumes "slots_wf r"
  shows "rslots r sl \<noteq> None \<longleftrightarrow> (\<exists>u < length (store r). running (store r ! u) \<and> eslot (store r ! u) = sl)"
proof
  assume "rslots r sl \<noteq> None"
  then obtain i where "rslots r sl = Some i" by auto
  then show "\<exists>u < length (store r). running (store r ! u) \<and> eslot (store r ! u) = sl"
    using assms unfolding slots_wf_def by fast
next
  assume "\<exists>u < length (store r). running (store r ! u) \<and> eslot (store r ! u) = sl"
  then show "rslots r sl \<noteq> None" using assms by (auto simp: slots_wf_def)
qed

section \<open>The lock per slot\<close>

datatype rpc_pc =
    RIdle
  | RWant jobRequest
  | RHeld jobRequest
  | RBuild jobRequest
  | RStart jobRequest execSpec
  | RDone

record asys =
  AE :: esys
  slotLocks :: "32 word \<Rightarrow> nat option"
  AR :: "nat \<Rightarrow> rpc_pc"

definition init_asys :: "duration \<Rightarrow> duration \<Rightarrow> asys" where
  "init_asys ret hb = \<lparr>AE = init_esys ret hb, slotLocks = (\<lambda>_. None), AR = (\<lambda>_. RIdle)\<rparr>"

text \<open>
  Steps of the RPC goroutines. A built spec carries the request's id and slot
  (\<open>spec_is_the_jobs\<close>). \<open>a_exec\<close> is any step of the registry that registers nothing: only \<open>RunJob\<close>
  registers.
\<close>

inductive agent_step :: "asys \<Rightarrow> asys \<Rightarrow> bool" where
  a_arrive: "AR s n = RIdle \<Longrightarrow> agent_step s (s\<lparr>AR := (AR s)(n := RWant jr)\<rparr>)"
| a_lock: "AR s n = RWant jr \<Longrightarrow> slotLocks s (jrSlot jr) = None \<Longrightarrow>
     agent_step s (s\<lparr>AR := (AR s)(n := RHeld jr), slotLocks := (slotLocks s)(jrSlot jr := Some n)\<rparr>)"
| a_refuse: "AR s n = RHeld jr \<Longrightarrow> CheckAdmission (Reg (AE s)) (admissionSpec jr) \<noteq> (OutcomeAccepted, None) \<Longrightarrow>
     agent_step s (s\<lparr>AR := (AR s)(n := RDone), slotLocks := (slotLocks s)(jrSlot jr := None)\<rparr>)"
| a_admit: "AR s n = RHeld jr \<Longrightarrow> CheckAdmission (Reg (AE s)) (admissionSpec jr) = (OutcomeAccepted, None) \<Longrightarrow>
     agent_step s (s\<lparr>AR := (AR s)(n := RBuild jr)\<rparr>)"
| a_buildFails: "AR s n = RBuild jr \<Longrightarrow>
     agent_step s (s\<lparr>AR := (AR s)(n := RDone), slotLocks := (slotLocks s)(jrSlot jr := None)\<rparr>)"
| a_built: "AR s n = RBuild jr \<Longrightarrow> specSlot spec = jrSlot jr \<Longrightarrow> specID spec = jrExecutionID jr \<Longrightarrow>
     agent_step s (s\<lparr>AR := (AR s)(n := RStart jr spec)\<rparr>)"
| a_started: "AR s n = RStart jr spec \<Longrightarrow> exec_step (AE s) e' \<Longrightarrow>
     Register (Reg (AE s)) spec pid pg = (OutcomeAccepted, None, Reg e') \<Longrightarrow>
     agent_step s (s\<lparr>AE := e', AR := (AR s)(n := RDone), slotLocks := (slotLocks s)(jrSlot jr := None)\<rparr>)"
| a_notStarted: "AR s n = RStart jr spec \<Longrightarrow>
     agent_step s (s\<lparr>AR := (AR s)(n := RDone), slotLocks := (slotLocks s)(jrSlot jr := None)\<rparr>)"
| a_exec: "exec_step (AE s) e' \<Longrightarrow> length (store (Reg e')) = length (store (Reg (AE s))) \<Longrightarrow>
     agent_step s (s\<lparr>AE := e'\<rparr>)"

inductive agent_reachable :: "asys \<Rightarrow> bool" where
  ar_init: "agent_reachable (init_asys ret hb)"
| ar_step: "agent_reachable s \<Longrightarrow> agent_step s s' \<Longrightarrow> agent_reachable s'"

fun holding :: "rpc_pc \<Rightarrow> 32 word option" where
  "holding (RHeld jr) = Some (jrSlot jr)"
| "holding (RBuild jr) = Some (jrSlot jr)"
| "holding (RStart jr spec) = Some (jrSlot jr)"
| "holding _ = None"

fun preparing :: "rpc_pc \<Rightarrow> 32 word option" where
  "preparing (RBuild jr) = Some (jrSlot jr)"
| "preparing (RStart jr spec) = (if specSlot spec = jrSlot jr then Some (jrSlot jr) else None)"
| "preparing _ = None"

definition agent_inv :: "asys \<Rightarrow> bool" where
  "agent_inv s = (sys_inv (AE s)
     \<and> (\<forall>n sl. holding (AR s n) = Some sl \<longrightarrow> slotLocks s sl = Some n)
     \<and> (\<forall>n sl. preparing (AR s n) = Some sl \<longrightarrow> rslots (Reg (AE s)) sl = None)
     \<and> (\<forall>n jr spec. AR s n = RStart jr spec \<longrightarrow> specSlot spec = jrSlot jr))"

lemma preparing_holding: "preparing q = Some sl \<Longrightarrow> holding q = Some sl"
  by (cases q) (auto split: if_splits)

text \<open>A step that registers nothing never takes a slot.\<close>

lemma exec_step_frees:
  "exec_step e e' \<Longrightarrow> length (store (Reg e')) = length (store (Reg e)) \<Longrightarrow> rslots (Reg e) sl = None \<Longrightarrow> rslots (Reg e') sl = None"
proof (induction rule: exec_step.induct)
  case (x_register s spec pid pg r' u)
  then show ?case using Register_accepted [of "Reg s" spec pid pg None r'] by simp
next
  case (x_cancel s i kill e r')
  then show ?case by (auto simp: Cancel_def Let_def upd_exec_def split: option.splits if_splits)
next
  case (x_drain s d r')
  then show ?case by (auto simp: Drain_def Let_def closeDrainedLocked_def split: if_splits)
qed (auto simp: upd_exec_def completeExecution_eq expire_def Let_def)

lemma admitted_slot_free:
  "CheckAdmission r (admissionSpec jr) = (OutcomeAccepted, None) \<Longrightarrow> rslots r (jrSlot jr) = None"
  by (auto simp: CheckAdmission_def checkAdmissionLocked_def admissionSpec_def split: if_splits option.splits)

lemma agent_inv_release:
  assumes inv: "agent_inv s" and h: "holding (AR s n) = Some sl"
  shows "agent_inv (s\<lparr>AR := (AR s)(n := RDone), slotLocks := (slotLocks s)(sl := None)\<rparr>)"
proof -
  have lock: "slotLocks s sl = Some n" using inv h by (simp add: agent_inv_def)
  have other: "sl' \<noteq> sl" if "m \<noteq> n" "holding (AR s m) = Some sl'" for m sl'
  proof -
    have "slotLocks s sl' = Some m" using inv that(2) by (simp add: agent_inv_def)
    then show ?thesis using lock that(1) by auto
  qed
  show ?thesis using inv other by (auto simp: agent_inv_def)
qed

lemma agent_inv_step: "agent_step s s' \<Longrightarrow> agent_inv s \<Longrightarrow> agent_inv s'"
proof (induction rule: agent_step.induct)
  case (a_lock s n jr)
  then show ?case by (auto simp: agent_inv_def split: if_splits)
next
  case (a_admit s n jr)
  then show ?case using admitted_slot_free by (auto simp: agent_inv_def)
next
  case (a_started s n jr spec e' pid pg)
  have inv: "sys_inv e'" using a_started sys_inv_step by (auto simp: agent_inv_def)
  have slot: "specSlot spec = jrSlot jr" and mine: "slotLocks s (jrSlot jr) = Some n"
    using a_started by (auto simp: agent_inv_def)
  have sl: "rslots (Reg e') = (rslots (Reg (AE s)))(jrSlot jr \<mapsto> specID spec)"
    using Register_accepted [OF a_started.hyps(3)] slot by simp
  have "sl \<noteq> jrSlot jr" if "m \<noteq> n" "holding (AR s m) = Some sl" for m sl
    using that mine a_started.prems by (auto simp: agent_inv_def)
  then have "sl \<noteq> jrSlot jr" if "m \<noteq> n" "preparing (AR s m) = Some sl" for m sl
    using that preparing_holding by blast
  then show ?case
    using a_started.prems inv sl \<open>\<And>sl m. m \<noteq> n \<Longrightarrow> holding (AR s m) = Some sl \<Longrightarrow> sl \<noteq> jrSlot jr\<close>
    by (auto simp: agent_inv_def)
next
  case (a_exec s e')
  then show ?case using sys_inv_step exec_step_frees by (auto simp: agent_inv_def)
next
  case (a_refuse s n jr)
  then show ?case by (intro agent_inv_release) simp_all
next
  case (a_buildFails s n jr)
  then show ?case by (intro agent_inv_release) simp_all
next
  case (a_notStarted s n jr spec)
  then show ?case by (intro agent_inv_release) simp_all
next
  case (a_built s n jr spec)
  then have "preparing (AR s n) = Some (jrSlot jr)" "holding (AR s n) = Some (jrSlot jr)" by simp_all
  then have "slotLocks s (jrSlot jr) = Some n" "rslots (Reg (AE s)) (jrSlot jr) = None"
    using a_built.prems unfolding agent_inv_def by blast+
  then show ?case using a_built by (simp add: agent_inv_def)
qed (auto simp: agent_inv_def)

lemma reachable_agent_inv: "agent_reachable s \<Longrightarrow> agent_inv s"
proof (induction rule: agent_reachable.induct)
  case (ar_init ret hb)
  then show ?case by (simp add: agent_inv_def init_asys_def sys_inv_init)
next
  case (ar_step s s')
  then show ?case by (simp add: agent_inv_step)
qed

section \<open>Properties\<close>

text \<open>
  C36. Provisioning never hits a running job: in every reachable state in which a RunJob call is
  building a slot, the slot has no running execution, no other call builds or starts on it, and
  none can before this call has released the slot's lock.
\<close>

theorem building_slot_is_free:
  assumes "agent_reachable s" and "AR s n = RBuild jr"
  shows "(\<forall>u < length (store (Reg (AE s))). running (store (Reg (AE s)) ! u) \<longrightarrow> eslot (store (Reg (AE s)) ! u) \<noteq> jrSlot jr)
    \<and> (\<forall>m. m \<noteq> n \<longrightarrow> holding (AR s m) \<noteq> Some (jrSlot jr))"
proof -
  have inv: "agent_inv s" using assms(1) by (rule reachable_agent_inv)
  have free: "rslots (Reg (AE s)) (jrSlot jr) = None" and lock: "slotLocks s (jrSlot jr) = Some n"
  proof -
    have "preparing (AR s n) = Some (jrSlot jr)" "holding (AR s n) = Some (jrSlot jr)"
      using assms(2) by simp_all
    then show "rslots (Reg (AE s)) (jrSlot jr) = None" "slotLocks s (jrSlot jr) = Some n"
      using inv unfolding agent_inv_def by blast+
  qed
  have "slots_wf (Reg (AE s))" using inv by (simp add: agent_inv_def sys_inv_def reg_wf_def)
  then have "eslot (store (Reg (AE s)) ! u) \<noteq> jrSlot jr"
    if "u < length (store (Reg (AE s)))" "running (store (Reg (AE s)) ! u)" for u
    using that free by (auto simp: slots_wf_def)
  moreover have "holding (AR s m) \<noteq> Some (jrSlot jr)" if "m \<noteq> n" for m
    using inv lock that by (auto simp: agent_inv_def)
  ultimately show ?thesis by blast
qed

text \<open>
  \<open>Hello\<close> tells the truth about every slot: in a reachable registry, slot \<open>k\<close> of the report is busy
  exactly when an execution runs on it, and it carries that execution's id.
\<close>

theorem Hello_reports_slots:
  assumes "exec_reachable e" and "k < unat (hSlotCount h)"
  shows "hrSlots (Hello h (Reg e)) ! k =
    \<lparr>siIndex = of_nat k, siBusy = (rslots (Reg e) (of_nat k) \<noteq> None),
     siExecutionID = (case rslots (Reg e) (of_nat k) of None \<Rightarrow> [] | Some i \<Rightarrow> i)\<rparr>
    \<and> (rslots (Reg e) (of_nat k) \<noteq> None \<longleftrightarrow>
        (\<exists>u < length (store (Reg e)). running (store (Reg e) ! u) \<and> eslot (store (Reg e) ! u) = of_nat k))"
proof -
  have wf: "reg_wf (Reg e)" using reachable_sys_inv [OF assms(1)] by (simp add: sys_inv_def)
  then have "slots_wf (Reg e)" by (simp add: reg_wf_def)
  then have "rslots (Reg e) (of_nat k) \<noteq> None \<longleftrightarrow>
        (\<exists>u < length (store (Reg e)). running (store (Reg e) ! u) \<and> eslot (store (Reg e) ! u) = of_nat k)"
    by (rule slots_busy)
  moreover have "hrSlots (Hello h (Reg e)) ! k =
    \<lparr>siIndex = of_nat k, siBusy = (rslots (Reg e) (of_nat k) \<noteq> None),
     siExecutionID = (case rslots (Reg e) (of_nat k) of None \<Rightarrow> [] | Some i \<Rightarrow> i)\<rparr>"
    using assms(2)
    by (simp only: Hello_def slotInfos_def Let_def activeBySlot_slots [OF wf] nth_map_upt add_0 diff_zero helloResponse.simps)
  ultimately show ?thesis by (intro conjI)
qed

end
