(* ===== verification/Exec_Demo.thy ===== *)
theory Exec_Demo
  imports Exec_Props
begin

text \<open>
  A concrete run of the registry: one execution that prints nothing, exits with code 3, completes, and is
  read by a subscriber; then the registry drains. It shows that the hypotheses of the
  properties of \<open>Exec_Props\<close> are met by runs of the program.
\<close>

declare One_nat_def [simp del]

definition dx_spec :: execSpec where
  "dx_spec = \<lparr>specID = ''o/r#8#7'', specSlot = 0, specMeta = \<lparr>jmRepo = ''o/r'', jmJobID = 7, jmRunID = 8, jmRunnerName = ''p-1''\<rparr>,
     Command = ''/run.sh'', Args = [], Env = [], WorkingDir = ''/''\<rparr>"

definition dx_report :: exitReport where
  "dx_report = \<lparr>erPID = 42, erExitCode = 3, erMessage = ''exit status 3''\<rparr>"

definition dx_running :: "bool \<Rightarrow> exitReport option \<Rightarrow> bool \<Rightarrow> nat \<Rightarrow> execution" where
  "dx_running rp chan once n = \<lparr>eid = ''o/r#8#7'', eslot = 0, emeta = specMeta dx_spec, processID = 42, pgid = 42,
     phase = ''running'', running = True, reaped = rp, cancelled = False,
     events = [\<lparr>Sequence = 1, Payload = PhaseChange ''running''\<rparr>], retainedLogBytes = 0, logCapCursor = 0,
     completedAt = time_zero, exitReported = rp, exitCode = (if rp then 3 else 0),
     exitMsg = (if rp then ''exit status 3'' else []), notified = 1, doneClosed = False,
     exitReportChan = chan, reapOnce = once, readers = n\<rparr>"

definition dx_events :: "event list" where
  "dx_events = [\<lparr>Sequence = 1, Payload = PhaseChange ''running''\<rparr>, \<lparr>Sequence = 2, Payload = PhaseChange ''completed''\<rparr>,
     \<lparr>Sequence = 3, Payload = TerminalResult 3 ''exit status 3''\<rparr>]"

definition dx_done :: execution where
  "dx_done = (dx_running True None True 0)\<lparr>phase := ''completed'', running := False, completedAt := 9,
     events := dx_events, notified := 3, doneClosed := True\<rparr>"

definition dx_reg :: "execution \<Rightarrow> bool \<Rightarrow> registry" where
  "dx_reg e act = \<lparr>store = [e], executions = [(''o/r#8#7'', 0)],
     rslots = (if act then [0 \<mapsto> ''o/r#8#7''] else Map.empty),
     retention = defaultRetention, heartbeatInterval = defaultHeartbeatInterval, draining = False,
     activeCount = (if act then 1 else 0), drainedClosed = False\<rparr>"

definition dx_sys :: "registry \<Rightarrow> cap_pc \<Rightarrow> cap_pc \<Rightarrow> sup_pc \<Rightarrow> subscriber list \<Rightarrow> esys" where
  "dx_sys r c1 c2 q bs = \<lparr>Reg = r,
     Cap = (\<lambda>u st. if u = 0 then (case st of StreamUnspecified \<Rightarrow> CapNone | StreamStdout \<Rightarrow> c1 | StreamStderr \<Rightarrow> c2) else CapNone),
     Spv = (\<lambda>u. if u = 0 then q else SupNone), Subs = bs\<rparr>"

lemma dx_sys_fields [simp]:
  "Reg (dx_sys r c1 c2 q bs) = r" "Cap (dx_sys r c1 c2 q bs) 0 StreamStdout = c1"
  "Cap (dx_sys r c1 c2 q bs) 0 StreamStderr = c2" "Spv (dx_sys r c1 c2 q bs) 0 = q"
  "Subs (dx_sys r c1 c2 q bs) = bs"
  by (simp_all add: dx_sys_def)

lemma dx_sys_update:
  "dx_sys r c1 c2 q bs\<lparr>Reg := r'\<rparr> = dx_sys r' c1 c2 q bs"
  "dx_sys r c1 c2 q bs\<lparr>Cap := cap_at (Cap (dx_sys r0 c1 c2 q0 bs0)) 0 StreamStdout c\<rparr> = dx_sys r c c2 q bs"
  "dx_sys r c1 c2 q bs\<lparr>Cap := cap_at (Cap (dx_sys r0 c1 c2 q0 bs0)) 0 StreamStderr c\<rparr> = dx_sys r c1 c q bs"
  "dx_sys r c1 c2 q bs\<lparr>Spv := (Spv (dx_sys r0 d1 d2 q bs0))(0 := q')\<rparr> = dx_sys r c1 c2 q' bs"
  "dx_sys r c1 c2 q bs\<lparr>Subs := bs'\<rparr> = dx_sys r c1 c2 q bs'"
  by (auto simp: dx_sys_def fun_eq_iff split: Stream.splits)

lemma dx_upd [simp]: "upd_exec (dx_reg e act) 0 f = dx_reg (f e) act"
  by (simp add: upd_exec_def dx_reg_def)

lemma dx_reg_fields [simp]: "store (dx_reg e act) = [e]" "map_of (executions (dx_reg e act)) ''o/r#8#7'' = Some 0"
  "draining (dx_reg e act) = False"
  by (simp_all add: dx_reg_def)

section \<open>The run\<close>

lemma dx_registered: "exec_reachable (dx_sys (dx_reg (dx_running False None False 2) True) CapReading CapReading SupWait [])"
proof -
  let ?s = "init_esys 0 0"
  have reg: "Register (Reg ?s) dx_spec 42 42 = (OutcomeAccepted, None, dx_reg (dx_running False None False 2) True)"
    by (simp add: Register_def specError_def dx_spec_def filepath_IsAbs_def HasPrefix_def checkAdmissionLocked_def
        init_esys_def newRegistry_def lookupExecution_def appendEventLocked_def newExecution_def is_chunk_def
        dx_reg_def dx_running_def time_zero_def Let_def One_nat_def)
  have "exec_step ?s (?s\<lparr>Reg := dx_reg (dx_running False None False 2) True,
      Cap := (Cap ?s)(0 := (\<lambda>st. if st = StreamUnspecified then CapNone else CapReading)), Spv := (Spv ?s)(0 := SupWait)\<rparr>)"
    by (rule x_register [OF reg]) (simp_all add: runningCount_def init_esys_def newRegistry_def)
  also have "?s\<lparr>Reg := dx_reg (dx_running False None False 2) True,
      Cap := (Cap ?s)(0 := (\<lambda>st. if st = StreamUnspecified then CapNone else CapReading)), Spv := (Spv ?s)(0 := SupWait)\<rparr>
    = dx_sys (dx_reg (dx_running False None False 2) True) CapReading CapReading SupWait []"
    by (auto simp: init_esys_def dx_sys_def fun_eq_iff split: Stream.splits)
  finally show ?thesis by (rule xr_step [OF xr_init])
qed

lemma dx_reported: "exec_reachable (dx_sys (dx_reg (dx_running False (Some dx_report) True 2) True) CapReading CapReading SupWait [])"
proof -
  let ?s = "dx_sys (dx_reg (dx_running False None False 2) True) CapReading CapReading SupWait []"
  have "exec_step ?s (?s\<lparr>Reg := upd_exec (Reg ?s) 0 (deliverReport dx_report)\<rparr>)" by (rule x_report) simp
  from xr_step [OF dx_registered this] show ?thesis
    by (simp add: dx_sys_update) (simp add: deliverReport_def dx_running_def)
qed

lemma dx_reaped: "exec_reachable (dx_sys (dx_reg (dx_running True None True 2) True) CapReading CapReading SupDrain [])"
proof -
  let ?s = "dx_sys (dx_reg (dx_running False (Some dx_report) True 2) True) CapReading CapReading SupWait []"
  let ?t = "dx_sys (dx_reg (dx_running False None True 2) True) CapReading CapReading (SupReap dx_report) []"
  have "exec_step ?s (?s\<lparr>Reg := upd_exec (Reg ?s) 0 (\<lambda>_. dx_running False None True 2), Spv := (Spv ?s)(0 := SupReap dx_report)\<rparr>)"
    by (rule x_receive) (simp_all add: receiveReport_def dx_running_def)
  from xr_step [OF dx_reported this] have t: "exec_reachable ?t" by (simp add: dx_sys_update)
  have "exec_step ?t (?t\<lparr>Reg := upd_exec (Reg ?t) 0 (reapReport dx_report), Spv := (Spv ?t)(0 := SupDrain)\<rparr>)"
    by (rule x_reap) simp
  from xr_step [OF t this] show ?thesis
    by (simp add: dx_sys_update) (simp add: reapReport_def dx_report_def dx_running_def)
qed

lemma dx_read_ends:
  assumes "exec_reachable (dx_sys (dx_reg (dx_running True None True 2) True) CapReading CapReading SupDrain [])"
  shows "exec_reachable (dx_sys (dx_reg (dx_running True None True 0) True) CapDone CapDone SupDrain [])"
proof -
  let ?r = "\<lambda>n. dx_reg (dx_running True None True n) True"
  have read1: "exec_step (dx_sys (?r 2) CapReading c SupDrain []) (dx_sys (?r 2) (CapGot ReadEOF) c SupDrain [])" for c
    using x_read [of "dx_sys (?r 2) CapReading c SupDrain []" 0 StreamStdout "[]" ReadEOF]
    by (simp add: dx_sys_update captureData_def)
  have end1: "exec_step (dx_sys (?r 2) (CapGot ReadEOF) c SupDrain []) (dx_sys (?r 1) CapDone c SupDrain [])" for c
    using x_readEnds [of "dx_sys (?r 2) (CapGot ReadEOF) c SupDrain []" 0 StreamStdout ReadEOF]
    by (simp add: dx_sys_update captureReturns_def dx_running_def One_nat_def)
  have read2: "exec_step (dx_sys (?r 1) CapDone CapReading SupDrain []) (dx_sys (?r 1) CapDone (CapGot ReadEOF) SupDrain [])"
    using x_read [of "dx_sys (?r 1) CapDone CapReading SupDrain []" 0 StreamStderr "[]" ReadEOF]
    by (simp add: dx_sys_update captureData_def)
  have end2: "exec_step (dx_sys (?r 1) CapDone (CapGot ReadEOF) SupDrain []) (dx_sys (?r 0) CapDone CapDone SupDrain [])"
    using x_readEnds [of "dx_sys (?r 1) CapDone (CapGot ReadEOF) SupDrain []" 0 StreamStderr ReadEOF]
    by (simp add: dx_sys_update captureReturns_def dx_running_def One_nat_def)
  show ?thesis by (rule xr_step [OF xr_step [OF xr_step [OF xr_step [OF assms read1] end1] read2] end2])
qed

lemmas dx_drained = dx_read_ends [OF dx_reaped]

lemma dx_complete_exec: "completedExecution 9 (dx_running True None True 0) = dx_done"
  by (simp add: completedExecution_def appendEventLocked_def is_chunk_def Let_def dx_running_def dx_done_def
      dx_events_def clampExitCode_def maximumProcessExitCode_def eval_nat_numeral One_nat_def)

lemma dx_completed: "exec_reachable (dx_sys (dx_reg dx_done False) CapDone CapDone SupRetain [])"
proof -
  let ?s = "dx_sys (dx_reg (dx_running True None True 0) True) CapDone CapDone SupDrain []"
  have "exec_step ?s (?s\<lparr>Reg := completeExecution (Reg ?s) 0 9, Spv := (Spv ?s)(0 := SupRetain)\<rparr>)"
    by (rule x_complete) (simp_all add: dx_running_def)
  from xr_step [OF dx_drained this] have "exec_reachable (dx_sys (completeExecution (Reg ?s) 0 9) CapDone CapDone SupRetain [])"
    by (simp add: dx_sys_update)
  also have "completeExecution (Reg ?s) 0 9 = dx_reg dx_done False"
    by (simp add: completeExecution_eq dx_reg_def dx_complete_exec fun_eq_iff) (simp add: dx_running_def)
  finally show ?thesis .
qed

definition dx_sub :: "event list \<Rightarrow> 64 word \<Rightarrow> bool \<Rightarrow> subscriber" where
  "dx_sub out nx open' = \<lparr>sbExec = 0, sbFrom = 1, sbNext = nx, sbOut = out, sbOpen = open', sbEnded = \<not> open'\<rparr>"

abbreviation dx_reading :: "subscriber \<Rightarrow> esys" where
  "dx_reading b \<equiv> dx_sys (dx_reg dx_done False) CapDone CapDone SupRetain [b]"

lemma dx_done_fields [simp]: "events dx_done = dx_events" "\<not> running dx_done"
  by (simp_all add: dx_done_def)

lemma dx_subscribed: "exec_reachable (dx_reading (dx_sub [] 2 True))"
proof -
  let ?s = "dx_sys (dx_reg dx_done False) CapDone CapDone SupRetain []"
  have "exec_step ?s (?s\<lparr>Subs := Subs ?s @ [\<lparr>sbExec = 0, sbFrom = 1, sbNext = 1 + 1, sbOut = [], sbOpen = True, sbEnded = False\<rparr>]\<rparr>)"
    by (rule x_subscribe [of _ "''o/r#8#7''"]) (simp add: Subscribe_def)
  from xr_step [OF dx_completed this] show ?thesis by (simp add: dx_sys_update dx_sub_def)
qed

lemma dx_send:
  assumes "exec_reachable (dx_reading (dx_sub out nx True))" and "stream_pass dx_done nx = StreamSend ev"
  shows "exec_reachable (dx_reading (dx_sub (out @ [ev]) (nx + 1) True))"
proof -
  let ?s = "dx_reading (dx_sub out nx True)"
  have "exec_step ?s (?s\<lparr>Subs := (Subs ?s)[0 := (dx_sub out nx True)\<lparr>sbOut := sbOut (dx_sub out nx True) @ [ev], sbNext := sbNext (dx_sub out nx True) + 1\<rparr>]\<rparr>)"
    by (rule x_send) (use assms(2) in \<open>simp_all add: dx_sub_def\<close>)
  from xr_step [OF assms(1) this] show ?thesis by (simp add: dx_sys_update dx_sub_def)
qed

lemma dx_read: "exec_reachable (dx_reading (dx_sub [dx_events ! 1, dx_events ! 2] 4 False))"
proof -
  have a: "exec_reachable (dx_reading (dx_sub [dx_events ! 1] 3 True))"
    using dx_send [OF dx_subscribed, of "dx_events ! 1"] by (simp add: stream_pass_def dx_events_def One_nat_def)
  have b: "exec_reachable (dx_reading (dx_sub [dx_events ! 1, dx_events ! 2] 4 True))"
    using dx_send [OF a, of "dx_events ! 2"] by (simp add: stream_pass_def dx_events_def One_nat_def)
  let ?s = "dx_reading (dx_sub [dx_events ! 1, dx_events ! 2] 4 True)"
  have "exec_step ?s (?s\<lparr>Subs := (Subs ?s)[0 := (dx_sub [dx_events ! 1, dx_events ! 2] 4 True)\<lparr>sbOpen := False, sbEnded := True\<rparr>]\<rparr>)"
    by (rule x_streamEnds) (simp_all add: dx_sub_def stream_pass_def, simp add: dx_events_def)
  from xr_step [OF b this] show ?thesis by (simp add: dx_sys_update dx_sub_def)
qed

lemma dx_drained_closed:
  "exec_reachable (dx_sys ((dx_reg dx_done False)\<lparr>draining := True, drainedClosed := True\<rparr>) CapDone CapDone SupRetain [])"
proof -
  let ?s = "dx_sys (dx_reg dx_done False) CapDone CapDone SupRetain []"
  have "exec_step ?s (?s\<lparr>Reg := (dx_reg dx_done False)\<lparr>draining := True, drainedClosed := True\<rparr>\<rparr>)"
    by (rule x_drain [of _ "\<lparr>dsIdle = True, dsActiveExecutions = 0\<rparr>"])
       (simp add: Drain_def dx_reg_def closeDrainedLocked_def Let_def)
  from xr_step [OF dx_completed this] show ?thesis by (simp add: dx_sys_update)
qed

section \<open>The properties apply to this run\<close>

theorem cap_scan_is_rescan_witness:
  "events (appendEventLocked (newExecution dx_spec 42 42) (LogChunk StreamStdout ''hi''))
     = [\<lparr>Sequence = 1, Payload = LogChunk StreamStdout ''hi''\<rparr>]"
proof -
  have "sound_log (newExecution dx_spec 42 42)"
    by (simp add: sound_log_def log_wf_def newExecution_def contiguous_def maxRetainedLogBytes_def)
  from cap_scan_is_rescan [OF this, of "LogChunk StreamStdout ''hi''"] show ?thesis
    by (simp add: newExecution_def nextEvent_def maxRetainedLogBytes_def)
qed

theorem log_bounded_and_numbered_witness:
  "contiguous dx_events \<and> log_bytes dx_events \<le> maxRetainedLogBytes"
  using log_bounded_and_numbered [OF dx_completed, of 0] by (simp add: One_nat_def)

theorem one_terminal_and_last_witness: "ends_terminal dx_events"
  using one_terminal_and_last [OF dx_completed, of 0] by (simp add: One_nat_def)

theorem completed_is_final_witness:
  "events (store (Reg (dx_reading (dx_sub [] 2 True))) ! 0) = dx_events"
proof -
  let ?s = "dx_sys (dx_reg dx_done False) CapDone CapDone SupRetain []"
  have "exec_step ?s (?s\<lparr>Subs := Subs ?s @ [\<lparr>sbExec = 0, sbFrom = 1, sbNext = 1 + 1, sbOut = [], sbOpen = True, sbEnded = False\<rparr>]\<rparr>)"
    by (rule x_subscribe [of _ "''o/r#8#7''"]) (simp add: Subscribe_def)
  then have "exec_steps ?s (dx_reading (dx_sub [] 2 True))"
    using xs_step [OF xs_refl] by (simp add: dx_sys_update dx_sub_def)
  from completed_is_final [OF this dx_completed, of 0] show ?thesis by (simp add: One_nat_def)
qed

theorem subscriber_receives_suffix_witness:
  "\<exists>orig. view_of orig dx_events \<and> copy_of orig 1 [dx_events ! 1, dx_events ! 2]
     \<and> is_terminal (Payload (dx_events ! 2))"
proof -
  have "length (events (store (Reg (dx_reading (dx_sub [dx_events ! 1, dx_events ! 2] 4 False))) ! 0)) < 2 ^ 64"
    by (simp add: dx_events_def)
  from subscriber_receives_suffix [OF dx_read _ this] obtain orig where o: "view_of orig dx_events"
    and c: "copy_of orig 1 [dx_events ! 1, dx_events ! 2]"
    and t: "1 < length orig \<longrightarrow> is_terminal (Payload (dx_events ! 2))"
    by (auto simp: dx_sub_def One_nat_def)
  moreover have "1 < length orig" using o by (auto simp: view_of_def dx_events_def)
  ultimately show ?thesis by blast
qed

theorem one_execution_per_slot_witness:
  "rslots (dx_reg (dx_running False None False 2) True) 0 = Some ''o/r#8#7''
   \<and> unat (activeCount (dx_reg (dx_running False None False 2) True)) = 1"
  using one_execution_per_slot [OF dx_registered, of 0]
  by (simp add: dx_running_def runningCount_def One_nat_def)

theorem drained_stays_drained_witness:
  "fst (Register ((dx_reg dx_done False)\<lparr>draining := True, drainedClosed := True\<rparr>) dx_spec 5 5) \<noteq> OutcomeAccepted"
  using drained_stays_drained [OF xs_refl dx_drained_closed, of dx_spec 5 5] by simp

theorem admission_is_idempotent_witness:
  "Register (dx_reg (dx_running False None False 2) True) dx_spec 43 43
     = (OutcomeAlreadyRunning, None, dx_reg (dx_running False None False 2) True)"
  using admission_is_idempotent [OF dx_registered, of "''o/r#8#7''" 0 dx_spec 43 43]
  by (simp add: dx_running_def dx_spec_def specError_def filepath_IsAbs_def HasPrefix_def)

theorem Start_leaks_no_child_witness:
  "let r = dx_reg (dx_running False None False 2) True; r0 = newRegistry 0 0
   in case Start_exec r0 r dx_spec (Inr 50) of (outcome, e, r'', forked, killed) \<Rightarrow> killed = forked \<and> r'' = r"
proof -
  let ?r = "dx_reg (dx_running False None False 2) True"
  have "Start_exec (newRegistry 0 0) ?r dx_spec (Inr 50) = (OutcomeAlreadyRunning, None, ?r, [50], [50])"
    by (simp add: Start_exec_def specError_def dx_spec_def filepath_IsAbs_def HasPrefix_def checkAdmissionLocked_def
        newRegistry_def lookupExecution_def Launch_def Register_def dx_running_def Let_def)
  moreover from Start_leaks_no_child [OF this] have "[50 :: int] = [50] \<and> ?r = ?r" by simp
  ultimately show ?thesis by (simp add: Let_def)
qed

theorem cancel_kills_once_witness:
  "let r = dx_reg (dx_running False None False 2) True;
       r' = dx_reg ((dx_running False None False 2)\<lparr>cancelled := True\<rparr>) True
   in Cancel r ''o/r#8#7'' (\<lambda>_. None) = (None, r') \<and> Cancel r' ''o/r#8#7'' (\<lambda>_. Some (Msg ''esrch'')) = (None, r')"
proof -
  have "Cancel (dx_reg (dx_running False None False 2) True) ''o/r#8#7'' (\<lambda>_. None)
      = (None, dx_reg ((dx_running False None False 2)\<lparr>cancelled := True\<rparr>) True)"
    by (simp add: Cancel_def Let_def dx_running_def)
  moreover from cancel_kills_once [OF this, of 0 "\<lambda>_. Some (Msg ''esrch'')"]
  have "Cancel (dx_reg ((dx_running False None False 2)\<lparr>cancelled := True\<rparr>) True) ''o/r#8#7'' (\<lambda>_. Some (Msg ''esrch''))
      = (None, dx_reg ((dx_running False None False 2)\<lparr>cancelled := True\<rparr>) True)" by simp
  ultimately show ?thesis by (simp add: Let_def)
qed

theorem duplicate_report_ignored_witness:
  "ReportExit (dx_reg (dx_running False None False 2) True) 7 0 [] = dx_reg (dx_running False None False 2) True"
proof -
  have "executionByPID (dx_reg (dx_running False None False 2) True) 7 = None"
    by (simp add: executionByPID_def dx_reg_def dx_running_def Let_def)
  then show ?thesis using duplicate_report_ignored by blast
qed

theorem reported_exit_completes_witness:
  "\<exists>s'. exec_steps (dx_sys (dx_reg (dx_running True None True 0) True) CapDone CapDone SupDrain []) s'
     \<and> \<not> running (store (Reg s') ! 0)"
  using reported_exit_completes [OF dx_drained, of 0] by (auto simp: dx_running_def)

end
