(* ===== verification/Agent_Demo.thy ===== *)
theory Agent_Demo
  imports Guest_Agent Exec_Demo
begin

text \<open>
  Concrete runs of the spec builder and of the agent's handlers: a two-slot guest on which every
  operation succeeds, and a RunJob call that is admitted.
\<close>

definition dg_world :: world where
  "dg_world tr x = (None, [])"

definition dg_exec :: runnerExecutor where
  "dg_exec = newRunnerExecutor ''/Users/admin'' None 2"

definition dg_req :: "32 word \<Rightarrow> jobRequest" where
  "dg_req sl = \<lparr>jrExecutionID = ''o/r#8#7'', jrSlot = sl,
     jrMeta = \<lparr>jmRepo = ''o/r'', jmJobID = 7, jmRunID = 8, jmRunnerName = ''p-1''\<rparr>,
     jrJitConfig = ''c2VjcmV0'', jrEnv = [(''HOME'', ''/elsewhere'')]\<rparr>"

definition dg_env :: guest_env where
  "dg_env = \<lparr>geUser = Inr ''admin'', geUid = 501, geEnviron = [''LANG=C'']\<rparr>"

abbreviation dg_build :: "(err + execSpec) \<times> runnerExecutor \<times> trace" where
  "dg_build \<equiv> Build dg_world (\<lambda>_. True) (\<lambda>_. False) dg_env dg_exec (dg_req 1) []"

lemma dg_built: "\<exists>spec x' tr'. dg_build = (Inr spec, x', tr')"
proof -
  have "(case fst dg_build of Inr _ \<Rightarrow> True | Inl _ \<Rightarrow> False)" by code_simp
  then obtain spec where "fst dg_build = Inr spec" by (auto split: sum.splits)
  then show ?thesis by (metis prod.exhaust_sel)
qed

theorem spec_is_the_jobs_witness:
  "\<exists>spec x' tr'. dg_build = (Inr spec, x', tr') \<and> specError spec = None \<and> last (Args spec) = ''c2VjcmV0''
     \<and> map_of (Env spec) ''HOME'' = Some (slotHome dg_exec 1)"
proof -
  obtain spec x' tr' where b: "dg_build = (Inr spec, x', tr')" using dg_built by blast
  have "\<not> singleSlot dg_exec" by code_simp
  then show ?thesis using spec_is_the_jobs [OF b] b
    by (intro exI [of _ spec] exI [of _ x'] exI [of _ tr']) (simp add: dg_req_def)
qed

theorem slot_provisioned_once_witness:
  "\<exists>spec x' tr' xs. dg_build = (Inr spec, x', tr')
     \<and> snd (snd (Build dg_world (\<lambda>_. True) (\<lambda>_. False) dg_env x' (dg_req 1) tr')) = tr' @ xs \<and> list_all harmless xs"
proof -
  obtain spec x' tr' where b: "dg_build = (Inr spec, x', tr')" using dg_built by blast
  from slot_provisioned_once [OF b, of "dg_req 1" dg_world "\<lambda>_. True" "\<lambda>_. False" dg_env tr']
  show ?thesis using b by blast
qed

theorem slot_dirs_disjoint_witness: "runnerHome dg_exec 0 \<noteq> runnerHome dg_exec 1"
proof -
  have "clean_path (baseHome dg_exec)" by code_simp
  from slot_dirs_disjoint [OF this, of 0 1] show ?thesis by auto
qed

theorem slot_keychain_first_witness:
  "\<exists>pre existing. snd (setupSlotKeychain dg_world ''/Users/admin/slot-home-1'' []) = pre @
      [RunTool ''security'' ([''list-keychains'', ''-d'', ''user'', ''-s'', ''/Users/admin/slot-home-1/Library/Keychains/login.keychain-db''] @ existing) [(''HOME'', ''/Users/admin/slot-home-1'')],
       RunTool ''security'' [''unlock-keychain'', ''-p'', [], ''/Users/admin/slot-home-1/Library/Keychains/login.keychain-db''] [(''HOME'', ''/Users/admin/slot-home-1'')],
       RunTool ''security'' [''set-keychain-settings'', ''/Users/admin/slot-home-1/Library/Keychains/login.keychain-db''] [(''HOME'', ''/Users/admin/slot-home-1'')]]"
proof -
  have k: "filepath_Join [''/Users/admin/slot-home-1'', loginKeychainRelPath]
      = ''/Users/admin/slot-home-1/Library/Keychains/login.keychain-db''" by code_simp
  have "fst (setupSlotKeychain dg_world ''/Users/admin/slot-home-1'' []) = None" by code_simp
  from slot_keychain_first [OF this] show ?thesis unfolding k by blast
qed

section \<open>A call that is building\<close>

definition dg_building :: asys where
  "dg_building = (init_asys 0 0)\<lparr>AR := (\<lambda>_. RIdle)(0 := RBuild (dg_req 1)),
     slotLocks := (\<lambda>_. None)(1 := Some 0)\<rparr>"

lemma dg_building_reachable: "agent_reachable dg_building"
proof -
  let ?s0 = "init_asys 0 0"
  let ?s1 = "?s0\<lparr>AR := (AR ?s0)(0 := RWant (dg_req 1))\<rparr>"
  let ?s2 = "?s1\<lparr>AR := (AR ?s1)(0 := RHeld (dg_req 1)), slotLocks := (slotLocks ?s1)(jrSlot (dg_req 1) := Some 0)\<rparr>"
  let ?s3 = "?s2\<lparr>AR := (AR ?s2)(0 := RBuild (dg_req 1))\<rparr>"
  have 1: "agent_step ?s0 ?s1" by (rule a_arrive) (simp add: init_asys_def)
  have 2: "agent_step ?s1 ?s2" by (rule a_lock) (simp_all add: init_asys_def)
  have 3: "agent_step ?s2 ?s3"
    by (rule a_admit) (simp_all add: init_asys_def init_esys_def newRegistry_def CheckAdmission_def
        checkAdmissionLocked_def admissionSpec_def lookupExecution_def dg_req_def)
  have "agent_reachable ?s3" by (rule ar_step [OF ar_step [OF ar_step [OF ar_init 1] 2] 3])
  moreover have "?s3 = dg_building" by (simp add: dg_building_def init_asys_def dg_req_def)
  ultimately show ?thesis by simp
qed

theorem building_slot_is_free_witness: "holding (AR dg_building 1) \<noteq> Some 1"
  using building_slot_is_free [OF dg_building_reachable, of 0 "dg_req 1"]
  by (simp add: dg_building_def dg_req_def)

theorem Hello_reports_slots_witness:
  "hrSlots (Hello \<lparr>hSlotCount = 2, hBootID = ''b'', hAgentBuild = ''a'', hGoldenFingerprint = []\<rparr>
     (dx_reg (dx_running False None False 2) True)) ! 0
   = \<lparr>siIndex = 0, siBusy = True, siExecutionID = ''o/r#8#7''\<rparr>"
  using Hello_reports_slots [OF dx_registered, of 0 "\<lparr>hSlotCount = 2, hBootID = ''b'', hAgentBuild = ''a'', hGoldenFingerprint = []\<rparr>"]
  by (simp add: dx_reg_def)

end
