(* ===== verification/Broker_Types.thy ===== *)
theory Broker_Types
  imports Go_Strings
begin

text \<open>
  The values \<open>internal/broker\<close> hands to the pool: warm VMs, the busy-slot bindings found at
  adoption, and adopted VMs. A \<open>*WarmVM\<close> is known by its name and image; the process handle
  and the cached connection are not state the pool reads.
\<close>

record warmVM =
  vmName :: string
  vmImage :: string

record slotBinding =
  SlotIndex :: int
  bRepo :: string
  bJobID :: int
  bRunID :: int
  ExecutionID :: string
  ResumeCursor :: "64 word"
  BoundAt :: time
  ObservedActive :: bool

record adoptedVM =
  VM :: "warmVM option"
  aSlots :: "slotBinding list"

text \<open>A runner of the GitHub REST API, and the two listings the pool's health check calls.\<close>

record runner =
  rID :: int
  rName :: string
  rStatus :: string
  rBusy :: bool

record runnerLister =
  ListInstalledRepos :: "err + string list"
  ListRunners :: "string \<Rightarrow> err + runner list"

text \<open>\<open>RunningSlots\<close> of a VM: an error, or which slots run an execution.\<close>

type_synonym slotProber = "warmVM \<Rightarrow> err + (nat \<Rightarrow> bool)"

definition HasJobMetadata :: "slotBinding \<Rightarrow> bool" where
  "HasJobMetadata b = (0 < bJobID b \<and> 0 < bRunID b)"

end
