(* ===== verification/Go_Context.thy ===== *)
theory Go_Context
  imports Prelude
begin

text \<open>
  Cancellation contexts. A program creates contexts in a tree: each has a parent and may be
  cancelled with a cause; a context that is not cancelled itself is cancelled when one of its
  ancestors is, with that ancestor's cause. The first cancellation of a context wins: cancelling
  a context that is already cancelled, by itself or through its parent, changes nothing. The
  contexts of one process are kept in a list; an identifier is a position, and a parent is older
  than its children.
\<close>

datatype ctx = Ctx (own_cause: "sentinel option") (ctx_parent: "nat option")

type_synonym ctxs = "ctx list"

text \<open>\<open>context.Cause\<close>: \<open>None\<close> while the context is live.\<close>

fun ctx_cause :: "ctxs \<Rightarrow> nat \<Rightarrow> sentinel option" where
  "ctx_cause cs i =
     (if i < length cs then
        (case cs ! i of Ctx (Some s) _ \<Rightarrow> Some s
         | Ctx None None \<Rightarrow> None
         | Ctx None (Some p) \<Rightarrow> if p < i then ctx_cause cs p else None)
      else None)"

declare ctx_cause.simps [simp del]

definition ctx_done :: "ctxs \<Rightarrow> nat \<Rightarrow> bool" where
  "ctx_done cs i = (ctx_cause cs i \<noteq> None)"

text \<open>
  \<open>context.WithCancelCause\<close> and \<open>context.WithCancel\<close>: a child of \<open>p\<close>, the new
  context's identifier is the list's old length.
\<close>

definition ctx_new :: "ctxs \<Rightarrow> nat \<Rightarrow> ctxs \<times> nat" where
  "ctx_new cs p = (cs @ [Ctx None (Some p)], length cs)"

text \<open>
  Calling a cancel function. A cancel function called with a nil cause (and the one of
  \<open>WithCancel\<close>) records \<open>context.Canceled\<close>.
\<close>

definition ctx_cancel :: "ctxs \<Rightarrow> nat \<Rightarrow> sentinel option \<Rightarrow> ctxs" where
  "ctx_cancel cs i cause =
     (if i < length cs \<and> ctx_cause cs i = None
      then cs[i := Ctx (Some (case cause of None \<Rightarrow> ContextCanceled | Some s \<Rightarrow> s)) (ctx_parent (cs ! i))]
      else cs)"

lemma length_ctx_cancel [simp]: "length (ctx_cancel cs i c) = length cs"
  by (simp add: ctx_cancel_def)

lemma ctx_cause_cancel_self:
  assumes "i < length cs" and "ctx_cause cs i = None"
  shows "ctx_cause (ctx_cancel cs i c) i = Some (case c of None \<Rightarrow> ContextCanceled | Some s \<Rightarrow> s)"
  using assms by (subst ctx_cause.simps) (simp add: ctx_cancel_def)

lemma ctx_cause_append:
  "i < length cs \<Longrightarrow> ctx_cause (cs @ ds) i = ctx_cause cs i"
proof (induction i rule: less_induct)
  case (less i)
  show ?case
    using less by (subst (1 2) ctx_cause.simps) (auto simp: nth_append split: ctx.splits option.splits)
qed

lemma ctx_cause_new_other:
  "i < length cs \<Longrightarrow> ctx_cause (fst (ctx_new cs p)) i = ctx_cause cs i"
  by (simp add: ctx_new_def ctx_cause_append)

lemma ctx_cause_new_self:
  assumes "p < length cs"
  shows "ctx_cause (fst (ctx_new cs p)) (length cs) = ctx_cause cs p"
  using assms by (subst ctx_cause.simps) (simp add: ctx_new_def ctx_cause_append)

text \<open>A cause, once recorded, never changes: whatever is cancelled afterwards.\<close>

lemma ctx_cause_cancel_stable:
  "ctx_cause cs j = Some s \<Longrightarrow> ctx_cause (ctx_cancel cs i c) j = Some s"
proof (induction j rule: less_induct)
  case (less j)
  have jl: "j < length cs" using less.prems by (auto simp: ctx_cause.simps [of cs j] split: if_splits)
  show ?case
  proof (cases "i < length cs \<and> ctx_cause cs i = None")
    case False
    then have "ctx_cancel cs i c = cs" by (auto simp: ctx_cancel_def)
    with less.prems show ?thesis by simp
  next
    case True
    with less.prems have ij: "i \<noteq> j" by auto
    have same: "ctx_cancel cs i c ! j = cs ! j" using ij by (simp add: ctx_cancel_def)
    show ?thesis
    proof (cases "cs ! j")
      case (Ctx oc p)
      then show ?thesis
        using less same jl
        by (subst ctx_cause.simps) (auto simp: ctx_cause.simps [of cs j] split: option.splits if_splits)
    qed
  qed
qed

lemma ctx_done_cancel_mono: "ctx_done cs j \<Longrightarrow> ctx_done (ctx_cancel cs i c) j"
  by (auto simp: ctx_done_def dest: ctx_cause_cancel_stable)

text \<open>Cancelling a context leaves older ones alone: cancellation never travels upwards.\<close>

lemma ctx_cause_cancel_older:
  "j < i \<Longrightarrow> ctx_cause (ctx_cancel cs i c) j = ctx_cause cs j"
proof (induction j rule: less_induct)
  case (less j)
  then have "ctx_cancel cs i c ! j = cs ! j" by (simp add: ctx_cancel_def)
  with less show ?case
    by (subst (1 2) ctx_cause.simps) (auto split: ctx.splits option.splits)
qed

lemma ctx_done_cancel_self:
  "i < length cs \<Longrightarrow> ctx_done (ctx_cancel cs i c) i"
  by (cases "ctx_cause cs i") (auto simp: ctx_done_def ctx_cause_cancel_self dest: ctx_cause_cancel_stable)

text \<open>Cancelling a context cancels, with the same cause, every live context below it.\<close>

fun descends :: "ctxs \<Rightarrow> nat \<Rightarrow> nat \<Rightarrow> bool" where
  "descends cs c p =
     (c < length cs \<and> (c = p \<or> (case ctx_parent (cs ! c) of None \<Rightarrow> False
                                | Some q \<Rightarrow> if q < c then descends cs q p else False)))"

declare descends.simps [simp del]

lemma ctx_cause_cancel_descends:
  assumes "descends cs c p" and "ctx_cause cs c = None"
  shows "ctx_cause (ctx_cancel cs p r) c = Some (case r of None \<Rightarrow> ContextCanceled | Some s \<Rightarrow> s)"
  using assms
proof (induction c rule: less_induct)
  case (less c)
  have c: "c < length cs" using less.prems(1) by (simp add: descends.simps [of cs c p])
  show ?case
  proof (cases "c = p")
    case True
    then show ?thesis using less.prems c by (simp add: ctx_cause_cancel_self)
  next
    case False
    then obtain q where q: "ctx_parent (cs ! c) = Some q" "q < c" "descends cs q p"
      using less.prems(1) by (auto simp: descends.simps [of cs c p] split: option.splits if_splits)
    have own: "own_cause (cs ! c) = None" and up: "ctx_cause cs q = None"
      using less.prems(2) c q(1,2)
      by (cases "cs ! c"; auto simp: ctx_cause.simps [of cs c] split: option.splits)+
    have "ctx_cancel cs p r ! c = cs ! c" using False by (simp add: ctx_cancel_def)
    then show ?thesis
      using less.IH [OF q(2,3) up] c q own
      by (cases "cs ! c") (auto simp: ctx_cause.simps [of _ c])
  qed
qed

end
