(* ===== verification/Broker_Drain.thy ===== *)
theory Broker_Drain
  imports Guest_Agent Broker_Types Go_Context
begin

text \<open>
  Running a job from the host (\<open>internal/broker/bind.go\<close>): dispatch to the guest, the drain of its status
  stream to a terminal result, reconnecting from a cursor, and what a cancelled drain does. What
  the guest, GitHub and the clock answer are arguments: a status stream is the events it delivered
  and how it ended, an attempt is one pass of the reconnect loop.
\<close>

section \<open>Cancellation\<close>

datatype cancelAction = cancelNone | cancelDetach | cancelTeardown

definition classifyCancel :: "ctxs \<Rightarrow> nat \<Rightarrow> cancelAction" where
  "classifyCancel cs ctx =
     (case ctx_cause cs ctx of
        None \<Rightarrow> cancelNone
      | Some cause \<Rightarrow>
          if cause \<noteq> ContextCanceled \<and> cause \<noteq> DeadlineExceeded then cancelTeardown else cancelDetach)"

section \<open>One status stream\<close>

datatype stream_end = StreamEOF | StreamErr rpc_error

text \<open>
  \<open>drainStream\<close>: the terminal result, if the stream reached one, else the error it ended with, the run
  log (absent when it could not be opened) and the cursor. A write to the run log that fails
  loses its chunk; \<open>writes\<close> says which writes succeed.
\<close>

definition mirrored :: "(string \<Rightarrow> bool) \<Rightarrow> pb_event \<Rightarrow> string option \<Rightarrow> string option" where
  "mirrored writes ev runLog =
     (case ev of
        EvLog st data \<Rightarrow>
          (case runLog of
             None \<Rightarrow> None
           | Some log \<Rightarrow> if 0 < length data \<and> writes data then Some (log @ data) else Some log)
      | _ \<Rightarrow> runLog)"

fun drainStream ::
  "(string \<Rightarrow> bool) \<Rightarrow> jobStatusEvent list \<Rightarrow> stream_end \<Rightarrow> string option \<Rightarrow> 64 word
   \<Rightarrow> ((32 word \<times> string) option \<times> rpc_error option) \<times> string option \<times> 64 word" where
  "drainStream writes [] ending runLog cursor =
     ((None, case ending of StreamEOF \<Rightarrow> None | StreamErr e \<Rightarrow> Some e), runLog, cursor)"
| "drainStream writes (ev # evs) ending runLog cursor =
     (let cursor' = jsSequence ev; runLog' = mirrored writes (jsEvent ev) runLog
      in case jsEvent ev of
           EvResult code msg \<Rightarrow> ((Some (code, msg), None), runLog', cursor')
         | _ \<Rightarrow> drainStream writes evs ending runLog' cursor')"

definition isExecutionNotFound :: "rpc_error option \<Rightarrow> bool" where
  "isExecutionNotFound e = (case e of None \<Rightarrow> False | Some (RpcError code er) \<Rightarrow> code = CodeNotFound)"

definition terminalToError :: "32 word \<times> string \<Rightarrow> string \<Rightarrow> string \<Rightarrow> err option" where
  "terminalToError t execID vmn =
     (if fst t = 0 then None
      else Some (Msg (''broker: guest job '' @ execID @ '' on '' @ vmn @ '' exited '' @ Itoa (sint (fst t)) @ '': '' @ snd t)))"

section \<open>The reconnect loop\<close>

record attempt =
  atDoneBefore :: bool
  atOpen :: "rpc_error + jobStatusEvent list \<times> stream_end"
  atStalled :: bool
  atDoneAfter :: bool

text \<open>
  \<open>drainToTerminal\<close> over the attempts the environment grants: \<open>None\<close> says that it is still trying when they
  run out. The result is whether it was cancelled, and the outcome.
\<close>

fun drainToTerminal ::
  "(string \<Rightarrow> bool) \<Rightarrow> string \<Rightarrow> string \<Rightarrow> attempt list \<Rightarrow> string option \<Rightarrow> 64 word
   \<Rightarrow> ((bool \<times> err option) \<times> string option \<times> 64 word) option" where
  "drainToTerminal writes execID vmn [] runLog cursor = None"
| "drainToTerminal writes execID vmn (a # as) runLog cursor =
     (if atDoneBefore a then Some ((True, None), runLog, cursor)
      else
        case atOpen a of
          Inl e \<Rightarrow>
            if isExecutionNotFound (Some e) then Some ((False, None), runLog, cursor)
            else drainToTerminal writes execID vmn as runLog cursor
        | Inr (evs, ending) \<Rightarrow>
            (case drainStream writes evs ending runLog cursor of
               ((Some t, _), runLog', cursor') \<Rightarrow> Some ((False, terminalToError t execID vmn), runLog', cursor')
             | ((None, streamErr), runLog', cursor') \<Rightarrow>
                 if atStalled a then Some ((False, Some (Sentinel ErrDrainStalled)), runLog', cursor')
                 else if isExecutionNotFound streamErr then Some ((False, None), runLog', cursor')
                 else if atDoneAfter a then Some ((True, None), runLog', cursor')
                 else drainToTerminal writes execID vmn as runLog' cursor'))"

text \<open>
  \<open>drainJob\<close>: \<open>action\<close> is \<open>classifyCancel\<close> of the context when the first drain was cancelled, \<open>as2\<close> the
  attempts of the teardown drain. The flag says whether the guest job was cancelled.
\<close>

record drain_result =
  drErr :: "err option"
  drLog :: "string option"
  drCursor :: "64 word"
  drCancelled :: bool

definition drainJob ::
  "(string \<Rightarrow> bool) \<Rightarrow> string \<Rightarrow> string \<Rightarrow> string option \<Rightarrow> 64 word \<Rightarrow> attempt list \<Rightarrow> cancelAction \<Rightarrow> attempt list
   \<Rightarrow> drain_result option" where
  "drainJob writes execID vmn runLog fromSeq as1 action as2 =
     (case drainToTerminal writes execID vmn as1 runLog fromSeq of
        None \<Rightarrow> None
      | Some ((False, e), log1, cur1) \<Rightarrow>
          Some \<lparr>drErr = (case e of
                   None \<Rightarrow> None
                 | Some er \<Rightarrow> if errors_Is er ErrDrainStalled then Some er
                              else Some (Joined [er, Sentinel ErrJobTerminal])),
                drLog = log1, drCursor = cur1, drCancelled = False\<rparr>
      | Some ((True, _), log1, cur1) \<Rightarrow>
          if action = cancelDetach
          then Some \<lparr>drErr = Some (Sentinel ContextCanceled), drLog = log1, drCursor = cur1, drCancelled = False\<rparr>
          else
            (case drainToTerminal writes execID vmn as2 log1 cur1 of
               None \<Rightarrow> None
             | Some ((timedOut, drainErr), log2, cur2) \<Rightarrow>
                 Some \<lparr>drErr = (if timedOut
                         then Some (Msg (''broker: teardown drain timed out for '' @ execID @ '' on '' @ vmn))
                         else drainErr),
                       drLog = log2, drCursor = cur2, drCancelled = True\<rparr>))"

section \<open>Dispatching and resuming\<close>

definition executionID_of :: "string \<Rightarrow> int \<Rightarrow> int \<Rightarrow> string" where
  "executionID_of repo runID jobID = repo @ ''#'' @ Itoa runID @ ''#'' @ Itoa jobID"

definition gitCredentialEnv :: "(string \<times> string) list" where
  "gitCredentialEnv = [(''GIT_CONFIG_COUNT'', ''1''), (''GIT_CONFIG_KEY_0'', ''credential.helper''),
     (''GIT_CONFIG_VALUE_0'', []), (''GIT_TERMINAL_PROMPT'', ''0'')]"

definition safeLogName :: "string \<Rightarrow> string" where
  "safeLogName name = map (\<lambda>c. if c = CHR 0x2F \<or> c = CHR 0x5C then CHR 0x5F else c) name"

text \<open>The path \<open>openRunLog\<close> opens, for a home directory.\<close>

definition runLogPath :: "string \<Rightarrow> string \<Rightarrow> nat \<Rightarrow> int \<Rightarrow> string" where
  "runLogPath home vmn slotIndex slotCount =
     (let logDir = filepath_Join [home, ''Library'', ''Logs'', ''gha-mac-broker''];
          logName = (if 1 < slotCount then vmn @ ''-slot-'' @ Itoa (int slotIndex) else vmn)
      in filepath_Join [logDir, ''run-'' @ safeLogName logName @ ''.log''])"

text \<open>What GitHub answers to the three calls of \<open>generateJIT\<close>.\<close>

record jitConfig =
  jitRunnerName :: string
  EncodedJITConfig :: string

record github =
  InstallationID :: "string \<Rightarrow> string \<Rightarrow> err + int"
  InstallationToken :: "int \<Rightarrow> string \<Rightarrow> err + string"
  GenerateJITConfig :: "string \<Rightarrow> string \<Rightarrow> string \<Rightarrow> string \<Rightarrow> string list \<Rightarrow> err + jitConfig"

definition generateJIT :: "github \<Rightarrow> string list \<Rightarrow> string \<Rightarrow> string \<Rightarrow> string \<Rightarrow> err + jitConfig" where
  "generateJIT gh labels owner repoName runnerName =
     (case InstallationID gh owner repoName of
        Inl e \<Rightarrow> Inl (Wrapf ''broker: installation lookup: '' e [])
      | Inr i \<Rightarrow>
          (case InstallationToken gh i repoName of
             Inl e \<Rightarrow> Inl (Wrapf ''broker: installation token: '' e [])
           | Inr token \<Rightarrow>
               (case GenerateJITConfig gh token owner repoName runnerName labels of
                  Inl e \<Rightarrow> Inl (Wrapf ''broker: generate jitconfig: '' e [])
                | Inr jit \<Rightarrow> Inr jit)))"

text \<open>
  The part of the binder's \<open>RunJob\<close> before the drain: the request for the guest, or the error.
\<close>

definition buildRequest ::
  "(unit \<Rightarrow> err option) \<Rightarrow> github \<Rightarrow> string list \<Rightarrow> string \<Rightarrow> string \<Rightarrow> nat \<Rightarrow> int \<Rightarrow> int \<Rightarrow> err + runJobRequest" where
  "buildRequest guestFor gh labels repo runnerName slotIndex jobID runID =
     (let (owner, repoName, ok) = Cut repo CHR 0x2F
      in if \<not> ok then Inl (Msg (''broker: repo must be owner/repo, got '' @ Quote repo))
         else
           (case guestFor () of
              Some e \<Rightarrow> Inl e
            | None \<Rightarrow>
                (case generateJIT gh labels owner repoName runnerName of
                   Inl e \<Rightarrow> Inl e
                 | Inr jit \<Rightarrow>
                     Inr \<lparr>rqExecutionID = executionID_of repo runID jobID, rqSlot = of_nat slotIndex,
                          rqJitConfig = EncodedJITConfig jit, rqEnv = Some gitCredentialEnv,
                          rqMeta = Some \<lparr>jmRepo = repo, jmJobID = jobID, jmRunID = runID,
                                         jmRunnerName = jitRunnerName jit\<rparr>\<rparr>)))"

fun rpc_err :: "rpc_error \<Rightarrow> err" where
  "rpc_err (RpcError code e) = e"

text \<open>
  The outcome of the dispatch: an error, or that the drain goes ahead from the start of the stream.
\<close>

definition dispatchOutcome :: "rpc_error + pb_outcome \<Rightarrow> string \<Rightarrow> string \<Rightarrow> err option" where
  "dispatchOutcome response execID vmn =
     (case response of
        Inl e \<Rightarrow> Some (Wrapf (''broker: dispatch job on '' @ vmn @ '': '') (rpc_err e) [])
      | Inr PB_ACCEPTED \<Rightarrow> None
      | Inr PB_ALREADY_RUNNING \<Rightarrow> None
      | Inr PB_ALREADY_COMPLETED \<Rightarrow> None
      | Inr PB_CONFLICT \<Rightarrow> Some (Msg (''broker: guest reported execution conflict for '' @ execID @ '' on '' @ vmn))
      | Inr PB_UNSPECIFIED \<Rightarrow> Some (Msg (''broker: guest returned unspecified outcome for '' @ execID @ '' on '' @ vmn))
      | Inr (PB_other n) \<Rightarrow>
          Some (Msg (''broker: guest returned unknown outcome '' @ Itoa n @ '' for '' @ execID @ '' on '' @ vmn)))"

definition Binder_RunJob ::
  "(unit \<Rightarrow> err option) \<Rightarrow> github \<Rightarrow> string list \<Rightarrow> (runJobRequest \<Rightarrow> rpc_error + pb_outcome)
   \<Rightarrow> (64 word \<Rightarrow> drain_result option) \<Rightarrow> warmVM \<Rightarrow> string \<Rightarrow> string \<Rightarrow> nat \<Rightarrow> int \<Rightarrow> int \<Rightarrow> err option option" where
  "Binder_RunJob guestFor gh labels dispatch drain v repo runnerName slotIndex jobID runID =
     (case buildRequest guestFor gh labels repo runnerName slotIndex jobID runID of
        Inl e \<Rightarrow> Some (Some e)
      | Inr rq \<Rightarrow>
          (case dispatchOutcome (dispatch rq) (rqExecutionID rq) (vmName v) of
             Some e \<Rightarrow> Some (Some e)
           | None \<Rightarrow> map_option drErr (drain 0)))"

definition ResumeJob :: "(unit \<Rightarrow> err option) \<Rightarrow> (64 word \<Rightarrow> drain_result option) \<Rightarrow> 64 word \<Rightarrow> err option option" where
  "ResumeJob guestFor drain fromCursor =
     (case guestFor () of
        Some e \<Rightarrow> Some (Some e)
      | None \<Rightarrow> map_option drErr (drain fromCursor))"

section \<open>What one stream leaves behind\<close>

text \<open>The bytes of an event.\<close>

definition event_data :: "event \<Rightarrow> string" where
  "event_data ev = (case Payload ev of LogChunk st d \<Rightarrow> d | _ \<Rightarrow> [])"

abbreviation wire :: "event \<Rightarrow> jobStatusEvent" where
  "wire ev \<equiv> fst (eventToProto ev)"

lemma wire_seq [simp]: "jsSequence (wire ev) = Sequence ev"
  by (simp add: eventToProto_def split: payload.splits)

text \<open>The events a drain reads of a delivered list: all of them, or those up to the terminal result.\<close>

fun read_events :: "event list \<Rightarrow> event list" where
  "read_events [] = []"
| "read_events (ev # evs) = (if is_terminal (Payload ev) then [ev] else ev # read_events evs)"

lemma read_events_take: "\<exists>k. read_events evs = take k evs"
proof (induction evs)
  case Nil
  then show ?case by simp
next
  case (Cons e es)
  then obtain k where "read_events es = take k es" by blast
  then have "read_events (e # es) = take (if is_terminal (Payload e) then 1 else Suc k) (e # es)" by simp
  then show ?case by blast
qed

lemma drainStream_log:
  "drainStream (\<lambda>_. True) (map wire out) ending (Some log) cursor =
     ((let r = read_events out
       in if r \<noteq> [] \<and> is_terminal (Payload (last r))
          then (case Payload (last r) of TerminalResult c m \<Rightarrow> (Some (c, m), None))
          else (None, case ending of StreamEOF \<Rightarrow> None | StreamErr e \<Rightarrow> Some e)),
      Some (log @ concat (map event_data (read_events out))),
      if read_events out = [] then cursor else Sequence (last (read_events out)))"
proof (induction out arbitrary: log cursor)
  case Nil
  then show ?case by simp
next
  case (Cons ev out)
  have ne: "read_events out = [] \<longleftrightarrow> out = []" by (cases out) auto
  show ?case
  proof (cases "Payload ev")
    case (PhaseChange p)
    then show ?thesis
      using Cons [of log "Sequence ev"] ne
      by (simp add: eventToProto_def mirrored_def is_terminal_def event_data_def Let_def)
  next
    case (LogChunk st d)
    then show ?thesis
      using Cons [of "log @ d" "Sequence ev"] ne
      by (cases "d = []") (simp_all add: eventToProto_def mirrored_def is_terminal_def event_data_def Let_def)
  next
    case (Heartbeat t)
    then show ?thesis
      using Cons [of log "Sequence ev"] ne
      by (simp add: eventToProto_def mirrored_def is_terminal_def event_data_def Let_def)
  next
    case (TerminalResult c m)
    then show ?thesis
      by (simp add: eventToProto_def mirrored_def is_terminal_def event_data_def Let_def)
  qed
qed

end
