(* ===== verification/Broker_Props.thy ===== *)
theory Broker_Props
  imports Broker_Drain
begin

text \<open>
  The properties of the drain: it returns as soon as an attempt is decisive, its outcome says how the
  job ended, and the run log mirrors the guest's log once, whatever the connection does.
\<close>

section \<open>When the drain returns\<close>

definition decisive :: "attempt \<Rightarrow> bool" where
  "decisive a = (atDoneBefore a \<or>
     (case atOpen a of
        Inl e \<Rightarrow> isExecutionNotFound (Some e)
      | Inr (evs, ending) \<Rightarrow>
          list_ex (\<lambda>ev. case jsEvent ev of EvResult _ _ \<Rightarrow> True | _ \<Rightarrow> False) evs
          \<or> atStalled a \<or> (case ending of StreamEOF \<Rightarrow> False | StreamErr e \<Rightarrow> isExecutionNotFound (Some e))
          \<or> atDoneAfter a))"

lemma drainStream_terminal:
  "fst (fst (drainStream writes evs ending runLog cursor)) \<noteq> None
     \<longleftrightarrow> list_ex (\<lambda>ev. case jsEvent ev of EvResult _ _ \<Rightarrow> True | _ \<Rightarrow> False) evs"
  by (induction evs arbitrary: runLog cursor) (auto simp: Let_def split: pb_event.splits)

lemma drainStream_error:
  "fst (fst (drainStream writes evs ending runLog cursor)) = None \<Longrightarrow>
     snd (fst (drainStream writes evs ending runLog cursor)) = (case ending of StreamEOF \<Rightarrow> None | StreamErr e \<Rightarrow> Some e)"
  by (induction evs arbitrary: runLog cursor) (auto simp: Let_def split: pb_event.splits)

lemma drainStream_result:
  "fst (fst (drainStream writes evs ending runLog cursor)) = Some (c, m) \<Longrightarrow>
     \<exists>ev \<in> set evs. jsEvent ev = EvResult c m"
  by (induction evs arbitrary: runLog cursor) (auto simp: Let_def split: pb_event.splits)

text \<open>One pass of the loop, as a case split the properties share.\<close>

lemma drain_step:
  "drainToTerminal writes x v (a # as) runLog cursor =
     (if \<not> decisive a then
        (case atOpen a of
           Inl e \<Rightarrow> drainToTerminal writes x v as runLog cursor
         | Inr (evs, ending) \<Rightarrow>
             (let (_, log', cur') = drainStream writes evs ending runLog cursor
              in drainToTerminal writes x v as log' cur'))
      else drainToTerminal writes x v [a] runLog cursor)"
proof (cases "atOpen a")
  case (Inl e)
  then show ?thesis by (simp add: decisive_def)
next
  case (Inr p)
  obtain evs ending where p: "p = (evs, ending)" by (cases p)
  obtain t er log' cur' where d: "drainStream writes evs ending runLog cursor = ((t, er), log', cur')"
    by (metis prod.exhaust)
  have t: "(t \<noteq> None) = list_ex (\<lambda>ev. case jsEvent ev of EvResult _ _ \<Rightarrow> True | _ \<Rightarrow> False) evs"
    using drainStream_terminal [of writes evs ending runLog cursor] d by simp
  have er: "t = None \<Longrightarrow> er = (case ending of StreamEOF \<Rightarrow> None | StreamErr e \<Rightarrow> Some e)"
    using drainStream_error [of writes evs ending runLog cursor] d by simp
  show ?thesis
    using t er by (cases t) (auto simp: decisive_def Inr p d isExecutionNotFound_def split: stream_end.splits)
qed

lemma drain_decisive: "decisive a \<Longrightarrow> drainToTerminal writes x v [a] runLog cursor \<noteq> None"
proof (cases "atOpen a")
  case (Inl e)
  assume "decisive a"
  then show ?thesis using Inl by (cases "atDoneBefore a") (simp_all add: decisive_def)
next
  case (Inr p)
  assume dec: "decisive a"
  obtain evs ending where p: "p = (evs, ending)" by (cases p)
  obtain t er log' cur' where d: "drainStream writes evs ending runLog cursor = ((t, er), log', cur')"
    by (metis prod.exhaust)
  have t: "(t \<noteq> None) = list_ex (\<lambda>ev. case jsEvent ev of EvResult _ _ \<Rightarrow> True | _ \<Rightarrow> False) evs"
    using drainStream_terminal [of writes evs ending runLog cursor] d by simp
  have er: "t = None \<Longrightarrow> er = (case ending of StreamEOF \<Rightarrow> None | StreamErr e \<Rightarrow> Some e)"
    using drainStream_error [of writes evs ending runLog cursor] d by simp
  show ?thesis
    using dec t er by (cases t) (auto simp: decisive_def Inr p d isExecutionNotFound_def split: stream_end.splits)
qed

lemma drain_go:
  "\<not> decisive a \<Longrightarrow> drainToTerminal writes x v (a # as) runLog cursor =
     (case atOpen a of
        Inl e \<Rightarrow> drainToTerminal writes x v as runLog cursor
      | Inr p \<Rightarrow> drainToTerminal writes x v as (fst (snd (drainStream writes (fst p) (snd p) runLog cursor)))
                  (snd (snd (drainStream writes (fst p) (snd p) runLog cursor))))"
  by (subst drain_step) (simp add: Let_def split_beta split: sum.splits)

lemma drain_stop:
  "decisive a \<Longrightarrow> drainToTerminal writes x v (a # as) runLog cursor = drainToTerminal writes x v [a] runLog cursor"
  by (subst drain_step) simp

lemma drain_single:
  assumes "drainToTerminal writes x v [a] runLog cursor = Some (res, log', cur')"
  shows "log' = runLog \<and> cur' = cursor \<or>
    (\<exists>evs ending r. atOpen a = Inr (evs, ending) \<and> drainStream writes evs ending runLog cursor = (r, log', cur'))"
proof (cases "atOpen a")
  case (Inl e)
  then show ?thesis using assms by (auto split: if_splits)
next
  case (Inr p)
  obtain evs ending where p: "p = (evs, ending)" by (cases p)
  obtain t er log1 cur1 where d: "drainStream writes evs ending runLog cursor = ((t, er), log1, cur1)"
    by (metis prod.exhaust)
  have "log' = runLog \<and> cur' = cursor \<or> log' = log1 \<and> cur' = cur1"
    using assms by (cases t) (auto simp: Inr p d split: if_splits)
  then show ?thesis using d Inr p by auto
qed

text \<open>
  C38. The drain returns exactly when it should: it goes on reconnecting as long as streams drop without
  a verdict, and returns at the first attempt that brings one: a terminal result, an execution
  the guest no longer knows, a stream that went silent, or a cancelled context. Nothing else
  keeps it from returning.
\<close>

theorem drain_returns:
  "drainToTerminal writes execID vmn as runLog cursor \<noteq> None \<longleftrightarrow> list_ex decisive as"
proof (induction as arbitrary: runLog cursor)
  case Nil
  then show ?case by simp
next
  case (Cons a as)
  show ?case
  proof (cases "decisive a")
    case True
    then show ?thesis
      using drain_decisive [OF True, of writes execID vmn runLog cursor] unfolding drain_stop [OF True, where as = as]
      by simp
  next
    case False
    then show ?thesis
      unfolding drain_go [OF False] using Cons.IH by (cases "atOpen a") (simp_all add: False del: drainToTerminal.simps)
  qed
qed

section \<open>What the outcome says\<close>

text \<open>Why a drain ended without being cancelled.\<close>

datatype drain_reason = JobExited "32 word" string | ExecutionGone | StreamSilent

fun reason_err :: "string \<Rightarrow> string \<Rightarrow> drain_reason \<Rightarrow> err option" where
  "reason_err execID vmn (JobExited c m) = terminalToError (c, m) execID vmn"
| "reason_err execID vmn ExecutionGone = None"
| "reason_err execID vmn StreamSilent = Some (Sentinel ErrDrainStalled)"

fun reason_of :: "attempt \<Rightarrow> drain_reason \<Rightarrow> bool" where
  "reason_of a (JobExited c m) = (case atOpen a of Inl _ \<Rightarrow> False | Inr (evs, _) \<Rightarrow> \<exists>ev \<in> set evs. jsEvent ev = EvResult c m)"
| "reason_of a ExecutionGone = (case atOpen a of Inl e \<Rightarrow> isExecutionNotFound (Some e)
     | Inr (_, ending) \<Rightarrow> (case ending of StreamEOF \<Rightarrow> False | StreamErr e \<Rightarrow> isExecutionNotFound (Some e)))"
| "reason_of a StreamSilent = atStalled a"

lemma drain_reason:
  "drainToTerminal writes x v as runLog cursor = Some ((False, e), log', cur') \<Longrightarrow>
     \<exists>a \<in> set as. \<exists>r. reason_of a r \<and> e = reason_err x v r"
proof (induction as arbitrary: runLog cursor)
  case Nil
  then show ?case by simp
next
  case (Cons a as)
  show ?case
  proof (cases "decisive a")
    case False
    show ?thesis
    proof (cases "atOpen a")
      case (Inl er)
      then show ?thesis
        using Cons.IH [of runLog cursor] Cons.prems unfolding drain_go [OF False] Inl sum.case by auto
    next
      case (Inr p)
      show ?thesis
        using Cons.IH [OF Cons.prems [unfolded drain_go [OF False] Inr sum.case]] by auto
    qed
  next
    case True
    then have d: "drainToTerminal writes x v [a] runLog cursor = Some ((False, e), log', cur')"
      using Cons.prems unfolding drain_stop [OF True, where as = as] by simp
    show ?thesis
    proof (cases "atOpen a")
      case (Inl er)
      then have "reason_of a ExecutionGone \<and> e = reason_err x v ExecutionGone"
        using d by (auto split: if_splits)
      then show ?thesis by (metis list.set_intros(1))
    next
      case (Inr p)
      obtain evs ending where p: "p = (evs, ending)" by (cases p)
      obtain t er log1 cur1 where s: "drainStream writes evs ending runLog cursor = ((t, er), log1, cur1)"
        by (metis prod.exhaust)
      show ?thesis
      proof (cases t)
        case None
        then have "er = (case ending of StreamEOF \<Rightarrow> None | StreamErr e \<Rightarrow> Some e)"
          using drainStream_error [of writes evs ending runLog cursor] s by simp
        then have "reason_of a (if atStalled a then StreamSilent else ExecutionGone)
            \<and> e = reason_err x v (if atStalled a then StreamSilent else ExecutionGone)"
          using d None by (auto simp: Inr p s isExecutionNotFound_def split: if_splits stream_end.splits)
        then show ?thesis by (metis list.set_intros(1))
      next
        case (Some cm)
        then have "reason_of a (JobExited (fst cm) (snd cm)) \<and> e = reason_err x v (JobExited (fst cm) (snd cm))"
          using d drainStream_result [of writes evs ending runLog cursor "fst cm" "snd cm"] s
          by (auto simp: Inr p split: if_splits)
        then show ?thesis by (metis list.set_intros(1))
      qed
    qed
  qed
qed

text \<open>
  The error of a drained job tells the pool how the job ended. If the drain was not cancelled, it is
  nil only when the guest reported exit code 0 or no longer knows the execution, it carries
  \<open>ErrJobTerminal\<close> exactly when the guest reported another exit code, and \<open>ErrDrainStalled\<close> exactly when
  the stream went silent; none of these is mistaken for a detach. A detach is reported only for
  a plain cancellation, and then the guest's job was left alone.
\<close>

theorem drain_error_classifies:
  assumes "drainJob writes execID vmn runLog fromSeq as1 action as2 = Some d"
  shows "(\<exists>r. \<exists>a \<in> set as1. reason_of a r \<and> \<not> drCancelled d
            \<and> (drErr d = None \<longleftrightarrow> r = ExecutionGone \<or> (\<exists>m. r = JobExited 0 m))
            \<and> ((\<exists>e. drErr d = Some e \<and> errors_Is e ErrJobTerminal) \<longleftrightarrow> (\<exists>c m. r = JobExited c m \<and> c \<noteq> 0))
            \<and> ((\<exists>e. drErr d = Some e \<and> errors_Is e ErrDrainStalled) \<longleftrightarrow> r = StreamSilent)
            \<and> \<not> (\<exists>e. drErr d = Some e \<and> errors_Is e ContextCanceled))
       \<or> (action = cancelDetach \<and> drErr d = Some (Sentinel ContextCanceled) \<and> \<not> drCancelled d)
       \<or> (action \<noteq> cancelDetach \<and> drCancelled d \<and> \<not> (\<exists>e. drErr d = Some e \<and> errors_Is e ContextCanceled))"
proof -
  obtain b e log1 cur1 where first: "drainToTerminal writes execID vmn as1 runLog fromSeq = Some ((b, e), log1, cur1)"
    using assms by (auto simp: drainJob_def split: option.splits)
  show ?thesis
  proof (cases b)
    case b: False
    obtain r a where r: "a \<in> set as1" "reason_of a r" "e = reason_err execID vmn r"
      using drain_reason [OF first [simplified b]] by blast
    have e: "drErr d = (case e of None \<Rightarrow> None | Some er \<Rightarrow> if errors_Is er ErrDrainStalled then Some er
                else Some (Joined [er, Sentinel ErrJobTerminal]))" "\<not> drCancelled d"
      using assms first b by (auto simp: drainJob_def)
    show ?thesis
      by (rule disjI1, rule exI [of _ r], rule bexI [OF _ r(1)])
         (use r e in \<open>cases r; auto simp: terminalToError_def\<close>)
  next
    case True
    have t: "\<not> (\<exists>er. e2 = Some er \<and> errors_Is er ContextCanceled)"
      if sec: "drainToTerminal writes execID vmn as2 log1 cur1 = Some ((False, e2), l2, c2)" for e2 l2 c2
    proof -
      obtain r a where "e2 = reason_err execID vmn r" using drain_reason [OF sec] by blast
      then show ?thesis by (cases r) (auto simp: terminalToError_def)
    qed
    show ?thesis
      using assms first True t by (auto simp: drainJob_def split: option.splits prod.splits if_splits)
  qed
qed

section \<open>The run log\<close>

text \<open>An attempt with the events as the guest sent them, before conversion to the wire.\<close>

record gattempt =
  gaDoneBefore :: bool
  gaOpen :: "rpc_error + event list \<times> stream_end"
  gaStalled :: bool
  gaDoneAfter :: bool

definition wire_attempt :: "gattempt \<Rightarrow> attempt" where
  "wire_attempt g = \<lparr>atDoneBefore = gaDoneBefore g,
     atOpen = (case gaOpen g of Inl e \<Rightarrow> Inl e | Inr (out, ending) \<Rightarrow> Inr (map wire out, ending)),
     atStalled = gaStalled g, atDoneAfter = gaDoneAfter g\<rparr>"

text \<open>
  What the registry promises its subscribers (\<open>subscriber_receives_suffix\<close>), along the drain's attempts:
  each stream carries the original log's events after the cursor the drain asked for, as far as
  the connection lasted.
\<close>

fun served :: "event list \<Rightarrow> 64 word \<Rightarrow> gattempt list \<Rightarrow> bool" where
  "served orig cursor [] = True"
| "served orig cursor (g # gs) =
     (case gaOpen g of
        Inl e \<Rightarrow> served orig cursor gs
      | Inr (out, ending) \<Rightarrow>
          (out \<noteq> [] \<longrightarrow> copy_of orig (unat cursor) out)
          \<and> served orig (if read_events out = [] then cursor else Sequence (last (read_events out))) gs)"

text \<open>The chunks written for the events after the first \<open>n\<close>: one per event, its bytes or nothing.\<close>

definition mirrors :: "event list \<Rightarrow> nat \<Rightarrow> string list \<Rightarrow> bool" where
  "mirrors orig n chunks = (n + length chunks \<le> length orig
     \<and> (\<forall>j < length chunks. chunks ! j = event_data (orig ! (n + j)) \<or> chunks ! j = []))"

lemma event_data_truncate [simp]: "event_data (truncate_event e) = []"
  by (cases "Payload e") (simp_all add: event_data_def)

lemma mirrors_copy: "copy_of orig n out \<Longrightarrow> mirrors orig n (map event_data out)"
  by (auto simp: mirrors_def copy_of_def)

lemma mirrors_append:
  assumes "mirrors orig n xs" and "mirrors orig (n + length xs) ys"
  shows "mirrors orig n (xs @ ys)"
proof -
  have "(xs @ ys) ! j = event_data (orig ! (n + j)) \<or> (xs @ ys) ! j = []" if j: "j < length (xs @ ys)" for j
  proof (cases "j < length xs")
    case True
    then show ?thesis using assms(1) by (auto simp: mirrors_def nth_append)
  next
    case False
    then have "ys ! (j - length xs) = event_data (orig ! (n + length xs + (j - length xs))) \<or> ys ! (j - length xs) = []"
      using assms(2) j unfolding mirrors_def length_append by (metis add_less_imp_less_left le_add_diff_inverse not_less)
    moreover have "n + length xs + (j - length xs) = n + j" using False by simp
    ultimately show ?thesis using False by (simp only: nth_append if_False)
  qed
  then show ?thesis using assms(2) by (simp add: mirrors_def)
qed

lemma mirrors_Nil [simp]: "n \<le> length orig \<Longrightarrow> mirrors orig n []"
  by (simp add: mirrors_def)

lemma read_cursor:
  assumes "contiguous orig" and "length orig < 2 ^ 64" and "copy_of orig n out" and "read_events out \<noteq> []"
  shows "unat (Sequence (last (read_events out))) = n + length (read_events out) \<and> copy_of orig n (read_events out)"
proof -
  let ?r = "read_events out"
  obtain k where "?r = take k out" using read_events_take by blast
  then have c: "copy_of orig n ?r" using copy_take [OF assms(3)] by simp
  have l: "length ?r - 1 < length ?r" using assms(4) by simp
  have idx: "n + (length ?r - 1) < length orig" using c l unfolding copy_of_def by linarith
  have "Sequence (?r ! (length ?r - 1)) = Sequence (orig ! (n + (length ?r - 1)))"
    by (rule copy_Sequence [OF c l])
  also have "\<dots> = of_nat (Suc (n + (length ?r - 1)))"
    using assms(1) idx by (simp only: contiguous_def)
  also have "Suc (n + (length ?r - 1)) = n + length ?r" using l by simp
  finally have "Sequence (last ?r) = of_nat (n + length ?r)" using assms(4) by (simp add: last_conv_nth)
  moreover have "n + length ?r < 2 ^ 64" using c assms(2) by (simp add: copy_of_def)
  ultimately show ?thesis using c by (simp only: unat_of_nat64 simp_thms)
qed

text \<open>One attempt writes the chunks of the events it read and moves the cursor past them.\<close>

lemma attempt_mirrors:
  assumes "contiguous orig" and "length orig < 2 ^ 64" and "unat cursor \<le> length orig"
    and "out \<noteq> [] \<longrightarrow> copy_of orig (unat cursor) out"
    and "drainStream (\<lambda>_. True) (map wire out) ending (Some log) cursor = (res, Some log', cursor')"
  shows "\<exists>chunks. log' = log @ concat chunks \<and> mirrors orig (unat cursor) chunks
    \<and> unat cursor' = unat cursor + length chunks
    \<and> cursor' = (if read_events out = [] then cursor else Sequence (last (read_events out)))"
proof -
  have d: "log' = log @ concat (map event_data (read_events out))"
    "cursor' = (if read_events out = [] then cursor else Sequence (last (read_events out)))"
    using assms(5) unfolding drainStream_log by auto
  show ?thesis
  proof (cases "read_events out = []")
    case True
    then show ?thesis using d assms(3) by (intro exI [of _ "[]"]) simp
  next
    case False
    then have "out \<noteq> []" by auto
    then have c: "copy_of orig (unat cursor) out" using assms(4) by simp
    show ?thesis
      using read_cursor [OF assms(1,2) c False] False d mirrors_copy
      by (intro exI [of _ "map event_data (read_events out)"]) auto
  qed
qed

lemma drainStream_logged:
  "\<exists>res log' cur'. drainStream (\<lambda>_. True) (map wire out) ending (Some log) cursor = (res, Some log', cur')"
  unfolding drainStream_log by auto

lemma drain_mirrors:
  assumes "contiguous orig" and "length orig < 2 ^ 64"
  shows "served orig cursor gs \<Longrightarrow> unat cursor \<le> length orig \<Longrightarrow>
    drainToTerminal (\<lambda>_. True) x v (map wire_attempt gs) (Some log) cursor = Some (res, log', cursor') \<Longrightarrow>
    \<exists>chunks. log' = Some (log @ concat chunks) \<and> mirrors orig (unat cursor) chunks
      \<and> unat cursor' = unat cursor + length chunks"
proof (induction gs arbitrary: cursor log)
  case Nil
  then show ?case by simp
next
  case (Cons g gs)
  let ?a = "wire_attempt g"
  have stay: "\<exists>chunks. Some log = Some (log @ concat chunks) \<and> mirrors orig (unat cursor) chunks
      \<and> unat cursor = unat cursor + length chunks"
    using Cons.prems(2) by (intro exI [of _ "[]"]) simp
  have open': "atOpen ?a = (case gaOpen g of Inl e \<Rightarrow> Inl e | Inr (out, ending) \<Rightarrow> Inr (map wire out, ending))"
    by (simp add: wire_attempt_def)
  have sv: "\<exists>chunks. log1 = log @ concat chunks \<and> mirrors orig (unat cursor) chunks
      \<and> unat cur1 = unat cursor + length chunks \<and> served orig cur1 gs"
    if "gaOpen g = Inr (out, ending)" "drainStream (\<lambda>_. True) (map wire out) ending (Some log) cursor = (r, Some log1, cur1)"
    for out ending r log1 cur1
    using attempt_mirrors [OF assms Cons.prems(2) _ that(2)] Cons.prems(1) that(1) by auto
  show ?case
  proof (cases "decisive ?a")
    case True
    then have d: "drainToTerminal (\<lambda>_. True) x v [?a] (Some log) cursor = Some (res, log', cursor')"
      using Cons.prems(3) drain_stop [OF True, where as = "map wire_attempt gs"] by (simp only: list.map)
    show ?thesis
    proof (cases "gaOpen g")
      case (Inl e)
      then show ?thesis using drain_single [OF d] stay by (simp add: open')
    next
      case (Inr p)
      obtain out ending where p: "p = (out, ending)" by (cases p)
      obtain r log1 cur1 where ds: "drainStream (\<lambda>_. True) (map wire out) ending (Some log) cursor = (r, Some log1, cur1)"
        using drainStream_logged [of out ending log cursor] by blast
      then have "log' = Some log \<and> cursor' = cursor \<or> log' = Some log1 \<and> cursor' = cur1"
        using drain_single [OF d] by (auto simp: open' Inr p)
      then show ?thesis using stay sv [of out ending r log1 cur1] Inr p ds by auto
    qed
  next
    case False
    show ?thesis
    proof (cases "gaOpen g")
      case (Inl e)
      then show ?thesis
        using Cons.IH [of cursor log] Cons.prems
        by (simp only: list.map drain_go [OF False] open' sum.case served.simps)
    next
      case (Inr p)
      obtain out ending where p: "p = (out, ending)" by (cases p)
      obtain r log1 cur1 where ds: "drainStream (\<lambda>_. True) (map wire out) ending (Some log) cursor = (r, Some log1, cur1)"
        using drainStream_logged [of out ending log cursor] by blast
      obtain chunks where c: "log1 = log @ concat chunks" "mirrors orig (unat cursor) chunks"
        "unat cur1 = unat cursor + length chunks" "served orig cur1 gs"
        using sv [of out ending r log1 cur1] Inr p ds by auto
      have le: "unat cur1 \<le> length orig" using c(2,3) by (simp add: mirrors_def)
      have "drainToTerminal (\<lambda>_. True) x v (map wire_attempt gs) (Some log1) cur1 = Some (res, log', cursor')"
        using Cons.prems(3) False by (simp only: list.map drain_go [OF False] open' Inr p ds sum.case prod.case fst_conv snd_conv)
      then obtain xs where m: "log' = Some (log1 @ concat xs)" "mirrors orig (unat cur1) xs"
          "unat cursor' = unat cur1 + length xs"
        using Cons.IH [OF c(4) le] by blast
      then have "mirrors orig (unat cursor) (chunks @ xs)"
        using c(2,3) by (intro mirrors_append) simp_all
      then show ?thesis using m c by (intro exI [of _ "chunks @ xs"]) simp
    qed
  qed
qed


end
