(* ===== verification/Broker_Demo.thy ===== *)
theory Broker_Demo
  imports Broker_Props Exec_Demo
begin

text \<open>
  A concrete drain: the stream drops after the first event, the next attempt brings the rest of the
  log, whose terminal result says that the runner exited with code 3.
\<close>

definition db_attempts :: "gattempt list" where
  "db_attempts =
     [\<lparr>gaDoneBefore = False, gaOpen = Inr ([dx_events ! 0], StreamErr (RpcError CodeUnavailable (Msg ''reset''))),
       gaStalled = False, gaDoneAfter = False\<rparr>,
      \<lparr>gaDoneBefore = False, gaOpen = Inr ([dx_events ! 1, dx_events ! 2], StreamEOF),
       gaStalled = False, gaDoneAfter = False\<rparr>]"

lemma db_drain:
  "drainToTerminal (\<lambda>_. True) ''o/r#8#7'' ''warm-1'' (map wire_attempt db_attempts) (Some []) 0
   = Some ((False, terminalToError (3, ''exit status 3'') ''o/r#8#7'' ''warm-1''), Some [], 3)"
  by (simp add: db_attempts_def wire_attempt_def dx_events_def eventToProto_def mirrored_def isExecutionNotFound_def)


theorem drain_error_classifies_witness:
  "\<exists>d. drainJob (\<lambda>_. True) ''o/r#8#7'' ''warm-1'' (Some []) 0 (map wire_attempt db_attempts) cancelNone [] = Some d
     \<and> (\<exists>e. drErr d = Some e \<and> errors_Is e ErrJobTerminal)"
proof -
  let ?d = "\<lparr>drErr = Some (Joined [the (terminalToError (3, ''exit status 3'') ''o/r#8#7'' ''warm-1''), Sentinel ErrJobTerminal]),
     drLog = Some [], drCursor = 3, drCancelled = False\<rparr>"
  have d: "drainJob (\<lambda>_. True) ''o/r#8#7'' ''warm-1'' (Some []) 0 (map wire_attempt db_attempts) cancelNone [] = Some ?d"
    by (simp add: drainJob_def db_drain terminalToError_def)
  from drain_error_classifies [OF d] have "\<not> drCancelled ?d" by simp
  then show ?thesis using d by (intro exI [of _ ?d]) simp
qed

end
