(* ===== verification/Pool_Types.thy ===== *)
theory Pool_Types
  imports Broker_Types Go_Context
begin

text \<open>
  The data of \<open>internal/runnerpool\<close>: jobs, options, worker and slot states, the pool, and the
  helpers on one worker state. A \<open>*broker.WarmVM\<close> is known to the pool by its name and image.
  A \<open>context.CancelCauseFunc\<close> held in a slot is the identifier of the context it cancels
  (\<^theory_text>\<open>Go_Context\<close>). Slot and worker indices that come from ranging over a slice are natural
  numbers, so the code's tests for a negative index are left out where only such an index can
  reach them.
\<close>

section \<open>Data\<close>

record job =
  Repo :: string
  JobID :: int
  RunID :: int

text \<open>The clock of \<open>Options.Now\<close>: \<open>time.Now\<close> or a function the caller supplies, by identity.\<close>

datatype clock = TimeNow | ClockFn nat

record options =
  RunnerCount :: int
  JobsPerVM :: int
  Image :: string
  MaxIdle :: duration
  MaxAge :: duration
  MaxBind :: duration
  PickupTimeout :: duration
  RunToken :: string
  WarmRetryDelay :: duration
  Now :: "clock option"

record slotState =
  boundAt :: time
  busy :: bool
  slotJobID :: int
  slotRunID :: int
  executionID :: string
  resumeCursor :: "64 word"
  jobCancel :: "nat option"
  reapWarnedAt :: time
  adopted :: bool
  slotErr :: "err option"

record workerState =
  vm :: "warmVM option"
  bornAt :: time
  idleSince :: time
  warming :: bool
  recycle :: bool
  slots :: "slotState list"
  lastErr :: "err option"

text \<open>
  The pool. \<open>done_closed\<close> says that the \<open>done\<close> channel is closed, \<open>poolCtx\<close> is the
  context \<open>Start\<close> derives, \<open>startOnce\<close> and \<open>shutdownOnce\<close> say whether the
  \<open>sync.Once\<close> has fired, \<open>contexts\<close> is the context tree of the process, and
  \<open>broadcasts\<close> counts the calls of \<open>cond.Broadcast\<close>.
\<close>

record pool =
  options :: options
  queue :: "job list"
  states :: "workerState list"
  started :: bool
  shuttingDown :: bool
  done_closed :: bool
  poolCtx :: "nat option"
  startOnce :: bool
  shutdownOnce :: bool
  counter :: int
  contexts :: ctxs
  broadcasts :: nat

section \<open>Constants and options\<close>

definition defaultRunnerCount :: int where "defaultRunnerCount = 3"
definition defaultJobsPerVM :: int where "defaultJobsPerVM = 1"
definition defaultWarmRetryDelay :: duration where "defaultWarmRetryDelay = 5 * second"
definition defaultMaxBind :: duration where "defaultMaxBind = 7 * 3600 * second"
definition defaultPickupTimeout :: duration where "defaultPickupTimeout = 5 * 60 * second"

lemmas pool_defaults = defaultRunnerCount_def defaultJobsPerVM_def defaultWarmRetryDelay_def
  defaultMaxBind_def defaultPickupTimeout_def second_def

definition normalizeOptions :: "options \<Rightarrow> options" where
  "normalizeOptions o0 =
     (let o1 = (if RunnerCount o0 \<le> 0 then o0\<lparr>RunnerCount := defaultRunnerCount\<rparr> else o0);
          o2 = (if JobsPerVM o1 \<le> 0 then o1\<lparr>JobsPerVM := defaultJobsPerVM\<rparr> else o1);
          o3 = (if WarmRetryDelay o2 \<le> 0 then o2\<lparr>WarmRetryDelay := defaultWarmRetryDelay\<rparr> else o2);
          o4 = (if MaxBind o3 \<le> 0 then o3\<lparr>MaxBind := defaultMaxBind\<rparr> else o3);
          o5 = (if PickupTimeout o4 \<le> 0 then o4\<lparr>PickupTimeout := defaultPickupTimeout\<rparr> else o4);
          o6 = (if Now o5 = None then o5\<lparr>Now := Some TimeNow\<rparr> else o5)
      in if RunToken o6 = [] then o6\<lparr>RunToken := ''pool''\<rparr> else o6)"

text \<open>What \<open>normalizeOptions\<close> establishes and the pool then relies on.\<close>

definition options_ok :: "options \<Rightarrow> bool" where
  "options_ok opts = (0 < RunnerCount opts \<and> 0 < JobsPerVM opts \<and> 0 < WarmRetryDelay opts
     \<and> 0 < MaxBind opts \<and> 0 < PickupTimeout opts \<and> Now opts \<noteq> None \<and> RunToken opts \<noteq> [])"

lemma normalizeOptions_ok: "options_ok (normalizeOptions opts)"
  by (simp add: normalizeOptions_def options_ok_def Let_def pool_defaults)

lemma normalizeOptions_id: "options_ok opts \<Longrightarrow> normalizeOptions opts = opts"
  by (simp add: normalizeOptions_def options_ok_def Let_def)

lemma normalizeOptions_idem: "normalizeOptions (normalizeOptions opts) = normalizeOptions opts"
  by (rule normalizeOptions_id [OF normalizeOptions_ok])

section \<open>Slots and workers\<close>

definition emptySlotState :: slotState where
  "emptySlotState = \<lparr>boundAt = time_zero, busy = False, slotJobID = 0, slotRunID = 0,
     executionID = [], resumeCursor = 0, jobCancel = None, reapWarnedAt = time_zero,
     adopted = False, slotErr = None\<rparr>"

text \<open>\<open>make([]slotState, n)\<close>: \<open>n\<close> zero values.\<close>

definition makeSlots :: "int \<Rightarrow> slotState list" where
  "makeSlots n = replicate (nat n) emptySlotState"

definition zeroWorkerState :: workerState where
  "zeroWorkerState = \<lparr>vm = None, bornAt = time_zero, idleSince = time_zero, warming = False,
     recycle = False, slots = [], lastErr = None\<rparr>"

definition newWorkerStates :: "int \<Rightarrow> int \<Rightarrow> workerState list" where
  "newWorkerStates runnerCount jobsPerVM =
     replicate (nat runnerCount) (zeroWorkerState\<lparr>slots := makeSlots jobsPerVM\<rparr>)"

definition emptyJob :: job where
  "emptyJob = \<lparr>Repo = [], JobID = 0, RunID = 0\<rparr>"

definition workerBusy :: "workerState \<Rightarrow> bool" where
  "workerBusy st = list_ex busy (slots st)"

text \<open>
  \<open>resetSlots\<close> calls the cancel function of each slot that has one with a nil cause and empties
  every slot; the contexts it cancels are threaded through.
\<close>

fun resetSlots :: "ctxs \<Rightarrow> slotState list \<Rightarrow> ctxs \<times> slotState list" where
  "resetSlots cs [] = (cs, [])"
| "resetSlots cs (s # ss) =
     (let cs' = (case jobCancel s of None \<Rightarrow> cs | Some c \<Rightarrow> ctx_cancel cs c None);
          (cs'', ss') = resetSlots cs' ss
      in (cs'', emptySlotState # ss'))"

definition resetWorkerSlotsToLocked :: "ctxs \<Rightarrow> workerState \<Rightarrow> int \<Rightarrow> ctxs \<times> workerState" where
  "resetWorkerSlotsToLocked cs st slotCount =
     (let n = (if slotCount \<le> 0 then defaultJobsPerVM else slotCount)
      in if int (length (slots st)) \<noteq> n then (cs, st\<lparr>slots := makeSlots n\<rparr>)
         else let (cs', ss) = resetSlots cs (slots st) in (cs', st\<lparr>slots := ss\<rparr>))"

definition resetWorkerSlotsLocked :: "pool \<Rightarrow> workerState \<Rightarrow> ctxs \<times> workerState" where
  "resetWorkerSlotsLocked p st = resetWorkerSlotsToLocked (contexts p) st (JobsPerVM (options p))"

lemma busy_emptySlotState [simp]: "\<not> busy emptySlotState"
  by (simp add: emptySlotState_def)

lemma jobCancel_emptySlotState [simp]: "jobCancel emptySlotState = None"
  by (simp add: emptySlotState_def)

lemma adopted_emptySlotState [simp]: "\<not> adopted emptySlotState"
  by (simp add: emptySlotState_def)

lemma snd_resetSlots [simp]: "snd (resetSlots cs ss) = replicate (length ss) emptySlotState"
  by (induction ss arbitrary: cs) (auto simp: Let_def split_beta)

lemma length_fst_resetSlots [simp]: "length (fst (resetSlots cs ss)) = length cs"
  by (induction ss arbitrary: cs) (auto simp: Let_def split_beta split: option.splits)

lemma resetSlots_keeps_cause:
  "ctx_cause cs c = Some s \<Longrightarrow> ctx_cause (fst (resetSlots cs ss)) c = Some s"
  by (induction ss arbitrary: cs)
     (auto simp: Let_def split_beta ctx_cause_cancel_stable split: option.splits)

text \<open>A slot reset detaches: every context it cancels has the plain cause \<open>context.Canceled\<close>.\<close>

lemma resetWorkerSlotsTo_slots:
  "slots (snd (resetWorkerSlotsToLocked cs st n)) = makeSlots (if n \<le> 0 then defaultJobsPerVM else n)"
  by (auto simp: resetWorkerSlotsToLocked_def Let_def makeSlots_def split_beta defaultJobsPerVM_def)

lemma resetWorkerSlotsTo_frame:
  "vm (snd (resetWorkerSlotsToLocked cs st n)) = vm st"
  "bornAt (snd (resetWorkerSlotsToLocked cs st n)) = bornAt st"
  "idleSince (snd (resetWorkerSlotsToLocked cs st n)) = idleSince st"
  "warming (snd (resetWorkerSlotsToLocked cs st n)) = warming st"
  "recycle (snd (resetWorkerSlotsToLocked cs st n)) = recycle st"
  "lastErr (snd (resetWorkerSlotsToLocked cs st n)) = lastErr st"
  by (simp_all add: resetWorkerSlotsToLocked_def Let_def split_beta)

lemma workerBusy_makeSlots: "slots st = makeSlots n \<Longrightarrow> \<not> workerBusy st"
  by (auto simp: workerBusy_def makeSlots_def list_ex_iff)

lemma resetWorkerSlotsTo_not_busy: "\<not> workerBusy (snd (resetWorkerSlotsToLocked cs st n))"
  by (simp add: workerBusy_makeSlots [OF resetWorkerSlotsTo_slots])

section \<open>Creating a pool\<close>

text \<open>\<open>New\<close>; \<open>contexts\<close> are those of the process so far.\<close>

definition New :: "options \<Rightarrow> ctxs \<Rightarrow> pool" where
  "New opts cs =
     (let o' = normalizeOptions opts
      in \<lparr>options = o', queue = [], states = newWorkerStates (RunnerCount o') (JobsPerVM o'),
          started = False, shuttingDown = False, done_closed = False, poolCtx = None,
          startOnce = False, shutdownOnce = False, counter = 0, contexts = cs, broadcasts = 0\<rparr>)"

definition broadcast :: "pool \<Rightarrow> pool" where
  "broadcast p = p\<lparr>broadcasts := Suc (broadcasts p)\<rparr>"

definition set_state :: "pool \<Rightarrow> nat \<Rightarrow> workerState \<Rightarrow> pool" where
  "set_state p i st = p\<lparr>states := (states p)[i := st]\<rparr>"

text \<open>
  The well-formedness every operation keeps: normalised options, one state per worker, no
  worker without slots, and the context identifiers in use are contexts of the tree.
\<close>

definition slot_wf :: "ctxs \<Rightarrow> slotState \<Rightarrow> bool" where
  "slot_wf cs s = ((\<forall>c. jobCancel s = Some c \<longrightarrow> c < length cs) \<and>
     (jobCancel s \<noteq> None \<longrightarrow> busy s))"

definition worker_wf :: "ctxs \<Rightarrow> workerState \<Rightarrow> bool" where
  "worker_wf cs st = (slots st \<noteq> [] \<and> list_all (slot_wf cs) (slots st))"

definition pool_wf :: "pool \<Rightarrow> bool" where
  "pool_wf p = (options_ok (options p) \<and> int (length (states p)) = RunnerCount (options p)
     \<and> list_all (worker_wf (contexts p)) (states p))"

lemma slot_wf_empty [simp]: "slot_wf cs emptySlotState"
  by (simp add: slot_wf_def)

lemma worker_wf_makeSlots: "0 < n \<Longrightarrow> slots st = makeSlots n \<Longrightarrow> worker_wf cs st"
  by (auto simp: worker_wf_def makeSlots_def list_all_iff)

lemma slot_wf_mono: "slot_wf cs s \<Longrightarrow> length cs \<le> length cs' \<Longrightarrow> slot_wf cs' s"
  by (auto simp: slot_wf_def)

lemma worker_wf_mono: "worker_wf cs st \<Longrightarrow> length cs \<le> length cs' \<Longrightarrow> worker_wf cs' st"
  by (auto simp: worker_wf_def list_all_iff intro: slot_wf_mono)

lemma worker_wf_cong: "slots st = slots st' \<Longrightarrow> worker_wf cs st = worker_wf cs st'"
  by (simp add: worker_wf_def)

lemma worker_wf_slot_update:
  "worker_wf cs st \<Longrightarrow> slot_wf cs s \<Longrightarrow> worker_wf cs (st\<lparr>slots := (slots st)[j := s]\<rparr>)"
  by (auto simp: worker_wf_def list_all_iff dest!: set_list_updateD)

lemma pool_wf_set_state:
  assumes "pool_wf p" and "worker_wf cs st" and "length (contexts p) \<le> length cs"
  shows "pool_wf (set_state p i st\<lparr>contexts := cs\<rparr>)"
  using assms
  by (auto simp: pool_wf_def set_state_def list_all_iff dest!: set_list_updateD intro: worker_wf_mono)

lemma pool_wf_state: "pool_wf p \<Longrightarrow> i < length (states p) \<Longrightarrow> worker_wf (contexts p) (states p ! i)"
  by (auto simp: pool_wf_def list_all_iff)

lemma worker_wf_slot: "worker_wf cs st \<Longrightarrow> j < length (slots st) \<Longrightarrow> slot_wf cs (slots st ! j)"
  by (auto simp: worker_wf_def list_all_iff)

lemma pool_wf_broadcast [simp]: "pool_wf (broadcast p) = pool_wf p"
  by (simp add: broadcast_def pool_wf_def)

lemma pool_wf_New: "pool_wf (New opts cs)"
proof -
  let ?o = "normalizeOptions opts"
  have ok: "options_ok ?o" by (rule normalizeOptions_ok)
  then have "0 < RunnerCount ?o" "0 < JobsPerVM ?o" by (auto simp: options_ok_def)
  then show ?thesis
    using ok by (auto simp: pool_wf_def New_def Let_def newWorkerStates_def list_all_iff
        intro: worker_wf_makeSlots [of "JobsPerVM ?o"])
qed

end
