(* ===== verification/Pool_Ops.thy ===== *)
theory Pool_Ops
  imports Pool_Types
begin

text \<open>
  The atomic operations of the pool: each definition is the body of one function of
  \<open>internal/runnerpool\<close> that runs under \<open>p.mu\<close>, or, for the functions that wait on the
  condition variable, one pass of their loop. A reading of \<open>p.options.Now()\<close> is the
  argument \<open>now\<close>. The functions that index \<open>p.states\<close> without a bounds check are run with a
  worker index below \<open>RunnerCount\<close>, which \<open>pool_wf\<close> makes the length of the list.
\<close>

section \<open>Snapshot\<close>

record snapshot =
  snRunnerCount :: int
  Idle :: nat
  Busy :: nat
  Queued :: nat
  Healthy :: bool
  ReadyFlag :: bool

definition alive :: "workerState \<Rightarrow> bool" where
  "alive st = (vm st \<noteq> None \<and> \<not> recycle st \<and> lastErr st = None)"

definition countIdle :: "workerState \<Rightarrow> nat" where
  "countIdle st = (if alive st then length (filter (\<lambda>s. \<not> busy s) (slots st)) else 0)"

definition countBusy :: "workerState \<Rightarrow> nat" where
  "countBusy st = length (filter busy (slots st))"

definition countActive :: "workerState \<Rightarrow> nat" where
  "countActive st = (if alive st then length (slots st) else 0)"

definition snapshotLocked :: "pool \<Rightarrow> snapshot" where
  "snapshotLocked p =
     (let s0 = \<lparr>snRunnerCount = RunnerCount (options p), Idle = 0, Busy = 0,
                Queued = length (queue p), Healthy = started p \<and> \<not> shuttingDown p,
                ReadyFlag = False\<rparr>
      in if \<not> started p \<or> shuttingDown p then s0
         else
           let activeSlots = sum_list (map countActive (states p));
               s1 = s0\<lparr>Idle := sum_list (map countIdle (states p)),
                       Busy := sum_list (map countBusy (states p)),
                       Healthy := 0 < activeSlots\<rparr>
           in s1\<lparr>ReadyFlag := Queued s1 < Idle s1\<rparr>)"

definition Ready :: "pool \<Rightarrow> bool" where
  "Ready p = ReadyFlag (snapshotLocked p)"

section \<open>The queue\<close>

text \<open>\<open>Enqueue\<close>; \<open>ctxErr\<close> is the error of the caller's context.\<close>

definition Enqueue :: "pool \<Rightarrow> err option \<Rightarrow> job \<Rightarrow> err option \<times> pool" where
  "Enqueue p ctxErr j =
     (case ctxErr of
        Some e \<Rightarrow> (Some (Wrapf ''runnerpool: enqueue: '' e []), p)
      | None \<Rightarrow>
          if shuttingDown p then (Some (Msg ''runnerpool: enqueue after shutdown''), p)
          else (None, broadcast (p\<lparr>queue := queue p @ [j]\<rparr>)))"

definition dequeueJobLocked :: "pool \<Rightarrow> job \<times> pool" where
  "dequeueJobLocked p = (case queue p of [] \<Rightarrow> (emptyJob, p) | j # rest \<Rightarrow> (j, p\<lparr>queue := rest\<rparr>))"

section \<open>Reconfiguration\<close>

definition Reconfigure :: "pool \<Rightarrow> options \<Rightarrow> pool" where
  "Reconfigure p newOptions0 =
     (let preserveNow = (Now newOptions0 = None);
          preserveRunToken = (RunToken newOptions0 = []);
          n0 = normalizeOptions newOptions0;
          old = options p;
          n1 = (if preserveNow then n0\<lparr>Now := Now old\<rparr> else n0);
          n2 = (if preserveRunToken then n1\<lparr>RunToken := RunToken old\<rparr> else n1);
          n3 = n2\<lparr>Image := Image old\<rparr>;
          n4 = (if RunnerCount n3 \<noteq> RunnerCount old then n3\<lparr>RunnerCount := RunnerCount old\<rparr> else n3)
      in broadcast (p\<lparr>options :=
           \<lparr>RunnerCount = RunnerCount old, JobsPerVM = JobsPerVM n4, Image = Image n4,
            MaxIdle = MaxIdle n4, MaxAge = MaxAge n4, MaxBind = MaxBind n4,
            PickupTimeout = PickupTimeout n4, RunToken = RunToken n4,
            WarmRetryDelay = WarmRetryDelay n4, Now = Now n4\<rparr>\<rparr>))"

section \<open>Recycling and cancelling\<close>

definition requestRecycle :: "pool \<Rightarrow> nat \<Rightarrow> warmVM \<Rightarrow> err option \<Rightarrow> pool" where
  "requestRecycle p index v e =
     (let st = states p ! index
      in case vm st of
           None \<Rightarrow> p
         | Some cur \<Rightarrow>
             if vmName cur \<noteq> vmName v \<or> workerBusy st then p
             else broadcast (set_state p index (st\<lparr>recycle := True, lastErr := e\<rparr>)))"

record busyCandidate =
  bcIndex :: nat
  bcSlotIndex :: nat
  bcSlotCount :: nat
  bcVM :: warmVM
  bcBoundAt :: time
  bcJobID :: int
  bcRunID :: int
  bcNow :: time

text \<open>The slot a candidate names still runs the binding the candidate was taken from.\<close>

definition sameBinding :: "slotState \<Rightarrow> busyCandidate \<Rightarrow> bool" where
  "sameBinding s c = (busy s \<and> slotJobID s = bcJobID c \<and> slotRunID s = bcRunID c
     \<and> boundAt s = bcBoundAt c)"

definition requestBusyRecycle :: "pool \<Rightarrow> busyCandidate \<Rightarrow> pool" where
  "requestBusyRecycle p c =
     (let st = states p ! bcIndex c
      in case vm st of
           None \<Rightarrow> p
         | Some cur \<Rightarrow>
             if vmName cur \<noteq> vmName (bcVM c) \<or> bcSlotIndex c \<ge> length (slots st) then p
             else
               let s = slots st ! bcSlotIndex c
               in if \<not> sameBinding s c then p
                  else
                    let cancel = jobCancel s;
                        s1 = s\<lparr>jobCancel := None\<rparr>;
                        s2 = (if adopted s1 \<and> cancel = None then emptySlotState else s1);
                        cs = (case cancel of None \<Rightarrow> contexts p
                              | Some ctx \<Rightarrow> ctx_cancel (contexts p) ctx (Some ErrRecycle))
                    in broadcast (set_state p (bcIndex c)
                         (st\<lparr>recycle := True, slots := (slots st)[bcSlotIndex c := s2]\<rparr>)\<lparr>contexts := cs\<rparr>))"

text \<open>
  \<open>CancelRun\<close> scans the workers in order, and their slots in order, for the first busy slot
  bound to the job.
\<close>

definition boundSlot :: "int \<Rightarrow> workerState \<Rightarrow> nat option" where
  "boundSlot jobID st =
     (if list_ex (\<lambda>s. busy s \<and> slotJobID s = jobID) (slots st)
      then Some (length (takeWhile (\<lambda>s. \<not> (busy s \<and> slotJobID s = jobID)) (slots st))) else None)"

fun findBound :: "int \<Rightarrow> nat \<Rightarrow> workerState list \<Rightarrow> (nat \<times> nat) option" where
  "findBound jobID i [] = None"
| "findBound jobID i (st # sts) =
     (case boundSlot jobID st of Some k \<Rightarrow> Some (i, k) | None \<Rightarrow> findBound jobID (Suc i) sts)"

definition CancelRun :: "pool \<Rightarrow> int \<Rightarrow> pool" where
  "CancelRun p jobID =
     (case findBound jobID 0 (states p) of
        None \<Rightarrow> p
      | Some (i, k) \<Rightarrow>
          let st = states p ! i; s = slots st ! k;
              (cs, s') = (case jobCancel s of
                   Some ctx \<Rightarrow> (ctx_cancel (contexts p) ctx (Some ErrCancelRun), s\<lparr>jobCancel := None\<rparr>)
                 | None \<Rightarrow> (contexts p, if adopted s then emptySlotState else s))
          in broadcast (set_state p i (st\<lparr>recycle := True, slots := (slots st)[k := s']\<rparr>)\<lparr>contexts := cs\<rparr>))"

section \<open>Start and shutdown\<close>

definition adoptedSlotBindingBusy :: "slotBinding \<Rightarrow> bool" where
  "adoptedSlotBindingBusy b = (ObservedActive b \<or> HasJobMetadata b)"

definition installBinding :: "time \<Rightarrow> workerState \<Rightarrow> slotBinding \<Rightarrow> workerState" where
  "installBinding now st b =
     (if SlotIndex b < 0 \<or> int (length (slots st)) \<le> SlotIndex b then st
      else if \<not> adoptedSlotBindingBusy b then st
      else st\<lparr>slots := (slots st)[nat (SlotIndex b) :=
             \<lparr>boundAt = (if time_IsZero (BoundAt b) then now else BoundAt b), busy = True,
              slotJobID = bJobID b, slotRunID = bRunID b, executionID = ExecutionID b,
              resumeCursor = ResumeCursor b, jobCancel = None, reapWarnedAt = time_zero,
              adopted = True, slotErr = None\<rparr>], idleSince := time_zero\<rparr>)"

definition installAdopted :: "time \<Rightarrow> int \<Rightarrow> warmVM \<Rightarrow> slotBinding list \<Rightarrow> workerState" where
  "installAdopted now jobsPerVM v bs =
     foldl (installBinding now)
       \<lparr>vm = Some v, bornAt = now, idleSince = now, warming = False, recycle = False,
        slots = makeSlots jobsPerVM, lastErr = None\<rparr> bs"

fun installAdoptedWorkersLocked :: "time \<Rightarrow> int \<Rightarrow> workerState list \<Rightarrow> adoptedVM list \<Rightarrow> workerState list" where
  "installAdoptedWorkersLocked now n [] as = []"
| "installAdoptedWorkersLocked now n sts [] = sts"
| "installAdoptedWorkersLocked now n (st # sts) (a # as) =
     (case VM a of
        None \<Rightarrow> installAdoptedWorkersLocked now n (st # sts) as
      | Some v \<Rightarrow> installAdopted now n v (aSlots a) # installAdoptedWorkersLocked now n sts as)"

definition adoptWorkers :: "err + adoptedVM list \<Rightarrow> adoptedVM list" where
  "adoptWorkers r = (case r of Inl e \<Rightarrow> [] | Inr as \<Rightarrow> as)"

text \<open>\<open>Start\<close> under \<open>startOnce\<close>: \<open>r\<close> is what \<open>warmer.Adopt\<close> returned, \<open>parent\<close> the caller's context.\<close>

definition Start :: "pool \<Rightarrow> nat \<Rightarrow> err + adoptedVM list \<Rightarrow> time \<Rightarrow> pool" where
  "Start p parent r now =
     (if startOnce p then p
      else let (cs, c) = ctx_new (contexts p) parent
           in p\<lparr>startOnce := True, contexts := cs, started := True, poolCtx := Some c,
                states := installAdoptedWorkersLocked now (JobsPerVM (options p)) (states p) (adoptWorkers r)\<rparr>)"

text \<open>The watcher goroutine of \<open>Start\<close>, once the pool's context is done.\<close>

definition watchPoolContext :: "pool \<Rightarrow> pool" where
  "watchPoolContext p =
     (case poolCtx p of
        None \<Rightarrow> p
      | Some c \<Rightarrow> if ctx_done (contexts p) c then broadcast (p\<lparr>shuttingDown := True\<rparr>) else p)"

definition Shutdown :: "pool \<Rightarrow> pool" where
  "Shutdown p =
     (if shutdownOnce p then p
      else broadcast (p\<lparr>shutdownOnce := True, shuttingDown := True, done_closed := True,
             contexts := (case poolCtx p of None \<Rightarrow> contexts p
                          | Some c \<Rightarrow> ctx_cancel (contexts p) c None)\<rparr>))"

section \<open>Worker life cycle\<close>

definition claimWorker :: "pool \<Rightarrow> nat \<Rightarrow> warmVM option" where
  "claimWorker p index =
     (let st = states p ! index in if vm st = None \<or> warming st then None else vm st)"

definition nextID :: "pool \<Rightarrow> string \<times> pool" where
  "nextID p = (let n = counter p + 1 in (RunToken (options p) @ ''-'' @ Itoa n, p\<lparr>counter := n\<rparr>))"

definition warmRequestOptions :: "pool \<Rightarrow> string \<times> int \<times> duration" where
  "warmRequestOptions p = (Image (options p), JobsPerVM (options p), WarmRetryDelay (options p))"

definition markWarming :: "pool \<Rightarrow> nat \<Rightarrow> pool" where
  "markWarming p index =
     (let st = (states p ! index)\<lparr>vm := None, bornAt := time_zero, idleSince := time_zero,
                  warming := True, recycle := False, lastErr := None\<rparr>;
          (cs, st') = resetWorkerSlotsLocked p st
      in broadcast (set_state p index st'\<lparr>contexts := cs\<rparr>))"

definition markWarmError :: "pool \<Rightarrow> nat \<Rightarrow> err \<Rightarrow> pool" where
  "markWarmError p index e =
     (let st = (states p ! index)\<lparr>lastErr := Some e, warming := False, recycle := False\<rparr>;
          (cs, st') = resetWorkerSlotsLocked p st
      in broadcast (set_state p index st'\<lparr>contexts := cs\<rparr>))"

definition activateWorker :: "pool \<Rightarrow> nat \<Rightarrow> warmVM \<Rightarrow> int \<Rightarrow> time \<Rightarrow> pool" where
  "activateWorker p index v slotCount now =
     (let st = (states p ! index)\<lparr>vm := Some v, bornAt := now, idleSince := now, warming := False,
                  recycle := False, lastErr := None\<rparr>;
          (cs, st') = resetWorkerSlotsToLocked (contexts p) st slotCount
      in broadcast (set_state p index st'\<lparr>contexts := cs\<rparr>))"

definition clearWorker :: "pool \<Rightarrow> nat \<Rightarrow> pool" where
  "clearWorker p index =
     broadcast (set_state p index (zeroWorkerState\<lparr>slots := makeSlots (JobsPerVM (options p))\<rparr>))"

definition workerSlotCount :: "pool \<Rightarrow> nat \<Rightarrow> warmVM \<Rightarrow> nat" where
  "workerSlotCount p index v =
     (if index \<ge> length (states p) then 0
      else let st = states p ! index
           in case vm st of
                None \<Rightarrow> 0
              | Some cur \<Rightarrow> if vmName cur \<noteq> vmName v then 0 else length (slots st))"

text \<open>The worker owns the VM: the states' test \<open>state.vm == nil || state.vm.Name != vm.Name\<close> fails.\<close>

definition holdsVM :: "workerState \<Rightarrow> warmVM \<Rightarrow> bool" where
  "holdsVM st v = (case vm st of None \<Rightarrow> False | Some cur \<Rightarrow> vmName cur = vmName v)"

datatype worker_verdict =
    WorkerBlocked
  | WorkerReturns (recycleResult: bool) (okResult: bool)

definition waitForWorkerRecycleOrShutdown :: "pool \<Rightarrow> nat \<Rightarrow> nat \<Rightarrow> warmVM \<Rightarrow> worker_verdict \<times> pool" where
  "waitForWorkerRecycleOrShutdown p ctx index v =
     (let st = states p ! index
      in if shuttingDown p \<or> ctx_done (contexts p) ctx then (WorkerReturns False False, p)
         else if \<not> holdsVM st v then (WorkerReturns True True, p)
         else if recycle st \<and> \<not> workerBusy st then
           let st1 = st\<lparr>vm := None, recycle := False, warming := True, idleSince := time_zero\<rparr>;
               (cs, st') = resetWorkerSlotsLocked p st1
           in (WorkerReturns True True, broadcast (set_state p index st'\<lparr>contexts := cs\<rparr>))
         else (WorkerBlocked, p))"

section \<open>Slot life cycle\<close>

datatype slot_verdict =
    SlotBlocked
  | SlotStopped
  | SlotJob job time nat nat

text \<open>
  One pass of \<open>waitForSlotJob\<close>: \<open>ctx\<close> is the slot context. \<open>SlotJob j t c n\<close> returns the job,
  the bind time, the job's new context and the slot count.
\<close>

definition waitForSlotJob ::
  "pool \<Rightarrow> nat \<Rightarrow> nat \<Rightarrow> nat \<Rightarrow> warmVM \<Rightarrow> time \<Rightarrow> slot_verdict \<times> pool" where
  "waitForSlotJob p ctx index slotIndex v now =
     (if shuttingDown p \<or> ctx_done (contexts p) ctx then (SlotStopped, p)
      else
        let st = states p ! index
        in if \<not> holdsVM st v \<or> recycle st then (SlotStopped, p)
           else if slotIndex \<ge> length (slots st) then (SlotStopped, p)
           else
             let s = slots st ! slotIndex
             in if busy s then (SlotBlocked, p)
                else if queue p \<noteq> [] then
                  let (j, p1) = dequeueJobLocked p;
                      (cs, jobCtx) = ctx_new (contexts p1) ctx;
                      s' = \<lparr>boundAt = now, busy = True, slotJobID = JobID j, slotRunID = RunID j,
                            executionID = [], resumeCursor = 0, jobCancel = Some jobCtx,
                            reapWarnedAt = time_zero, adopted = False, slotErr = None\<rparr>
                  in (SlotJob j now jobCtx (length (slots st)),
                      broadcast (set_state p1 index
                        (st\<lparr>idleSince := time_zero, slots := (slots st)[slotIndex := s']\<rparr>)\<lparr>contexts := cs\<rparr>))
                else (SlotBlocked, p))"

definition finishSlotJob ::
  "pool \<Rightarrow> nat \<Rightarrow> nat \<Rightarrow> warmVM \<Rightarrow> err option \<Rightarrow> time \<Rightarrow> pool" where
  "finishSlotJob p index slotIndex v e now =
     (let st = states p ! index
      in if \<not> holdsVM st v \<or> slotIndex \<ge> length (slots st) then p
         else
           let st1 = st\<lparr>slots := (slots st)[slotIndex :=
                   \<lparr>boundAt = time_zero, busy = False, slotJobID = 0, slotRunID = 0,
                    executionID = [], resumeCursor = 0, jobCancel = None,
                    reapWarnedAt = time_zero, adopted = False, slotErr = e\<rparr>]\<rparr>;
               st2 = (if \<not> workerBusy st1
                      then st1\<lparr>idleSince := (if recycle st1 then time_zero else now)\<rparr> else st1)
           in broadcast (set_state p index st2))"

text \<open>\<open>Some (executionID, cursor, jobCtx, slotCount)\<close> when the slot has an execution to resume.\<close>

definition claimResumeSlot ::
  "pool \<Rightarrow> nat \<Rightarrow> nat \<Rightarrow> nat \<Rightarrow> warmVM \<Rightarrow> (string \<times> 64 word \<times> nat \<times> nat) option \<times> pool" where
  "claimResumeSlot p ctx index slotIndex v =
     (if ctx_done (contexts p) ctx \<or> shuttingDown p then (None, p)
      else if index \<ge> length (states p) then (None, p)
      else
        let st = states p ! index
        in if \<not> holdsVM st v then (None, p)
           else if slotIndex \<ge> length (slots st) then (None, p)
           else
             let s = slots st ! slotIndex
             in if \<not> busy s \<or> \<not> adopted s \<or> executionID s = [] \<or> jobCancel s \<noteq> None then (None, p)
                else
                  let (cs, jobCtx) = ctx_new (contexts p) ctx
                  in (Some (executionID s, resumeCursor s, jobCtx, length (slots st)),
                      set_state p index
                        (st\<lparr>slots := (slots st)[slotIndex := s\<lparr>jobCancel := Some jobCtx\<rparr>]\<rparr>)\<lparr>contexts := cs\<rparr>))"

definition recycleWorkerFreeingSlot ::
  "pool \<Rightarrow> nat \<Rightarrow> nat \<Rightarrow> warmVM \<Rightarrow> err option \<Rightarrow> pool" where
  "recycleWorkerFreeingSlot p index slotIndex v e =
     (if index \<ge> length (states p) then p
      else
        let st = states p ! index
        in if \<not> holdsVM st v \<or> slotIndex \<ge> length (slots st) then p
           else broadcast (set_state p index
                  (st\<lparr>slots := (slots st)[slotIndex := emptySlotState\<lparr>slotErr := e\<rparr>], recycle := True\<rparr>)))"

text \<open>
  How \<open>slotLoop\<close> ends a resumed execution and a job: \<open>finishSlotJob\<close> on a terminal or a detach,
  \<open>recycleWorkerFreeingSlot\<close> on a resume that failed otherwise. The flag says whether the slot's
  goroutine goes on to serve jobs.
\<close>

definition endResume :: "pool \<Rightarrow> nat \<Rightarrow> nat \<Rightarrow> warmVM \<Rightarrow> err option \<Rightarrow> time \<Rightarrow> bool \<times> pool" where
  "endResume p index slotIndex v e now =
     (case e of
        None \<Rightarrow> (True, finishSlotJob p index slotIndex v None now)
      | Some er \<Rightarrow>
          if errors_Is er ErrJobTerminal then (True, finishSlotJob p index slotIndex v e now)
          else if errors_Is er ContextCanceled then (True, finishSlotJob p index slotIndex v e now)
          else (False, recycleWorkerFreeingSlot p index slotIndex v e))"

definition runnerNameForSlot :: "string \<Rightarrow> nat \<Rightarrow> int \<Rightarrow> string" where
  "runnerNameForSlot name slotIndex slotCount =
     (if slotCount \<le> 1 then name else name @ ''-slot-'' @ Itoa (int slotIndex))"

definition runnerNameBelongsToVM :: "string \<Rightarrow> string \<Rightarrow> int \<Rightarrow> bool" where
  "runnerNameBelongsToVM name runnerName slotCount =
     (if runnerName = name then True
      else if 1 < slotCount \<and>
              list_ex (\<lambda>i. runnerName = runnerNameForSlot name i slotCount) [0 ..< nat slotCount]
      then True
      else
        let (slotSuffix, found) = CutPrefix runnerName (name @ ''-slot-'')
        in if \<not> found then False
           else (case Atoi slotSuffix of None \<Rightarrow> False | Some i \<Rightarrow> 0 \<le> i))"

end
