(* ===== verification/Pool_Reap.thy ===== *)
theory Pool_Reap
  imports Pool_Ops
begin

text \<open>
  The periodic pass of \<open>internal/runnerpool\<close>: reaping busy slots that have passed a deadline
  (\<open>reap.go\<close>) and recycling idle VMs (\<open>Reconcile\<close> in \<open>pool.go\<close>). The calls to the
  guest, to tart and to GitHub are arguments: a prober, a liveness check and a lister, the
  first and the last possibly absent as the code's nil interfaces are.
\<close>

section \<open>Reaping busy slots\<close>

definition busyCandidatesOf :: "time \<Rightarrow> nat \<times> workerState \<Rightarrow> busyCandidate list" where
  "busyCandidatesOf now ist =
     (let (i, st) = ist
      in case vm st of
           None \<Rightarrow> []
         | Some v \<Rightarrow>
             map (\<lambda>(k, s). \<lparr>bcIndex = i, bcSlotIndex = k, bcSlotCount = length (slots st), bcVM = v,
                    bcBoundAt = boundAt s, bcJobID = slotJobID s, bcRunID = slotRunID s, bcNow = now\<rparr>)
               (filter (\<lambda>(k, s). \<not> (\<not> busy s \<or> time_IsZero (boundAt s)))
                 (zip [0 ..< length (slots st)] (slots st))))"

definition busyCandidates :: "pool \<Rightarrow> time \<Rightarrow> busyCandidate list" where
  "busyCandidates p now =
     concat (map (busyCandidatesOf now) (zip [0 ..< length (states p)] (states p)))"

definition claimSlotReapWarning :: "pool \<Rightarrow> busyCandidate \<Rightarrow> bool \<times> pool" where
  "claimSlotReapWarning p c =
     (if bcIndex c \<ge> length (states p) then (False, p)
      else
        let st = states p ! bcIndex c
        in if \<not> holdsVM st (bcVM c) \<or> recycle st \<or> bcSlotIndex c \<ge> length (slots st) then (False, p)
           else
             let s = slots st ! bcSlotIndex c
             in if \<not> sameBinding s c \<or> reapWarnedAt s = bcBoundAt c then (False, p)
                else (True, set_state p (bcIndex c)
                       (st\<lparr>slots := (slots st)[bcSlotIndex c := s\<lparr>reapWarnedAt := bcBoundAt c\<rparr>]\<rparr>)))"

definition warnAndRequestBusyRecycle :: "pool \<Rightarrow> busyCandidate \<Rightarrow> pool" where
  "warnAndRequestBusyRecycle p c =
     (let (claimed, p1) = claimSlotReapWarning p c
      in if claimed then requestBusyRecycle p1 c else p1)"

text \<open>Why a candidate is reaped, or that it is kept.\<close>

datatype reap_verdict = KeepSlot | ReapPastMaxBind | ReapNoActiveJob

type_synonym probe = "err + (nat \<Rightarrow> bool)"

text \<open>
  The decision for one candidate, with the per-pass cache of probes by VM name; the cache that
  comes back holds the probe made for this candidate, if one was.
\<close>

definition reapDecision ::
  "options \<Rightarrow> slotProber option \<Rightarrow> (string \<times> probe) list \<Rightarrow> busyCandidate
   \<Rightarrow> reap_verdict \<times> (string \<times> probe) list" where
  "reapDecision opts prober probes c =
     (let bindAge = time_Sub (bcNow c) (bcBoundAt c)
      in if 0 < MaxBind opts \<and> MaxBind opts \<le> bindAge then (ReapPastMaxBind, probes)
         else
           case prober of
             None \<Rightarrow> (KeepSlot, probes)
           | Some RunningSlots \<Rightarrow>
               if \<not> (0 < PickupTimeout opts \<and> PickupTimeout opts \<le> bindAge) then (KeepSlot, probes)
               else
                 let probes' = (case map_of probes (vmName (bcVM c)) of
                         Some r \<Rightarrow> probes
                       | None \<Rightarrow> probes @ [(vmName (bcVM c), RunningSlots (bcVM c))])
                 in case map_of probes' (vmName (bcVM c)) of
                      None \<Rightarrow> (KeepSlot, probes')
                    | Some (Inl e) \<Rightarrow> (KeepSlot, probes')
                    | Some (Inr running) \<Rightarrow>
                        if \<not> running (bcSlotIndex c) then (ReapNoActiveJob, probes') else (KeepSlot, probes'))"

fun reapLoop ::
  "options \<Rightarrow> slotProber option \<Rightarrow> (string \<times> probe) list \<Rightarrow> pool \<Rightarrow> busyCandidate list
   \<Rightarrow> pool \<times> (string \<times> probe) list" where
  "reapLoop opts prober probes p [] = (p, probes)"
| "reapLoop opts prober probes p (c # cs) =
     (let (verdict, probes') = reapDecision opts prober probes c;
          p' = (if verdict = KeepSlot then p else warnAndRequestBusyRecycle p c)
      in reapLoop opts prober probes' p' cs)"

definition reapBusyWorkers :: "pool \<Rightarrow> slotProber option \<Rightarrow> time \<Rightarrow> pool" where
  "reapBusyWorkers p prober now = fst (reapLoop (options p) prober [] p (busyCandidates p now))"

section \<open>Recycling idle VMs\<close>

record idleCandidate =
  icIndex :: nat
  icVM :: warmVM
  icBornAt :: time
  icIdleSince :: time
  icSlotCount :: nat
  icNow :: time

definition idleCandidates :: "pool \<Rightarrow> time \<Rightarrow> idleCandidate list" where
  "idleCandidates p now =
     List.map_filter (\<lambda>(i, st).
         case vm st of
           None \<Rightarrow> None
         | Some v \<Rightarrow>
             if warming st \<or> workerBusy st \<or> recycle st then None
             else Some \<lparr>icIndex = i, icVM = v, icBornAt = bornAt st, icIdleSince = idleSince st,
                        icSlotCount = length (slots st), icNow = now\<rparr>)
       (zip [0 ..< length (states p)] (states p))"

definition installedReposForHealth :: "runnerLister option \<Rightarrow> idleCandidate list \<Rightarrow> string list \<times> bool" where
  "installedReposForHealth github candidates =
     (case github of
        None \<Rightarrow> ([], False)
      | Some gh \<Rightarrow>
          if candidates = [] then ([], False)
          else (case ListInstalledRepos gh of Inl e \<Rightarrow> ([], True) | Inr repos \<Rightarrow> (repos, False)))"

fun checkRepos :: "runnerLister \<Rightarrow> warmVM \<Rightarrow> nat \<Rightarrow> string list \<Rightarrow> err option" where
  "checkRepos gh v slotCount [] = None"
| "checkRepos gh v slotCount (repo # repos) =
     (case ListRunners gh repo of
        Inl e \<Rightarrow> Some (Wrapf (''runnerpool: list runners '' @ repo @ '': '') e [])
      | Inr runners \<Rightarrow>
          if list_ex (\<lambda>r. runnerNameBelongsToVM (vmName v) (rName r) (int slotCount)) runners
          then Some (Msg (''runnerpool: idle vm '' @ vmName v @ '' still registered in '' @ repo))
          else checkRepos gh v slotCount repos)"

definition checkHealth ::
  "(warmVM \<Rightarrow> err option) \<Rightarrow> runnerLister option \<Rightarrow> warmVM \<Rightarrow> nat \<Rightarrow> string list \<Rightarrow> bool \<Rightarrow> err option" where
  "checkHealth checkAlive github v slotCount repos skipRegistrationCheck =
     (case checkAlive v of
        Some e \<Rightarrow> Some (Wrapf (''runnerpool: check alive '' @ vmName v @ '': '') e [])
      | None \<Rightarrow>
          (case github of
             None \<Rightarrow> None
           | Some gh \<Rightarrow> if skipRegistrationCheck then None else checkRepos gh v slotCount repos))"

definition shouldRecycle ::
  "options \<Rightarrow> (warmVM \<Rightarrow> err option) \<Rightarrow> runnerLister option \<Rightarrow> idleCandidate \<Rightarrow> string list \<Rightarrow> bool
   \<Rightarrow> bool \<times> err option" where
  "shouldRecycle opts checkAlive github c repos skipRegistrationCheck =
     (if int (icSlotCount c) \<noteq> JobsPerVM opts then (True, None)
      else if 0 < MaxIdle opts \<and> \<not> time_IsZero (icIdleSince c)
              \<and> MaxIdle opts \<le> time_Sub (icNow c) (icIdleSince c) then (True, None)
      else if 0 < MaxAge opts \<and> \<not> time_IsZero (icBornAt c)
              \<and> MaxAge opts \<le> time_Sub (icNow c) (icBornAt c) then (True, None)
      else (case checkHealth checkAlive github (icVM c) (icSlotCount c) repos skipRegistrationCheck of
              Some e \<Rightarrow> (True, Some e)
            | None \<Rightarrow> (False, None)))"

fun reconcileLoop ::
  "(warmVM \<Rightarrow> err option) \<Rightarrow> runnerLister option \<Rightarrow> string list \<Rightarrow> bool \<Rightarrow> pool \<Rightarrow> idleCandidate list
   \<Rightarrow> err option list \<times> pool" where
  "reconcileLoop checkAlive github repos skip p [] = ([], p)"
| "reconcileLoop checkAlive github repos skip p (c # cs) =
     (let (doRecycle, e) = shouldRecycle (options p) checkAlive github c repos skip;
          p' = (if doRecycle then requestRecycle p (icIndex c) (icVM c) e else p);
          (es, p'') = reconcileLoop checkAlive github repos skip p' cs
      in (e # es, p''))"

definition Reconcile ::
  "pool \<Rightarrow> slotProber option \<Rightarrow> (warmVM \<Rightarrow> err option) \<Rightarrow> runnerLister option \<Rightarrow> time \<Rightarrow> err option \<times> pool" where
  "Reconcile p prober checkAlive github now =
     (let p1 = reapBusyWorkers p prober now;
          candidates = idleCandidates p1 now;
          (repos, skip) = installedReposForHealth github candidates;
          (es, p2) = reconcileLoop checkAlive github repos skip p1 candidates
      in (errors_Join es, p2))"

end
