(* ===== verification/Pool_Inv.thy ===== *)
theory Pool_Inv
  imports Pool_Reap
begin

text \<open>
  Every operation of the pool keeps the well-formedness \<open>pool_wf\<close>, and what each changes of
  the queue, the options and the flags.
\<close>

section \<open>Access\<close>

lemma states_set_state [simp]: "states (set_state p i st) = (states p)[i := st]"
  and queue_set_state [simp]: "queue (set_state p i st) = queue p"
  and options_set_state [simp]: "options (set_state p i st) = options p"
  and contexts_set_state [simp]: "contexts (set_state p i st) = contexts p"
  and shuttingDown_set_state [simp]: "shuttingDown (set_state p i st) = shuttingDown p"
  and started_set_state [simp]: "started (set_state p i st) = started p"
  and poolCtx_set_state [simp]: "poolCtx (set_state p i st) = poolCtx p"
  and broadcasts_set_state [simp]: "broadcasts (set_state p i st) = broadcasts p"
  and counter_set_state [simp]: "counter (set_state p i st) = counter p"
  by (simp_all add: set_state_def)

lemma states_broadcast [simp]: "states (broadcast p) = states p"
  and queue_broadcast [simp]: "queue (broadcast p) = queue p"
  and options_broadcast [simp]: "options (broadcast p) = options p"
  and contexts_broadcast [simp]: "contexts (broadcast p) = contexts p"
  and shuttingDown_broadcast [simp]: "shuttingDown (broadcast p) = shuttingDown p"
  and started_broadcast [simp]: "started (broadcast p) = started p"
  and poolCtx_broadcast [simp]: "poolCtx (broadcast p) = poolCtx p"
  and broadcasts_broadcast [simp]: "broadcasts (broadcast p) = Suc (broadcasts p)"
  and counter_broadcast [simp]: "counter (broadcast p) = counter p"
  by (simp_all add: broadcast_def)

lemma holdsVM_iff: "holdsVM st v \<longleftrightarrow> (\<exists>cur. vm st = Some cur \<and> vmName cur = vmName v)"
  by (auto simp: holdsVM_def split: option.splits)

lemma holdsVM_slots [simp]: "holdsVM (st\<lparr>slots := ss\<rparr>) v = holdsVM st v"
  and holdsVM_idle [simp]: "holdsVM (st\<lparr>idleSince := t\<rparr>) v = holdsVM st v"
  and holdsVM_recycle [simp]: "holdsVM (st\<lparr>recycle := b\<rparr>) v = holdsVM st v"
  and holdsVM_lastErr [simp]: "holdsVM (st\<lparr>lastErr := e\<rparr>) v = holdsVM st v"
  by (simp_all add: holdsVM_def)

lemma length_fst_ctx_new [simp]: "length (fst (ctx_new cs c)) = Suc (length cs)"
  and snd_ctx_new [simp]: "snd (ctx_new cs c) = length cs"
  by (simp_all add: ctx_new_def)

lemma length_fst_resetWorkerSlotsTo [simp]:
  "length (fst (resetWorkerSlotsToLocked cs st n)) = length cs"
  by (simp add: resetWorkerSlotsToLocked_def Let_def split_beta)

section \<open>Well-formedness\<close>

lemma pool_wf_update_worker:
  assumes "pool_wf p" and "worker_wf cs st" and "length (contexts p) \<le> length cs"
  shows "pool_wf (broadcast (set_state p i st\<lparr>contexts := cs\<rparr>))"
  using pool_wf_set_state [OF assms] by simp

lemma pool_wf_update_worker_same:
  assumes "pool_wf p" and "worker_wf (contexts p) st"
  shows "pool_wf (set_state p i st)"
proof -
  have "set_state p i st\<lparr>contexts := contexts p\<rparr> = set_state p i st" by (simp add: set_state_def)
  with pool_wf_set_state [OF assms(1,2), of i] show ?thesis by simp
qed

lemma worker_wf_reset: "worker_wf cs (snd (resetWorkerSlotsToLocked cs' st n))"
  by (rule worker_wf_makeSlots [OF _ resetWorkerSlotsTo_slots]) (simp add: defaultJobsPerVM_def)

lemma worker_wf_slot_put:
  "worker_wf cs st \<Longrightarrow> slot_wf cs s \<Longrightarrow> slots st' = (slots st)[j := s] \<Longrightarrow> worker_wf cs st'"
  using worker_wf_slot_update [of cs st s j] by (simp add: worker_wf_def)

lemma pool_wf_put_slot:
  assumes wf: "pool_wf p" and i: "i < length (states p)" and cs: "length (contexts p) \<le> length cs"
    and s: "slot_wf cs s" and st: "slots st = (slots (states p ! i))[k := s]"
  shows "pool_wf (set_state p i st\<lparr>contexts := cs\<rparr>)"
proof -
  have "worker_wf cs (states p ! i)"
    using pool_wf_state [OF wf i] cs by (rule worker_wf_mono)
  then have "worker_wf cs st" using s st by (rule worker_wf_slot_put)
  then show ?thesis using wf cs by (intro pool_wf_set_state)
qed

lemma pool_wf_put_slot_same:
  assumes wf: "pool_wf p" and i: "i < length (states p)"
    and s: "slot_wf (contexts p) s" and st: "slots st = (slots (states p ! i))[k := s]"
  shows "pool_wf (set_state p i st)"
  using worker_wf_slot_put [OF pool_wf_state [OF wf i] s st] wf by (rule pool_wf_update_worker_same [rotated])

lemma pool_wf_put_slots:
  assumes "pool_wf p" and "i < length (states p)" and "length (contexts p) \<le> length cs"
    and "slot_wf cs s"
  shows "pool_wf (set_state p i (st\<lparr>slots := (slots (states p ! i))[k := s]\<rparr>)\<lparr>contexts := cs\<rparr>)"
  by (rule pool_wf_put_slot [OF assms]) simp

lemma pool_wf_put_flags:
  assumes wf: "pool_wf p" and i: "i < length (states p)" and cs: "length (contexts p) \<le> length cs"
    and st: "slots st = slots (states p ! i)"
  shows "pool_wf (set_state p i st\<lparr>contexts := cs\<rparr>)"
proof -
  have "worker_wf cs (states p ! i)"
    using pool_wf_state [OF wf i] cs by (rule worker_wf_mono)
  then have "worker_wf cs st" using st by (simp add: worker_wf_def)
  then show ?thesis using wf cs by (intro pool_wf_set_state)
qed

lemma pool_wf_Enqueue: "pool_wf p \<Longrightarrow> pool_wf (snd (Enqueue p e j))"
  by (simp add: Enqueue_def pool_wf_def split: option.splits)

lemma pool_wf_Reconfigure:
  assumes "pool_wf p" shows "pool_wf (Reconfigure p opts)"
proof -
  have old: "options_ok (options p)" using assms by (simp add: pool_wf_def)
  have new: "options_ok (normalizeOptions opts)" by (rule normalizeOptions_ok)
  show ?thesis
    using assms old new by (simp add: Reconfigure_def Let_def pool_wf_def options_ok_def)
qed

lemma pool_wf_requestRecycle:
  assumes "pool_wf p" and "i < length (states p)" shows "pool_wf (requestRecycle p i v e)"
proof -
  have "worker_wf (contexts p) ((states p ! i)\<lparr>recycle := True, lastErr := e\<rparr>)"
    using pool_wf_state [OF assms] by (simp add: worker_wf_def)
  then show ?thesis
    using assms by (simp add: requestRecycle_def Let_def pool_wf_update_worker_same split: option.splits)
qed

lemma pool_wf_requestBusyRecycle:
  assumes wf: "pool_wf p" and i: "bcIndex c < length (states p)"
  shows "pool_wf (requestBusyRecycle p c)"
proof (cases "vm (states p ! bcIndex c) = None
    \<or> vmName (the (vm (states p ! bcIndex c))) \<noteq> vmName (bcVM c)
    \<or> bcSlotIndex c \<ge> length (slots (states p ! bcIndex c))
    \<or> \<not> sameBinding (slots (states p ! bcIndex c) ! bcSlotIndex c) c")
  case True
  then show ?thesis using wf by (auto simp: requestBusyRecycle_def Let_def split: option.splits)
next
  case False
  let ?s = "slots (states p ! bcIndex c) ! bcSlotIndex c"
  have "slot_wf (contexts p) ?s" using False by (intro worker_wf_slot pool_wf_state [OF wf i]) auto
  then have "slot_wf cs (?s\<lparr>jobCancel := None\<rparr>)" for cs by (simp add: slot_wf_def)
  then show ?thesis
    using False i
    by (auto simp: requestBusyRecycle_def Let_def intro!: pool_wf_put_slots [OF wf i] split: option.splits)
qed

lemma boundSlot_lt: "boundSlot j st = Some k \<Longrightarrow> k < length (slots st) \<and> busy (slots st ! k) \<and> slotJobID (slots st ! k) = j"
proof -
  assume a: "boundSlot j st = Some k"
  let ?P = "\<lambda>s. \<not> (busy s \<and> slotJobID s = j)"
  have ex: "\<exists>s \<in> set (slots st). \<not> ?P s" and k: "k = length (takeWhile ?P (slots st))"
    using a by (auto simp: boundSlot_def list_ex_iff split: if_splits)
  then have lt: "k < length (slots st)"
    by (simp add: length_takeWhile_less')
  with k have "\<not> ?P (slots st ! k)" using nth_length_takeWhile [of ?P "slots st"] by simp
  with lt show ?thesis by simp
qed

lemma findBound_range:
  "findBound j i sts = Some (a, k) \<Longrightarrow> i \<le> a \<and> a < i + length sts \<and> boundSlot j (sts ! (a - i)) = Some k"
  by (induction j i sts rule: findBound.induct) (force split: option.splits simp: nth_Cons')+

lemma findBound_Some:
  "findBound j 0 sts = Some (a, k) \<Longrightarrow> a < length sts \<and> k < length (slots (sts ! a))
     \<and> busy (slots (sts ! a) ! k) \<and> slotJobID (slots (sts ! a) ! k) = j"
  using findBound_range [of j 0 sts a k] boundSlot_lt by fastforce

lemma findBound_None:
  "findBound j i sts = None \<longleftrightarrow> (\<forall>st \<in> set sts. \<forall>s \<in> set (slots st). \<not> (busy s \<and> slotJobID s = j))"
  by (induction j i sts rule: findBound.induct) (auto simp: boundSlot_def list_ex_iff split: option.splits)

lemma pool_wf_CancelRun:
  assumes wf: "pool_wf p" shows "pool_wf (CancelRun p j)"
proof (cases "findBound j 0 (states p)")
  case None
  with wf show ?thesis by (simp add: CancelRun_def)
next
  case (Some ik)
  obtain i k where ik: "ik = (i, k)" by (cases ik)
  let ?s = "slots (states p ! i) ! k"
  have i: "i < length (states p)" and k: "k < length (slots (states p ! i))"
    using findBound_Some Some ik by auto
  have "slot_wf (contexts p) ?s" by (rule worker_wf_slot [OF pool_wf_state [OF wf i] k])
  then have "slot_wf cs (?s\<lparr>jobCancel := None\<rparr>)" for cs by (simp add: slot_wf_def)
  then show ?thesis
    using Some ik
    by (auto simp: CancelRun_def Let_def intro!: pool_wf_put_slots [OF wf i]
        intro: pool_wf_put_flags [OF wf i] split: option.splits)
qed

lemma slots_installBinding_length [simp]: "length (slots (installBinding now st b)) = length (slots st)"
  by (simp add: installBinding_def)

lemma worker_wf_installBinding: "worker_wf cs st \<Longrightarrow> worker_wf cs (installBinding now st b)"
  by (auto simp: installBinding_def intro!: worker_wf_slot_put [of cs st _ _ "nat (SlotIndex b)"])
     (auto simp: slot_wf_def)

lemma worker_wf_installAdopted: "0 < n \<Longrightarrow> worker_wf cs (installAdopted now n v bs)"
proof -
  assume n: "0 < n"
  have "worker_wf cs (foldl (installBinding now) st bs)" if "worker_wf cs st" for st
    using that by (induction bs arbitrary: st) (auto intro: worker_wf_installBinding)
  then show ?thesis
    unfolding installAdopted_def using worker_wf_makeSlots [OF n] by simp
qed

lemma length_installAdoptedWorkers [simp]:
  "length (installAdoptedWorkersLocked now n sts as) = length sts"
  by (induction now n sts as rule: installAdoptedWorkersLocked.induct) (auto split: option.splits)

lemma worker_wf_installAdoptedWorkers:
  "0 < n \<Longrightarrow> list_all (worker_wf cs) sts \<Longrightarrow> list_all (worker_wf cs) (installAdoptedWorkersLocked now n sts as)"
  by (induction now n sts as rule: installAdoptedWorkersLocked.induct)
     (auto simp: worker_wf_installAdopted split: option.splits)

lemma pool_wf_Start:
  assumes "pool_wf p" shows "pool_wf (Start p parent r now)"
proof -
  have "0 < JobsPerVM (options p)" using assms by (simp add: pool_wf_def options_ok_def)
  moreover have "list_all (worker_wf (fst (ctx_new (contexts p) parent))) (states p)"
    using assms by (auto simp: pool_wf_def list_all_iff intro: worker_wf_mono)
  ultimately show ?thesis
    using assms by (auto simp: Start_def Let_def split_beta pool_wf_def
        intro!: worker_wf_installAdoptedWorkers)
qed

lemma pool_wf_contexts_cancel:
  "pool_wf p \<Longrightarrow> length cs = length (contexts p) \<Longrightarrow> pool_wf (p\<lparr>contexts := cs\<rparr>)"
  by (auto simp: pool_wf_def list_all_iff intro: worker_wf_mono)

lemma pool_wf_Shutdown: "pool_wf p \<Longrightarrow> pool_wf (Shutdown p)"
  by (auto simp: Shutdown_def pool_wf_def list_all_iff intro: worker_wf_mono split: option.splits)

lemma pool_wf_watch: "pool_wf p \<Longrightarrow> pool_wf (watchPoolContext p)"
  by (simp add: watchPoolContext_def pool_wf_def split: option.splits)

lemma pool_wf_nextID: "pool_wf p \<Longrightarrow> pool_wf (snd (nextID p))"
  by (simp add: nextID_def Let_def pool_wf_def)

lemma pool_wf_markWarming: "pool_wf p \<Longrightarrow> pool_wf (markWarming p i)"
  by (simp add: markWarming_def Let_def split_beta resetWorkerSlotsLocked_def
      pool_wf_set_state worker_wf_reset)

lemma pool_wf_markWarmError: "pool_wf p \<Longrightarrow> pool_wf (markWarmError p i e)"
  by (simp add: markWarmError_def Let_def split_beta resetWorkerSlotsLocked_def
      pool_wf_set_state worker_wf_reset)

lemma pool_wf_activateWorker: "pool_wf p \<Longrightarrow> pool_wf (activateWorker p i v n now)"
  by (simp add: activateWorker_def Let_def split_beta pool_wf_set_state worker_wf_reset)

lemma pool_wf_clearWorker:
  assumes "pool_wf p" shows "pool_wf (clearWorker p i)"
proof -
  have "0 < JobsPerVM (options p)" using assms by (simp add: pool_wf_def options_ok_def)
  then have "worker_wf (contexts p) (zeroWorkerState\<lparr>slots := makeSlots (JobsPerVM (options p))\<rparr>)"
    by (rule worker_wf_makeSlots) simp
  then show ?thesis using assms by (simp add: clearWorker_def pool_wf_update_worker_same)
qed

lemma pool_wf_waitForWorker:
  "pool_wf p \<Longrightarrow> pool_wf (snd (waitForWorkerRecycleOrShutdown p c i v))"
  by (simp add: waitForWorkerRecycleOrShutdown_def Let_def split_beta resetWorkerSlotsLocked_def
      pool_wf_set_state worker_wf_reset)

lemma queue_update_wf: "pool_wf (p\<lparr>queue := q\<rparr>) = pool_wf p"
  by (simp add: pool_wf_def)

lemma pool_wf_waitForSlotJob:
  assumes wf: "pool_wf p" and i: "i < length (states p)"
  shows "pool_wf (snd (waitForSlotJob p c i k v now))"
  unfolding waitForSlotJob_def Let_def dequeueJobLocked_def split_beta
  using wf i
  by (auto split: list.splits simp: queue_update_wf slot_wf_def intro!: pool_wf_put_slot)

lemma pool_wf_finishSlotJob:
  assumes wf: "pool_wf p" and i: "i < length (states p)"
  shows "pool_wf (finishSlotJob p i k v e now)"
  unfolding finishSlotJob_def Let_def
  using wf i by (auto simp: slot_wf_def intro!: pool_wf_put_slot_same)

lemma pool_wf_claimResumeSlot:
  assumes wf: "pool_wf p"
  shows "pool_wf (snd (claimResumeSlot p c i k v))"
  unfolding claimResumeSlot_def Let_def split_beta
  using wf by (auto simp: slot_wf_def intro!: pool_wf_put_slot)

lemma pool_wf_recycleWorkerFreeingSlot:
  assumes wf: "pool_wf p"
  shows "pool_wf (recycleWorkerFreeingSlot p i k v e)"
  unfolding recycleWorkerFreeingSlot_def Let_def
  using wf by (auto simp: slot_wf_def emptySlotState_def intro!: pool_wf_put_slot_same)

lemma pool_wf_claimSlotReapWarning:
  assumes wf: "pool_wf p"
  shows "pool_wf (snd (claimSlotReapWarning p c))"
proof (cases "bcIndex c < length (states p) \<and> bcSlotIndex c < length (slots (states p ! bcIndex c))")
  case True
  then have "slot_wf (contexts p) (slots (states p ! bcIndex c) ! bcSlotIndex c)"
    using wf by (auto intro: worker_wf_slot pool_wf_state)
  then have "slot_wf (contexts p) ((slots (states p ! bcIndex c) ! bcSlotIndex c)\<lparr>reapWarnedAt := t\<rparr>)" for t
    by (simp add: slot_wf_def)
  then show ?thesis
    unfolding claimSlotReapWarning_def Let_def
    using wf True by (auto intro!: pool_wf_put_slot_same)
next
  case False
  then show ?thesis using wf by (auto simp: claimSlotReapWarning_def Let_def)
qed

lemma length_states_claimSlotReapWarning [simp]:
  "length (states (snd (claimSlotReapWarning p c))) = length (states p)"
  by (simp add: claimSlotReapWarning_def Let_def)

lemma claimSlotReapWarning_index: "fst (claimSlotReapWarning p c) \<Longrightarrow> bcIndex c < length (states p)"
  by (auto simp: claimSlotReapWarning_def split: if_splits)

lemma pool_wf_warnAndRequest:
  assumes "pool_wf p" shows "pool_wf (warnAndRequestBusyRecycle p c)"
  using pool_wf_claimSlotReapWarning [OF assms, of c] claimSlotReapWarning_index [of p c]
  by (auto simp: warnAndRequestBusyRecycle_def Let_def split_beta intro: pool_wf_requestBusyRecycle)

lemma pool_wf_reapLoop: "pool_wf p \<Longrightarrow> pool_wf (fst (reapLoop opts prober probes p cs))"
  by (induction opts prober probes p cs rule: reapLoop.induct)
     (auto simp: Let_def split_beta pool_wf_warnAndRequest)

lemma pool_wf_reapBusyWorkers: "pool_wf p \<Longrightarrow> pool_wf (reapBusyWorkers p prober now)"
  by (simp add: reapBusyWorkers_def pool_wf_reapLoop)

lemma length_states_requestRecycle [simp]: "length (states (requestRecycle p i v e)) = length (states p)"
  by (simp add: requestRecycle_def Let_def split: option.splits)

lemma pool_wf_reconcileLoop:
  "pool_wf p \<Longrightarrow> \<forall>c \<in> set cs. icIndex c < length (states p) \<Longrightarrow>
     pool_wf (snd (reconcileLoop ca gh repos skip p cs))"
  by (induction ca gh repos skip p cs rule: reconcileLoop.induct)
     (auto simp: Let_def split_beta pool_wf_requestRecycle)

lemma idleCandidates_index: "c \<in> set (idleCandidates p now) \<Longrightarrow> icIndex c < length (states p)"
  by (auto simp: idleCandidates_def List.map_filter_def set_zip split: option.splits if_splits)

lemma pool_wf_Reconcile: "pool_wf p \<Longrightarrow> pool_wf (snd (Reconcile p prober ca gh now))"
  by (auto simp: Reconcile_def Let_def split_beta pool_wf_reapBusyWorkers
      intro!: pool_wf_reconcileLoop dest: idleCandidates_index)

lemmas pool_wf_ops = pool_wf_Enqueue pool_wf_Reconfigure pool_wf_requestRecycle
  pool_wf_requestBusyRecycle pool_wf_CancelRun pool_wf_Start pool_wf_Shutdown pool_wf_watch
  pool_wf_nextID pool_wf_markWarming pool_wf_markWarmError pool_wf_activateWorker
  pool_wf_clearWorker pool_wf_waitForWorker pool_wf_waitForSlotJob pool_wf_finishSlotJob
  pool_wf_claimResumeSlot pool_wf_recycleWorkerFreeingSlot pool_wf_reapBusyWorkers pool_wf_Reconcile

end
