(* ===== verification/Pool_Machine.thy ===== *)
theory Pool_Machine
  imports Pool_Inv
begin

text \<open>
  The goroutines of the pool as a step relation. A system state holds the pool, the program
  counter of every worker goroutine (\<open>workerLoop\<close>, \<open>runWorkerSlots\<close>, \<open>warmWorker\<close>) and of
  every slot goroutine (\<open>slotLoop\<close>), and three logs: the jobs \<open>Enqueue\<close> accepted, the jobs
  \<open>waitForSlotJob\<close> handed to a slot, and the VMs \<open>warmer.Teardown\<close> was called on. A step is one
  critical section of one goroutine, or the return of one call to the warmer or the runner, whose
  result is any value. The environment (the HTTP server, the reconciler, a reload, a shutdown, the
  caller's context) may take one of its critical sections between any two steps, the reaper with a
  candidate as stale as it likes. A wait on the condition variable is a goroutine that takes no
  step; a step of another goroutine can come at any point of it.
\<close>

section \<open>Program counters\<close>

datatype wpc =
    WOff
  | WClaim
  | WWarm
  | WName
  | WOpts string
  | WWarming string string int
  | WRetry
  | WActivate warmVM int
  | WSpawn warmVM
  | WServe warmVM nat nat
  | WCancel warmVM nat nat bool bool
  | WDrain warmVM nat nat bool bool
  | WTeardown warmVM bool
  | WClear bool bool
  | WDone

datatype spc =
    SNone
  | SResume warmVM nat
  | SResuming warmVM nat nat
  | SResumed warmVM nat "err option"
  | SWait warmVM nat
  | SRun warmVM nat job nat
  | SFinish warmVM nat job "err option"
  | SStall warmVM nat "err option"
  | SEnd

record sys =
  P :: pool
  W :: "nat \<Rightarrow> wpc"
  S :: "nat \<Rightarrow> nat \<Rightarrow> spc"
  enq_log :: "job list"
  disp_log :: "job list"
  torn :: "warmVM list"

definition init_sys :: "options \<Rightarrow> sys" where
  "init_sys opts = \<lparr>P = New opts [Ctx None None], W = (\<lambda>_. WOff), S = (\<lambda>_ _. SNone),
     enq_log = [], disp_log = [], torn = []\<rparr>"

section \<open>Steps of the environment\<close>

text \<open>Critical sections other goroutines than the pool's own take on it, \<open>Enqueue\<close> and \<open>Start\<close> apart.\<close>

inductive env_op :: "pool \<Rightarrow> pool \<Rightarrow> bool" where
  env_reconfigure: "env_op p (Reconfigure p opts)"
| env_cancelRun: "env_op p (CancelRun p jobID)"
| env_reapClaim: "env_op p (snd (claimSlotReapWarning p c))"
| env_reapRequest: "bcIndex c < length (states p) \<Longrightarrow> env_op p (requestBusyRecycle p c)"
| env_recycleIdle: "i < length (states p) \<Longrightarrow> env_op p (requestRecycle p i v e)"
| env_shutdown: "env_op p (Shutdown p)"
| env_watch: "env_op p (watchPoolContext p)"
| env_parent: "env_op p (p\<lparr>contexts := ctx_cancel (contexts p) 0 cause\<rparr>)"

section \<open>Steps of one worker goroutine\<close>

text \<open>\<open>worker_step i s w' s'\<close>: worker \<open>i\<close> moves to \<open>w'\<close> and the rest of the system to \<open>s'\<close>.\<close>

inductive worker_step :: "nat \<Rightarrow> sys \<Rightarrow> wpc \<Rightarrow> sys \<Rightarrow> bool" where
  w_claim: "W s i = WClaim \<Longrightarrow> claimWorker (P s) i = Some v \<Longrightarrow> worker_step i s (WSpawn v) s"
| w_noclaim: "W s i = WClaim \<Longrightarrow> claimWorker (P s) i = None \<Longrightarrow> worker_step i s WWarm s"
| w_mark: "W s i = WWarm \<Longrightarrow> worker_step i s WName (s\<lparr>P := markWarming (P s) i\<rparr>)"
| w_name: "W s i = WName \<Longrightarrow> nextID (P s) = (ident, p') \<Longrightarrow> worker_step i s (WOpts ident) (s\<lparr>P := p'\<rparr>)"
| w_opts: "W s i = WOpts ident \<Longrightarrow> warmRequestOptions (P s) = (img, n, delay) \<Longrightarrow>
     worker_step i s (WWarming ident img n) s"
| w_warmed: "W s i = WWarming ident img n \<Longrightarrow> vmImage v \<noteq> [] \<or> img = [] \<Longrightarrow>
     worker_step i s (WActivate v n) s"
| w_warmErr: "W s i = WWarming ident img n \<Longrightarrow>
     worker_step i s WRetry (s\<lparr>P := markWarmError (P s) i e\<rparr>)"
| w_retry: "W s i = WRetry \<Longrightarrow> worker_step i s WWarm s"
| w_giveUp: "W s i = WRetry \<Longrightarrow> poolCtx (P s) = Some pc \<Longrightarrow> ctx_done (contexts (P s)) pc \<Longrightarrow>
     worker_step i s (WClear False False) s"
| w_activate: "W s i = WActivate v n \<Longrightarrow>
     worker_step i s (WSpawn v) (s\<lparr>P := activateWorker (P s) i v n now\<rparr>)"
| w_spawn: "W s i = WSpawn v \<Longrightarrow> poolCtx (P s) = Some pc \<Longrightarrow> ctx_new (contexts (P s)) pc = (cs, c) \<Longrightarrow>
     workerSlotCount (P s) i v = n \<Longrightarrow>
     worker_step i s (WServe v c n)
       (s\<lparr>P := (P s)\<lparr>contexts := cs\<rparr>, S := (S s)(i := (\<lambda>k. if k < n then SResume v c else SNone))\<rparr>)"
| w_wait: "W s i = WServe v c n \<Longrightarrow> poolCtx (P s) = Some pc \<Longrightarrow>
     waitForWorkerRecycleOrShutdown (P s) pc i v = (WorkerReturns r ok, p') \<Longrightarrow>
     worker_step i s (WCancel v c n r ok) (s\<lparr>P := p'\<rparr>)"
| w_cancel: "W s i = WCancel v c n r ok \<Longrightarrow>
     worker_step i s (WDrain v c n r ok)
       (s\<lparr>P := broadcast ((P s)\<lparr>contexts := ctx_cancel (contexts (P s)) c None\<rparr>)\<rparr>)"
| w_join: "W s i = WDrain v c n r ok \<Longrightarrow> \<forall>k < n. S s i k = SEnd \<Longrightarrow>
     worker_step i s (if r then WTeardown v ok else WClear r ok) s"
| w_teardown: "W s i = WTeardown v ok \<Longrightarrow>
     worker_step i s (WClear True ok) (s\<lparr>torn := torn s @ [v]\<rparr>)"
| w_clear: "W s i = WClear r ok \<Longrightarrow>
     worker_step i s (if \<not> ok \<or> \<not> r then WDone else WClaim) (s\<lparr>P := clearWorker (P s) i\<rparr>)"

section \<open>Steps of one slot goroutine\<close>

inductive slot_step :: "nat \<Rightarrow> nat \<Rightarrow> sys \<Rightarrow> spc \<Rightarrow> sys \<Rightarrow> bool" where
  s_noResume: "S s i k = SResume v c \<Longrightarrow> claimResumeSlot (P s) c i k v = (None, p') \<Longrightarrow>
     slot_step i k s (SWait v c) (s\<lparr>P := p'\<rparr>)"
| s_resume: "S s i k = SResume v c \<Longrightarrow> claimResumeSlot (P s) c i k v = (Some (ex, cur, jc, n), p') \<Longrightarrow>
     slot_step i k s (SResuming v c jc) (s\<lparr>P := p'\<rparr>)"
| s_resumeReturns: "S s i k = SResuming v c jc \<Longrightarrow>
     slot_step i k s (SResumed v c e) (s\<lparr>P := (P s)\<lparr>contexts := ctx_cancel (contexts (P s)) jc None\<rparr>\<rparr>)"
| s_resumeEnds: "S s i k = SResumed v c e \<Longrightarrow> endResume (P s) i k v e now = (cont, p') \<Longrightarrow>
     slot_step i k s (if cont then SWait v c else SEnd) (s\<lparr>P := p'\<rparr>)"
| s_dispatch: "S s i k = SWait v c \<Longrightarrow> waitForSlotJob (P s) c i k v now = (SlotJob j t jc n, p') \<Longrightarrow>
     slot_step i k s (SRun v c j jc) (s\<lparr>P := p', disp_log := disp_log s @ [j]\<rparr>)"
| s_stop: "S s i k = SWait v c \<Longrightarrow> waitForSlotJob (P s) c i k v now = (SlotStopped, p') \<Longrightarrow>
     slot_step i k s SEnd (s\<lparr>P := p'\<rparr>)"
| s_runReturns: "S s i k = SRun v c j jc \<Longrightarrow>
     slot_step i k s (SFinish v c j e) (s\<lparr>P := (P s)\<lparr>contexts := ctx_cancel (contexts (P s)) jc None\<rparr>\<rparr>)"
| s_finish: "S s i k = SFinish v c j e \<Longrightarrow>
     slot_step i k s
       (if \<exists>er. e = Some er \<and> errors_Is er ErrDrainStalled then SStall v c e else SWait v c)
       (s\<lparr>P := finishSlotJob (P s) i k v e now\<rparr>)"
| s_stall: "S s i k = SStall v c e \<Longrightarrow>
     slot_step i k s SEnd (s\<lparr>P := recycleWorkerFreeingSlot (P s) i k v e\<rparr>)"

section \<open>Steps of the system\<close>

inductive pool_step :: "sys \<Rightarrow> sys \<Rightarrow> bool" where
  p_enqueue: "Enqueue (P s) None j = (None, p') \<Longrightarrow>
     pool_step s (s\<lparr>P := p', enq_log := enq_log s @ [j]\<rparr>)"
| p_start: "\<not> startOnce (P s) \<Longrightarrow>
     pool_step s (s\<lparr>P := Start (P s) 0 r now,
       W := (\<lambda>i. if int i < RunnerCount (options (P s)) then WClaim else WOff)\<rparr>)"
| p_env: "env_op (P s) p' \<Longrightarrow> pool_step s (s\<lparr>P := p'\<rparr>)"
| p_worker: "worker_step i s w' s' \<Longrightarrow> pool_step s (s'\<lparr>W := (W s')(i := w')\<rparr>)"
| p_slot: "slot_step i k s q' s' \<Longrightarrow> pool_step s (s'\<lparr>S := (S s')(i := (S s' i)(k := q'))\<rparr>)"

inductive reachable :: "options \<Rightarrow> sys \<Rightarrow> bool" for opts :: options where
  reach_init: "reachable opts (init_sys opts)"
| reach_step: "reachable opts s \<Longrightarrow> pool_step s s' \<Longrightarrow> reachable opts s'"

inductive steps :: "sys \<Rightarrow> sys \<Rightarrow> bool" where
  steps_refl: "steps s s"
| steps_step: "steps s s' \<Longrightarrow> pool_step s' s'' \<Longrightarrow> steps s s''"

inductive_cases worker_stepE: "worker_step i s w' s'"
inductive_cases slot_stepE: "slot_step i k s q' s'"
inductive_cases pool_stepE: "pool_step s s'"
inductive_cases env_opE: "env_op p p'"

end
