(* ===== verification/Pool_Safety.thy ===== *)
theory Pool_Safety
  imports Pool_Machine
begin

text \<open>
  Invariants of the reachable states of the pool's goroutines. The critical sections of the
  environment and of a slot goroutine share a contract, the locale \<open>quiet_sections\<close>: they keep
  the pool well formed, leave every worker its VM but for the workers that \<open>movers\<close> names, never
  undo a shutdown, and do not disturb the job of a slot that \<open>owned\<close> does not name.
\<close>

section \<open>A slot that runs a dispatched job\<close>

definition running_slot :: "pool \<Rightarrow> nat \<Rightarrow> nat \<Rightarrow> warmVM \<Rightarrow> job \<Rightarrow> bool" where
  "running_slot p i k v j =
     (i < length (states p) \<and> holdsVM (states p ! i) v \<and> k < length (slots (states p ! i))
      \<and> busy (slots (states p ! i) ! k) \<and> slotJobID (slots (states p ! i) ! k) = JobID j
      \<and> \<not> adopted (slots (states p ! i) ! k))"

lemma running_slot_busy: "running_slot p i k v j \<Longrightarrow> workerBusy (states p ! i)"
  by (auto simp: running_slot_def workerBusy_def list_ex_iff intro: bexI [OF _ nth_mem])

lemma running_set_state_other:
  "i' \<noteq> i \<Longrightarrow> running_slot (set_state p i' st) i k v j = running_slot p i k v j"
  by (simp add: running_slot_def)

lemma running_cong:
  "states p = states p' \<Longrightarrow> running_slot p i k v j = running_slot p' i k v j"
  by (simp add: running_slot_def)

lemma running_broadcast [simp]: "running_slot (broadcast p) i k v j = running_slot p i k v j"
  by (rule running_cong) simp

lemma running_contexts [simp]: "running_slot (p\<lparr>contexts := cs\<rparr>) i k v j = running_slot p i k v j"
  by (rule running_cong) simp

lemma running_queue [simp]: "running_slot (p\<lparr>queue := q\<rparr>) i k v j = running_slot p i k v j"
  by (rule running_cong) simp

text \<open>Putting a worker state keeps a running slot when it keeps the VM and the slot's binding.\<close>

lemma running_set_state:
  assumes "running_slot p i k v j"
    and "i' = i \<Longrightarrow> vm st = vm (states p ! i)"
    and "i' = i \<Longrightarrow> k < length (slots st)"
    and "i' = i \<Longrightarrow> busy (slots st ! k) \<and> slotJobID (slots st ! k) = slotJobID (slots (states p ! i) ! k)
           \<and> \<not> adopted (slots st ! k)"
  shows "running_slot (set_state p i' st) i k v j"
  using assms by (cases "i' = i") (auto simp: running_slot_def holdsVM_def)

lemma running_put_slot:
  assumes "running_slot p i k v j" and "vm st = vm (states p ! i')"
    and "slots st = (slots (states p ! i'))[k' := s]"
    and "i' = i \<Longrightarrow> k' = k \<Longrightarrow> busy s \<and> slotJobID s = slotJobID (slots (states p ! i) ! k) \<and> \<not> adopted s"
  shows "running_slot (set_state p i' st) i k v j"
  using assms by (cases "k' = k"; intro running_set_state) (auto simp: running_slot_def)

section \<open>The contract of a quiet critical section\<close>

locale quiet_sections =
  fixes r :: "pool \<Rightarrow> pool \<Rightarrow> bool"
    and movers :: "nat set"
    and owned :: "(nat \<times> nat) set"
  assumes keeps_wf: "r p p' \<Longrightarrow> pool_wf p \<Longrightarrow> pool_wf p'"
    and keeps_length: "r p p' \<Longrightarrow> length (states p') = length (states p)"
    and keeps_vm: "r p p' \<Longrightarrow> i \<notin> movers \<Longrightarrow> i < length (states p) \<Longrightarrow> vm (states p' ! i) = vm (states p ! i)"
    and keeps_start: "r p p' \<Longrightarrow> startOnce p' = startOnce p"
    and keeps_shutdown: "r p p' \<Longrightarrow> shuttingDown p \<Longrightarrow> shuttingDown p'"
    and keeps_running: "r p p' \<Longrightarrow> (i, k) \<notin> owned \<Longrightarrow> running_slot p i k v j \<Longrightarrow> running_slot p' i k v j"
begin

lemma keeps_holdsVM: "r p p' \<Longrightarrow> i \<notin> movers \<Longrightarrow> i < length (states p) \<Longrightarrow> holdsVM (states p' ! i) v = holdsVM (states p ! i) v"
  by (simp add: holdsVM_def keeps_vm)

end

section \<open>The environment\<close>

lemma vm_nth_update: "i < length sts \<Longrightarrow> vm st = vm (sts ! i') \<Longrightarrow> vm (sts[i' := st] ! i) = vm (sts ! i)"
  by (cases "i = i'") auto

text \<open>The shape of the two operations that recycle a busy worker: one slot of one worker is put.\<close>

definition puts_slot :: "pool \<Rightarrow> nat \<Rightarrow> nat \<Rightarrow> pool \<Rightarrow> bool" where
  "puts_slot p i k p' = (\<exists>st s cs. p' = broadcast (set_state p i st\<lparr>contexts := cs\<rparr>)
     \<and> vm st = vm (states p ! i) \<and> slots st = (slots (states p ! i))[k := s]
     \<and> (\<not> adopted (slots (states p ! i) ! k) \<longrightarrow>
          busy s \<and> \<not> adopted s \<and> slotJobID s = slotJobID (slots (states p ! i) ! k)))"

lemma puts_slotI:
  "vm st = vm (states p ! i) \<Longrightarrow> slots st = (slots (states p ! i))[k := s] \<Longrightarrow>
   (\<not> adopted (slots (states p ! i) ! k) \<Longrightarrow>
      busy s \<and> \<not> adopted s \<and> slotJobID s = slotJobID (slots (states p ! i) ! k)) \<Longrightarrow>
   puts_slot p i k (broadcast (set_state p i st\<lparr>contexts := cs\<rparr>))"
  unfolding puts_slot_def by blast

lemma puts_slotI_flags:
  assumes "vm st = vm (states p ! i)" and "slots st = slots (states p ! i)"
    and "busy (slots (states p ! i) ! k)"
  shows "puts_slot p i k (broadcast (set_state p i st\<lparr>contexts := cs\<rparr>))"
  by (rule puts_slotI [where s = "slots (states p ! i) ! k"]) (use assms in auto)

lemma running_puts_slot:
  assumes "puts_slot p i' k' p'" and run: "running_slot p i k v j"
  shows "running_slot p' i k v j"
proof -
  obtain st s cs where p': "p' = broadcast (set_state p i' st\<lparr>contexts := cs\<rparr>)"
    and st: "vm st = vm (states p ! i')" "slots st = (slots (states p ! i'))[k' := s]"
    and s: "\<not> adopted (slots (states p ! i') ! k') \<Longrightarrow>
          busy s \<and> \<not> adopted s \<and> slotJobID s = slotJobID (slots (states p ! i') ! k')"
    using assms(1) unfolding puts_slot_def by blast
  have "running_slot (set_state p i' st) i k v j"
    using run s by (intro running_put_slot [OF run st]) (auto simp: running_slot_def)
  then show ?thesis by (simp add: p')
qed

lemma puts_slot_CancelRun:
  assumes "findBound jobID 0 (states p) = Some (i, k)"
  shows "puts_slot p i k (CancelRun p jobID)"
proof -
  have "busy (slots (states p ! i) ! k)" using assms findBound_Some by blast
  then show ?thesis
    using assms by (auto simp: CancelRun_def Let_def intro: puts_slotI puts_slotI_flags
        split: option.splits)
qed

lemma CancelRun_cases: "CancelRun p jobID = p \<or> (\<exists>i k. puts_slot p i k (CancelRun p jobID))"
  using puts_slot_CancelRun [of jobID p]
  by (cases "findBound jobID 0 (states p)") (auto simp: CancelRun_def)

lemma requestBusyRecycle_cases:
  "requestBusyRecycle p c = p \<or> puts_slot p (bcIndex c) (bcSlotIndex c) (requestBusyRecycle p c)"
  by (auto simp: requestBusyRecycle_def Let_def sameBinding_def intro: puts_slotI split: option.splits)

lemma startOnce_simps [simp]:
  "startOnce (set_state p i st) = startOnce p" "startOnce (broadcast p) = startOnce p"
  by (simp_all add: set_state_def broadcast_def)

lemma env_op_wf: "env_op p p' \<Longrightarrow> pool_wf p \<Longrightarrow> pool_wf p'"
  by (induction rule: env_op.induct)
     (auto intro: pool_wf_ops pool_wf_claimSlotReapWarning pool_wf_contexts_cancel)

lemma running_env_op:
  "env_op p p' \<Longrightarrow> running_slot p i k v j \<Longrightarrow> running_slot p' i k v j"
proof (induction rule: env_op.induct)
  case (env_reconfigure p opts)
  then show ?case by (simp add: Reconfigure_def Let_def running_slot_def)
next
  case (env_cancelRun p jobID)
  then show ?case
    using CancelRun_cases [of p jobID] running_puts_slot by metis
next
  case (env_reapClaim p c)
  then show ?case
    by (auto simp: claimSlotReapWarning_def Let_def intro!: running_put_slot) (auto simp: running_slot_def)
next
  case (env_reapRequest c p)
  then show ?case
    using requestBusyRecycle_cases [of p c] running_puts_slot by metis
next
  case (env_recycleIdle i' p v' e)
  then show ?case
    by (auto simp: requestRecycle_def Let_def intro!: running_set_state split: option.splits)
       (auto simp: running_slot_def)
next
  case (env_shutdown p)
  then show ?case by (simp add: Shutdown_def running_slot_def split: option.splits)
next
  case (env_watch p)
  then show ?case by (simp add: watchPoolContext_def running_slot_def split: option.splits)
next
  case (env_parent p cause)
  then show ?case by simp
qed

lemma puts_slot_frame:
  "puts_slot p i k p' \<Longrightarrow> length (states p') = length (states p) \<and> startOnce p' = startOnce p
    \<and> shuttingDown p' = shuttingDown p \<and> queue p' = queue p
    \<and> (\<forall>i < length (states p). vm (states p' ! i) = vm (states p ! i))"
  by (auto simp: puts_slot_def vm_nth_update)

lemma env_op_frame:
  assumes "env_op p p'"
  shows "length (states p') = length (states p) \<and> startOnce p' = startOnce p
    \<and> (shuttingDown p \<longrightarrow> shuttingDown p') \<and> queue p' = queue p
    \<and> (\<forall>i < length (states p). vm (states p' ! i) = vm (states p ! i))"
  using assms
proof (induction rule: env_op.induct)
  case (env_reconfigure p opts)
  then show ?case by (simp add: Reconfigure_def Let_def)
next
  case (env_cancelRun p jobID)
  then show ?case using CancelRun_cases [of p jobID] by (auto dest: puts_slot_frame)
next
  case (env_reapClaim p c)
  then show ?case by (auto simp: claimSlotReapWarning_def Let_def vm_nth_update)
next
  case (env_reapRequest c p)
  then show ?case using requestBusyRecycle_cases [of p c] by (auto dest: puts_slot_frame)
next
  case (env_recycleIdle i' p v' e)
  then show ?case by (auto simp: requestRecycle_def Let_def vm_nth_update split: option.splits)
next
  case (env_shutdown p)
  then show ?case by (simp add: Shutdown_def)
next
  case (env_watch p)
  then show ?case by (simp add: watchPoolContext_def split: option.splits)
next
  case (env_parent p cause)
  then show ?case by simp
qed

interpretation env: quiet_sections env_op "{}" "{}"
  by unfold_locales (auto dest: env_op_frame intro: env_op_wf running_env_op)

section \<open>A slot goroutine\<close>

text \<open>The critical sections of the goroutine of slot \<open>k\<close> of worker \<open>i\<close>.\<close>

inductive slot_section :: "nat \<Rightarrow> nat \<Rightarrow> pool \<Rightarrow> pool \<Rightarrow> bool" for i k where
  sec_resume: "i < length (states p) \<Longrightarrow> slot_section i k p (snd (claimResumeSlot p c i k v))"
| sec_wait: "i < length (states p) \<Longrightarrow> slot_section i k p (snd (waitForSlotJob p c i k v now))"
| sec_finish: "i < length (states p) \<Longrightarrow> slot_section i k p (finishSlotJob p i k v e now)"
| sec_stall: "i < length (states p) \<Longrightarrow> slot_section i k p (recycleWorkerFreeingSlot p i k v e)"
| sec_cancel: "slot_section i k p (p\<lparr>contexts := ctx_cancel (contexts p) jc None\<rparr>)"

lemma slot_section_wf: "slot_section i k p p' \<Longrightarrow> pool_wf p \<Longrightarrow> pool_wf p'"
  by (induction rule: slot_section.induct)
     (auto intro: pool_wf_ops pool_wf_contexts_cancel)

lemma dequeue_frame [simp]:
  "states (snd (dequeueJobLocked p)) = states p" "contexts (snd (dequeueJobLocked p)) = contexts p"
  "startOnce (snd (dequeueJobLocked p)) = startOnce p"
  "shuttingDown (snd (dequeueJobLocked p)) = shuttingDown p"
  by (simp_all add: dequeueJobLocked_def split: list.splits)

lemma running_slot_section:
  assumes "slot_section i k p p'" and "(i', k') \<noteq> (i, k)" and "running_slot p i' k' v j"
  shows "running_slot p' i' k' v j"
  using assms
proof (induction rule: slot_section.induct)
  case (sec_resume p c v')
  then show ?case
    by (auto simp: claimResumeSlot_def Let_def split_beta intro!: running_put_slot)
next
  case (sec_wait p c v' now)
  then show ?case
    by (auto simp: waitForSlotJob_def Let_def split_beta dequeueJobLocked_def
        intro!: running_put_slot split: list.splits)
next
  case (sec_finish p v' e now)
  then show ?case
    by (auto simp: finishSlotJob_def Let_def intro!: running_put_slot)
next
  case (sec_stall p v' e)
  then show ?case
    by (auto simp: recycleWorkerFreeingSlot_def Let_def intro!: running_put_slot)
next
  case (sec_cancel p jc)
  then show ?case by simp
qed

lemma slot_section_frame:
  assumes "slot_section i k p p'"
  shows "length (states p') = length (states p) \<and> startOnce p' = startOnce p
    \<and> shuttingDown p' = shuttingDown p
    \<and> (\<forall>i' < length (states p). vm (states p' ! i') = vm (states p ! i'))"
  using assms
proof (induction rule: slot_section.induct)
  case (sec_resume p c v')
  then show ?case by (simp add: claimResumeSlot_def Let_def split_beta vm_nth_update)
next
  case (sec_wait p c v' now)
  then show ?case by (simp add: waitForSlotJob_def Let_def split_beta vm_nth_update)
next
  case (sec_finish p v' e now)
  then show ?case by (simp add: finishSlotJob_def Let_def vm_nth_update)
next
  case (sec_stall p v' e)
  then show ?case by (simp add: recycleWorkerFreeingSlot_def Let_def vm_nth_update)
next
  case (sec_cancel p jc)
  then show ?case by simp
qed

interpretation slot_goroutine: quiet_sections "slot_section i k" "{}" "{(i, k)}" for i k
  by unfold_locales (auto dest: slot_section_frame intro: slot_section_wf running_slot_section)

section \<open>A worker goroutine\<close>

text \<open>
  The critical sections of the goroutine of worker \<open>i\<close>, while no slot goroutine of it is running
  (\<open>worker_section\<close>), and its wait, which they may accompany (\<open>wait_section\<close>).
\<close>

inductive worker_section :: "nat \<Rightarrow> pool \<Rightarrow> pool \<Rightarrow> bool" for i where
  wsec_mark: "worker_section i p (markWarming p i)"
| wsec_err: "worker_section i p (markWarmError p i e)"
| wsec_activate: "worker_section i p (activateWorker p i v n now)"
| wsec_clear: "worker_section i p (clearWorker p i)"

inductive wait_section :: "nat \<Rightarrow> pool \<Rightarrow> pool \<Rightarrow> bool" for i where
  wsec_wait: "i < length (states p) \<Longrightarrow> wait_section i p (snd (waitForWorkerRecycleOrShutdown p c i v))"
| wsec_id: "wait_section i p (snd (nextID p))"
| wsec_spawn: "length (contexts p) \<le> length cs \<Longrightarrow> wait_section i p (p\<lparr>contexts := cs\<rparr>)"
| wsec_bcast: "length (contexts p) \<le> length cs \<Longrightarrow> wait_section i p (broadcast (p\<lparr>contexts := cs\<rparr>))"

lemma pool_wf_contexts_grow: "pool_wf p \<Longrightarrow> length (contexts p) \<le> length cs \<Longrightarrow> pool_wf (p\<lparr>contexts := cs\<rparr>)"
  by (auto simp: pool_wf_def list_all_iff intro: worker_wf_mono)

interpretation worker_goroutine: quiet_sections "worker_section i" "{i}" "{i} \<times> UNIV" for i
proof
  fix p p' and i' k :: nat and v j
  assume sec: "worker_section i p p'"
  show "pool_wf p \<Longrightarrow> pool_wf p'"
    using sec by (induction rule: worker_section.induct) (auto intro: pool_wf_ops)
  show "length (states p') = length (states p)"
    using sec by (induction rule: worker_section.induct)
      (simp_all add: markWarming_def markWarmError_def activateWorker_def clearWorker_def Let_def split_beta)
  show "i' \<notin> {i} \<Longrightarrow> i' < length (states p) \<Longrightarrow> vm (states p' ! i') = vm (states p ! i')"
    using sec by (induction rule: worker_section.induct)
      (simp_all add: markWarming_def markWarmError_def activateWorker_def clearWorker_def Let_def split_beta)
  show "startOnce p' = startOnce p"
    using sec by (induction rule: worker_section.induct)
      (simp_all add: markWarming_def markWarmError_def activateWorker_def clearWorker_def Let_def split_beta)
  show "shuttingDown p \<Longrightarrow> shuttingDown p'"
    using sec by (induction rule: worker_section.induct)
      (simp_all add: markWarming_def markWarmError_def activateWorker_def clearWorker_def Let_def split_beta)
  show "(i', k) \<notin> {i} \<times> UNIV \<Longrightarrow> running_slot p i' k v j \<Longrightarrow> running_slot p' i' k v j"
    using sec by (induction rule: worker_section.induct)
      (simp_all add: markWarming_def markWarmError_def activateWorker_def clearWorker_def Let_def split_beta
        running_set_state_other)
qed

lemma waitForWorker_cases:
  obtains (same) "snd (waitForWorkerRecycleOrShutdown p c i v) = p"
  | (taken) st cs where "holdsVM (states p ! i) v" "recycle (states p ! i)" "\<not> workerBusy (states p ! i)"
      "waitForWorkerRecycleOrShutdown p c i v
         = (WorkerReturns True True, broadcast (set_state p i st\<lparr>contexts := cs\<rparr>))"
      "vm st = None" "length cs = length (contexts p)"
proof (cases "shuttingDown p \<or> ctx_done (contexts p) c \<or> \<not> holdsVM (states p ! i) v
    \<or> \<not> (recycle (states p ! i) \<and> \<not> workerBusy (states p ! i))")
  case True
  then show ?thesis by (intro same) (auto simp: waitForWorkerRecycleOrShutdown_def Let_def)
next
  case False
  then show ?thesis
    by (intro taken [where st = "snd (resetWorkerSlotsLocked p ((states p ! i)\<lparr>vm := None, recycle := False,
          warming := True, idleSince := time_zero\<rparr>))"
        and cs = "fst (resetWorkerSlotsLocked p ((states p ! i)\<lparr>vm := None, recycle := False,
          warming := True, idleSince := time_zero\<rparr>))"])
       (auto simp: waitForWorkerRecycleOrShutdown_def Let_def split_beta resetWorkerSlotsLocked_def
         resetWorkerSlotsTo_frame)
qed

lemma wait_section_frame:
  assumes "wait_section i p p'"
  shows "length (states p') = length (states p) \<and> startOnce p' = startOnce p
    \<and> shuttingDown p' = shuttingDown p \<and> queue p' = queue p
    \<and> (\<forall>i' < length (states p). i' \<noteq> i \<longrightarrow> vm (states p' ! i') = vm (states p ! i'))"
  using assms
proof (induction rule: wait_section.induct)
  case (wsec_wait p c v)
  show ?case by (rule waitForWorker_cases [of p c i v]) auto
qed (simp_all add: nextID_def Let_def)

lemma running_wait_section:
  assumes "wait_section i p p'" and run: "running_slot p i' k v j"
  shows "running_slot p' i' k v j"
  using assms
proof (induction rule: wait_section.induct)
  case (wsec_wait p c v')
  show ?case
  proof (rule waitForWorker_cases [of p c i v'])
    assume "snd (waitForWorkerRecycleOrShutdown p c i v') = p"
    then show ?thesis using wsec_wait by simp
  next
    fix st cs
    assume nb: "\<not> workerBusy (states p ! i)"
      and eq: "waitForWorkerRecycleOrShutdown p c i v'
         = (WorkerReturns True True, broadcast (set_state p i st\<lparr>contexts := cs\<rparr>))"
    then have "i' \<noteq> i" using wsec_wait running_slot_busy by blast
    then show ?thesis using wsec_wait eq by (simp add: running_set_state_other)
  qed
qed (simp_all add: nextID_def Let_def running_slot_def)

interpretation wait_goroutine: quiet_sections "wait_section i" "{i}" "{}" for i
proof
  fix p p' and i' k :: nat and v j
  assume sec: "wait_section i p p'"
  show "pool_wf p \<Longrightarrow> pool_wf p'"
    using sec by (induction rule: wait_section.induct) (auto intro: pool_wf_ops pool_wf_contexts_grow)
qed (auto dest: wait_section_frame intro: running_wait_section)

section \<open>The control invariant\<close>

fun spc_on :: "spc \<Rightarrow> (warmVM \<times> nat) option" where
  "spc_on SNone = None"
| "spc_on SEnd = None"
| "spc_on (SResume v c) = Some (v, c)"
| "spc_on (SResuming v c jc) = Some (v, c)"
| "spc_on (SResumed v c e) = Some (v, c)"
| "spc_on (SWait v c) = Some (v, c)"
| "spc_on (SRun v c j jc) = Some (v, c)"
| "spc_on (SFinish v c j e) = Some (v, c)"
| "spc_on (SStall v c e) = Some (v, c)"

text \<open>The job of a slot goroutine from its dispatch to \<open>finishSlotJob\<close>.\<close>

fun spc_job :: "spc \<Rightarrow> (warmVM \<times> job) option" where
  "spc_job (SRun v c j jc) = Some (v, j)"
| "spc_job (SFinish v c j e) = Some (v, j)"
| "spc_job _ = None"

fun serving :: "wpc \<Rightarrow> (warmVM \<times> nat \<times> nat) option" where
  "serving (WServe v c n) = Some (v, c, n)"
| "serving (WCancel v c n r ok) = Some (v, c, n)"
| "serving (WDrain v c n r ok) = Some (v, c, n)"
| "serving _ = None"

fun recycling :: "wpc \<Rightarrow> warmVM option" where
  "recycling (WCancel v c n r ok) = (if r then Some v else None)"
| "recycling (WDrain v c n r ok) = (if r then Some v else None)"
| "recycling (WTeardown v ok) = Some v"
| "recycling _ = None"

definition ctrl_inv :: "sys \<Rightarrow> bool" where
  "ctrl_inv s = (pool_wf (P s)
     \<and> (\<forall>i. W s i \<noteq> WOff \<longrightarrow> startOnce (P s) \<and> i < length (states (P s)))
     \<and> (\<forall>i k v c. spc_on (S s i k) = Some (v, c) \<longrightarrow> (\<exists>n. serving (W s i) = Some (v, c, n) \<and> k < n))
     \<and> (\<forall>i k v j. spc_job (S s i k) = Some (v, j) \<longrightarrow> running_slot (P s) i k v j)
     \<and> (\<forall>i v. recycling (W s i) = Some v \<longrightarrow> \<not> holdsVM (states (P s) ! i) v))"

lemma spc_job_on: "spc_job q = Some (v, j) \<Longrightarrow> \<exists>c. spc_on q = Some (v, c)"
  by (cases q) auto

end
