(* ===== verification/Pool_Reach.thy ===== *)
theory Pool_Reach
  imports Pool_Safety
begin

text \<open>
  The control invariant holds in every reachable state, and so do first-in first-out delivery of
  the accepted jobs and the quiet shutdown.
\<close>

section \<open>Every step keeps the control invariant\<close>

lemma ctrl_inv_quietI:
  assumes q: "quiet_sections r movers owned" and rp: "r (P s) p'"
    and inv: "ctrl_inv s"
    and own: "\<And>i k. (i, k) \<in> owned \<Longrightarrow> spc_job (S s i k) = None"
    and mov: "\<And>i v. i \<in> movers \<Longrightarrow> recycling (W s i) = None"
  shows "ctrl_inv (s\<lparr>P := p'\<rparr>)"
proof -
  have "running_slot p' i k v j" if "spc_job (S s i k) = Some (v, j)" for i k v j
    using inv that own by (intro quiet_sections.keeps_running [OF q rp]) (auto simp: ctrl_inv_def)
  moreover have "\<not> holdsVM (states p' ! i) v" if "recycling (W s i) = Some v" for i v
  proof -
    have "W s i \<noteq> WOff" using that by auto
    then have "i < length (states (P s))" using inv by (auto simp: ctrl_inv_def)
    moreover have "i \<notin> movers" using mov that by fastforce
    ultimately show ?thesis
      using quiet_sections.keeps_holdsVM [OF q rp] inv that by (auto simp: ctrl_inv_def)
  qed
  ultimately show ?thesis
    using inv quiet_sections.keeps_wf [OF q rp] quiet_sections.keeps_length [OF q rp]
      quiet_sections.keeps_start [OF q rp]
    by (simp add: ctrl_inv_def)
qed

lemma ctrl_inv_env: "ctrl_inv s \<Longrightarrow> env_op (P s) p' \<Longrightarrow> ctrl_inv (s\<lparr>P := p'\<rparr>)"
  by (rule ctrl_inv_quietI [OF env.quiet_sections_axioms]) auto

lemma ctrl_inv_logs [simp]:
  "ctrl_inv (s\<lparr>enq_log := l\<rparr>) = ctrl_inv s" "ctrl_inv (s\<lparr>disp_log := l\<rparr>) = ctrl_inv s"
  "ctrl_inv (s\<lparr>torn := t\<rparr>) = ctrl_inv s"
  by (simp_all add: ctrl_inv_def)

text \<open>Moving one goroutine's program counter.\<close>

lemma ctrl_inv_move_worker:
  assumes inv: "ctrl_inv s" and ne: "W s i \<noteq> WOff"
    and sv: "serving w' = serving (W s i) \<or> (\<forall>k. spc_on (S s i k) = None)"
    and rc: "\<And>v. recycling w' = Some v \<Longrightarrow> \<not> holdsVM (states (P s) ! i) v"
  shows "ctrl_inv (s\<lparr>W := (W s)(i := w')\<rparr>)"
  using assms unfolding ctrl_inv_def by (auto simp: fun_upd_def)

lemma ctrl_inv_move_slot:
  assumes inv: "ctrl_inv s"
    and on: "\<And>v c. spc_on q = Some (v, c) \<Longrightarrow> spc_on (S s i k) = Some (v, c)"
    and job: "\<And>v j. spc_job q = Some (v, j) \<Longrightarrow> running_slot (P s) i k v j"
  shows "ctrl_inv (s\<lparr>S := (S s)(i := (S s i)(k := q))\<rparr>)"
  using assms unfolding ctrl_inv_def by (auto simp: fun_upd_def)

lemma ctrl_inv_on: "ctrl_inv s \<Longrightarrow> spc_on (S s i k) = Some (v, c) \<Longrightarrow>
    \<exists>n. serving (W s i) = Some (v, c, n) \<and> k < n"
  by (simp add: ctrl_inv_def)

lemma ctrl_inv_off: "ctrl_inv s \<Longrightarrow> serving (W s i) = None \<Longrightarrow> spc_on (S s i k) = None"
  using ctrl_inv_on [of s i k] by (cases "spc_on (S s i k)") auto

lemma ctrl_inv_off_job: "ctrl_inv s \<Longrightarrow> serving (W s i) = None \<Longrightarrow> spc_job (S s i k) = None"
  using ctrl_inv_off [of s i k] spc_job_on by (cases "spc_job (S s i k)") fastforce+

lemma ctrl_inv_worker_section:
  assumes inv: "ctrl_inv s" and sec: "worker_section i (P s) p'"
    and sv: "serving (W s i) = None" and rc: "recycling (W s i) = None"
  shows "ctrl_inv (s\<lparr>P := p'\<rparr>)"
  using worker_goroutine.quiet_sections_axioms sec inv
  by (rule ctrl_inv_quietI) (auto intro: ctrl_inv_off_job [OF inv sv] simp: rc)

lemma ctrl_inv_wait_section:
  assumes inv: "ctrl_inv s" and sec: "wait_section i (P s) p'" and rc: "recycling (W s i) = None"
  shows "ctrl_inv (s\<lparr>P := p'\<rparr>)"
  using wait_goroutine.quiet_sections_axioms sec inv
  by (rule ctrl_inv_quietI) (auto simp: rc)

lemma ctrl_inv_worker_on: "ctrl_inv s \<Longrightarrow> W s i \<noteq> WOff \<Longrightarrow> i < length (states (P s))"
  by (simp add: ctrl_inv_def)

lemma wait_returns_recycle:
  assumes "waitForWorkerRecycleOrShutdown p c i v = (WorkerReturns True ok, p')" and "i < length (states p)"
  shows "\<not> holdsVM (states p' ! i) v"
  using assms
  by (auto simp: waitForWorkerRecycleOrShutdown_def Let_def split_beta resetWorkerSlotsLocked_def
      resetWorkerSlotsTo_frame holdsVM_def split: if_splits)

lemma ctrl_inv_spawn:
  assumes inv: "ctrl_inv s" and ne: "W s i \<noteq> WOff"
    and f: "\<And>k v' c'. spc_on (f k) = Some (v', c') \<Longrightarrow> v' = v \<and> c' = c \<and> k < n"
    and job: "\<And>k. spc_job (f k) = None"
  shows "ctrl_inv (s\<lparr>W := (W s)(i := WServe v c n), S := (S s)(i := f)\<rparr>)"
proof -
  let ?s = "s\<lparr>W := (W s)(i := WServe v c n), S := (S s)(i := f)\<rparr>"
  have "\<exists>m. serving (W ?s i') = Some (v', c', m) \<and> k < m" if "spc_on (S ?s i' k) = Some (v', c')" for i' k v' c'
    using that f ctrl_inv_on [OF inv, of i' k v' c'] by (cases "i' = i") fastforce+
  moreover have "running_slot (P s) i' k v' j" if "spc_job (S ?s i' k) = Some (v', j)" for i' k v' j
    using that job inv by (cases "i' = i") (auto simp: ctrl_inv_def)
  moreover have "\<not> holdsVM (states (P s) ! i') v'" if "recycling (W ?s i') = Some v'" for i' v'
    using that inv by (cases "i' = i") (auto simp: ctrl_inv_def)
  moreover have "startOnce (P s) \<and> i' < length (states (P s))" if "W ?s i' \<noteq> WOff" for i'
    using that ne inv by (cases "i' = i") (auto simp: ctrl_inv_def)
  ultimately show ?thesis using inv by (simp add: ctrl_inv_def)
qed

lemma ctrl_inv_worker_step:
  assumes "worker_step i s w' s'" and inv: "ctrl_inv s"
  shows "ctrl_inv (s'\<lparr>W := (W s')(i := w')\<rparr>)"
  using assms(1)
proof (cases rule: worker_step.cases)
  case (w_claim v)
  then show ?thesis using inv by (intro ctrl_inv_move_worker) auto
next
  case w_noclaim
  then show ?thesis using inv by (intro ctrl_inv_move_worker) auto
next
  case w_mark
  with inv have "ctrl_inv s'" by (auto intro: ctrl_inv_worker_section wsec_mark)
  then show ?thesis using w_mark by (intro ctrl_inv_move_worker) auto
next
  case (w_name ident p')
  then have "wait_section i (P s) p'" using wsec_id [of i "P s"] by simp
  with inv w_name have "ctrl_inv s'" by (auto intro: ctrl_inv_wait_section)
  then show ?thesis using w_name by (intro ctrl_inv_move_worker) auto
next
  case (w_opts ident img n delay)
  then show ?thesis using inv by (intro ctrl_inv_move_worker) auto
next
  case (w_warmed ident img n v)
  then show ?thesis using inv by (intro ctrl_inv_move_worker) auto
next
  case (w_warmErr ident img n e)
  with inv have "ctrl_inv s'" by (auto intro: ctrl_inv_worker_section wsec_err)
  then show ?thesis using w_warmErr by (intro ctrl_inv_move_worker) auto
next
  case w_retry
  then show ?thesis using inv by (intro ctrl_inv_move_worker) auto
next
  case (w_giveUp pc)
  then show ?thesis using inv by (intro ctrl_inv_move_worker) auto
next
  case (w_activate v n now)
  with inv have "ctrl_inv s'" by (auto intro: ctrl_inv_worker_section wsec_activate)
  then show ?thesis using w_activate by (intro ctrl_inv_move_worker) auto
next
  case (w_spawn v pc cs c n)
  have "wait_section i (P s) ((P s)\<lparr>contexts := cs\<rparr>)"
    using w_spawn by (intro wsec_spawn) (auto simp: ctx_new_def)
  then have q: "ctrl_inv (s\<lparr>P := (P s)\<lparr>contexts := cs\<rparr>\<rparr>)"
    using inv w_spawn by (auto intro: ctrl_inv_wait_section)
  have "ctrl_inv (s\<lparr>P := (P s)\<lparr>contexts := cs\<rparr>\<rparr>
      \<lparr>W := (W s)(i := WServe v c n), S := (S s)(i := (\<lambda>k. if k < n then SResume v c else SNone))\<rparr>)"
    using q w_spawn by (intro ctrl_inv_spawn [of "s\<lparr>P := (P s)\<lparr>contexts := cs\<rparr>\<rparr>", simplified]) (auto split: if_splits)
  then show ?thesis using w_spawn by (simp add: ctrl_inv_def)
next
  case (w_wait v c n pc r ok p')
  have i: "i < length (states (P s))" using inv w_wait by (auto intro: ctrl_inv_worker_on)
  then have "wait_section i (P s) p'" using wsec_wait [OF i, of pc v] w_wait by simp
  with inv w_wait have q: "ctrl_inv s'" by (auto intro: ctrl_inv_wait_section)
  have "r \<Longrightarrow> \<not> holdsVM (states p' ! i) v" using w_wait wait_returns_recycle [of "P s" pc i v ok p', OF _ i] by simp
  with q show ?thesis using w_wait by (intro ctrl_inv_move_worker) (auto split: if_splits)
next
  case (w_cancel v c n r ok)
  have "r \<Longrightarrow> \<not> holdsVM (states (P s) ! i) v" using inv w_cancel by (auto simp: ctrl_inv_def)
  moreover have "ctrl_inv s'" using inv w_cancel by (simp add: ctrl_inv_def pool_wf_contexts_cancel)
  ultimately show ?thesis using w_cancel by (intro ctrl_inv_move_worker) (auto split: if_splits)
next
  case (w_join v c n r ok)
  have "spc_on (S s i k) = None" for k
  proof (cases "k < n")
    case True with w_join show ?thesis by simp
  next
    case False
    then show ?thesis using w_join ctrl_inv_on [OF inv, of i k]
      by (cases "spc_on (S s i k)") auto
  qed
  moreover have "r \<Longrightarrow> \<not> holdsVM (states (P s) ! i) v" using inv w_join by (auto simp: ctrl_inv_def)
  ultimately show ?thesis using inv w_join by (intro ctrl_inv_move_worker) (auto split: if_splits)
next
  case (w_teardown v ok)
  then show ?thesis using inv by (intro ctrl_inv_move_worker) auto
next
  case (w_clear r ok)
  with inv have "ctrl_inv s'" by (auto intro: ctrl_inv_worker_section wsec_clear)
  then show ?thesis using w_clear by (intro ctrl_inv_move_worker) (auto split: if_splits)
qed

lemma ctrl_inv_slot_section:
  assumes inv: "ctrl_inv s" and sec: "slot_section i k (P s) p'" and job: "spc_job (S s i k) = None"
  shows "ctrl_inv (s\<lparr>P := p'\<rparr>)"
  using slot_goroutine.quiet_sections_axioms sec inv
  by (rule ctrl_inv_quietI) (auto simp: job)

lemma ctrl_inv_slot_on: "ctrl_inv s \<Longrightarrow> spc_on (S s i k) = Some (v, c) \<Longrightarrow> i < length (states (P s))"
  using ctrl_inv_on [of s i k v c] by (auto intro: ctrl_inv_worker_on)

text \<open>A slot that ends its job gives up its hold on the slot state in the same section.\<close>

lemma ctrl_inv_slot_section_end:
  assumes inv: "ctrl_inv s" and sec: "slot_section i k (P s) p'" and q: "spc_job q = None"
    and on: "\<And>v c. spc_on q = Some (v, c) \<Longrightarrow> spc_on (S s i k) = Some (v, c)"
  shows "ctrl_inv (s\<lparr>P := p', S := (S s)(i := (S s i)(k := q))\<rparr>)"
proof -
  have "ctrl_inv (s\<lparr>S := (S s)(i := (S s i)(k := q))\<rparr>)"
    using inv on q by (intro ctrl_inv_move_slot) auto
  then have "ctrl_inv (s\<lparr>S := (S s)(i := (S s i)(k := q))\<rparr>\<lparr>P := p'\<rparr>)"
    using sec q by (intro ctrl_inv_slot_section [of _ i k]) auto
  then show ?thesis by (simp add: ctrl_inv_def)
qed

lemma dispatch_runs:
  assumes "waitForSlotJob p c i k v now = (SlotJob j t jc n, p')" and "i < length (states p)"
  shows "running_slot p' i k v j"
  using assms
  by (auto simp: waitForSlotJob_def Let_def split_beta running_slot_def split: if_splits)

lemma running_contexts_update: "running_slot p i k v j \<Longrightarrow> running_slot (p\<lparr>contexts := cs\<rparr>) i k v j"
  by simp

lemma ctrl_inv_slot_step:
  assumes "slot_step i k s q' s'" and inv: "ctrl_inv s"
  shows "ctrl_inv (s'\<lparr>S := (S s')(i := (S s' i)(k := q'))\<rparr>)"
  using assms(1)
proof (cases rule: slot_step.cases)
  case (s_noResume v c p')
  then have "slot_section i k (P s) p'"
    using sec_resume [of i "P s" k c v] ctrl_inv_slot_on [OF inv, of i k] by auto
  then show ?thesis using s_noResume inv by (auto intro: ctrl_inv_slot_section_end)
next
  case (s_resume v c ex cur jc n p')
  then have "slot_section i k (P s) p'"
    using sec_resume [of i "P s" k c v] ctrl_inv_slot_on [OF inv, of i k] by auto
  then show ?thesis using s_resume inv by (auto intro: ctrl_inv_slot_section_end)
next
  case (s_resumeReturns v c jc e)
  then show ?thesis using inv by (auto intro: ctrl_inv_slot_section_end sec_cancel)
next
  case (s_resumeEnds v c e now cont p')
  have "i < length (states (P s))" using s_resumeEnds by (intro ctrl_inv_slot_on [OF inv, of i k v c]) auto
  then have "slot_section i k (P s) p'"
    using s_resumeEnds by (auto simp: endResume_def intro: sec_finish sec_stall split: option.splits if_splits)
  then show ?thesis using s_resumeEnds inv by (auto intro: ctrl_inv_slot_section_end)
next
  case (s_dispatch v c now j t jc n p')
  have i: "i < length (states (P s))" using s_dispatch by (intro ctrl_inv_slot_on [OF inv, of i k v c]) auto
  then have "slot_section i k (P s) p'" using s_dispatch sec_wait [of i "P s" k c v now] by simp
  then have "ctrl_inv (s\<lparr>P := p'\<rparr>)" using s_dispatch inv by (auto intro: ctrl_inv_slot_section)
  then have "ctrl_inv s'" using s_dispatch by simp
  moreover have "running_slot (P s') i k v j" using dispatch_runs s_dispatch i by auto
  ultimately show ?thesis using s_dispatch by (intro ctrl_inv_move_slot) auto
next
  case (s_stop v c now p')
  have i: "i < length (states (P s))" using s_stop by (intro ctrl_inv_slot_on [OF inv, of i k v c]) auto
  then have "slot_section i k (P s) p'" using s_stop sec_wait [of i "P s" k c v now] by simp
  then show ?thesis using s_stop inv by (auto intro: ctrl_inv_slot_section_end)
next
  case (s_runReturns v c j jc e)
  have run: "running_slot (P s) i k v j" using inv s_runReturns by (auto simp: ctrl_inv_def)
  have "ctrl_inv s'"
    using inv s_runReturns by (auto simp: ctrl_inv_def pool_wf_contexts_cancel)
  then show ?thesis using s_runReturns run by (intro ctrl_inv_move_slot) auto
next
  case (s_finish v c j e now)
  have "i < length (states (P s))" using s_finish by (intro ctrl_inv_slot_on [OF inv, of i k v c]) auto
  then have "slot_section i k (P s) (finishSlotJob (P s) i k v e now)" by (rule sec_finish)
  then show ?thesis using s_finish inv by (auto intro!: ctrl_inv_slot_section_end)
next
  case (s_stall v c e)
  have "i < length (states (P s))" using s_stall by (intro ctrl_inv_slot_on [OF inv, of i k v c]) auto
  then have "slot_section i k (P s) (recycleWorkerFreeingSlot (P s) i k v e)" by (rule sec_stall)
  then show ?thesis using s_stall inv by (auto intro!: ctrl_inv_slot_section_end)
qed

lemma ctrl_inv_start:
  assumes inv: "ctrl_inv s" and once: "\<not> startOnce (P s)"
  shows "ctrl_inv (s\<lparr>P := Start (P s) 0 r now,
     W := (\<lambda>i. if int i < RunnerCount (options (P s)) then WClaim else WOff)\<rparr>)"
proof -
  have wf: "pool_wf (P s)" using inv by (simp add: ctrl_inv_def)
  have off: "W s i = WOff" for i using inv once by (auto simp: ctrl_inv_def)
  then have "spc_on (S s i k) = None" "spc_job (S s i k) = None" for i k
    by (auto intro: ctrl_inv_off [OF inv] ctrl_inv_off_job [OF inv])
  moreover have "startOnce (Start (P s) 0 r now)" using once by (simp add: Start_def Let_def split_beta)
  moreover have "length (states (Start (P s) 0 r now)) = length (states (P s))"
    and "options (Start (P s) 0 r now) = options (P s)"
    by (simp_all add: Start_def Let_def split_beta)
  ultimately show ?thesis
    using pool_wf_Start [OF wf] wf by (auto simp: ctrl_inv_def pool_wf_def)
qed

lemma ctrl_inv_step: "pool_step s s' \<Longrightarrow> ctrl_inv s \<Longrightarrow> ctrl_inv s'"
proof (induction rule: pool_step.induct)
  case (p_enqueue s j p')
  then have "p' = broadcast ((P s)\<lparr>queue := queue (P s) @ [j]\<rparr>)"
    by (auto simp: Enqueue_def split: if_splits)
  with p_enqueue show ?case by (simp add: ctrl_inv_def queue_update_wf)
next
  case (p_start s r now)
  then show ?case by (intro ctrl_inv_start)
next
  case (p_env s p')
  then show ?case by (intro ctrl_inv_env)
next
  case (p_worker i s w' s')
  then show ?case by (intro ctrl_inv_worker_step)
next
  case (p_slot i k s q' s')
  then show ?case by (intro ctrl_inv_slot_step)
qed

lemma ctrl_inv_init: "ctrl_inv (init_sys opts)"
  by (simp add: ctrl_inv_def init_sys_def pool_wf_New)

lemma reachable_ctrl_inv: "reachable opts s \<Longrightarrow> ctrl_inv s"
  by (induction rule: reachable.induct) (auto intro: ctrl_inv_init ctrl_inv_step)

section \<open>First in, first out\<close>

definition fifo_inv :: "sys \<Rightarrow> bool" where
  "fifo_inv s = (enq_log s = disp_log s @ queue (P s))"

lemma queue_worker_ops [simp]:
  "queue (markWarming p i) = queue p" "queue (markWarmError p i e) = queue p"
  "queue (activateWorker p i v n now) = queue p" "queue (clearWorker p i) = queue p"
  "queue (snd (nextID p)) = queue p"
  by (simp_all add: markWarming_def markWarmError_def activateWorker_def clearWorker_def nextID_def
      Let_def split_beta)

lemma queue_slot_ops [simp]:
  "queue (snd (claimResumeSlot p c i k v)) = queue p"
  "queue (finishSlotJob p i k v e now) = queue p"
  "queue (recycleWorkerFreeingSlot p i k v e) = queue p"
  "queue (snd (endResume p i k v e now)) = queue p"
  by (simp_all add: claimResumeSlot_def finishSlotJob_def recycleWorkerFreeingSlot_def endResume_def
      Let_def split_beta split: option.splits)

lemma queue_waitForSlotJob:
  "waitForSlotJob p c i k v now = (SlotJob j t jc n, p') \<Longrightarrow> queue p = j # queue p'"
  "waitForSlotJob p c i k v now = (SlotStopped, p') \<Longrightarrow> p' = p"
  by (auto simp: waitForSlotJob_def Let_def split_beta dequeueJobLocked_def split: if_splits list.splits)

lemma queue_waitForWorker:
  "waitForWorkerRecycleOrShutdown p c i v = (w, p') \<Longrightarrow> queue p' = queue p"
  by (auto simp: waitForWorkerRecycleOrShutdown_def Let_def split_beta split: if_splits)

lemma queue_claim_resume: "claimResumeSlot p c i k v = (x, p') \<Longrightarrow> queue p' = queue p"
  by (metis queue_slot_ops(1) snd_conv)

lemma queue_endResume: "endResume p i k v e now = (b, p') \<Longrightarrow> queue p' = queue p"
  by (metis queue_slot_ops(4) snd_conv)

lemma fifo_worker_step:
  "worker_step i s w' s' \<Longrightarrow> fifo_inv s \<Longrightarrow> fifo_inv s'"
  by (induction rule: worker_step.induct)
     (auto simp: fifo_inv_def nextID_def Let_def dest: queue_waitForWorker)

lemma fifo_slot_step:
  "slot_step i k s q' s' \<Longrightarrow> fifo_inv s \<Longrightarrow> fifo_inv s'"
  by (induction rule: slot_step.induct)
     (auto simp: fifo_inv_def dest: queue_waitForSlotJob queue_claim_resume queue_endResume)

lemma fifo_step: "pool_step s s' \<Longrightarrow> fifo_inv s \<Longrightarrow> fifo_inv s'"
proof (induction rule: pool_step.induct)
  case (p_enqueue s j p')
  then show ?case by (auto simp: fifo_inv_def Enqueue_def split: if_splits)
next
  case (p_start s r now)
  then show ?case by (simp add: fifo_inv_def Start_def Let_def split_beta)
next
  case (p_env s p')
  then show ?case using env_op_frame [of "P s" p'] by (simp add: fifo_inv_def)
next
  case (p_worker i s w' s')
  then show ?case using fifo_worker_step [of i s w' s'] by (simp add: fifo_inv_def)
next
  case (p_slot i k s q' s')
  then show ?case using fifo_slot_step [of i k s q' s'] by (simp add: fifo_inv_def)
qed

lemma reachable_fifo: "reachable opts s \<Longrightarrow> fifo_inv s"
  by (induction rule: reachable.induct) (auto simp: fifo_inv_def init_sys_def New_def Let_def intro: fifo_step [unfolded fifo_inv_def])

end
