(* ===== verification/Pool_Props.thy ===== *)
theory Pool_Props
  imports Pool_Reach
begin

text \<open>
  The properties of the pool's goroutines: what holds in every reachable state, whatever the
  interleaving.
\<close>

section \<open>Helpers\<close>

lemma reachable_pool_wf': "reachable opts s \<Longrightarrow> pool_wf (P s)"
  using reachable_ctrl_inv [of opts s] by (simp add: ctrl_inv_def)

text \<open>A shutdown is final.\<close>

lemma shutdown_worker_step: "worker_step i s w' s' \<Longrightarrow> shuttingDown (P s') = shuttingDown (P s)"
proof (induction rule: worker_step.induct)
  case (w_wait s i v c n pc r ok p')
  then show ?case
    by (auto simp: waitForWorkerRecycleOrShutdown_def Let_def split_beta split: if_splits)
qed (auto simp: markWarming_def markWarmError_def activateWorker_def clearWorker_def nextID_def Let_def split_beta)

lemma shutdown_slot_step: "slot_step i k s q' s' \<Longrightarrow> shuttingDown (P s') = shuttingDown (P s)"
proof (induction rule: slot_step.induct)
  case (s_resumeEnds s i k v c e now cont p')
  then show ?case
    by (auto simp: endResume_def finishSlotJob_def recycleWorkerFreeingSlot_def Let_def
        split: option.splits if_splits)
qed (auto simp: claimResumeSlot_def waitForSlotJob_def finishSlotJob_def recycleWorkerFreeingSlot_def
        Let_def split_beta split: if_splits)

lemma shutdown_step: "pool_step s s' \<Longrightarrow> shuttingDown (P s) \<Longrightarrow> shuttingDown (P s')"
proof (induction rule: pool_step.induct)
  case (p_start s r now)
  then show ?case by (simp add: Start_def Let_def split_beta)
next
  case (p_env s p')
  then show ?case using env.keeps_shutdown by simp
qed (auto simp: Enqueue_def dest: shutdown_worker_step shutdown_slot_step)

lemma shutdown_logs_worker:
  "worker_step i s w' s' \<Longrightarrow> enq_log s' = enq_log s \<and> disp_log s' = disp_log s"
  by (induction rule: worker_step.induct) auto

lemma shutdown_logs_slot:
  "slot_step i k s q' s' \<Longrightarrow> shuttingDown (P s) \<Longrightarrow> enq_log s' = enq_log s \<and> disp_log s' = disp_log s"
  by (induction rule: slot_step.induct) (auto simp: waitForSlotJob_def)

lemma shutdown_step_logs:
  "pool_step s s' \<Longrightarrow> shuttingDown (P s) \<Longrightarrow> enq_log s' = enq_log s \<and> disp_log s' = disp_log s"
  by (induction rule: pool_step.induct)
     (auto simp: Enqueue_def dest: shutdown_logs_worker shutdown_logs_slot)

lemma recycling_worker_step:
  "worker_step i s w' s' \<Longrightarrow> shuttingDown (P s) \<Longrightarrow> recycling (W s i) = None \<Longrightarrow>
     recycling w' = None \<and> W s' = W s \<and> torn s' = torn s"
  by (induction rule: worker_step.induct)
     (auto simp: waitForWorkerRecycleOrShutdown_def split: if_splits)

lemma frame_worker_step: "worker_step i s w' s' \<Longrightarrow> W s' = W s"
  by (induction rule: worker_step.induct) auto

lemma frame_slot_step: "slot_step i k s q' s' \<Longrightarrow> W s' = W s \<and> torn s' = torn s"
  by (induction rule: slot_step.induct) auto

definition no_recycling :: "sys \<Rightarrow> bool" where
  "no_recycling s = (\<forall>i. recycling (W s i) = None)"

lemma no_recycling_step:
  "pool_step s s' \<Longrightarrow> shuttingDown (P s) \<Longrightarrow> no_recycling s \<Longrightarrow> no_recycling s' \<and> torn s' = torn s"
proof (induction rule: pool_step.induct)
  case (p_worker i s w' s')
  then show ?case
    using recycling_worker_step [of i s w' s'] by (auto simp: no_recycling_def)
next
  case (p_slot i k s q' s')
  then show ?case using frame_slot_step [of i k s q' s'] by (auto simp: no_recycling_def)
qed (auto simp: no_recycling_def)

section \<open>Properties\<close>

text \<open>
  In every reachable state the pool is well formed: its options are normalised, there is
  exactly one worker state per configured runner (so no worker goroutine indexes out of range),
  every worker has a slot, a slot holds a cancel function only while it is busy, and every context
  it names exists.
\<close>

theorem pool_well_formed: "reachable opts s \<Longrightarrow> pool_wf (P s)"
  by (rule reachable_pool_wf')

text \<open>
  A VM is torn down only when nothing runs on it: in every reachable state in which a worker
  goroutine is about to call Teardown, none of its slot goroutines is active, and the pool's state
  no longer names the VM, so no new job can be sent to it.
\<close>

theorem teardown_only_when_quiet:
  assumes "reachable opts s" and "W s i = WTeardown v ok"
  shows "(\<forall>k. spc_on (S s i k) = None) \<and> \<not> holdsVM (states (P s) ! i) v"
proof -
  have inv: "ctrl_inv s" using assms(1) by (rule reachable_ctrl_inv)
  then have "\<not> holdsVM (states (P s) ! i) v" using assms(2) by (auto simp: ctrl_inv_def)
  moreover have "spc_on (S s i k) = None" for k
    using ctrl_inv_off [OF inv] assms(2) by simp
  ultimately show ?thesis by blast
qed

text \<open>
  C1. A recycle never overtakes a job: from the moment a worker's wait returns for a recycle,
  through the cancellation of its slot contexts, until the teardown, no job the pool dispatched
  is still running on that worker. A drain therefore never sees the plain cancellation of the
  slot context in place of the recycle cause.
\<close>

theorem recycle_waits_for_jobs:
  assumes "reachable opts s" and "recycling (W s i) = Some v"
  shows "spc_job (S s i k) = None"
proof (rule ccontr)
  assume "spc_job (S s i k) \<noteq> None"
  then obtain v' j where job: "spc_job (S s i k) = Some (v', j)" by auto
  have inv: "ctrl_inv s" using assms(1) by (rule reachable_ctrl_inv)
  obtain c n where "serving (W s i) = Some (v', c, n)"
    using ctrl_inv_on [OF inv] spc_job_on [OF job] by blast
  then have "v' = v" using assms(2) by (cases "W s i") (auto split: if_splits)
  then have "holdsVM (states (P s) ! i) v"
    using inv job by (auto simp: ctrl_inv_def running_slot_def)
  then show False using inv assms(2) by (auto simp: ctrl_inv_def)
qed

text \<open>
  C2. Jobs are delivered first in, first out, each exactly once: in every reachable state the jobs
  that were accepted are the jobs handed to slots, in the same order, followed by the queue.
\<close>

theorem jobs_first_in_first_out: "reachable opts s \<Longrightarrow> enq_log s = disp_log s @ queue (P s)"
  using reachable_fifo [of opts s] by (simp add: fifo_inv_def)

text \<open>
  While a job runs, its slot says so: the worker's state names the VM the job runs on, and the
  slot is busy and bound to that job's id. Neither a reconfiguration, a cancellation, a reap, a
  reconcile nor another slot can free it before \<open>finishSlotJob\<close>.
\<close>

theorem running_job_keeps_its_slot:
  assumes "reachable opts s" and "S s i k = SRun v c j jc"
  shows "vm (states (P s) ! i) \<noteq> None \<and> vmName (the (vm (states (P s) ! i))) = vmName v
    \<and> busy (slots (states (P s) ! i) ! k) \<and> slotJobID (slots (states (P s) ! i) ! k) = JobID j"
proof -
  have "running_slot (P s) i k v j"
    using reachable_ctrl_inv [OF assms(1)] assms(2) by (auto simp: ctrl_inv_def)
  then show ?thesis by (auto simp: running_slot_def holdsVM_def split: option.splits)
qed

text \<open>
  A shutdown accepts and dispatches nothing more, and releases the VMs instead of tearing
  them down: from a state that is shutting down with no recycle already under way, no sequence of
  steps changes the logs of accepted, dispatched and torn-down.
\<close>

theorem shutdown_releases:
  assumes "steps s s'" and "shuttingDown (P s)" and "\<forall>i. recycling (W s i) = None"
  shows "enq_log s' = enq_log s \<and> disp_log s' = disp_log s \<and> torn s' = torn s"
proof -
  have "shuttingDown (P s') \<and> no_recycling s' \<and> enq_log s' = enq_log s
      \<and> disp_log s' = disp_log s \<and> torn s' = torn s"
    using assms
  proof (induction rule: steps.induct)
    case (steps_refl s)
    then show ?case by (simp add: no_recycling_def)
  next
    case (steps_step s s' s'')
    then show ?case
      using shutdown_step shutdown_step_logs no_recycling_step by auto
  qed
  then show ?thesis by simp
qed

end
