(* ===== verification/Pool_Demo.thy ===== *)
theory Pool_Demo
  imports Pool_Props
begin

text \<open>
  A concrete run of the pool with one worker and one slot, on an adopted VM: it shows that the
  hypotheses of the properties of \<open>Pool_Props\<close> are met by runs of the program. \<open>demo_sys\<close> is a
  system state with that one worker and slot.
\<close>

declare One_nat_def [simp del]

definition demo_opts :: options where
  "demo_opts = \<lparr>RunnerCount = 1, JobsPerVM = 1, Image = ''img'', MaxIdle = 0, MaxAge = 0,
     MaxBind = 100, PickupTimeout = 10, RunToken = ''t'', WarmRetryDelay = 1, Now = Some TimeNow\<rparr>"

definition demo_vm :: warmVM where
  "demo_vm = \<lparr>vmName = ''p-1'', vmImage = ''img''\<rparr>"

definition demo_job :: job where
  "demo_job = \<lparr>Repo = ''o/r'', JobID = 7, RunID = 8\<rparr>"

definition demo_worker :: "warmVM option \<Rightarrow> time \<Rightarrow> bool \<Rightarrow> bool \<Rightarrow> slotState \<Rightarrow> workerState" where
  "demo_worker v idle wm rc sl = \<lparr>vm = v, bornAt = 5, idleSince = idle, warming = wm, recycle = rc,
     slots = [sl], lastErr = None\<rparr>"

definition demo_pool :: "job list \<Rightarrow> workerState \<Rightarrow> bool \<Rightarrow> ctxs \<Rightarrow> nat \<Rightarrow> pool" where
  "demo_pool q st sd cs b = \<lparr>options = demo_opts, queue = q, states = [st], started = True,
     shuttingDown = sd, done_closed = sd, poolCtx = Some 1, startOnce = True, shutdownOnce = sd,
     counter = 0, contexts = cs, broadcasts = b\<rparr>"

definition demo_sys :: "pool \<Rightarrow> wpc \<Rightarrow> spc \<Rightarrow> job list \<Rightarrow> job list \<Rightarrow> warmVM list \<Rightarrow> sys" where
  "demo_sys p w q es ds ts = \<lparr>P = p, W = (\<lambda>i. if i = 0 then w else WOff),
     S = (\<lambda>i k. if i = 0 \<and> k = 0 then q else SNone), enq_log = es, disp_log = ds, torn = ts\<rparr>"

lemmas demo_defs = demo_opts_def demo_vm_def demo_worker_def demo_pool_def
lemmas demo_sys_simps = demo_sys_def

lemma demo_P [simp]: "P (demo_sys p w q es ds ts) = p"
  and demo_W [simp]: "W (demo_sys p w q es ds ts) 0 = w"
  and demo_S [simp]: "S (demo_sys p w q es ds ts) 0 0 = q"
  and demo_logs [simp]: "enq_log (demo_sys p w q es ds ts) = es" "disp_log (demo_sys p w q es ds ts) = ds"
    "torn (demo_sys p w q es ds ts) = ts"
  by (simp_all add: demo_sys_def)

lemma demo_worker_move:
  assumes "reachable opts (demo_sys p w q es ds ts)"
    and "worker_step 0 (demo_sys p w q es ds ts) w' (demo_sys p w q es ds ts\<lparr>P := p'\<rparr>)"
  shows "reachable opts (demo_sys p' w' q es ds ts)"
proof -
  have "pool_step (demo_sys p w q es ds ts) (demo_sys p' w' q es ds ts)"
    using p_worker [OF assms(2)] by (simp add: demo_sys_def fun_upd_def cong: if_cong)
  with assms(1) show ?thesis by (rule reach_step)
qed

lemma demo_slot_move:
  assumes "reachable opts (demo_sys p w q es ds ts)"
    and "slot_step 0 0 (demo_sys p w q es ds ts) q' (demo_sys p w q es ds ts\<lparr>P := p', disp_log := ds'\<rparr>)"
  shows "reachable opts (demo_sys p' w q' es ds' ts)"
proof -
  have "(\<lambda>a b. if b = 0 then q' else if a = 0 \<and> b = (0::nat) then q else SNone) 0
      = (\<lambda>k. if k = 0 then q' else SNone)" by auto
  then have "pool_step (demo_sys p w q es ds ts) (demo_sys p' w q' es ds' ts)"
    using p_slot [OF assms(2)]
    by (simp add: demo_sys_def fun_upd_def cong: if_cong)
       (erule back_subst [of "pool_step _"], auto simp: fun_eq_iff)
  with assms(1) show ?thesis by (rule reach_step)
qed

lemma demo_env_move:
  assumes "reachable opts (demo_sys p w q es ds ts)" and "env_op p p'"
  shows "reachable opts (demo_sys p' w q es ds ts)"
proof -
  have "pool_step (demo_sys p w q es ds ts) (demo_sys p' w q es ds ts)"
    using p_env [of "demo_sys p w q es ds ts" p'] assms(2) by (simp add: demo_sys_def)
  with assms(1) show ?thesis by (rule reach_step)
qed

lemma demo_enqueue_move:
  assumes "reachable opts (demo_sys p w q es ds ts)" and "Enqueue p None j = (None, p')"
  shows "reachable opts (demo_sys p' w q (es @ [j]) ds ts)"
proof -
  have "pool_step (demo_sys p w q es ds ts) (demo_sys p' w q (es @ [j]) ds ts)"
    using p_enqueue [of "demo_sys p w q es ds ts" j p'] assms(2) by (simp add: demo_sys_def)
  with assms(1) show ?thesis by (rule reach_step)
qed

section \<open>Stages of the run\<close>

abbreviation ctxs2 :: ctxs where
  "ctxs2 \<equiv> [Ctx None None, Ctx None (Some 0)]"

abbreviation ctxs3 :: ctxs where
  "ctxs3 \<equiv> [Ctx None None, Ctx None (Some 0), Ctx None (Some 1)]"

lemma ctx_cause_live:
  "ctx_cause ctxs2 0 = None" "ctx_cause ctxs2 1 = None"
  "ctx_cause ctxs3 0 = None" "ctx_cause ctxs3 1 = None" "ctx_cause ctxs3 2 = None"
  by (simp_all add: ctx_cause.simps)

lemma ctx_done_live: "\<not> ctx_done ctxs2 1" "\<not> ctx_done ctxs3 1" "\<not> ctx_done ctxs3 2"
  by (simp_all add: ctx_done_def ctx_cause_live del: One_nat_def)

abbreviation idle_worker :: workerState where
  "idle_worker \<equiv> demo_worker (Some demo_vm) 5 False False emptySlotState"

lemma demo_New:
  "New demo_opts [Ctx None None] =
     \<lparr>options = demo_opts, queue = [], states = [zeroWorkerState\<lparr>slots := [emptySlotState]\<rparr>],
      started = False, shuttingDown = False, done_closed = False, poolCtx = None, startOnce = False,
      shutdownOnce = False, counter = 0, contexts = [Ctx None None], broadcasts = 0\<rparr>"
proof -
  have "normalizeOptions demo_opts = demo_opts"
    by (rule normalizeOptions_id) (simp add: options_ok_def demo_opts_def)
  then have "New demo_opts [Ctx None None] =
     \<lparr>options = demo_opts, queue = [], states = newWorkerStates (RunnerCount demo_opts) (JobsPerVM demo_opts),
      started = False, shuttingDown = False, done_closed = False, poolCtx = None, startOnce = False,
      shutdownOnce = False, counter = 0, contexts = [Ctx None None], broadcasts = 0\<rparr>"
    by (simp add: New_def Let_def)
  then show ?thesis by (simp add: newWorkerStates_def makeSlots_def demo_opts_def)
qed

lemma demo_started: "reachable demo_opts (demo_sys (demo_pool [] idle_worker False ctxs2 0) WClaim SNone [] [] [])"
proof -
  let ?p = "P (init_sys demo_opts)"
  have p: "?p = New demo_opts [Ctx None None]" by (simp add: init_sys_def)
  have once: "\<not> startOnce ?p" by (simp add: p demo_New)
  have start: "Start ?p 0 (Inr [\<lparr>VM = Some demo_vm, aSlots = []\<rparr>]) 5 = demo_pool [] idle_worker False ctxs2 0"
    by (simp add: p demo_New Start_def ctx_new_def adoptWorkers_def installAdopted_def makeSlots_def
        demo_pool_def demo_worker_def) (simp add: demo_opts_def)
  have "pool_step (init_sys demo_opts) (demo_sys (demo_pool [] idle_worker False ctxs2 0) WClaim SNone [] [] [])"
    using p_start [OF once, of "Inr [\<lparr>VM = Some demo_vm, aSlots = []\<rparr>]" 5] unfolding start
    by (rule back_subst)
       (auto simp: init_sys_def demo_sys_def demo_New fun_eq_iff, simp_all add: demo_opts_def)
  with reach_init show ?thesis by (rule reach_step)
qed

lemma demo_served:
  "reachable demo_opts (demo_sys (demo_pool [] idle_worker False ctxs3 0) (WServe demo_vm 2 1) (SResume demo_vm 2) [] [] [])"
proof -
  let ?p = "demo_pool [] idle_worker False ctxs2 0"
  let ?s = "demo_sys ?p (WSpawn demo_vm) SNone [] [] []"
  have "worker_step 0 (demo_sys ?p WClaim SNone [] [] []) (WSpawn demo_vm) (demo_sys ?p WClaim SNone [] [] [])"
    by (rule w_claim) (simp_all add: claimWorker_def demo_pool_def demo_worker_def)
  then have "worker_step 0 (demo_sys ?p WClaim SNone [] [] []) (WSpawn demo_vm) (demo_sys ?p WClaim SNone [] [] []\<lparr>P := ?p\<rparr>)"
    by (simp add: demo_sys_def)
  with demo_started have a: "reachable demo_opts ?s" by (rule demo_worker_move)
  have "worker_step 0 ?s (WServe demo_vm 2 1)
     (?s\<lparr>P := (P ?s)\<lparr>contexts := ctxs3\<rparr>, S := (S ?s)(0 := (\<lambda>k. if k < 1 then SResume demo_vm 2 else SNone))\<rparr>)"
    by (rule w_spawn [where pc = 1]) (simp_all add: demo_defs ctx_new_def workerSlotCount_def Let_def)
  from p_worker [OF this]
  have "pool_step ?s (demo_sys (demo_pool [] idle_worker False ctxs3 0) (WServe demo_vm 2 1) (SResume demo_vm 2) [] [] [])"
    by (rule back_subst) (auto simp: demo_sys_def fun_eq_iff demo_pool_def)
  with a show ?thesis by (rule reach_step)
qed

lemma demo_slot_move':
  assumes "reachable opts (demo_sys p w q es ds ts)"
    and "slot_step 0 0 (demo_sys p w q es ds ts) q' (demo_sys p w q es ds ts\<lparr>P := p'\<rparr>)"
  shows "reachable opts (demo_sys p' w q' es ds ts)"
  by (rule demo_slot_move [OF assms(1)]) (use assms(2) in \<open>simp add: demo_sys_def\<close>)

lemma demo_worker_stay:
  assumes "reachable opts (demo_sys p w q es ds ts)"
    and "worker_step 0 (demo_sys p w q es ds ts) w' (demo_sys p w q es ds ts)"
  shows "reachable opts (demo_sys p w' q es ds ts)"
  by (rule demo_worker_move [OF assms(1)]) (use assms(2) in \<open>simp add: demo_sys_def\<close>)

section \<open>Recycling the idle VM\<close>

abbreviation ctxs3c :: ctxs where
  "ctxs3c \<equiv> [Ctx None None, Ctx None (Some 0), Ctx (Some ContextCanceled) (Some 1)]"

abbreviation recycled_pool :: "ctxs \<Rightarrow> nat \<Rightarrow> pool" where
  "recycled_pool cs b \<equiv> demo_pool [] (demo_worker None 0 True False emptySlotState) False cs b"

lemma resetSlots_demo [simp]: "resetSlots cs [emptySlotState] = (cs, [emptySlotState])"
  by (simp add: emptySlotState_def)

lemma demo_recycle_requested:
  "reachable demo_opts (demo_sys (demo_pool [] (demo_worker (Some demo_vm) 5 False True emptySlotState) False ctxs3 1)
     (WServe demo_vm 2 1) (SResume demo_vm 2) [] [] [])"
proof (rule demo_env_move [OF demo_served])
  have "env_op (demo_pool [] idle_worker False ctxs3 0) (requestRecycle (demo_pool [] idle_worker False ctxs3 0) 0 demo_vm None)"
    by (rule env_recycleIdle) (simp add: demo_pool_def)
  also have "requestRecycle (demo_pool [] idle_worker False ctxs3 0) 0 demo_vm None
     = demo_pool [] (demo_worker (Some demo_vm) 5 False True emptySlotState) False ctxs3 1"
    by (simp add: requestRecycle_def demo_pool_def demo_worker_def workerBusy_def broadcast_def set_state_def)
  finally show "env_op (demo_pool [] idle_worker False ctxs3 0)
     (demo_pool [] (demo_worker (Some demo_vm) 5 False True emptySlotState) False ctxs3 1)" .
qed

lemma demo_wait_returns:
  "reachable demo_opts (demo_sys (recycled_pool ctxs3 2) (WCancel demo_vm 2 1 True True) (SResume demo_vm 2) [] [] [])"
  by (rule demo_worker_move [OF demo_recycle_requested], rule w_wait [where pc = 1])
     (simp_all add: waitForWorkerRecycleOrShutdown_def demo_pool_def demo_worker_def ctx_done_live
        holdsVM_def workerBusy_def resetWorkerSlotsLocked_def resetWorkerSlotsToLocked_def
        broadcast_def set_state_def time_zero_def del: One_nat_def, simp_all add: demo_opts_def)

lemma cancel_ctxs3: "ctx_cancel ctxs3 2 None = ctxs3c"
  using ctx_cause_live by (simp add: ctx_cancel_def numeral_2_eq_2)

lemma demo_cancelled:
  "reachable demo_opts (demo_sys (recycled_pool ctxs3c 3) (WDrain demo_vm 2 1 True True) (SResume demo_vm 2) [] [] [])"
proof -
  let ?s = "demo_sys (recycled_pool ctxs3 2) (WCancel demo_vm 2 1 True True) (SResume demo_vm 2) [] [] []"
  have "worker_step 0 ?s (WDrain demo_vm 2 1 True True)
      (?s\<lparr>P := broadcast ((P ?s)\<lparr>contexts := ctx_cancel (contexts (P ?s)) 2 None\<rparr>)\<rparr>)"
    by (rule w_cancel) simp
  then have "worker_step 0 ?s (WDrain demo_vm 2 1 True True) (?s\<lparr>P := recycled_pool ctxs3c 3\<rparr>)"
    by (simp add: demo_pool_def broadcast_def cancel_ctxs3 del: One_nat_def)
  with demo_wait_returns show ?thesis by (rule demo_worker_move)
qed

lemma ctxs3c_done: "ctx_done ctxs3c 2"
  by (simp add: ctx_done_def ctx_cause.simps)

lemma demo_drained:
  "reachable demo_opts (demo_sys (recycled_pool ctxs3c 3) (WDrain demo_vm 2 1 True True) SEnd [] [] [])"
proof -
  have "reachable demo_opts (demo_sys (recycled_pool ctxs3c 3) (WDrain demo_vm 2 1 True True) (SWait demo_vm 2) [] [] [])"
    by (rule demo_slot_move' [OF demo_cancelled], rule s_noResume)
       (simp_all add: claimResumeSlot_def demo_pool_def ctxs3c_done del: One_nat_def)
  moreover have stopped: "ctx_done (contexts (recycled_pool ctxs3c 3)) 2"
    by (simp add: demo_pool_def ctxs3c_done del: One_nat_def)
  have "slot_step 0 0 (demo_sys (recycled_pool ctxs3c 3) (WDrain demo_vm 2 1 True True) (SWait demo_vm 2) [] [] []) SEnd
      (demo_sys (recycled_pool ctxs3c 3) (WDrain demo_vm 2 1 True True) (SWait demo_vm 2) [] [] []\<lparr>P := recycled_pool ctxs3c 3\<rparr>)"
    by (rule s_stop [where now = 6]) (simp, simp add: waitForSlotJob_def stopped)
  ultimately show ?thesis by (rule demo_slot_move')
qed

lemma demo_teardown:
  "reachable demo_opts (demo_sys (recycled_pool ctxs3c 3) (WTeardown demo_vm True) SEnd [] [] [])"
proof (rule demo_worker_stay [OF demo_drained])
  let ?s = "demo_sys (recycled_pool ctxs3c 3) (WDrain demo_vm 2 1 True True) SEnd [] [] []"
  have "worker_step 0 ?s (if True then WTeardown demo_vm True else WClear True True) ?s"
    by (rule w_join) auto
  then show "worker_step 0 ?s (WTeardown demo_vm True) ?s" by simp
qed

section \<open>Serving a job\<close>

abbreviation ctxs4 :: ctxs where
  "ctxs4 \<equiv> [Ctx None None, Ctx None (Some 0), Ctx None (Some 1), Ctx None (Some 2)]"

definition demo_slot :: slotState where
  "demo_slot = emptySlotState\<lparr>boundAt := 6, busy := True, slotJobID := 7, slotRunID := 8, jobCancel := Some 3\<rparr>"

lemma demo_enqueued:
  "reachable demo_opts (demo_sys (demo_pool [demo_job] idle_worker False ctxs3 1)
     (WServe demo_vm 2 1) (SResume demo_vm 2) [demo_job] [] [])"
  using demo_enqueue_move [OF demo_served, of demo_job]
  by (simp add: Enqueue_def demo_pool_def broadcast_def One_nat_def)

lemma demo_dispatch:
  "waitForSlotJob (demo_pool [demo_job] idle_worker False ctxs3 1) 2 0 0 demo_vm 6
     = (SlotJob demo_job 6 3 1, demo_pool [] (demo_worker (Some demo_vm) 0 False False demo_slot) False ctxs4 2)"
  by (simp add: waitForSlotJob_def demo_pool_def demo_worker_def ctx_done_live holdsVM_def
      dequeueJobLocked_def ctx_new_def set_state_def broadcast_def demo_slot_def emptySlotState_def
      demo_job_def time_zero_def One_nat_def [symmetric] numeral_2_eq_2 [symmetric])

lemma demo_running:
  "reachable demo_opts (demo_sys (demo_pool [] (demo_worker (Some demo_vm) 0 False False demo_slot) False ctxs4 2)
     (WServe demo_vm 2 1) (SRun demo_vm 2 demo_job 3) [demo_job] [demo_job] [])"
proof -
  let ?p = "demo_pool [demo_job] idle_worker False ctxs3 1"
  let ?s = "demo_sys ?p (WServe demo_vm 2 1) (SWait demo_vm 2) [demo_job] [] []"
  have a: "reachable demo_opts ?s"
    by (rule demo_slot_move' [OF demo_enqueued], rule s_noResume)
       (simp_all add: claimResumeSlot_def demo_pool_def demo_worker_def ctx_done_live holdsVM_def)
  have w: "waitForSlotJob (P ?s) 2 0 0 demo_vm 6
     = (SlotJob demo_job 6 3 1, demo_pool [] (demo_worker (Some demo_vm) 0 False False demo_slot) False ctxs4 2)"
    unfolding demo_P by (rule demo_dispatch)
  have "S ?s 0 0 = SWait demo_vm 2" by (rule demo_S)
  from s_dispatch [OF this w]
  have "slot_step 0 0 ?s (SRun demo_vm 2 demo_job 3)
     (?s\<lparr>P := demo_pool [] (demo_worker (Some demo_vm) 0 False False demo_slot) False ctxs4 2,
        disp_log := [demo_job]\<rparr>)"
    unfolding demo_logs append_Nil .
  with a show ?thesis by (rule demo_slot_move)
qed

section \<open>The properties apply to these runs\<close>

theorem pool_well_formed_witness: "pool_wf (P (init_sys demo_opts))"
  by (rule pool_well_formed [OF reach_init])

theorem teardown_only_when_quiet_witness:
  "let s = demo_sys (recycled_pool ctxs3c 3) (WTeardown demo_vm True) SEnd [] [] []
   in (\<forall>k. spc_on (S s 0 k) = None) \<and> \<not> holdsVM (states (P s) ! 0) demo_vm"
  using teardown_only_when_quiet [OF demo_teardown, of 0 demo_vm True] by (simp add: Let_def)

theorem recycle_waits_for_jobs_witness:
  "spc_job (S (demo_sys (recycled_pool ctxs3 2) (WCancel demo_vm 2 1 True True) (SResume demo_vm 2) [] [] []) 0 0) = None"
  by (rule recycle_waits_for_jobs [OF demo_wait_returns, of 0 demo_vm]) simp

theorem jobs_first_in_first_out_witness:
  "enq_log (demo_sys (demo_pool [demo_job] idle_worker False ctxs3 1) (WServe demo_vm 2 1) (SResume demo_vm 2) [demo_job] [] [])
     = [demo_job]
   \<and> disp_log (demo_sys (demo_pool [demo_job] idle_worker False ctxs3 1) (WServe demo_vm 2 1) (SResume demo_vm 2) [demo_job] [] [])
     @ queue (demo_pool [demo_job] idle_worker False ctxs3 1) = [demo_job]"
  using jobs_first_in_first_out [OF demo_enqueued] by simp

theorem running_job_keeps_its_slot_witness:
  "slotJobID (slots (states (demo_pool [] (demo_worker (Some demo_vm) 0 False False demo_slot) False ctxs4 2) ! 0) ! 0)
     = JobID demo_job"
  using running_job_keeps_its_slot [OF demo_running, of 0 0 demo_vm 2 demo_job 3] by simp

text \<open>A shutdown with a job in the queue: the queue stays, and no later step touches the logs.\<close>

definition demo_shutdown_sys :: sys where
  "demo_shutdown_sys =
     (let s = demo_sys (demo_pool [demo_job] idle_worker False ctxs3 1) (WServe demo_vm 2 1) (SResume demo_vm 2) [demo_job] [] []
      in s\<lparr>P := Shutdown (P s)\<rparr>)"

theorem shutdown_releases_witness:
  "enq_log demo_shutdown_sys = [demo_job] \<and> disp_log demo_shutdown_sys = [] \<and> torn demo_shutdown_sys = []"
  using shutdown_releases [of demo_shutdown_sys demo_shutdown_sys]
  by (simp add: steps_refl demo_shutdown_sys_def Let_def Shutdown_def demo_pool_def broadcast_def demo_sys_def)

end
