(* ===== verification/Pool_Status.thy ===== *)
theory Pool_Status
  imports Pool_Ops
begin

text \<open>
  The status rows of \<open>status.go\<close>: phases, bind ages, and the enrichment with the running-slots
  probe, which runs after the pool lock is released. The text of an error is an argument
  (\<open>err_text\<close>). \<open>bindAgeSeconds\<close> goes through a float in the code; the whole seconds it
  yields are those of integer division as long as the age is below \<open>2 ^ 23\<close> seconds.
\<close>

record slotView =
  svIndex :: nat
  svPhase :: string
  svRunID :: int
  svJobID :: int
  svBindAgeSeconds :: int
  svActiveJob :: "bool option"
  svLastError :: string

record workerView =
  wvIndex :: nat
  wvVM :: string
  wvPhase :: string
  wvRunID :: int
  wvBindAgeSeconds :: int
  wvActiveJob :: "bool option"
  wvLastError :: string
  wvSlots :: "slotView list"

definition workerPhase :: "workerState \<Rightarrow> string" where
  "workerPhase st =
     (if recycle st then ''recycle''
      else if warming st then ''warming''
      else if vm st = None then ''empty''
      else if workerBusy st then ''busy''
      else ''idle'')"

definition slotPhase :: "workerState \<Rightarrow> slotState \<Rightarrow> string" where
  "slotPhase st s =
     (if busy s then ''busy''
      else if recycle st then ''recycle''
      else if warming st then ''warming''
      else if vm st = None then ''empty''
      else ''idle'')"

definition bindAgeSeconds :: "time \<Rightarrow> time \<Rightarrow> int" where
  "bindAgeSeconds bound now =
     (if time_IsZero bound then 0
      else let bindAge = time_Sub now bound
           in if bindAge \<le> 0 then 0 else bindAge div second)"

definition errText :: "(err \<Rightarrow> string) \<Rightarrow> err option \<Rightarrow> string" where
  "errText err_text e = (case e of None \<Rightarrow> [] | Some er \<Rightarrow> err_text er)"

definition slotViewOf :: "(err \<Rightarrow> string) \<Rightarrow> nat \<Rightarrow> workerState \<Rightarrow> slotState \<Rightarrow> time \<Rightarrow> slotView" where
  "slotViewOf err_text index st s now =
     \<lparr>svIndex = index, svPhase = slotPhase st s, svRunID = slotRunID s, svJobID = slotJobID s,
      svBindAgeSeconds = bindAgeSeconds (boundAt s) now, svActiveJob = None,
      svLastError = errText err_text (slotErr s)\<rparr>"

fun addSlotViews :: "(err \<Rightarrow> string) \<Rightarrow> workerState \<Rightarrow> time \<Rightarrow> workerView \<Rightarrow> nat \<Rightarrow> slotState list \<Rightarrow> workerView" where
  "addSlotViews err_text st now view i [] = view"
| "addSlotViews err_text st now view i (s # ss) =
     (let sv = slotViewOf err_text i st s now;
          v1 = view\<lparr>wvSlots := wvSlots view @ [sv]\<rparr>;
          v2 = (if wvRunID v1 = 0 \<and> busy s
                then v1\<lparr>wvRunID := slotRunID s, wvBindAgeSeconds := svBindAgeSeconds sv\<rparr> else v1);
          v3 = (if wvLastError v2 = [] \<and> slotErr s \<noteq> None
                then v2\<lparr>wvLastError := errText err_text (slotErr s)\<rparr> else v2)
      in addSlotViews err_text st now v3 (Suc i) ss)"

definition workerViewOf :: "(err \<Rightarrow> string) \<Rightarrow> nat \<Rightarrow> workerState \<Rightarrow> time \<Rightarrow> workerView" where
  "workerViewOf err_text index st now =
     (let view = \<lparr>wvIndex = index, wvVM = (case vm st of None \<Rightarrow> [] | Some v \<Rightarrow> vmName v),
                  wvPhase = workerPhase st, wvRunID = 0, wvBindAgeSeconds = 0, wvActiveJob = None,
                  wvLastError = errText err_text (lastErr st), wvSlots = []\<rparr>
      in case slots st of
           [] \<Rightarrow> view
         | [s] \<Rightarrow> view\<lparr>wvRunID := slotRunID s, wvBindAgeSeconds := bindAgeSeconds (boundAt s) now\<rparr>
         | s # t # ss \<Rightarrow> addSlotViews err_text st now view 0 (s # t # ss))"

definition busySlots :: "workerState \<Rightarrow> nat list" where
  "busySlots st = filter (\<lambda>k. busy (slots st ! k)) [0 ..< length (slots st)]"

text \<open>Writing one VM's probe into its view: the running flags of its busy slots.\<close>

definition enrichSlot :: "nat \<Rightarrow> (nat \<Rightarrow> bool) \<Rightarrow> workerView \<Rightarrow> nat \<Rightarrow> workerView" where
  "enrichSlot slotCount running view k =
     (if slotCount \<le> 1 then view\<lparr>wvActiveJob := Some (running k)\<rparr>
      else if k < length (wvSlots view)
      then view\<lparr>wvSlots := (wvSlots view)[k := (wvSlots view ! k)\<lparr>svActiveJob := Some (running k)\<rparr>]\<rparr>
      else view)"

definition enrichView :: "slotProber option \<Rightarrow> workerState \<Rightarrow> workerView \<Rightarrow> workerView" where
  "enrichView prober st view =
     (case prober of
        None \<Rightarrow> view
      | Some RunningSlots \<Rightarrow>
          (case vm st of
             None \<Rightarrow> view
           | Some v \<Rightarrow>
               if busySlots st = [] then view
               else (case RunningSlots v of
                       Inl e \<Rightarrow> view
                     | Inr running \<Rightarrow> foldl (enrichSlot (length (slots st)) running) view (busySlots st))))"

definition Status :: "(err \<Rightarrow> string) \<Rightarrow> pool \<Rightarrow> slotProber option \<Rightarrow> time \<Rightarrow> snapshot \<times> workerView list" where
  "Status err_text p prober now =
     (snapshotLocked p,
      map (\<lambda>(i, st). enrichView prober st (workerViewOf err_text i st now))
        (zip [0 ..< length (states p)] (states p)))"

end
