(* ===== verification/Host_Tart.thy ===== *)
theory Host_Tart
  imports Guest_Runner
begin

text \<open>
  The tart CLI as the broker uses it (\<open>internal/tart/tart.go\<close>): the arguments of each call, what of a call
  reaches the log, the errors it returns, and the tail buffer of a teed run. Running the process is an
  operation of the world; the JSON of \<open>tart list\<close> is answered parsed.
\<close>

section \<open>Operations on the host\<close>

datatype host_op =
    TartRun "string list"
  | TartStart "string list" bool
  | KillBoot string
  | GuestHello string string
  | GuestDrain string string
  | GuestReattach string string
  | MakeCacheDir string
  | ChmodCacheDir string
  | Executable
  | LatestRunner
  | RunnerTarball string
  | HashFile string
  | MakeScratch
  | CopyBinary string string
  | RemoveScratch string
  | StageBase string
  | StopStage

record answer =
  ansErr :: "err option"
  ansOut :: string
  ansVMs :: "(string \<times> string) list"
  ansProtocol :: "32 word"
  ansExecs :: "executionState list"

type_synonym host_trace = "host_op list"
type_synonym host = "host_trace \<Rightarrow> host_op \<Rightarrow> answer"

section \<open>Command lines\<close>

abbreviation ipWaitSeconds :: int where "ipWaitSeconds \<equiv> 30"

definition clone_args :: "string \<Rightarrow> string \<Rightarrow> bool \<Rightarrow> string list" where
  "clone_args source name insecure = [''clone''] @ (if insecure then [''--insecure''] else []) @ [source, name]"

definition exec_args :: "string \<Rightarrow> string list \<Rightarrow> string list" where
  "exec_args name argv = [''exec'', name] @ argv"

definition ip_args :: "string \<Rightarrow> string list" where
  "ip_args name = [''ip'', name, ''--wait'', Itoa ipWaitSeconds]"

record bootOptions =
  Dirs :: "(string \<times> string) list"
  Detach :: bool
  NoGraphics :: bool

definition boot_args :: "string \<Rightarrow> bootOptions \<Rightarrow> string list" where
  "boot_args name opts =
     [''run'', name] @ (if NoGraphics opts then [''--no-graphics''] else [])
     @ concat (map (\<lambda>(n, p). [''--dir'', n @ '':'' @ p]) (Dirs opts))"

definition BootCommand :: "string \<Rightarrow> bootOptions \<Rightarrow> host_op" where
  "BootCommand name opts = TartStart (boot_args name opts) (Detach opts)"

text \<open>The calls that are one run of tart.\<close>

definition tart_Clone :: "string \<Rightarrow> string \<Rightarrow> bool \<Rightarrow> host_op" where
  "tart_Clone source name insecure = TartRun (clone_args source name insecure)"

definition tart_Exec :: "string \<Rightarrow> string list \<Rightarrow> host_op" where
  "tart_Exec name argv = TartRun (exec_args name argv)"

definition tart_IP :: "string \<Rightarrow> host_op" where "tart_IP name = TartRun (ip_args name)"
definition tart_Stop :: "string \<Rightarrow> host_op" where "tart_Stop name = TartRun [''stop'', name]"
definition tart_Delete :: "string \<Rightarrow> host_op" where "tart_Delete name = TartRun [''delete'', name]"
definition tart_ListVMs :: host_op where "tart_ListVMs = TartRun [''list'', ''--format'', ''json'']"

lemmas tart_calls = tart_Clone_def tart_Exec_def tart_IP_def tart_Stop_def tart_Delete_def tart_ListVMs_def
  BootCommand_def clone_args_def exec_args_def ip_args_def boot_args_def

text \<open>\<open>IP\<close>: an answer that is not an address is an error; \<open>isIP\<close> is \<open>net.ParseIP\<close>.\<close>

definition IP_result :: "(string \<Rightarrow> bool) \<Rightarrow> string \<Rightarrow> answer \<Rightarrow> err + string" where
  "IP_result isIP name a =
     (case ansErr a of
        Some e \<Rightarrow> Inl e
      | None \<Rightarrow>
          let addr = TrimSpace (ansOut a)
          in if \<not> isIP addr then Inl (Msg (''tart: ip '' @ name @ '' returned '' @ Quote addr @ '', not a valid IP''))
             else Inr addr)"

section \<open>What is logged, what is returned\<close>

fun nestedSecurityArgs :: "string list \<Rightarrow> string list" where
  "nestedSecurityArgs [] = []"
| "nestedSecurityArgs (a # as) = (if filepath_Base a = ''security'' then as else nestedSecurityArgs as)"

definition tartCommandRedaction :: "string list \<Rightarrow> bool \<times> bool" where
  "tartCommandRedaction args =
     (if argsContainSensitiveValue args then (True, True)
      else let securityArgs = nestedSecurityArgs args
           in if \<not> securityArgsContainSecret securityArgs then (False, False)
              else (True, \<not> securityOutputIsDiagnostic securityArgs))"

definition tartCommandLogValues :: "string list \<Rightarrow> string \<Rightarrow> string \<times> string" where
  "tartCommandLogValues args output =
     (let (redactArgs, redactOutput) = tartCommandRedaction args
      in (if redactArgs then redactedLogValue else JoinStr args '' '',
          if redactOutput then redactedLogValue else TrimSpace output))"

text \<open>
  \<open>execRunner\<close> and \<open>execRunnerTee\<close> after the process group ended with \<open>runErr\<close>: the pair that is logged and the
  error that is returned (its text is the arguments, the cause and the output).
\<close>

definition execRunner :: "string list \<Rightarrow> err option \<Rightarrow> string \<Rightarrow> (string \<times> string) \<times> err option" where
  "execRunner args runErr out =
     (tartCommandLogValues args out,
      map_option (\<lambda>e. Wrapf (''tart '' @ JoinStr args '' '' @ '': '') e ('': '' @ TrimSpace out)) runErr)"

section \<open>The tail buffer\<close>

record tailBuffer =
  tbLimit :: int
  tbBuf :: string

definition newTailBuffer :: "int \<Rightarrow> tailBuffer" where
  "newTailBuffer n = \<lparr>tbLimit = n, tbBuf = []\<rparr>"

definition tailBuffer_Write :: "tailBuffer \<Rightarrow> string \<Rightarrow> tailBuffer" where
  "tailBuffer_Write b p =
     (if tbLimit b \<le> 0 then b
      else if tbLimit b \<le> int (length p) then b\<lparr>tbBuf := drop (length p - nat (tbLimit b)) p\<rparr>
      else
        let excess = int (length (tbBuf b)) + int (length p) - tbLimit b;
            kept = (if 0 < excess then drop (nat excess) (tbBuf b) else tbBuf b)
        in b\<lparr>tbBuf := kept @ p\<rparr>)"

text \<open>The last \<open>n\<close> bytes of a text.\<close>

definition tail_of :: "nat \<Rightarrow> string \<Rightarrow> string" where
  "tail_of n s = drop (length s - n) s"

lemma tail_of_append: "tail_of n (tail_of n s @ p) = tail_of n (s @ p)"
  by (auto simp: tail_of_def drop_append intro!: arg_cong [of _ _ "\<lambda>m. drop m s"])

lemma Write_tail:
  assumes "0 < tbLimit b"
  shows "tbLimit (tailBuffer_Write b p) = tbLimit b
    \<and> tbBuf (tailBuffer_Write b p) = tail_of (nat (tbLimit b)) (tbBuf b @ p)"
  using assms
  by (auto simp: tailBuffer_Write_def tail_of_def Let_def nat_diff_distrib nat_add_distrib nat_le_iff algebra_simps
      intro!: arg_cong2 [of _ _ _ _ drop])

lemma Writes_tail:
  assumes "0 < tbLimit b" and "tbBuf b = tail_of (nat (tbLimit b)) s"
  shows "tbBuf (foldl tailBuffer_Write b ps) = tail_of (nat (tbLimit b)) (s @ concat ps)"
  using assms
proof (induction ps arbitrary: b s)
  case Nil
  then show ?case by simp
next
  case (Cons p ps)
  note w = Write_tail [OF Cons.prems(1), of p]
  have "tbBuf (tailBuffer_Write b p) = tail_of (nat (tbLimit (tailBuffer_Write b p))) (s @ p)"
    using w Cons.prems(2) tail_of_append by simp
  then have "tbBuf (foldl tailBuffer_Write (tailBuffer_Write b p) ps) = tail_of (nat (tbLimit b)) ((s @ p) @ concat ps)"
    using Cons.IH [of "tailBuffer_Write b p" "s @ p"] w Cons.prems(1) by simp
  then show ?case by simp
qed

text \<open>
  The error of a failed teed run quotes the end of the output and nothing else: however the process
  splits what it prints into writes, the buffer holds exactly the last \<open>limit\<close> bytes of all of it,
  so its memory is bounded and the last line of a failing build is never lost.
\<close>

theorem tail_buffer_keeps_the_tail:
  assumes "0 < n"
  shows "tbBuf (foldl tailBuffer_Write (newTailBuffer n) ps) = tail_of (nat n) (concat ps)
    \<and> int (length (tbBuf (foldl tailBuffer_Write (newTailBuffer n) ps))) \<le> n"
proof -
  have "tbBuf (foldl tailBuffer_Write (newTailBuffer n) ps) = tail_of (nat n) ([] @ concat ps)"
    using Writes_tail [of "newTailBuffer n" "[]" ps] assms by (simp add: newTailBuffer_def tail_of_def)
  then show ?thesis using assms by (simp add: tail_of_def)
qed

theorem tail_buffer_keeps_the_tail_witness:
  "tbBuf (foldl tailBuffer_Write (newTailBuffer 4) [''ab'', ''cde'', [], ''f'']) = ''cdef''"
  using tail_buffer_keeps_the_tail [of 4 "[''ab'', ''cde'', [], ''f'']"] by (simp add: tail_of_def)

end
