(* ===== verification/Golden_Build.thy ===== *)
theory Golden_Build
  imports Host_Tart
begin

text \<open>
  Building the golden image (\<open>internal/golden\<close>): the fingerprint of its inputs, the runner receipt, the
  build with its verification and promotion, and the check of a cached golden. The host is the world
  of \<^theory_text>\<open>Host_Tart\<close>. The hash (hex SHA-256), the JSON decoding of the receipt and \<open>net.ParseIP\<close> are arguments;
  \<open>polls\<close> is how many times the readiness window lets a VM be polled.
\<close>

section \<open>Names and fingerprints\<close>

text \<open>\<open>NameForImage\<close>, for an image reference of ASCII characters.\<close>

definition golden_char :: "char \<Rightarrow> char" where
  "golden_char c = (if CHR 0x61 \<le> c \<and> c \<le> CHR 0x7A \<or> CHR 0x30 \<le> c \<and> c \<le> CHR 0x39 \<or> c = CHR 0x2E \<or> c = CHR 0x2D
     then c else CHR 0x2D)"

definition NameForImage :: "string \<Rightarrow> string" where
  "NameForImage img =
     (let name = TrimPrefix (ToLower (TrimSpace img)) ''ghcr.io/cirruslabs/''
      in TrimRight (''gha-golden-'' @ map golden_char name) ''-'')"

record payloadDigest =
  plName :: string
  plDigest :: string

record fingerprintInputs =
  BaseImageRef :: string
  fiRunnerVersion :: string
  fiRunnerTarballDigest :: string
  BinaryDigest :: string
  Payloads :: "payloadDigest list"

definition nul :: char where "nul = CHR 0x00"

definition fingerprint_field :: "string \<Rightarrow> string \<Rightarrow> string" where
  "fingerprint_field label value = label @ ''='' @ value @ [nul]"

text \<open>
  The bytes \<open>Fingerprint\<close> hashes. Payloads are sorted by name; payloads of one name would be hashed in
  an order Go does not specify, here in that of the list.
\<close>

definition fingerprint_text :: "fingerprintInputs \<Rightarrow> string" where
  "fingerprint_text fi =
     fingerprint_field ''base-image'' (BaseImageRef fi)
     @ fingerprint_field ''runner-version'' (fiRunnerVersion fi)
     @ fingerprint_field ''runner-tarball'' (fiRunnerTarballDigest fi)
     @ fingerprint_field ''binary'' (BinaryDigest fi)
     @ concat (map (\<lambda>p. fingerprint_field ''payload-name'' (plName p) @ fingerprint_field ''payload-digest'' (plDigest p))
         (sort_key plName (Payloads fi)))"

definition Fingerprint :: "(string \<Rightarrow> string) \<Rightarrow> fingerprintInputs \<Rightarrow> string" where
  "Fingerprint sha256 fi = sha256 (fingerprint_text fi)"

record runnerReceipt =
  rrVersion :: string
  rrTarballDigest :: string

definition is_hex :: "char \<Rightarrow> bool" where
  "is_hex c = (CHR 0x30 \<le> c \<and> c \<le> CHR 0x39 \<or> CHR 0x61 \<le> c \<and> c \<le> CHR 0x66 \<or> CHR 0x41 \<le> c \<and> c \<le> CHR 0x46)"

text \<open>\<open>hex.DecodeString\<close> succeeds with 32 bytes on 64 hexadecimal digits.\<close>

definition Receipt_Validate :: "runnerReceipt \<Rightarrow> err option" where
  "Receipt_Validate r =
     (if TrimSpace (rrVersion r) = [] \<or> TrimSpace (rrVersion r) \<noteq> rrVersion r
      then Some (Msg ''golden: runner receipt version is empty or padded'')
      else if \<not> list_all is_hex (rrTarballDigest r) \<or> length (rrTarballDigest r) \<noteq> 64
      then Some (Msg ''golden: runner receipt digest must be a hex SHA-256'')
      else None)"

section \<open>Helpers\<close>

text \<open>What the builder's functions take from outside.\<close>

record golden_env =
  sha256 :: "string \<Rightarrow> string"
  decodeReceipt :: "string \<Rightarrow> err + runnerReceipt"
  parseIP :: "string \<Rightarrow> bool"
  plist :: string
  polls :: nat
  ctxErr :: err
  hasStager :: bool

definition step :: "host \<Rightarrow> string \<Rightarrow> host_op \<Rightarrow> host_trace \<Rightarrow> err option \<times> host_trace" where
  "step w msg x tr = (let (a, tr1) = perform w x tr in (map_option (\<lambda>e. Wrapf msg e []) (ansErr a), tr1))"

text \<open>An operation whose output is used; its error is returned as it is.\<close>

definition ask :: "host \<Rightarrow> host_op \<Rightarrow> host_trace \<Rightarrow> (err + string) \<times> host_trace" where
  "ask w x tr =
     (let (a, tr1) = perform w x tr in (case ansErr a of Some e \<Rightarrow> Inl e | None \<Rightarrow> Inr (ansOut a), tr1))"

definition golden_teardown :: "host \<Rightarrow> string \<Rightarrow> host_trace \<Rightarrow> host_trace" where
  "golden_teardown w name tr = attempt_op w (tart_Delete name) (attempt_op w (tart_Stop name) tr)"

text \<open>Kill the boot process, stop and delete the VM.\<close>

definition discard :: "host \<Rightarrow> string \<Rightarrow> host_trace \<Rightarrow> host_trace" where
  "discard w name tr = golden_teardown w name (attempt_op w (KillBoot name) tr)"

definition GuestAgentPlistLabel :: string where "GuestAgentPlistLabel = ''io.goodkind.gha-mac-broker-guest''"
definition BakedBinaryPath :: string where "BakedBinaryPath = ''/usr/local/bin/gha-mac-broker''"
definition FingerprintPath :: string where "FingerprintPath = ''/usr/local/share/gha-guest/golden.fingerprint''"
definition RunnerReceiptPath :: string where "RunnerReceiptPath = ''/usr/local/share/gha-guest/runner.json''"
definition GuestAgentPlistPath :: string where
  "GuestAgentPlistPath = ''/Library/LaunchDaemons/io.goodkind.gha-mac-broker-guest.plist''"
definition LegacyWatchdogScriptPath :: string where "LegacyWatchdogScriptPath = ''/usr/local/bin/gha-broker-watchdog.sh''"
definition provisionMountName :: string where "provisionMountName = ''ghaprovision''"
definition tartSharedMountRoot :: string where "tartSharedMountRoot = ''/Volumes/My Shared Files''"
definition provisionBinaryName :: string where "provisionBinaryName = ''gha-mac-broker''"
definition localProvisionerPath :: string where "localProvisionerPath = ''/tmp/gha-mac-broker-provision''"
definition goldenStagingSuffix :: string where "goldenStagingSuffix = ''-staging''"

definition fingerprintWithRunner :: "golden_env \<Rightarrow> string \<Rightarrow> string \<Rightarrow> runnerReceipt \<Rightarrow> string" where
  "fingerprintWithRunner g img binaryDigest r =
     Fingerprint (sha256 g)
       \<lparr>BaseImageRef = img, fiRunnerVersion = rrVersion r, fiRunnerTarballDigest = rrTarballDigest r,
        BinaryDigest = binaryDigest, Payloads = [\<lparr>plName = GuestAgentPlistLabel, plDigest = sha256 g (plist g)\<rparr>]\<rparr>"

section \<open>Booting a clone\<close>

text \<open>\<open>waitForReady\<close>: \<open>n\<close> polls before the window closes.\<close>

fun golden_waitForReady :: "host \<Rightarrow> err \<Rightarrow> string \<Rightarrow> nat \<Rightarrow> host_trace \<Rightarrow> err option \<times> host_trace" where
  "golden_waitForReady w deadline name 0 tr =
     (Some (Wrapf (''golden: waiting for vsock readiness of '' @ name @ '': '') deadline []), tr)"
| "golden_waitForReady w deadline name (Suc n) tr =
     (let (a, tr1) = perform w (tart_Exec name [''true'']) tr
      in if ansErr a = None then (None, tr1) else golden_waitForReady w deadline name n tr1)"

definition cloneAndBoot ::
  "host \<Rightarrow> golden_env \<Rightarrow> string \<Rightarrow> string \<Rightarrow> bool \<Rightarrow> (string \<times> string) list \<Rightarrow> host_trace \<Rightarrow> err option \<times> host_trace" where
  "cloneAndBoot w g source name insecure dirs tr =
     andThen (step w (''golden: clone '' @ name @ '' from '' @ source @ '': '') (tart_Clone source name insecure))
       (\<lambda>tr1.
          (case step w (''golden: boot '' @ name @ '': '')
                  (BootCommand name \<lparr>Dirs = dirs, Detach = False, NoGraphics = True\<rparr>) tr1 of
             (Some e, tr2) \<Rightarrow> (Some e, golden_teardown w name tr2)
           | (None, tr2) \<Rightarrow>
               (case golden_waitForReady w (ctxErr g) name (polls g) tr2 of
                  (Some e, tr3) \<Rightarrow> (Some e, discard w name tr3)
                | (None, tr3) \<Rightarrow> (None, tr3))))
       (attempt_op w (tart_Delete name) tr)"

section \<open>Verification\<close>

definition readRunnerReceipt :: "host \<Rightarrow> golden_env \<Rightarrow> string \<Rightarrow> host_trace \<Rightarrow> (err + runnerReceipt) \<times> host_trace" where
  "readRunnerReceipt w g name tr =
     (let (r, tr1) = ask w (tart_Exec name [''cat'', RunnerReceiptPath]) tr
      in (case r of
            Inl e \<Rightarrow> Inl (Wrapf (''golden: read runner receipt from '' @ name @ '': '') e [])
          | Inr content \<Rightarrow>
              (case decodeReceipt g content of
                 Inl e \<Rightarrow> Inl (Wrapf (''golden: decode runner receipt from '' @ name @ '': '') e [])
               | Inr receipt \<Rightarrow>
                   (case Receipt_Validate receipt of Some e \<Rightarrow> Inl e | None \<Rightarrow> Inr receipt)), tr1))"

text \<open>The checks after the two receipts agreed: each a command that must succeed on the VM, and what its failure means.\<close>

definition usable_checks :: "(string \<times> string list) list" where
  "usable_checks =
     [(''guest agent plist missing: '', [''test'', ''-f'', GuestAgentPlistPath]),
      (''guest-agent unit not loaded: '', [''sudo'', ''launchctl'', ''print'', ''system/'' @ GuestAgentPlistLabel]),
      (''retired watchdog script '' @ LegacyWatchdogScriptPath @ '' is present: '', [''test'', ''!'', ''-e'', LegacyWatchdogScriptPath]),
      (''xcodebuild -version failed (Xcode absent, not selected, or license/first-run pending): '', [''xcodebuild'', ''-version''])]"

fun run_checks :: "host \<Rightarrow> string \<Rightarrow> string \<Rightarrow> (string \<times> string list) list \<Rightarrow> host_trace \<Rightarrow> err option \<times> host_trace" where
  "run_checks w gold name [] tr = (None, tr)"
| "run_checks w gold name ((meaning, argv) # rest) tr =
     andThen (step w (''golden: verify '' @ gold @ '': '' @ meaning) (tart_Exec name argv)) (run_checks w gold name rest) tr"

definition verifyBooted ::
  "host \<Rightarrow> golden_env \<Rightarrow> string \<Rightarrow> string \<Rightarrow> string \<Rightarrow> runnerReceipt \<Rightarrow> host_trace \<Rightarrow> err option \<times> host_trace" where
  "verifyBooted w g gold name fingerprint receipt tr =
     (let msg = ''golden: verify '' @ gold @ '': '';
          (ip, tr1) = perform w (tart_IP name) tr
      in case IP_result (parseIP g) name ip of
           Inl e \<Rightarrow> (Some (Wrapf (msg @ ''tart ip did not resolve: '') e []), tr1)
         | Inr _ \<Rightarrow>
             (case ask w (tart_Exec name [''printenv'', ''HOME'']) tr1 of
                (Inl e, tr2) \<Rightarrow> (Some (Wrapf (msg @ ''resolve guest home: '') e []), tr2)
              | (Inr home, tr2) \<Rightarrow>
                  andThen (step w (msg @ ''runner run.sh missing: '')
                             (tart_Exec name [''test'', ''-f'', TrimSpace home @ ''/actions-runner/run.sh'']))
                    (\<lambda>tr3.
                       (case ask w (tart_Exec name [''cat'', FingerprintPath]) tr3 of
                          (Inl e, tr4) \<Rightarrow> (Some (Wrapf (msg @ ''read fingerprint: '') e []), tr4)
                        | (Inr baked, tr4) \<Rightarrow>
                            if TrimSpace baked = [] then (Some (Msg (msg @ ''baked fingerprint is empty'')), tr4)
                            else if TrimSpace baked \<noteq> fingerprint
                            then (Some (Msg (msg @ ''baked fingerprint '' @ Quote (TrimSpace baked)
                                    @ '' does not match computed '' @ Quote fingerprint)), tr4)
                            else
                              (case readRunnerReceipt w g name tr4 of
                                 (Inl e, tr5) \<Rightarrow> (Some (Wrapf msg e []), tr5)
                               | (Inr bakedRunner, tr5) \<Rightarrow>
                                   if bakedRunner \<noteq> receipt
                                   then (Some (Msg (msg @ ''runner receipt does not match provisioned inputs'')), tr5)
                                   else run_checks w gold name usable_checks tr5))) tr2))"

definition verify :: "host \<Rightarrow> golden_env \<Rightarrow> string \<Rightarrow> string \<Rightarrow> string \<Rightarrow> runnerReceipt \<Rightarrow> host_trace \<Rightarrow> err option \<times> host_trace" where
  "verify w g gold verifyVM fingerprint receipt tr =
     (case cloneAndBoot w g gold verifyVM False [] tr of
        (Some e, tr1) \<Rightarrow> (Some (Wrapf ''golden: verify boot: '' e []), tr1)
      | (None, tr1) \<Rightarrow>
          (let (r, tr2) = verifyBooted w g gold verifyVM fingerprint receipt tr1 in (r, discard w verifyVM tr2)))"

section \<open>Build\<close>

record golden_options =
  BaseImage :: string
  GoldenName :: string
  BuildVM :: string
  goRunnerVersion :: string
  BinaryPath :: string

record provision_inputs =
  piBinary :: string
  piFingerprint :: string
  piVersion :: string
  piDigest :: string

text \<open>\<open>runnerVersion\<close> resolves to the latest release when it is empty.\<close>

definition fingerprintFor :: "host \<Rightarrow> golden_env \<Rightarrow> golden_options \<Rightarrow> host_trace \<Rightarrow> (err + provision_inputs) \<times> host_trace" where
  "fingerprintFor w g opts tr =
     (case (if BinaryPath opts = [] then ask w Executable tr else (Inr (BinaryPath opts), tr)) of
        (Inl e, tr1) \<Rightarrow> (Inl (Wrapf ''golden: resolve executable: '' e []), tr1)
      | (Inr path, tr1) \<Rightarrow>
          (case (if goRunnerVersion opts = [] then ask w LatestRunner tr1 else (Inr (goRunnerVersion opts), tr1)) of
             (Inl e, tr2) \<Rightarrow> (Inl e, tr2)
           | (Inr version, tr2) \<Rightarrow>
               (case ask w (RunnerTarball version) tr2 of
                  (Inl e, tr3) \<Rightarrow> (Inl e, tr3)
                | (Inr digest, tr3) \<Rightarrow>
                    (case ask w (HashFile path) tr3 of
                       (Inl e, tr4) \<Rightarrow> (Inl e, tr4)
                     | (Inr binaryDigest, tr4) \<Rightarrow>
                         (Inr \<lparr>piBinary = path,
                               piFingerprint = fingerprintWithRunner g (BaseImage opts) binaryDigest
                                 \<lparr>rrVersion = version, rrTarballDigest = digest\<rparr>,
                               piVersion = version, piDigest = digest\<rparr>, tr4)))))"

text \<open>\<open>stageProvisionInputs\<close> also returns the scratch directory, and the mounted binary is a fixed path.\<close>

definition mountBinary :: string where
  "mountBinary = tartSharedMountRoot @ ''/'' @ provisionMountName @ ''/'' @ provisionBinaryName"

definition stageProvisionInputs ::
  "host \<Rightarrow> golden_env \<Rightarrow> golden_options \<Rightarrow> host_trace \<Rightarrow> (err + string \<times> provision_inputs) \<times> host_trace" where
  "stageProvisionInputs w g opts tr =
     (case fingerprintFor w g opts tr of
        (Inl e, tr1) \<Rightarrow> (Inl e, tr1)
      | (Inr pin, tr1) \<Rightarrow>
          (case ask w MakeScratch tr1 of
             (Inl e, tr2) \<Rightarrow> (Inl (Wrapf ''golden: create provision scratch dir: '' e []), tr2)
           | (Inr scratch, tr2) \<Rightarrow>
               (let (a, tr3) = perform w (CopyBinary (piBinary pin) (filepath_Join [scratch, provisionBinaryName])) tr2
                in case ansErr a of
                     Some e \<Rightarrow> (Inl e, attempt_op w (RemoveScratch scratch) tr3)
                   | None \<Rightarrow> (Inr (scratch, pin), tr3))))"

definition provision_steps :: "provision_inputs \<Rightarrow> string \<Rightarrow> (string list) list" where
  "provision_steps pin runnerDir =
     [[''cp'', mountBinary, localProvisionerPath],
      [''xattr'', ''-c'', localProvisionerPath],
      [''codesign'', ''-s'', ''-'', ''-f'', localProvisionerPath],
      [''sudo'', localProvisionerPath, ''golden-provision'', ''-runner-version'', piVersion pin,
       ''-runner-digest'', piDigest pin, ''-binary'', mountBinary, ''-runner-dir'', runnerDir,
       ''-fingerprint'', piFingerprint pin]]"

fun run_steps :: "host \<Rightarrow> string \<Rightarrow> (string list) list \<Rightarrow> host_trace \<Rightarrow> err option \<times> host_trace" where
  "run_steps w name [] tr = (None, tr)"
| "run_steps w name (argv # rest) tr =
     andThen (step w (''golden: provision '' @ hd argv @ '' on '' @ name @ '': '') (tart_Exec name argv))
       (run_steps w name rest) tr"

definition provision :: "host \<Rightarrow> string \<Rightarrow> provision_inputs \<Rightarrow> host_trace \<Rightarrow> err option \<times> host_trace" where
  "provision w name pin tr =
     (case ask w (tart_Exec name [''printenv'', ''HOME'']) tr of
        (Inl e, tr1) \<Rightarrow> (Some (Wrapf (''golden: resolve guest home on '' @ name @ '': '') e []), tr1)
      | (Inr out, tr1) \<Rightarrow>
          if TrimSpace out = [] then (Some (Msg (''golden: guest home is empty on '' @ name)), tr1)
          else andThen (run_steps w name (provision_steps pin (TrimSpace out @ ''/actions-runner'')))
                 (step w (''golden: sync guest filesystem on '' @ name @ '': '') (tart_Exec name [''sync''])) tr1)"

definition golden_snapshot :: "host \<Rightarrow> string \<Rightarrow> string \<Rightarrow> host_trace \<Rightarrow> err option \<times> host_trace" where
  "golden_snapshot w buildVM gold tr =
     andThen (step w (''golden: snapshot '' @ gold @ '': '') (tart_Clone buildVM gold False))
       (\<lambda>tr1. (None, attempt_op w (tart_Delete buildVM) tr1)) (attempt_op w (tart_Delete gold) tr)"

definition promote :: "host \<Rightarrow> string \<Rightarrow> string \<Rightarrow> host_trace \<Rightarrow> err option \<times> host_trace" where
  "promote w staging gold tr =
     andThen (step w (''golden: promote '' @ staging @ '' to '' @ gold @ '': '') (tart_Clone staging gold False))
       (\<lambda>tr1. (None, attempt_op w (tart_Delete staging) tr1)) (attempt_op w (tart_Delete gold) tr)"

text \<open>\<open>Build\<close> between the staging of its inputs and its deferred clean-up: \<open>source\<close> is what is cloned.\<close>

definition build_from ::
  "host \<Rightarrow> golden_env \<Rightarrow> golden_options \<Rightarrow> string \<Rightarrow> provision_inputs \<Rightarrow> string \<Rightarrow> bool \<Rightarrow> host_trace \<Rightarrow> err option \<times> host_trace" where
  "build_from w g opts scratch pin source insecure tr =
     andThen (cloneAndBoot w g source (BuildVM opts) insecure [(provisionMountName, scratch)])
       (\<lambda>tr1.
          (case andThen (provision w (BuildVM opts) pin)
                  (step w (''golden: stop build vm '' @ BuildVM opts @ '': '') (tart_Stop (BuildVM opts))) tr1 of
             (Some e, tr2) \<Rightarrow> (Some e, discard w (BuildVM opts) tr2)
           | (None, tr2) \<Rightarrow>
               (let staging = GoldenName opts @ goldenStagingSuffix
                in andThen (golden_snapshot w (BuildVM opts) staging)
                     (\<lambda>tr3.
                        (case verify w g staging (BuildVM opts @ ''-verify'') (piFingerprint pin)
                                \<lparr>rrVersion = piVersion pin, rrTarballDigest = piDigest pin\<rparr> tr3 of
                           (Some e, tr4) \<Rightarrow> (Some e, golden_teardown w staging tr4)
                         | (None, tr4) \<Rightarrow> promote w staging (GoldenName opts) tr4))
                     (attempt_op w (KillBoot (BuildVM opts)) tr2)))) tr"

text \<open>\<open>Build\<close>: the registry the stager started is stopped, then the scratch directory removed, on every path.\<close>

definition Golden_Build ::
  "host \<Rightarrow> golden_env \<Rightarrow> golden_options \<Rightarrow> host_trace \<Rightarrow> err option \<times> host_trace" where
  "Golden_Build w g opts tr =
     (case stageProvisionInputs w g opts tr of
        (Inl e, tr1) \<Rightarrow> (Some e, tr1)
      | (Inr (scratch, pin), tr1) \<Rightarrow>
          (let (staged, tr2) = (if hasStager g then ask w (StageBase (BaseImage opts)) tr1 else (Inl (Msg []), tr1))
           in case staged of
                Inl _ \<Rightarrow>
                  (let (r, tr3) = build_from w g opts scratch pin (BaseImage opts) False tr2
                   in (r, attempt_op w (RemoveScratch scratch) tr3))
              | Inr ref \<Rightarrow>
                  (let (r, tr3) = build_from w g opts scratch pin ref True tr2
                   in (r, attempt_op w (RemoveScratch scratch) (attempt_op w StopStage tr3)))))"

section \<open>Ensuring a golden\<close>

record ensure_options =
  eoImage :: string
  eoBuildVM :: string
  eoRunnerVersion :: string

text \<open>\<open>checkCachedGolden\<close>: \<open>cloneName\<close> carries the random suffix the code draws; the clone is torn down on every path.\<close>

definition cached_checks :: "host \<Rightarrow> golden_env \<Rightarrow> string \<Rightarrow> string \<Rightarrow> ensure_options \<Rightarrow> host_trace \<Rightarrow> err option \<times> host_trace" where
  "cached_checks w g gold cloneName opts tr =
     (case readRunnerReceipt w g cloneName tr of
        (Inl e, tr1) \<Rightarrow> (Some e, tr1)
      | (Inr receipt, tr1) \<Rightarrow>
          if eoRunnerVersion opts \<noteq> [] \<and> eoRunnerVersion opts \<noteq> rrVersion receipt
          then (Some (Msg (''golden: baked runner '' @ Quote (rrVersion receipt) @ '' differs from requested '' @ Quote (eoRunnerVersion opts))), tr1)
          else
            (case ask w Executable tr1 of
               (Inl e, tr2) \<Rightarrow> (Some (Wrapf ''golden: resolve executable: '' e []), tr2)
             | (Inr path, tr2) \<Rightarrow>
                 (case ask w (HashFile path) tr2 of
                    (Inl e, tr3) \<Rightarrow> (Some e, tr3)
                  | (Inr binaryDigest, tr3) \<Rightarrow>
                      verifyBooted w g gold cloneName (fingerprintWithRunner g (eoImage opts) binaryDigest receipt) receipt tr3)))"

definition checkCachedGolden ::
  "host \<Rightarrow> golden_env \<Rightarrow> string \<Rightarrow> string \<Rightarrow> ensure_options \<Rightarrow> host_trace \<Rightarrow> err option \<times> host_trace" where
  "checkCachedGolden w g gold cloneName opts tr =
     (case cloneAndBoot w g gold cloneName False [] tr of
        (Some e, tr1) \<Rightarrow> (Some (Wrapf (''golden: read baked fingerprint of '' @ gold @ '': '') e []), golden_teardown w cloneName tr1)
      | (None, tr1) \<Rightarrow>
          (let (r, tr2) = cached_checks w g gold cloneName opts tr1 in (r, discard w cloneName tr2)))"

definition EnsureGolden ::
  "host \<Rightarrow> golden_env \<Rightarrow> string \<Rightarrow> ensure_options \<Rightarrow> host_trace \<Rightarrow> (err + string) \<times> host_trace" where
  "EnsureGolden w g suffix opts tr =
     (if eoImage opts = [] then (Inl (Msg ''golden: image is required''), tr)
      else
        let gold = NameForImage (eoImage opts);
            buildVM = (if eoBuildVM opts = [] then gold @ ''-build'' else eoBuildVM opts);
            (a, tr1) = perform w tart_ListVMs tr
        in case ansErr a of
             Some e \<Rightarrow> (Inl (Wrapf ''golden: list VMs: '' e []), tr1)
           | None \<Rightarrow>
               (let (cached, tr2) = (if gold \<in> set (map fst (ansVMs a))
                       then checkCachedGolden w g gold (gold @ ''-fpcheck-'' @ suffix) opts tr1
                       else (Some (Msg []), tr1))
                in if cached = None then (Inr gold, tr2)
                   else
                     (case Golden_Build w g \<lparr>BaseImage = eoImage opts, GoldenName = gold, BuildVM = buildVM,
                             goRunnerVersion = eoRunnerVersion opts, BinaryPath = []\<rparr> tr2 of
                        (Some e, tr3) \<Rightarrow> (Inl (Wrapf (''golden: ensure '' @ gold @ '': '') e []), tr3)
                      | (None, tr3) \<Rightarrow> (Inr gold, tr3))))"

end
