(* ===== verification/Golden_Props.thy ===== *)
theory Golden_Props
  imports Golden_Build "HOL-Library.Multiset"
begin

text \<open>
  The properties of the golden build: the fingerprint identifies its inputs, the live golden is touched only after
  its replacement was verified, a current golden is left alone, and what a verification checks.
\<close>

section \<open>The fingerprint\<close>

definition nul_free :: "fingerprintInputs \<Rightarrow> bool" where
  "nul_free fi = (nul \<notin> set (BaseImageRef fi) \<and> nul \<notin> set (fiRunnerVersion fi) \<and> nul \<notin> set (fiRunnerTarballDigest fi)
     \<and> nul \<notin> set (BinaryDigest fi) \<and> (\<forall>p \<in> set (Payloads fi). nul \<notin> set (plName p) \<and> nul \<notin> set (plDigest p)))"

lemma split_nul: "nul \<notin> set u \<Longrightarrow> nul \<notin> set v \<Longrightarrow> u @ nul # x = v @ nul # y \<longleftrightarrow> u = v \<and> x = y"
proof (induction u arbitrary: v)
  case Nil
  then show ?case by (cases v) auto
next
  case (Cons c u)
  then show ?case by (cases v) auto
qed

lemma field_eq:
  "nul \<notin> set u \<Longrightarrow> nul \<notin> set v \<Longrightarrow>
     fingerprint_field l u @ x = fingerprint_field l v @ y \<longleftrightarrow> u = v \<and> x = y"
  by (simp add: fingerprint_field_def split_nul)

abbreviation payload_text :: "payloadDigest \<Rightarrow> string" where
  "payload_text p \<equiv> fingerprint_field ''payload-name'' (plName p) @ fingerprint_field ''payload-digest'' (plDigest p)"

lemma payload_text_eq:
  "nul \<notin> set (plName p) \<union> set (plDigest p) \<Longrightarrow> nul \<notin> set (plName q) \<union> set (plDigest q) \<Longrightarrow>
     payload_text p @ x = payload_text q @ y \<longleftrightarrow> p = q \<and> x = y"
  by (cases p; cases q) (auto simp: field_eq)

lemma payload_text_ne: "payload_text p \<noteq> []"
  by (simp add: fingerprint_field_def)

lemma payloads_eq:
  "\<forall>p \<in> set ps \<union> set qs. nul \<notin> set (plName p) \<union> set (plDigest p) \<Longrightarrow>
     concat (map payload_text ps) = concat (map payload_text qs) \<Longrightarrow> ps = qs"
proof (induction ps arbitrary: qs)
  case Nil
  then show ?case using payload_text_ne by (cases qs) auto
next
  case (Cons p ps)
  show ?case
  proof (cases qs)
    case Nil
    then show ?thesis using Cons.prems(2) payload_text_ne by auto
  next
    case (Cons q qs')
    have "payload_text p @ concat (map payload_text ps) = payload_text q @ concat (map payload_text qs')"
      using Cons.prems(2) Cons by simp
    then have "p = q \<and> concat (map payload_text ps) = concat (map payload_text qs')"
      using payload_text_eq [of p q] Cons.prems(1) Cons by simp
    then show ?thesis using Cons.IH [of qs'] Cons.prems(1) Cons by simp
  qed
qed

lemma fingerprint_text_inject:
  assumes "nul_free a" and "nul_free b" and "fingerprint_text a = fingerprint_text b"
  shows "BaseImageRef a = BaseImageRef b \<and> fiRunnerVersion a = fiRunnerVersion b
    \<and> fiRunnerTarballDigest a = fiRunnerTarballDigest b \<and> BinaryDigest a = BinaryDigest b
    \<and> mset (Payloads a) = mset (Payloads b)"
proof -
  let ?sa = "sort_key plName (Payloads a)" and ?sb = "sort_key plName (Payloads b)"
  have h: "BaseImageRef a = BaseImageRef b \<and> fiRunnerVersion a = fiRunnerVersion b
    \<and> fiRunnerTarballDigest a = fiRunnerTarballDigest b \<and> BinaryDigest a = BinaryDigest b
    \<and> concat (map payload_text ?sa) = concat (map payload_text ?sb)"
    using assms unfolding fingerprint_text_def nul_free_def by (simp only: field_eq simp_thms)
  then have "?sa = ?sb" using assms(1,2) by (intro payloads_eq) (auto simp: nul_free_def)
  then have "mset ?sa = mset ?sb" by simp
  then show ?thesis using h by simp
qed

lemma filter_single: "distinct xs \<Longrightarrow> k \<in> set xs \<Longrightarrow> filter (\<lambda>x. x = k) xs = [k]"
  by (induction xs) (auto simp: filter_empty_conv)

text \<open>
  The fingerprint identifies the golden: two sets of inputs whose fields hold no NUL byte have the
  same fingerprint only if they agree in every field and, up to their order, in the payloads, or
  else two different texts have been found with the same SHA-256. And the order of payloads
  with different names does not matter.
\<close>

theorem fingerprint_identifies_inputs:
  assumes "nul_free a" and "nul_free b" and "distinct (map plName (Payloads a))"
  shows "(Fingerprint H a = Fingerprint H b \<longrightarrow>
       (BaseImageRef a = BaseImageRef b \<and> fiRunnerVersion a = fiRunnerVersion b
        \<and> fiRunnerTarballDigest a = fiRunnerTarballDigest b \<and> BinaryDigest a = BinaryDigest b
        \<and> mset (Payloads a) = mset (Payloads b))
       \<or> (\<exists>x y. x \<noteq> y \<and> H x = H y))
    \<and> (mset (Payloads a) = mset ps \<longrightarrow> Fingerprint H (a\<lparr>Payloads := ps\<rparr>) = Fingerprint H a)"
proof (intro conjI impI)
  assume "Fingerprint H a = Fingerprint H b"
  then show "(BaseImageRef a = BaseImageRef b \<and> fiRunnerVersion a = fiRunnerVersion b
        \<and> fiRunnerTarballDigest a = fiRunnerTarballDigest b \<and> BinaryDigest a = BinaryDigest b
        \<and> mset (Payloads a) = mset (Payloads b)) \<or> (\<exists>x y. x \<noteq> y \<and> H x = H y)"
    using fingerprint_text_inject [OF assms(1,2)] unfolding Fingerprint_def by blast
next
  assume m: "mset (Payloads a) = mset ps"
  have s: "set (Payloads a) = set ps" using m by (metis set_mset_mset)
  have inj: "inj_on plName (set ps)" using assms(3) s by (simp add: distinct_map)
  have d: "distinct (Payloads a)" using assms(3) by (simp add: distinct_map)
  then have d': "distinct ps" using mset_eq_imp_distinct_iff [OF m] by simp
  have "sort_key plName ps = sort_key plName (Payloads a)"
  proof (rule properties_for_sort_key)
    show "mset (sort_key plName (Payloads a)) = mset ps" using m by simp
    fix k assume k: "k \<in> set (sort_key plName (Payloads a))"
    have ks: "k \<in> set ps" using k s by simp
    have same: "(plName k = plName x) = (x = k)" if "x \<in> set ps" for x
      using inj_on_eq_iff [OF inj ks that] by blast
    have one: "filter (\<lambda>x. plName k = plName x) xs = [k]" if "distinct xs" "set xs = set ps" for xs
    proof -
      have "filter (\<lambda>x. plName k = plName x) xs = filter (\<lambda>x. x = k) xs"
        by (rule filter_cong [OF refl]) (use same that(2) in blast)
      also have "\<dots> = [k]" using that ks by (intro filter_single) simp_all
      finally show ?thesis .
    qed
    show "filter (\<lambda>x. plName k = plName x) (sort_key plName (Payloads a)) = filter (\<lambda>x. plName k = plName x) ps"
      using one [of "sort_key plName (Payloads a)"] one [of ps] d d' s by simp
  qed simp
  then show "Fingerprint H (a\<lparr>Payloads := ps\<rparr>) = Fingerprint H a"
    by (simp add: Fingerprint_def fingerprint_text_def)
qed

section \<open>What touches the live golden\<close>

text \<open>Deleting the golden, or cloning onto its name.\<close>

definition touches :: "string \<Rightarrow> host_op \<Rightarrow> bool" where
  "touches gold x = (case x of TartRun args \<Rightarrow> args = [''delete'', gold] \<or> hd args = ''clone'' \<and> last args = gold | _ \<Rightarrow> False)"

abbreviation spares :: "string \<Rightarrow> host_op \<Rightarrow> bool" where
  "spares gold x \<equiv> \<not> touches gold x"

lemma touches_simps [simp]:
  "touches gold (tart_Delete n) = (n = gold)"
  "touches gold (tart_Clone src n ins) = (n = gold)"
  "\<not> touches gold (tart_Exec n argv)"
  "\<not> touches gold (tart_IP n)"
  "\<not> touches gold (tart_Stop n)"
  "\<not> touches gold tart_ListVMs"
  "\<not> touches gold (BootCommand n opts)"
  "\<not> touches gold (KillBoot n)"
  "\<not> touches gold Executable" "\<not> touches gold LatestRunner" "\<not> touches gold (RunnerTarball v)"
  "\<not> touches gold (HashFile f)" "\<not> touches gold MakeScratch" "\<not> touches gold (CopyBinary f t)"
  "\<not> touches gold (RemoveScratch f)" "\<not> touches gold (StageBase i)" "\<not> touches gold StopStage"
  by (auto simp: touches_def tart_calls)

lemma only_step: "Q x \<Longrightarrow> only Q (step w msg x)"
  by (simp add: only_def step_def Let_def split_beta grows_append)

lemma only_ask: "Q x \<Longrightarrow> only Q (ask w x)"
  by (simp add: only_def ask_def Let_def split_beta grows_append)

lemma grows_teardown: "gold \<noteq> name \<Longrightarrow> grows_by (spares gold) tr tr1 \<Longrightarrow> grows_by (spares gold) tr (golden_teardown w name tr1)"
  by (simp add: golden_teardown_def grows_more)

lemma grows_discard: "gold \<noteq> name \<Longrightarrow> grows_by (spares gold) tr tr1 \<Longrightarrow> grows_by (spares gold) tr (discard w name tr1)"
  unfolding discard_def by (rule grows_teardown) (simp_all add: grows_more)

lemma only_ready: "only (spares gold) (golden_waitForReady w d name n)"
proof (induction n)
  case 0
  then show ?case by (simp add: only_def)
next
  case (Suc n)
  show ?case
  proof (rule onlyI)
    fix tr
    let ?tr1 = "tr @ [tart_Exec name [''true'']]"
    have 1: "grows_by (spares gold) tr ?tr1" by (rule grows_snoc) simp_all
    have 2: "grows_by (spares gold) ?tr1 (snd (golden_waitForReady w d name n ?tr1))"
      by (rule only_grows [OF Suc])
    show "grows_by (spares gold) tr (snd (golden_waitForReady w d name (Suc n) tr))"
      using 1 grows_trans [OF 1 2] by (simp add: Let_def split_beta)
  qed
qed

lemma only_cloneAndBoot:
  assumes "name \<noteq> gold"
  shows "only (spares gold) (cloneAndBoot w g source name insecure dirs)"
proof (rule onlyI)
  fix tr
  have boot: "only (spares gold) (\<lambda>tr1.
          (case step w (''golden: boot '' @ name @ '': '')
                  (BootCommand name \<lparr>Dirs = dirs, Detach = False, NoGraphics = True\<rparr>) tr1 of
             (Some e, tr2) \<Rightarrow> (Some e, golden_teardown w name tr2)
           | (None, tr2) \<Rightarrow>
               (case golden_waitForReady w (ctxErr g) name (polls g) tr2 of
                  (Some e, tr3) \<Rightarrow> (Some e, discard w name tr3)
                | (None, tr3) \<Rightarrow> (None, tr3))))" (is "only _ ?boot")
  proof (rule onlyI)
    fix t
    obtain r t2 where s: "step w (''golden: boot '' @ name @ '': '') (BootCommand name \<lparr>Dirs = dirs, Detach = False, NoGraphics = True\<rparr>) t = (r, t2)"
      by (metis prod.exhaust)
    have 2: "grows_by (spares gold) t t2" using grows_onto [OF only_step s grows_refl] by simp
    obtain r3 t3 where q: "golden_waitForReady w (ctxErr g) name (polls g) t2 = (r3, t3)" by (metis prod.exhaust)
    have 3: "grows_by (spares gold) t t3" using grows_onto [OF only_ready q 2] .
    show "grows_by (spares gold) t (snd (?boot t))"
      using grows_teardown [OF assms [symmetric] 2] grows_discard [OF assms [symmetric] 3] 3
      unfolding s prod.case q by (cases r; cases r3) simp_all
  qed
  have "only (spares gold) (andThen (step w (''golden: clone '' @ name @ '' from '' @ source @ '': '') (tart_Clone source name insecure)) ?boot)"
    by (rule only_andThen [OF only_step boot]) (use assms in simp)
  then have "grows_by (spares gold) (tr @ [tart_Delete name]) (snd (cloneAndBoot w g source name insecure dirs tr))"
    unfolding cloneAndBoot_def attempt_op_eq by (rule only_grows)
  moreover have "grows_by (spares gold) tr (tr @ [tart_Delete name])" using assms by (simp add: grows_append)
  ultimately show "grows_by (spares gold) tr (snd (cloneAndBoot w g source name insecure dirs tr))"
    by (rule grows_trans [rotated])
qed

lemma only_receipt: "only (spares gold) (readRunnerReceipt w g name)"
proof -
  have "only (spares gold) (ask w (tart_Exec name [''cat'', RunnerReceiptPath]))" by (rule only_ask) simp
  then show ?thesis by (simp add: only_def readRunnerReceipt_def Let_def split_beta)
qed

lemma only_checks: "only (spares gold) (run_checks w gl name cs)"
proof (induction cs)
  case Nil
  then show ?case by (simp add: only_def)
next
  case (Cons c cs)
  obtain m argv where "c = (m, argv)" by (cases c)
  then show ?case
    using only_andThen [OF only_step Cons, of "tart_Exec name argv" w] by (simp add: only_def)
qed

lemma only_verifyBooted: "only (spares gold) (verifyBooted w g gl name fp rr)"
  unfolding verifyBooted_def Let_def
  by (intro only_rules only_perform only_ask only_step only_receipt only_checks) simp_all

lemma only_verify: "gold \<noteq> name \<Longrightarrow> only (spares gold) (verify w g gl name fp rr)"
  unfolding verify_def Let_def
  by (intro only_rules only_cloneAndBoot only_map [OF only_verifyBooted] grows_discard) simp_all

lemma only_run_steps: "only (spares gold) (run_steps w name ss)"
proof (induction ss)
  case Nil
  then show ?case by (simp add: only_def)
next
  case (Cons argv ss)
  then show ?case
    using only_andThen [OF only_step Cons, of "tart_Exec name argv" w] by (simp add: only_def)
qed

lemma only_provision: "only (spares gold) (provision w name pin)"
  unfolding provision_def by (intro only_rules only_ask only_run_steps only_step) simp_all

lemma only_stage: "only (spares gold) (stageProvisionInputs w g opts)"
proof -
  have "only (spares gold) (fingerprintFor w g opts)"
    unfolding fingerprintFor_def by (intro only_rules only_ask) simp_all
  moreover have "only (spares gold) (\<lambda>tr. (r, attempt_op w (RemoveScratch d) tr))" for r :: "err + string \<times> provision_inputs" and d
    by (simp add: only_def grows_append)
  ultimately show ?thesis
    unfolding stageProvisionInputs_def Let_def by (intro only_rules only_ask only_perform) simp_all
qed

lemma only_snapshot: "name \<noteq> gold \<Longrightarrow> staging \<noteq> gold \<Longrightarrow> only (spares gold) (golden_snapshot w name staging)"
proof (rule onlyI)
  fix tr assume n: "name \<noteq> gold" "staging \<noteq> gold"
  have "only (spares gold) (andThen (step w (''golden: snapshot '' @ staging @ '': '') (tart_Clone name staging False))
       (\<lambda>tr1. (None, attempt_op w (tart_Delete name) tr1)))"
    using n by (intro only_andThen only_step) (simp_all add: only_def grows_append)
  then have "grows_by (spares gold) (tr @ [tart_Delete staging]) (snd (golden_snapshot w name staging tr))"
    unfolding golden_snapshot_def attempt_op_eq by (rule only_grows)
  moreover have "grows_by (spares gold) tr (tr @ [tart_Delete staging])" using n by (simp add: grows_append)
  ultimately show "grows_by (spares gold) tr (snd (golden_snapshot w name staging tr))" by (rule grows_trans [rotated])
qed

section \<open>The live golden is replaced by a verified image only\<close>

text \<open>Where a build got to: it failed with the golden spared, or it verified the staging image and went on to promote it.\<close>

definition staging_of :: "golden_options \<Rightarrow> string" where
  "staging_of opts = GoldenName opts @ goldenStagingSuffix"

definition receipt_of :: "provision_inputs \<Rightarrow> runnerReceipt" where
  "receipt_of pin = \<lparr>rrVersion = piVersion pin, rrTarballDigest = piDigest pin\<rparr>"

definition promoted :: "host \<Rightarrow> golden_env \<Rightarrow> golden_options \<Rightarrow> provision_inputs \<Rightarrow> host_trace \<Rightarrow> err option \<times> host_trace \<Rightarrow> bool" where
  "promoted w g opts pin tr res = (\<exists>t0 t1.
     verify w g (staging_of opts) (BuildVM opts @ ''-verify'') (piFingerprint pin) (receipt_of pin) t0 = (None, t1)
     \<and> grows_by (spares (GoldenName opts)) tr t1 \<and> res = promote w (staging_of opts) (GoldenName opts) t1)"

lemma build_from_outcome:
  assumes "BuildVM opts \<noteq> GoldenName opts" and "BuildVM opts @ ''-verify'' \<noteq> GoldenName opts"
    and "build_from w g opts scratch pin source insecure tr = (r, tr')"
  shows "r \<noteq> None \<and> grows_by (spares (GoldenName opts)) tr tr' \<or> promoted w g opts pin tr (r, tr')"
proof -
  let ?G = "GoldenName opts" and ?B = "BuildVM opts"
  have stag: "staging_of opts \<noteq> ?G" by (simp add: staging_of_def goldenStagingSuffix_def)
  obtain r1 t1 where c1: "cloneAndBoot w g source ?B insecure [(provisionMountName, scratch)] tr = (r1, t1)" by (metis prod.exhaust)
  have g1: "grows_by (spares ?G) tr t1" using grows_onto [OF only_cloneAndBoot [OF assms(1)] c1 grows_refl] .
  show ?thesis
  proof (cases r1)
    case (Some e)
    then show ?thesis using assms(3) c1 g1 by (auto simp: build_from_def andThen_def)
  next
    case None
    obtain r2 t2 where c2: "andThen (provision w ?B pin) (step w (''golden: stop build vm '' @ ?B @ '': '') (tart_Stop ?B)) t1 = (r2, t2)"
      by (metis prod.exhaust)
    have o2: "only (spares ?G) (andThen (provision w ?B pin) (step w (''golden: stop build vm '' @ ?B @ '': '') (tart_Stop ?B)))"
      by (intro only_andThen only_provision only_step) simp
    have g2: "grows_by (spares ?G) tr t2" by (rule grows_onto [OF o2 c2 g1])
    show ?thesis
    proof (cases r2)
      case (Some e)
      have "(r, tr') = (Some e, discard w ?B t2)"
        using assms(3) unfolding build_from_def andThen_def [of "cloneAndBoot w g source ?B insecure _"] c1 None prod.case option.case c2 Some by (rule sym)
      then show ?thesis using grows_discard [OF assms(1) [symmetric] g2] by simp
    next
      case n2: None
      let ?t3 = "t2 @ [KillBoot ?B]"
      have g3: "grows_by (spares ?G) tr ?t3" using g2 by (rule grows_snoc) simp
      obtain r4 t4 where c4: "golden_snapshot w ?B (staging_of opts) ?t3 = (r4, t4)" by (metis prod.exhaust)
      have g4: "grows_by (spares ?G) tr t4" using grows_onto [OF only_snapshot [OF assms(1) stag] c4 g3] .
      have body: "(r, tr') = andThen (golden_snapshot w ?B (staging_of opts))
                     (\<lambda>tr3.
                        (case verify w g (staging_of opts) (?B @ ''-verify'') (piFingerprint pin) (receipt_of pin) tr3 of
                           (Some e, tr4) \<Rightarrow> (Some e, golden_teardown w (staging_of opts) tr4)
                         | (None, tr4) \<Rightarrow> promote w (staging_of opts) ?G tr4)) ?t3"
        using assms(3) unfolding build_from_def andThen_def [of "cloneAndBoot w g source ?B insecure _"] c1 None prod.case option.case c2 n2 attempt_op_eq Let_def
          staging_of_def [symmetric] receipt_of_def [symmetric]
        by (rule sym)
      show ?thesis
      proof (cases r4)
        case (Some e)
        then show ?thesis using body g4 by (simp add: andThen_def c4)
      next
        case n4: None
        obtain r5 t5 where c5: "verify w g (staging_of opts) (?B @ ''-verify'') (piFingerprint pin) (receipt_of pin) t4 = (r5, t5)"
          by (metis prod.exhaust)
        have g5: "grows_by (spares ?G) tr t5" using grows_onto [OF only_verify [OF assms(2) [symmetric]] c5 g4] .
        show ?thesis
        proof (cases r5)
          case (Some e)
          then have "(r, tr') = (Some e, golden_teardown w (staging_of opts) t5)"
            using body unfolding andThen_def c4 n4 prod.case option.case c5 by simp
          then show ?thesis using grows_teardown [OF stag [symmetric] g5] by simp
        next
          case n5: None
          then have "(r, tr') = promote w (staging_of opts) ?G t5"
            using body unfolding andThen_def c4 n4 prod.case option.case c5 by simp
          then show ?thesis using c5 g5 unfolding promoted_def n5 by blast
        qed
      qed
    qed
  qed
qed

text \<open>
  C6. A failed rebuild leaves the pool its golden: a build deletes or overwrites the live golden only
  after a clone of the staging image has passed every check of the verification, with the
  fingerprint and receipt this build baked. A build that fails before that has not
  touched it, whatever fails.
\<close>

theorem golden_replaced_after_verification:
  assumes "BuildVM opts \<noteq> GoldenName opts" and "BuildVM opts @ ''-verify'' \<noteq> GoldenName opts"
    and "Golden_Build w g opts tr = (r, tr')"
  shows "r \<noteq> None \<and> grows_by (spares (GoldenName opts)) tr tr'
    \<or> (\<exists>pin t0 t1 t2 rest.
         verify w g (staging_of opts) (BuildVM opts @ ''-verify'') (piFingerprint pin) (receipt_of pin) t0 = (None, t1)
         \<and> grows_by (spares (GoldenName opts)) tr t1
         \<and> promote w (staging_of opts) (GoldenName opts) t1 = (r, t2)
         \<and> tr' = t2 @ rest \<and> list_all (spares (GoldenName opts)) rest)"
proof -
  let ?G = "GoldenName opts"
  obtain r1 t1 where c1: "stageProvisionInputs w g opts tr = (r1, t1)" by (metis prod.exhaust)
  have g1: "grows_by (spares ?G) tr t1" using grows_onto [OF only_stage c1 grows_refl] .
  show ?thesis
  proof (cases r1)
    case (Inl e)
    then show ?thesis using assms(3) c1 g1 by (auto simp: Golden_Build_def)
  next
    case (Inr p)
    obtain scratch pin where p: "p = (scratch, pin)" by (cases p)
    obtain r2 t2 where c2: "(if hasStager g then ask w (StageBase (BaseImage opts)) t1 else (Inl (Msg []), t1)) = (r2, t2)"
      by (metis prod.exhaust)
    have g2: "grows_by (spares ?G) tr t2"
      using c2 grows_onto [OF only_ask _ g1, of "StageBase (BaseImage opts)" w r2 t2] g1 by (auto split: if_splits)
    define src ins where "src = (case r2 of Inl _ \<Rightarrow> BaseImage opts | Inr ref \<Rightarrow> ref)" and "ins = (case r2 of Inl _ \<Rightarrow> False | Inr _ \<Rightarrow> True)"
    define rest where "rest = (case r2 of Inl _ \<Rightarrow> [RemoveScratch scratch] | Inr _ \<Rightarrow> [StopStage, RemoveScratch scratch])"
    obtain r3 t3 where c3: "build_from w g opts scratch pin src ins t2 = (r3, t3)" by (metis prod.exhaust)
    have out: "r = r3 \<and> tr' = t3 @ rest"
      using assms(3) c1 Inr p c2 c3 unfolding Golden_Build_def src_def ins_def rest_def
      by (cases r2) (simp_all add: Let_def)
    have s: "list_all (spares ?G) rest" by (cases r2) (simp_all add: rest_def)
    from build_from_outcome [OF assms(1,2) c3] show ?thesis
    proof
      assume "r3 \<noteq> None \<and> grows_by (spares ?G) t2 t3"
      then show ?thesis using out s g2 grows_trans grows_more by metis
    next
      assume "promoted w g opts pin t2 (r3, t3)"
      then show ?thesis using out s g2 grows_trans unfolding promoted_def by metis
    qed
  qed
qed

text \<open>
  The window the promotion leaves: it deletes the live golden before it clones the staging image onto its name, so
  when that clone fails the pool has no golden, and the error path does not restore it.
\<close>

lemma failed_promotion_loses_golden:
  assumes "ansErr (w (tr @ [tart_Delete gold]) (tart_Clone staging gold False)) = Some e"
  shows "\<exists>er. promote w staging gold tr = (Some er, tr @ [tart_Delete gold, tart_Clone staging gold False])"
  using assms by (simp add: promote_def andThen_def step_def perform_def Let_def)

text \<open>A snapshot that fails leaves the build VM behind: the failing path neither stops nor deletes it.\<close>

lemma failed_snapshot_keeps_build_vm:
  assumes "ansErr (w (tr @ [tart_Delete staging]) (tart_Clone name staging False)) = Some e"
  shows "\<exists>er. golden_snapshot w name staging tr = (Some er, tr @ [tart_Delete staging, tart_Clone name staging False])"
  using assms by (simp add: golden_snapshot_def andThen_def step_def perform_def Let_def)

section \<open>What a verification checks\<close>

lemma step_None: "step w m x tr = (None, tr') \<longleftrightarrow> ansErr (w tr x) = None \<and> tr' = tr @ [x]"
  by (auto simp: step_def perform_def Let_def)

lemma ask_Inr: "ask w x tr = (Inr s, tr') \<longleftrightarrow> ansErr (w tr x) = None \<and> ansOut (w tr x) = s \<and> tr' = tr @ [x]"
  by (auto simp: ask_def perform_def Let_def split: option.splits)

text \<open>\<open>answered w tr' x a\<close>: somewhere on the way to the trace \<open>tr'\<close> operation \<open>x\<close> was done and answered \<open>a\<close>.\<close>

definition answered :: "host \<Rightarrow> host_trace \<Rightarrow> host_op \<Rightarrow> answer \<Rightarrow> bool" where
  "answered w tr' x a = (\<exists>t rest. tr' = t @ x # rest \<and> w t x = a)"

lemma answered_more: "answered w tr x a \<Longrightarrow> answered w (tr @ ys) x a"
  unfolding answered_def by (metis append.assoc append_Cons)

lemma answered_here: "answered w (tr @ x # ys) x (w tr x)"
  unfolding answered_def by blast

lemma run_checks_pass:
  "run_checks w gold name cs tr = (None, tr') \<Longrightarrow>
     (\<exists>ys. tr' = tr @ ys) \<and> (\<forall>(m, argv) \<in> set cs. \<exists>a. answered w tr' (tart_Exec name argv) a \<and> ansErr a = None)"
proof (induction cs arbitrary: tr)
  case Nil
  then show ?case by simp
next
  case (Cons c cs)
  obtain m argv where c: "c = (m, argv)" by (cases c)
  obtain t1 where s: "ansErr (w tr (tart_Exec name argv)) = None" "t1 = tr @ [tart_Exec name argv]"
    and rest: "run_checks w gold name cs t1 = (None, tr')"
    using Cons.prems by (auto simp: c andThen_def step_def perform_def Let_def split: prod.splits option.splits)
  note ih = Cons.IH [OF rest]
  then obtain ys where "tr' = tr @ tart_Exec name argv # ys" using s(2) by auto
  then have "answered w tr' (tart_Exec name argv) (w tr (tart_Exec name argv))"
    by (simp add: answered_here)
  then show ?case using ih s c \<open>tr' = _\<close> by auto
qed

lemma receipt_Inr:
  assumes "readRunnerReceipt w g name tr = (Inr rr, tr')"
  shows "tr' = tr @ [tart_Exec name [''cat'', RunnerReceiptPath]] \<and> Receipt_Validate rr = None
    \<and> decodeReceipt g (ansOut (w tr (tart_Exec name [''cat'', RunnerReceiptPath]))) = Inr rr"
  using assms by (auto simp: readRunnerReceipt_def ask_def perform_def Let_def split: prod.splits sum.splits option.splits)

text \<open>
  A golden that passes the verification is what the build says it is and can run a job: the booted
  clone holds exactly the fingerprint and the (well-formed) runner receipt of the build, and on
  it every check succeeded: the guest agent's launchd unit is present and loaded, the retired
  watchdog is gone, and Xcode answers.
\<close>

theorem verified_golden_is_the_built_one:
  assumes "verifyBooted w g gold name fp rr tr = (None, tr')"
  shows "(\<exists>a. answered w tr' (tart_Exec name [''cat'', FingerprintPath]) a \<and> ansErr a = None \<and> TrimSpace (ansOut a) = fp \<and> fp \<noteq> [])
    \<and> (\<exists>a. answered w tr' (tart_Exec name [''cat'', RunnerReceiptPath]) a \<and> decodeReceipt g (ansOut a) = Inr rr)
    \<and> Receipt_Validate rr = None
    \<and> (\<forall>(m, argv) \<in> set usable_checks. \<exists>a. answered w tr' (tart_Exec name argv) a \<and> ansErr a = None)"
proof -
  let ?fx = "tart_Exec name [''cat'', FingerprintPath]" and ?rx = "tart_Exec name [''cat'', RunnerReceiptPath]"
  obtain t3 baked t4 t5 where f: "ask w ?fx t3 = (Inr baked, t4)" "TrimSpace baked \<noteq> []" "TrimSpace baked = fp"
    and r: "readRunnerReceipt w g name t4 = (Inr rr, t5)"
    and c: "run_checks w gold name usable_checks t5 = (None, tr')"
    using assms
    by (auto simp: verifyBooted_def andThen_def Let_def split: prod.splits sum.splits option.splits if_splits)
  note f' = f(1) [unfolded ask_Inr]
  note r' = receipt_Inr [OF r]
  obtain ys where ys: "tr' = t5 @ ys" using run_checks_pass [OF c] by blast
  have t5: "tr' = t3 @ ?fx # ?rx # ys" using f' r' ys by simp
  have "answered w tr' ?fx (w t3 ?fx)" unfolding t5 by (rule answered_here)
  moreover have "answered w tr' ?rx (w t4 ?rx)"
    using answered_here [of w t4 ?rx ys] r' ys by simp
  ultimately show ?thesis using f' f(2,3) r' run_checks_pass [OF c] by blast
qed

section \<open>A current golden is left alone\<close>

text \<open>Everything of the check happens on the clone, which it ends by stopping and deleting.\<close>

text \<open>
  Checking a cached golden costs nothing but a scratch VM: the check never touches the golden itself, and
  whether it passes or fails, the last thing it does is to stop and delete the clone it booted. When
  it passes, \<open>EnsureGolden\<close> builds nothing and returns the golden's name.
\<close>

theorem cached_golden_is_left_alone:
  assumes "cloneName \<noteq> gold"
  shows "grows_by (spares gold) tr (snd (checkCachedGolden w g gold cloneName opts tr))
    \<and> (\<exists>pre. snd (checkCachedGolden w g gold cloneName opts tr) = pre @ [tart_Stop cloneName, tart_Delete cloneName])"
proof -
  have cc: "only (spares gold) (cached_checks w g gold cloneName opts)"
    unfolding cached_checks_def
    by (intro only_rules only_receipt only_ask only_verifyBooted) simp_all
  obtain r1 t1 where c1: "cloneAndBoot w g gold cloneName False [] tr = (r1, t1)" by (metis prod.exhaust)
  have g1: "grows_by (spares gold) tr t1" using grows_onto [OF only_cloneAndBoot [OF assms] c1 grows_refl] .
  obtain r2 t2 where c2: "cached_checks w g gold cloneName opts t1 = (r2, t2)" by (metis prod.exhaust)
  have g2: "grows_by (spares gold) tr t2" using grows_onto [OF cc c2 g1] .
  have eq: "snd (checkCachedGolden w g gold cloneName opts tr) =
      (case r1 of Some e \<Rightarrow> golden_teardown w cloneName t1 | None \<Rightarrow> discard w cloneName t2)"
    unfolding checkCachedGolden_def c1 prod.case by (cases r1) (simp_all add: c2 Let_def)
  show ?thesis
    unfolding eq using grows_teardown [OF assms [symmetric] g1] grows_discard [OF assms [symmetric] g2]
    by (cases r1) (auto simp: golden_teardown_def discard_def)
qed

end
