(* ===== verification/Golden_Demo.thy ===== *)
theory Golden_Demo
  imports Golden_Props
begin

text \<open>A host on which every step of a golden build succeeds, and the properties at that host.\<close>

definition dgl_answer :: "string \<Rightarrow> answer" where
  "dgl_answer out = \<lparr>ansErr = None, ansOut = out, ansVMs = [], ansProtocol = 1, ansExecs = []\<rparr>"

definition dgl_digest :: string where "dgl_digest = replicate 64 CHR 0x61"

definition dgl_host :: host where
  "dgl_host tr x =
     (case x of
        TartRun args \<Rightarrow>
          (if last args = FingerprintPath then dgl_answer ''fp''
           else if last args = ''HOME'' then dgl_answer ''/Users/admin''
           else dgl_answer ''10.0.0.1'')
      | RunnerTarball v \<Rightarrow> dgl_answer dgl_digest
      | _ \<Rightarrow> dgl_answer ''/x'')"

definition dgl_env :: golden_env where
  "dgl_env = \<lparr>sha256 = (\<lambda>_. ''fp''), decodeReceipt = (\<lambda>_. Inr \<lparr>rrVersion = ''2.335.1'', rrTarballDigest = dgl_digest\<rparr>),
     parseIP = (\<lambda>_. True), plist = [], polls = 1, ctxErr = Sentinel DeadlineExceeded, hasStager = False\<rparr>"

definition dgl_opts :: golden_options where
  "dgl_opts = \<lparr>BaseImage = ''macos:26'', GoldenName = ''gha-golden-macos-26'', BuildVM = ''b'', goRunnerVersion = ''2.335.1'', BinaryPath = ''/bin/b''\<rparr>"

lemma dgl_built: "fst (Golden_Build dgl_host dgl_env dgl_opts []) = None"
  by code_simp

theorem golden_replaced_after_verification_witness:
  "\<exists>pin t0 t1. verify dgl_host dgl_env (staging_of dgl_opts) ''b-verify'' (piFingerprint pin) (receipt_of pin) t0 = (None, t1)
     \<and> grows_by (spares ''gha-golden-macos-26'') [] t1"
proof -
  obtain tr' where b: "Golden_Build dgl_host dgl_env dgl_opts [] = (None, tr')" using dgl_built by (metis prod.exhaust_sel)
  have "BuildVM dgl_opts \<noteq> GoldenName dgl_opts" "BuildVM dgl_opts @ ''-verify'' \<noteq> GoldenName dgl_opts"
    by (simp_all add: dgl_opts_def)
  from golden_replaced_after_verification [OF this b] show ?thesis by (auto simp: dgl_opts_def)
qed

theorem verified_golden_is_the_built_one_witness:
  "\<exists>tr' a. answered dgl_host tr' (tart_Exec ''v'' [''cat'', FingerprintPath]) a \<and> TrimSpace (ansOut a) = ''fp''"
proof -
  let ?rr = "\<lparr>rrVersion = ''2.335.1'', rrTarballDigest = dgl_digest\<rparr>"
  have "fst (verifyBooted dgl_host dgl_env ''g'' ''v'' ''fp'' ?rr []) = None" by code_simp
  then obtain tr' where "verifyBooted dgl_host dgl_env ''g'' ''v'' ''fp'' ?rr [] = (None, tr')" by (metis prod.exhaust_sel)
  from verified_golden_is_the_built_one [OF this] show ?thesis by blast
qed

theorem cached_golden_is_left_alone_witness:
  "grows_by (spares ''g'') [] (snd (checkCachedGolden dgl_host dgl_env ''g'' ''g-fpcheck-X'' \<lparr>eoImage = ''i'', eoBuildVM = [], eoRunnerVersion = []\<rparr> []))"
  using cached_golden_is_left_alone [of "''g-fpcheck-X''" "''g''"] by simp

theorem fingerprint_identifies_inputs_witness:
  "let a = \<lparr>BaseImageRef = ''i'', fiRunnerVersion = ''2'', fiRunnerTarballDigest = ''d'', BinaryDigest = ''b'',
            Payloads = [\<lparr>plName = ''p'', plDigest = ''1''\<rparr>, \<lparr>plName = ''q'', plDigest = ''2''\<rparr>]\<rparr>
   in Fingerprint rev (a\<lparr>Payloads := rev (Payloads a)\<rparr>) = Fingerprint rev a"
proof -
  let ?a = "\<lparr>BaseImageRef = ''i'', fiRunnerVersion = ''2'', fiRunnerTarballDigest = ''d'', BinaryDigest = ''b'',
            Payloads = [\<lparr>plName = ''p'', plDigest = ''1''\<rparr>, \<lparr>plName = ''q'', plDigest = ''2''\<rparr>]\<rparr>"
  have n: "nul_free ?a" by (simp add: nul_free_def nul_def)
  have d: "distinct (map plName (Payloads ?a))" by simp
  from fingerprint_identifies_inputs [OF n n d, of rev "rev (Payloads ?a)"]
  have "Fingerprint rev (?a\<lparr>Payloads := rev (Payloads ?a)\<rparr>) = Fingerprint rev ?a" by (simp add: add_mset_commute)
  then show ?thesis unfolding Let_def .
qed

end
