(* ===== verification/Broker_VM.thy ===== *)
theory Broker_VM
  imports Golden_Build Broker_Types
begin

text \<open>
  The life of a VM in \<open>internal/broker\<close> (\<open>bind.go\<close>, \<open>guestconn.go\<close>): warming it from the golden, resolving its
  guest agent once, probing it, adopting the VMs a previous process left running, and tearing
  down. The host is the world of \<^theory_text>\<open>Host_Tart\<close>; a guest client is known by the token it dials with, and
  \<open>polls\<close> bounds how often a readiness window lets something be asked.
\<close>

section \<open>Configuration and state\<close>

record brokerConfig =
  VMNamePrefix :: string
  CacheDir :: string
  BaseImageName :: string
  cfgJobsPerVM :: int

record brokerVM =
  bvName :: string
  bvImage :: string
  bvBooted :: bool
  bvGuest :: "string option"

definition TokenPath :: string where "TokenPath = ''/tmp/gha-guest-token''"
definition guestWriteSlotsSubcommand :: string where "guestWriteSlotsSubcommand = ''guest-write-slots''"
definition hostProtocolMajor :: "32 word" where "hostProtocolMajor = 1"

definition normalizedJobsPerVM :: "brokerConfig option \<Rightarrow> int" where
  "normalizedJobsPerVM cfg = (case cfg of None \<Rightarrow> 1 | Some c \<Rightarrow> if cfgJobsPerVM c < 1 then 1 else cfgJobsPerVM c)"

definition normalizeSlotCount :: "int \<Rightarrow> int" where
  "normalizeSlotCount slotCount = (if slotCount < 1 then 1 else slotCount)"

section \<open>Reaching the guest\<close>

fun broker_waitForReady :: "host \<Rightarrow> err \<Rightarrow> string \<Rightarrow> nat \<Rightarrow> host_trace \<Rightarrow> err option \<times> host_trace" where
  "broker_waitForReady w deadline name 0 tr =
     (Some (Wrapf (''broker: waiting for vsock readiness of '' @ name @ '': '') deadline []), tr)"
| "broker_waitForReady w deadline name (Suc n) tr =
     (let (a, tr1) = perform w (tart_Exec name [''true'']) tr
      in if ansErr a = None then (None, tr1) else broker_waitForReady w deadline name n tr1)"

fun readGuestToken :: "host \<Rightarrow> err \<Rightarrow> string \<Rightarrow> nat \<Rightarrow> host_trace \<Rightarrow> (err + string) \<times> host_trace" where
  "readGuestToken w deadline name 0 tr =
     (Inl (Wrapf (''broker: read guest token for '' @ name @ '': '') deadline []), tr)"
| "readGuestToken w deadline name (Suc n) tr =
     (let (a, tr1) = perform w (tart_Exec name [''sudo'', ''cat'', TokenPath]) tr
      in if ansErr a = None \<and> TrimSpace (ansOut a) \<noteq> [] then (Inr (TrimSpace (ansOut a)), tr1)
         else readGuestToken w deadline name n tr1)"

fun waitForGuestHello :: "host \<Rightarrow> err \<Rightarrow> string \<Rightarrow> string \<Rightarrow> nat \<Rightarrow> host_trace \<Rightarrow> err option \<times> host_trace" where
  "waitForGuestHello w deadline token name 0 tr =
     (Some (Wrapf (''broker: waiting for guest hello on '' @ name @ '': '') deadline []), tr)"
| "waitForGuestHello w deadline token name (Suc n) tr =
     (let (a, tr1) = perform w (GuestHello name token) tr
      in if ansErr a = None then
           (if ansProtocol a \<noteq> hostProtocolMajor
            then (Some (Msg (''broker: guest '' @ name @ '' speaks protocol '' @ Itoa (uint (ansProtocol a)) @ '', want ''
                    @ Itoa (uint hostProtocolMajor))), tr1)
            else (None, tr1))
         else waitForGuestHello w deadline token name n tr1)"

definition resolveGuest :: "host \<Rightarrow> golden_env \<Rightarrow> brokerVM \<Rightarrow> host_trace \<Rightarrow> ((err + string) \<times> brokerVM) \<times> host_trace" where
  "resolveGuest w g v tr =
     (case bvGuest v of
        Some token \<Rightarrow> ((Inr token, v), tr)
      | None \<Rightarrow>
          (case readGuestToken w (ctxErr g) (bvName v) (polls g) tr of
             (Inl e, tr1) \<Rightarrow> ((Inl e, v), tr1)
           | (Inr token, tr1) \<Rightarrow>
               (case waitForGuestHello w (ctxErr g) token (bvName v) (polls g) tr1 of
                  (Some e, tr2) \<Rightarrow> ((Inl e, v), tr2)
                | (None, tr2) \<Rightarrow> ((Inr token, v\<lparr>bvGuest := Some token\<rparr>), tr2))))"

section \<open>Tearing down\<close>

definition broker_teardown :: "host \<Rightarrow> string \<Rightarrow> host_trace \<Rightarrow> host_trace" where
  "broker_teardown w name tr = attempt_op w (tart_Delete name) (attempt_op w (tart_Stop name) tr)"

definition killAndTeardown :: "host \<Rightarrow> string \<Rightarrow> host_trace \<Rightarrow> host_trace" where
  "killAndTeardown w name tr = broker_teardown w name (attempt_op w (KillBoot name) tr)"

definition Teardown :: "host \<Rightarrow> golden_env \<Rightarrow> brokerVM \<Rightarrow> host_trace \<Rightarrow> host_trace" where
  "Teardown w g v tr =
     (let ((r, _), tr1) = resolveGuest w g v tr;
          tr2 = (case r of Inl _ \<Rightarrow> tr1 | Inr token \<Rightarrow> attempt_op w (GuestDrain (bvName v) token) tr1);
          tr3 = (if bvBooted v then attempt_op w (KillBoot (bvName v)) tr2 else tr2)
      in broker_teardown w (bvName v) tr3)"

section \<open>Warming\<close>

definition bootCommand :: "host \<Rightarrow> brokerConfig \<Rightarrow> string \<Rightarrow> host_trace \<Rightarrow> host_op \<times> host_trace" where
  "bootCommand w cfg name tr =
     (let (dirs, tr1) =
            (if CacheDir cfg = [] then ([], tr)
             else
               let (a, t) = perform w (MakeCacheDir (CacheDir cfg)) tr
               in if ansErr a \<noteq> None then ([], t)
                  else ([(''cache'', CacheDir cfg)], attempt_op w (ChmodCacheDir (CacheDir cfg)) t))
      in (BootCommand name \<lparr>Dirs = dirs, Detach = True, NoGraphics = True\<rparr>, tr1))"

definition seedSlotCount :: "host \<Rightarrow> string \<Rightarrow> int \<Rightarrow> host_trace \<Rightarrow> err option \<times> host_trace" where
  "seedSlotCount w name slotCount =
     step w (''broker: seed '' @ Itoa slotCount @ '' slots on '' @ name @ '': '')
       (tart_Exec name [BakedBinaryPath, guestWriteSlotsSubcommand, Itoa slotCount])"

text \<open>\<open>Warm\<close> after the clone: boot, wait, seed, resolve. Any failure tears the VM down.\<close>

definition warm_boot ::
  "host \<Rightarrow> golden_env \<Rightarrow> brokerConfig \<Rightarrow> string \<Rightarrow> string \<Rightarrow> int \<Rightarrow> host_trace \<Rightarrow> (err + brokerVM) \<times> host_trace" where
  "warm_boot w g cfg name img slotCount tr =
     (let (boot, tr1) = bootCommand w cfg name tr
      in case step w (''broker: boot '' @ name @ '': '') boot tr1 of
           (Some e, tr2) \<Rightarrow> (Inl e, broker_teardown w name tr2)
         | (None, tr2) \<Rightarrow>
             (case andThen (broker_waitForReady w (ctxErr g) name (polls g)) (seedSlotCount w name slotCount) tr2 of
                (Some e, tr3) \<Rightarrow> (Inl e, killAndTeardown w name tr3)
              | (None, tr3) \<Rightarrow>
                  (case resolveGuest w g \<lparr>bvName = name, bvImage = img, bvBooted = True, bvGuest = None\<rparr> tr3 of
                     ((Inl e, _), tr4) \<Rightarrow> (Inl e, killAndTeardown w name tr4)
                   | ((Inr _, v), tr4) \<Rightarrow> (Inr v, tr4))))"

definition vm_name :: "brokerConfig \<Rightarrow> string \<Rightarrow> string" where
  "vm_name cfg ident = VMNamePrefix cfg @ ''-'' @ ident"

definition Warm ::
  "host \<Rightarrow> golden_env \<Rightarrow> brokerConfig \<Rightarrow> string \<Rightarrow> string \<Rightarrow> string \<Rightarrow> int \<Rightarrow> host_trace \<Rightarrow> (err + brokerVM) \<times> host_trace" where
  "Warm w g cfg rnd img ident slotCount0 tr =
     (let slotCount = normalizeSlotCount slotCount0;
          name = vm_name cfg ident
      in case EnsureGolden w g rnd \<lparr>eoImage = img, eoBuildVM = NameForImage img @ ''-build-'' @ ident, eoRunnerVersion = []\<rparr> tr of
           (Inl e, tr1) \<Rightarrow> (Inl (Wrapf (''broker: ensure golden for '' @ img @ '': '') e []), tr1)
         | (Inr gold, tr1) \<Rightarrow>
             (case step w (''broker: clone '' @ name @ '': '') (tart_Clone gold name False) (attempt_op w (tart_Delete name) tr1) of
                (Some e, tr2) \<Rightarrow> (Inl e, tr2)
              | (None, tr2) \<Rightarrow> warm_boot w g cfg name img slotCount tr2))"

section \<open>Probing\<close>

definition CheckAlive :: "host \<Rightarrow> golden_env \<Rightarrow> brokerVM \<Rightarrow> host_trace \<Rightarrow> err option \<times> brokerVM \<times> host_trace" where
  "CheckAlive w g v tr =
     (case resolveGuest w g v tr of
        ((Inl e, v1), tr1) \<Rightarrow> (Some (Wrapf (''broker: check alive '' @ bvName v @ '': '') e []), v1, tr1)
      | ((Inr token, v1), tr1) \<Rightarrow>
          (case step w (''broker: check alive '' @ bvName v @ '': '') (GuestHello (bvName v) token) tr1 of
             (r, tr2) \<Rightarrow> (r, v1, tr2)))"

text \<open>The map \<open>RunningSlots\<close> builds from a Reattach response, read with Go's default for an absent key.\<close>

definition running_of :: "executionState list \<Rightarrow> nat \<Rightarrow> bool" where
  "running_of sts k = list_ex (\<lambda>st. xsRunning st \<and> unat (xsSlot st) = k) sts"

definition RunningSlots :: "host \<Rightarrow> golden_env \<Rightarrow> brokerVM \<Rightarrow> host_trace \<Rightarrow> (err + (nat \<Rightarrow> bool)) \<times> brokerVM \<times> host_trace" where
  "RunningSlots w g v tr =
     (case resolveGuest w g v tr of
        ((Inl e, v1), tr1) \<Rightarrow> (Inl (Wrapf (''broker: running slots resolve '' @ bvName v @ '': '') e []), v1, tr1)
      | ((Inr token, v1), tr1) \<Rightarrow>
          (let (a, tr2) = perform w (GuestReattach (bvName v) token) tr1
           in case ansErr a of
                Some e \<Rightarrow> (Inl (Wrapf (''broker: running slots reattach '' @ bvName v @ '': '') e []), v1, tr2)
              | None \<Rightarrow> (Inr (running_of (ansExecs a)), v1, tr2)))"

definition broker_List :: "host \<Rightarrow> host_trace \<Rightarrow> (err + string list) \<times> host_trace" where
  "broker_List w tr =
     (let (a, tr1) = perform w tart_ListVMs tr
      in (case ansErr a of Some e \<Rightarrow> Inl (Wrapf ''broker: list tart vms: '' e []) | None \<Rightarrow> Inr (map fst (ansVMs a)), tr1))"

definition DeleteGolden :: "host \<Rightarrow> string \<Rightarrow> host_trace \<Rightarrow> err option \<times> host_trace" where
  "DeleteGolden w img =
     step w (''broker: delete golden '' @ NameForImage img @ '': '') (tart_Delete (NameForImage img))"

section \<open>Adoption\<close>

definition reattachSlots :: "executionState list \<Rightarrow> int \<Rightarrow> slotBinding list" where
  "reattachSlots sts slotCount =
     map (\<lambda>st. \<lparr>SlotIndex = uint (xsSlot st), bRepo = jmRepo (xsMeta st), bJobID = jmJobID (xsMeta st),
                 bRunID = jmRunID (xsMeta st), ExecutionID = xsID st, ResumeCursor = xsLastSequence st,
                 BoundAt = time_zero, ObservedActive = True\<rparr>)
       (filter (\<lambda>st. xsRunning st \<and> \<not> (uint (xsSlot st) < 0 \<or> slotCount \<le> uint (xsSlot st))) sts)"

record candidate =
  cVM :: brokerVM
  cSlots :: "slotBinding list"

fun adoptionCandidates ::
  "host \<Rightarrow> golden_env \<Rightarrow> string \<Rightarrow> int \<Rightarrow> string list \<Rightarrow> host_trace \<Rightarrow> (candidate list \<times> candidate list) \<times> host_trace" where
  "adoptionCandidates w g img n [] tr = (([], []), tr)"
| "adoptionCandidates w g img n (name # names) tr =
     (case resolveGuest w g \<lparr>bvName = name, bvImage = img, bvBooted = False, bvGuest = None\<rparr> tr of
        ((Inl e, _), tr1) \<Rightarrow> adoptionCandidates w g img n names tr1
      | ((Inr token, v), tr1) \<Rightarrow>
          (let (a, tr2) = perform w (GuestReattach name token) tr1
           in case ansErr a of
                Some e \<Rightarrow> adoptionCandidates w g img n names tr2
              | None \<Rightarrow>
                  (let c = \<lparr>cVM = v, cSlots = reattachSlots (ansExecs a) n\<rparr>;
                       ((bs, is), tr3) = adoptionCandidates w g img n names tr2
                   in if cSlots c \<noteq> [] then ((c # bs, is), tr3) else ((bs, c # is), tr3))))"

text \<open>\<open>addCandidate\<close>, for a list of candidates: those that fit under the limit, and those that do not.\<close>

fun addCandidates :: "int \<Rightarrow> candidate list \<Rightarrow> candidate list \<Rightarrow> candidate list \<times> candidate list" where
  "addCandidates limit selected [] = (selected, [])"
| "addCandidates limit selected (c # cs) =
     (if 0 \<le> limit \<and> limit \<le> int (length selected)
      then (let (s, rejected) = addCandidates limit selected cs in (s, c # rejected))
      else addCandidates limit (selected @ [c]) cs)"

definition adoptable :: "string \<Rightarrow> (string \<times> string) list \<Rightarrow> string list" where
  "adoptable prefix entries =
     sort (map fst (filter (\<lambda>(name, state). HasPrefix name prefix \<and> EqualFold state ''running'') entries))"

definition warm_vm_of :: "brokerVM \<Rightarrow> warmVM" where
  "warm_vm_of v = \<lparr>vmName = bvName v, vmImage = bvImage v\<rparr>"

definition Adopt :: "host \<Rightarrow> golden_env \<Rightarrow> brokerConfig \<Rightarrow> string \<Rightarrow> int \<Rightarrow> int \<Rightarrow> host_trace \<Rightarrow> (err + adoptedVM list) \<times> host_trace" where
  "Adopt w g cfg img slotCount limit tr =
     (let (a, tr1) = perform w tart_ListVMs tr
      in case ansErr a of
           Some e \<Rightarrow> (Inl (Wrapf ''broker: list tart vms for adoption: '' e []), tr1)
         | None \<Rightarrow>
             (let ((busyCs, idleCs), tr2) = adoptionCandidates w g img (normalizeSlotCount slotCount)
                     (adoptable (VMNamePrefix cfg @ ''-'') (ansVMs a)) tr1;
                  (sel1, _) = addCandidates limit [] busyCs;
                  (sel2, surplus) = addCandidates limit sel1 idleCs;
                  tr3 = foldl (\<lambda>t c. broker_teardown w (bvName (cVM c)) t) tr2 surplus
              in (Inr (map (\<lambda>c. \<lparr>VM = Some (warm_vm_of (cVM c)), aSlots = cSlots c\<rparr>) sel2), tr3)))"

section \<open>Manual operations\<close>

definition SweepOrphans :: "host \<Rightarrow> brokerConfig \<Rightarrow> host_trace \<Rightarrow> host_trace" where
  "SweepOrphans w cfg tr =
     (let (a, tr1) = perform w tart_ListVMs tr
      in if ansErr a \<noteq> None then tr1
         else foldl (\<lambda>t name. broker_teardown w name t) tr1
                (filter (\<lambda>name. HasPrefix name (VMNamePrefix cfg @ ''-'')) (map fst (ansVMs a))))"

text \<open>\<open>BindOnce\<close>: \<open>run\<close> is the binder's \<open>RunJob\<close> on slot 0 of the warmed VM.\<close>

definition BindOnce ::
  "host \<Rightarrow> golden_env \<Rightarrow> brokerConfig \<Rightarrow> string \<Rightarrow> (brokerVM \<Rightarrow> host_trace \<Rightarrow> err option \<times> host_trace)
   \<Rightarrow> string \<Rightarrow> string \<Rightarrow> host_trace \<Rightarrow> err option \<times> host_trace" where
  "BindOnce w g cfg rnd run repo ident tr =
     (let (_, _, ok) = Cut repo CHR 0x2F
      in if \<not> ok then (Some (Msg (''broker: repo must be owner/repo, got '' @ Quote repo)), tr)
         else
           (case Warm w g cfg rnd (BaseImageName cfg) ident (normalizedJobsPerVM (Some cfg)) tr of
              (Inl e, tr1) \<Rightarrow> (Some e, tr1)
            | (Inr v, tr1) \<Rightarrow> (let (r, tr2) = run v tr1 in (r, Teardown w g v tr2))))"

end
