(* ===== verification/Broker_VM_Props.thy ===== *)
theory Broker_VM_Props
  imports Broker_VM
begin

text \<open>
  The properties of a VM's life: what a failed and what a successful warm leave behind, that a guest is
  resolved once, and what an adoption takes over and what it tears down.
\<close>

section \<open>Resolving the guest\<close>

lemma hello_None:
  "waitForGuestHello w d token name n tr = (None, tr') \<Longrightarrow>
     \<exists>pre a. tr' = tr @ pre @ [GuestHello name token] \<and> w (tr @ pre) (GuestHello name token) = a
       \<and> ansErr a = None \<and> ansProtocol a = hostProtocolMajor"
proof (induction n arbitrary: tr)
  case 0
  then show ?case by simp
next
  case (Suc n)
  let ?x = "GuestHello name token"
  show ?case
  proof (cases "ansErr (w tr ?x) = None")
    case True
    then have "ansProtocol (w tr ?x) = hostProtocolMajor \<and> tr' = tr @ [?x]"
      using Suc.prems by (simp add: perform_def Let_def split: if_splits)
    then show ?thesis using True by (intro exI [of _ "[]"] exI [of _ "w tr ?x"]) simp
  next
    case False
    then have "waitForGuestHello w d token name n (tr @ [?x]) = (None, tr')"
      using Suc.prems by (auto simp: perform_def Let_def)
    from Suc.IH [OF this] obtain pre a where p: "tr' = (tr @ [?x]) @ pre @ [?x]"
      "w ((tr @ [?x]) @ pre) ?x = a" "ansErr a = None" "ansProtocol a = hostProtocolMajor"
      by blast
    then show ?thesis by (intro exI [of _ "?x # pre"] exI [of _ a]) simp
  qed
qed

lemma resolve_Inr:
  assumes "resolveGuest w g v tr = ((Inr token, v'), tr')"
  shows "v' = v\<lparr>bvGuest := Some token\<rparr> \<and> bvGuest v' = Some token"
  using assms by (auto simp: resolveGuest_def split: option.splits prod.splits sum.splits)

lemma token_grows: "\<exists>pre. snd (readGuestToken w d name n tr) = tr @ pre"
proof (induction n arbitrary: tr)
  case 0
  then show ?case by simp
next
  case (Suc n)
  from Suc [of "tr @ [tart_Exec name [''sudo'', ''cat'', TokenPath]]"] show ?case
    by (auto simp: perform_def Let_def)
qed

lemma resolve_compatible:
  assumes "resolveGuest w g v tr = ((Inr token, v'), tr')" and "bvGuest v = None"
  shows "\<exists>pre a. tr' = tr @ pre @ [GuestHello (bvName v) token] \<and> w (tr @ pre) (GuestHello (bvName v) token) = a
    \<and> ansErr a = None \<and> ansProtocol a = hostProtocolMajor"
proof -
  obtain tr1 where t: "readGuestToken w (ctxErr g) (bvName v) (polls g) tr = (Inr token, tr1)"
    and h: "waitForGuestHello w (ctxErr g) token (bvName v) (polls g) tr1 = (None, tr')"
    using assms by (auto simp: resolveGuest_def split: option.splits prod.splits sum.splits)
  obtain p1 where "tr1 = tr @ p1" using token_grows [of w "ctxErr g" "bvName v" "polls g" tr] t by auto
  then show ?thesis using hello_None [OF h] by auto
qed

text \<open>
  A guest is dialled once: when resolving a VM's guest succeeded, resolving it again, on the host as
  it is by then, asks nothing of the host and gives the same client, so the probes and the
  dispatch on a warm VM never wait for a readiness window.
\<close>

lemma guest_resolved_once:
  assumes "resolveGuest w g v tr = ((Inr token, v'), tr')"
  shows "resolveGuest w' g' v' tr'' = ((Inr token, v'), tr'')"
  using conjunct2 [OF resolve_Inr [OF assms]] by (simp add: resolveGuest_def)

section \<open>Warming\<close>

lemma teardown_ends: "\<exists>pre. broker_teardown w name tr = pre @ [tart_Stop name, tart_Delete name]"
  by (rule exI [of _ tr]) (simp add: broker_teardown_def)

lemma killAndTeardown_ends: "\<exists>pre. killAndTeardown w name tr = pre @ [tart_Stop name, tart_Delete name]"
  by (rule exI [of _ "tr @ [KillBoot name]"]) (simp add: killAndTeardown_def broker_teardown_def)

text \<open>How \<open>warm_boot\<close> ends: with the VM torn down, or with its guest resolved after the seed.\<close>

lemma warm_boot_cases:
  assumes "warm_boot w g cfg name img n tr = (r, tr')"
  obtains t e where "r = Inl e" "tr' = broker_teardown w name t \<or> tr' = killAndTeardown w name t"
  | t t3 t4 token v where "r = Inr v" "andThen (broker_waitForReady w (ctxErr g) name (polls g)) (seedSlotCount w name n) t3 = (None, t4)"
    "resolveGuest w g \<lparr>bvName = name, bvImage = img, bvBooted = True, bvGuest = None\<rparr> t4 = ((Inr token, v), tr')"
proof -
  obtain boot t1 where b: "bootCommand w cfg name tr = (boot, t1)" by (metis prod.exhaust)
  obtain r2 t2 where s: "step w (''broker: boot '' @ name @ '': '') boot t1 = (r2, t2)" by (metis prod.exhaust)
  obtain r3 t3 where q: "andThen (broker_waitForReady w (ctxErr g) name (polls g)) (seedSlotCount w name n) t2 = (r3, t3)" by (metis prod.exhaust)
  obtain r4 v t4 where z: "resolveGuest w g \<lparr>bvName = name, bvImage = img, bvBooted = True, bvGuest = None\<rparr> t3 = ((r4, v), t4)"
    by (metis prod.exhaust)
  have eq: "(r, tr') = (case r2 of Some e \<Rightarrow> (Inl e, broker_teardown w name t2)
      | None \<Rightarrow> (case r3 of Some e \<Rightarrow> (Inl e, killAndTeardown w name t3)
      | None \<Rightarrow> (case r4 of Inl e \<Rightarrow> (Inl e, killAndTeardown w name t4) | Inr _ \<Rightarrow> (Inr v, t4))))"
    using assms unfolding warm_boot_def Let_def b prod.case s q z by (rule sym)
  show ?thesis
  proof (cases r2)
    case (Some e)
    then show ?thesis using eq that(1) by auto
  next
    case n2: None
    show ?thesis
    proof (cases r3)
      case (Some e)
      then show ?thesis using eq n2 that(1) by auto
    next
      case n3: None
      show ?thesis
      proof (cases r4)
        case (Inl e)
        then show ?thesis using eq n2 n3 that(1) by auto
      next
        case (Inr token)
        then show ?thesis using eq n2 n3 q z that(2) by simp
      qed
    qed
  qed
qed

lemma warm_boot_fails:
  assumes "warm_boot w g cfg name img n tr = (Inl e, tr')"
  shows "\<exists>pre. tr' = pre @ [tart_Stop name, tart_Delete name]"
  proof (rule warm_boot_cases [OF assms])
  fix t e' assume "Inl e = Inl e'" and "tr' = broker_teardown w name t \<or> tr' = killAndTeardown w name t"
  then show ?thesis using teardown_ends killAndTeardown_ends by metis
qed simp

text \<open>
  C34. A failed warm leaves no VM of this name running: either nothing was cloned (the golden could not be
  ensured, or the clone failed right after the pre-emptive delete), or the last thing done is to stop
  and delete the VM.
\<close>

theorem failed_warm_leaves_no_vm:
  assumes "Warm w g cfg rnd img ident n tr = (Inl e, tr')"
  shows "(\<exists>pre. tr' = pre @ [tart_Stop (vm_name cfg ident), tart_Delete (vm_name cfg ident)])
    \<or> (\<exists>r t1. EnsureGolden w g rnd \<lparr>eoImage = img, eoBuildVM = NameForImage img @ ''-build-'' @ ident, eoRunnerVersion = []\<rparr> tr = (r, t1)
         \<and> (case r of Inl _ \<Rightarrow> tr' = t1
            | Inr gold \<Rightarrow> tr' = t1 @ [tart_Delete (vm_name cfg ident), tart_Clone gold (vm_name cfg ident) False]
                \<and> ansErr (w (t1 @ [tart_Delete (vm_name cfg ident)]) (tart_Clone gold (vm_name cfg ident) False)) \<noteq> None))"
proof -
  let ?n = "vm_name cfg ident"
  obtain r t1 where eg: "EnsureGolden w g rnd \<lparr>eoImage = img, eoBuildVM = NameForImage img @ ''-build-'' @ ident, eoRunnerVersion = []\<rparr> tr = (r, t1)"
    by (metis prod.exhaust)
  show ?thesis
  proof (cases r)
    case (Inl er)
    then show ?thesis using assms eg by (auto simp: Warm_def Let_def)
  next
    case (Inr gold)
    obtain r2 t2 where c: "step w (''broker: clone '' @ ?n @ '': '') (tart_Clone gold ?n False) (t1 @ [tart_Delete ?n]) = (r2, t2)"
      by (metis prod.exhaust)
    have W: "(Inl e, tr') = (case r2 of Some e \<Rightarrow> (Inl e, t2) | None \<Rightarrow> warm_boot w g cfg ?n img (normalizeSlotCount n) t2)"
      using assms unfolding Warm_def Let_def eg prod.case Inr sum.case attempt_op_eq c by (rule sym)
    show ?thesis
    proof (cases r2)
      case None
      then have "warm_boot w g cfg ?n img (normalizeSlotCount n) t2 = (Inl e, tr')" using W by simp
      then show ?thesis using warm_boot_fails by blast
    next
      case (Some er)
      then have "tr' = t2" using W by simp
      then show ?thesis using eg Inr Some c by (auto simp: step_def perform_def Let_def)
    qed
  qed
qed

text \<open>
  C10. A warm VM is ready to serve the slots it was asked for: \<open>Warm\<close> returns a VM only after the exec
  channel accepted the (positive) slot count on the booted clone and then a guest agent of the
  host's protocol answered Hello, and the VM it returns carries that agent's client.
\<close>

theorem warm_vm_is_seeded_and_answers:
  assumes "Warm w g cfg rnd img ident n tr = (Inr v, tr')"
  shows "bvName v = vm_name cfg ident \<and> bvImage v = img \<and> bvBooted v
    \<and> (\<exists>token pre mid a b.
         bvGuest v = Some token
         \<and> tr' = pre @ tart_Exec (bvName v) [BakedBinaryPath, guestWriteSlotsSubcommand, Itoa (max 1 n)]
                 # mid @ [GuestHello (bvName v) token]
         \<and> w pre (tart_Exec (bvName v) [BakedBinaryPath, guestWriteSlotsSubcommand, Itoa (max 1 n)]) = a \<and> ansErr a = None
         \<and> w (butlast tr') (GuestHello (bvName v) token) = b \<and> ansErr b = None \<and> ansProtocol b = hostProtocolMajor)"
proof -
  let ?n = "vm_name cfg ident" and ?k = "normalizeSlotCount n"
  let ?v = "\<lparr>bvName = ?n, bvImage = img, bvBooted = True, bvGuest = None\<rparr>"
  let ?seed = "tart_Exec ?n [BakedBinaryPath, guestWriteSlotsSubcommand, Itoa ?k]"
  have k: "?k = max 1 n" by (simp add: normalizeSlotCount_def)
  obtain t2 where wb: "warm_boot w g cfg ?n img ?k t2 = (Inr v, tr')"
    using assms unfolding Warm_def Let_def by (auto split: prod.splits sum.splits option.splits)
  obtain t3 t4 token where at: "andThen (broker_waitForReady w (ctxErr g) ?n (polls g)) (seedSlotCount w ?n ?k) t3 = (None, t4)"
    and rg: "resolveGuest w g ?v t4 = ((Inr token, v), tr')"
    by (rule warm_boot_cases [OF wb]) auto
  define t where "t = snd (broker_waitForReady w (ctxErr g) ?n (polls g) t3)"
  have "seedSlotCount w ?n ?k t = (None, t4)"
    using andThen_None [of "broker_waitForReady w (ctxErr g) ?n (polls g)" "seedSlotCount w ?n ?k" t3] at
    unfolding t_def by simp
  then have s': "ansErr (w t ?seed) = None" "t4 = t @ [?seed]"
    by (auto simp: seedSlotCount_def step_def perform_def Let_def)
  have v: "v = ?v\<lparr>bvGuest := Some token\<rparr>" using conjunct1 [OF resolve_Inr [OF rg]] .
  obtain pre where h: "tr' = t4 @ pre @ [GuestHello ?n token]" "ansErr (w (t4 @ pre) (GuestHello ?n token)) = None"
    "ansProtocol (w (t4 @ pre) (GuestHello ?n token)) = hostProtocolMajor"
    using resolve_compatible [OF rg] by auto
  have bl: "butlast tr' = t4 @ pre" using h(1) by (simp add: butlast_append)
  have name: "bvName v = ?n" "bvImage v = img" "bvBooted v" "bvGuest v = Some token" using v by simp_all
  show ?thesis
    unfolding name k [symmetric]
  proof (intro conjI exI)
    show "tr' = t @ ?seed # pre @ [GuestHello ?n token]" using h(1) s'(2) by simp
    show "ansErr (w t ?seed) = None" by (rule s'(1))
    show "w (butlast tr') (GuestHello ?n token) = w (t4 @ pre) (GuestHello ?n token)" by (simp add: bl)
  qed (use h name bl in simp_all)
qed

section \<open>Adoption\<close>

definition tears :: "string \<Rightarrow> host_op \<Rightarrow> bool" where
  "tears name x = (x = tart_Stop name \<or> x = tart_Delete name)"

abbreviation gentle :: "host_op \<Rightarrow> bool" where
  "gentle x \<equiv> \<forall>name. \<not> tears name x"

lemma gentle_simps [simp]:
  "\<not> tears name (tart_Exec n argv)" "\<not> tears name (GuestHello n t)" "\<not> tears name (GuestReattach n t)"
  "\<not> tears name tart_ListVMs"
  by (auto simp: tears_def tart_calls)

lemma only_token: "only gentle (readGuestToken w d name n)"
proof (induction n)
  case 0
  then show ?case by (simp add: only_def)
next
  case (Suc n)
  show ?case
  proof (rule onlyI)
    fix tr
    let ?tr1 = "tr @ [tart_Exec name [''sudo'', ''cat'', TokenPath]]"
    have 1: "grows_by gentle tr ?tr1" by (simp add: grows_append)
    have 2: "grows_by gentle ?tr1 (snd (readGuestToken w d name n ?tr1))" by (rule only_grows [OF Suc])
    show "grows_by gentle tr (snd (readGuestToken w d name (Suc n) tr))"
      using 1 grows_trans [OF 1 2] by (simp add: Let_def split_beta)
  qed
qed

lemma only_hello: "only gentle (waitForGuestHello w d token name n)"
proof (induction n)
  case 0
  then show ?case by (simp add: only_def)
next
  case (Suc n)
  show ?case
  proof (rule onlyI)
    fix tr
    let ?tr1 = "tr @ [GuestHello name token]"
    have 1: "grows_by gentle tr ?tr1" by (simp add: grows_append)
    have 2: "grows_by gentle ?tr1 (snd (waitForGuestHello w d token name n ?tr1))" by (rule only_grows [OF Suc])
    show "grows_by gentle tr (snd (waitForGuestHello w d token name (Suc n) tr))"
      using 1 grows_trans [OF 1 2] by (simp add: Let_def split_beta)
  qed
qed

lemma only_resolve: "only gentle (resolveGuest w g v)"
  unfolding resolveGuest_def by (intro only_rules only_token only_hello)

text \<open>What a candidate is: a VM of the list, its slots those of a Reattach it answered.\<close>

definition candidate_ok :: "host \<Rightarrow> string \<Rightarrow> int \<Rightarrow> string list \<Rightarrow> candidate \<Rightarrow> bool" where
  "candidate_ok w img n names c = (bvName (cVM c) \<in> set names \<and> bvImage (cVM c) = img
     \<and> (\<exists>t token. ansErr (w t (GuestReattach (bvName (cVM c)) token)) = None
          \<and> cSlots c = reattachSlots (ansExecs (w t (GuestReattach (bvName (cVM c)) token))) n))"

lemma candidate_ok_Cons: "candidate_ok w img n names c \<Longrightarrow> candidate_ok w img n (name # names) c"
  by (auto simp: candidate_ok_def)

lemma adoptionCandidates_ok:
  "adoptionCandidates w g img n names tr = ((bs, is), tr') \<Longrightarrow>
     grows_by gentle tr tr' \<and> (\<forall>c \<in> set bs. candidate_ok w img n names c \<and> cSlots c \<noteq> [])
     \<and> (\<forall>c \<in> set is. candidate_ok w img n names c \<and> cSlots c = [])"
proof (induction names arbitrary: tr bs "is" tr')
  case Nil
  then show ?case by simp
next
  case (Cons name names)
  let ?v0 = "\<lparr>bvName = name, bvImage = img, bvBooted = False, bvGuest = None\<rparr>"
  obtain r v tr1 where rg: "resolveGuest w g ?v0 tr = ((r, v), tr1)" by (metis prod.exhaust)
  have g1: "grows_by gentle tr tr1" using grows_onto [OF only_resolve rg grows_refl] .
  show ?case
  proof (cases r)
    case (Inl e)
    then have rest: "adoptionCandidates w g img n names tr1 = ((bs, is), tr')" using Cons.prems rg by simp
    show ?thesis using Cons.IH [OF rest] g1 grows_trans candidate_ok_Cons by blast
  next
    case (Inr token)
    have v: "bvName v = name" "bvImage v = img" using resolve_Inr [of w g ?v0 tr token v tr1] rg Inr by simp_all
    let ?x = "GuestReattach name token" and ?a = "w tr1 (GuestReattach name token)"
    let ?tr2 = "tr1 @ [?x]"
    have g2: "grows_by gentle tr ?tr2" using g1 by (rule grows_snoc) simp
    show ?thesis
    proof (cases "ansErr ?a")
      case (Some e)
      then have rest: "adoptionCandidates w g img n names ?tr2 = ((bs, is), tr')"
        using Cons.prems rg Inr by (simp add: perform_def Let_def)
      show ?thesis using Cons.IH [OF rest] g2 grows_trans candidate_ok_Cons by blast
    next
      case None
      let ?c = "\<lparr>cVM = v, cSlots = reattachSlots (ansExecs ?a) n\<rparr>"
      obtain bs1 is1 tr3 where rest: "adoptionCandidates w g img n names ?tr2 = ((bs1, is1), tr3)" by (metis prod.exhaust)
      have out: "tr' = tr3 \<and> (if cSlots ?c \<noteq> [] then bs = ?c # bs1 \<and> is = is1 else bs = bs1 \<and> is = ?c # is1)"
        using Cons.prems rg Inr None rest by (auto simp: perform_def Let_def split: if_splits)
      have ok: "candidate_ok w img n (name # names) ?c"
        using v None unfolding candidate_ok_def by auto
      show ?thesis
        using Cons.IH [OF rest] g2 grows_trans [of gentle tr ?tr2 tr3] candidate_ok_Cons ok out
        by (auto split: if_splits)
    qed
  qed
qed

lemma addCandidates_ok:
  "addCandidates limit sel cs = (s, rej) \<Longrightarrow>
     (\<exists>zs. s = sel @ zs \<and> set zs \<subseteq> set cs) \<and> set rej \<subseteq> set cs \<and> (limit < 0 \<longrightarrow> rej = [])
     \<and> (0 \<le> limit \<and> int (length sel) \<le> limit \<longrightarrow> int (length s) \<le> limit)"
proof (induction cs arbitrary: sel s rej)
  case Nil
  then show ?case by simp
next
  case (Cons c cs)
  show ?case
  proof (cases "0 \<le> limit \<and> limit \<le> int (length sel)")
    case True
    obtain s1 rej1 where a: "addCandidates limit sel cs = (s1, rej1)" by (metis prod.exhaust)
    then have "s = s1" "rej = c # rej1" using Cons.prems True by auto
    then show ?thesis using Cons.IH [OF a] True by auto
  next
    case False
    have a: "addCandidates limit (sel @ [c]) cs = (s, rej)" using Cons.prems unfolding addCandidates.simps(2) if_not_P [OF False] .
    show ?thesis using Cons.IH [OF a] False by auto
  qed
qed

lemma foldl_teardown:
  "foldl (\<lambda>t c. broker_teardown w (bvName (cVM c)) t) tr cs
     = tr @ concat (map (\<lambda>c. [tart_Stop (bvName (cVM c)), tart_Delete (bvName (cVM c))]) cs)"
  by (induction cs arbitrary: tr) (simp_all add: broker_teardown_def)


end
