(* ===== verification/Broker_VM_Demo.thy ===== *)
theory Broker_VM_Demo
  imports Broker_VM_Props Golden_Demo
begin

text \<open>A VM that is warmed on the host of \<open>Golden_Demo\<close>, one whose seed fails, and two VMs that are adopted.\<close>

definition dbv_cfg :: brokerConfig where
  "dbv_cfg = \<lparr>VMNamePrefix = ''p'', CacheDir = [], BaseImageName = ''macos:26'', cfgJobsPerVM = 2\<rparr>"

text \<open>The host of \<open>Golden_Demo\<close>, whose latest runner is the one its receipts name.\<close>

definition dbv_host :: host where
  "dbv_host tr x = (if x = LatestRunner then dgl_answer ''2.335.1'' else dgl_host tr x)"

text \<open>The same host, on which writing the slot count fails.\<close>

definition dbv_unseeded :: host where
  "dbv_unseeded tr x =
     (if x = tart_Exec ''p-1'' [BakedBinaryPath, guestWriteSlotsSubcommand, ''2'']
      then (dgl_answer [])\<lparr>ansErr := Some (Msg ''exit status 1'')\<rparr> else dbv_host tr x)"

definition dbv_execution :: executionState where
  "dbv_execution = \<lparr>xsID = ''o/r#8#7'', xsSlot = 1, xsMeta = \<lparr>jmRepo = ''o/r'', jmJobID = 7, jmRunID = 8, jmRunnerName = ''p-1''\<rparr>,
     xsPhase = ''running'', xsRunning = True, xsLastSequence = 4\<rparr>"

text \<open>A host with two running VMs of this broker, one of them with a job, and two that are not to be adopted.\<close>

definition dbv_running :: host where
  "dbv_running tr x =
     (case x of
        TartRun args \<Rightarrow>
          (if args = [''list'', ''--format'', ''json'']
           then (dgl_answer [])\<lparr>ansVMs := [(''p-2'', ''running''), (''p-1'', ''Running''), (''p-3'', ''stopped''), (''q-1'', ''running'')]\<rparr>
           else dgl_answer ''tok'')
      | GuestReattach name token \<Rightarrow> (dgl_answer [])\<lparr>ansExecs := (if name = ''p-1'' then [dbv_execution] else [])\<rparr>
      | _ \<Rightarrow> dgl_answer [])"

theorem failed_warm_leaves_no_vm_witness:
  "\<exists>e tr' pre. Warm dbv_unseeded dgl_env dbv_cfg ''X'' ''macos:26'' ''1'' 2 [] = (Inl e, tr')
     \<and> tr' = pre @ [tart_Stop ''p-1'', tart_Delete ''p-1'']"
proof -
  let ?o = "\<lparr>eoImage = ''macos:26'', eoBuildVM = NameForImage ''macos:26'' @ ''-build-'' @ ''1'', eoRunnerVersion = []\<rparr>"
  have f: "\<not> isl (fst (EnsureGolden dbv_unseeded dgl_env ''X'' ?o []))" by code_simp
  have "isl (fst (Warm dbv_unseeded dgl_env dbv_cfg ''X'' ''macos:26'' ''1'' 2 []))
      \<and> last (snd (Warm dbv_unseeded dgl_env dbv_cfg ''X'' ''macos:26'' ''1'' 2 [])) = tart_Delete ''p-1''" by code_simp
  then obtain e tr' where w: "Warm dbv_unseeded dgl_env dbv_cfg ''X'' ''macos:26'' ''1'' 2 [] = (Inl e, tr')"
    and l: "last tr' = tart_Delete ''p-1''"
    by (metis fst_conv isl_def snd_conv prod.exhaust_sel)
  have n: "vm_name dbv_cfg ''1'' = ''p-1''" by (simp add: vm_name_def dbv_cfg_def)
  from failed_warm_leaves_no_vm [OF w] have "\<exists>pre. tr' = pre @ [tart_Stop ''p-1'', tart_Delete ''p-1'']"
    unfolding n
  proof (elim disjE exE conjE)
    fix r t1 assume e: "EnsureGolden dbv_unseeded dgl_env ''X'' ?o [] = (r, t1)"
      and c: "case r of Inl _ \<Rightarrow> tr' = t1
        | Inr gold \<Rightarrow> tr' = t1 @ [tart_Delete ''p-1'', tart_Clone gold ''p-1'' False]
            \<and> ansErr (dbv_unseeded (t1 @ [tart_Delete ''p-1'']) (tart_Clone gold ''p-1'' False)) \<noteq> None"
    obtain gold where "r = Inr gold" using f e by (cases r) auto
    then have "last tr' = tart_Clone gold ''p-1'' False" using c by simp
    then show ?thesis using l by (simp add: tart_calls)
  qed blast
  with w show ?thesis by blast
qed

theorem warm_vm_is_seeded_and_answers_witness:
  "\<exists>v tr' token. Warm dbv_host dgl_env dbv_cfg ''X'' ''macos:26'' ''1'' 2 [] = (Inr v, tr')
     \<and> bvName v = ''p-1'' \<and> bvGuest v = Some token"
proof -
  have "\<not> isl (fst (Warm dbv_host dgl_env dbv_cfg ''X'' ''macos:26'' ''1'' 2 []))" by code_simp
  then obtain v tr' where w: "Warm dbv_host dgl_env dbv_cfg ''X'' ''macos:26'' ''1'' 2 [] = (Inr v, tr')"
    by (metis prod.exhaust_sel sum.collapse(2))
  have n: "vm_name dbv_cfg ''1'' = ''p-1''" by (simp add: vm_name_def dbv_cfg_def)
  from warm_vm_is_seeded_and_answers [OF w] w show ?thesis unfolding n by blast
qed


lemma adoption_example:
  "map_sum (\<lambda>e. ()) (map (\<lambda>a. (map_option vmName (VM a), map SlotIndex (aSlots a))))
     (fst (Adopt dbv_running dgl_env dbv_cfg ''macos:26'' 2 1 [])) = Inr [(Some ''p-1'', [1])]
   \<and> last (snd (Adopt dbv_running dgl_env dbv_cfg ''macos:26'' 2 1 [])) = tart_Delete ''p-2''"
  by code_simp

text \<open>
  The same hosts adopted with one slot per VM and a limit of none: the job of \<open>p-1\<close> runs in a slot at or
  above the new slot count, so its VM counts as idle and is torn down.
\<close>

lemma smaller_slot_count_tears_down_running_job:
  "ansExecs (dbv_running tr (GuestReattach ''p-1'' token)) = [dbv_execution] \<and> xsRunning dbv_execution
   \<and> tart_Delete ''p-1'' \<in> set (snd (Adopt dbv_running dgl_env dbv_cfg ''macos:26'' 1 0 []))"
proof -
  have "tart_Delete ''p-1'' \<in> set (snd (Adopt dbv_running dgl_env dbv_cfg ''macos:26'' 1 0 []))" by code_simp
  then show ?thesis by (simp add: dbv_running_def dbv_execution_def)
qed

end
