(* ===== verification/System_Lemmas.thy ===== *)
theory System_Lemmas
  imports Broker_VM_Props Broker_Props Pool_Reap Exec_Demo Pool_Props
begin

text \<open>
  Lemmas on the composition of the pool, the broker and the guest: what an adoption installs for the executions
  a guest reports, what the reaper sees of a guest, and the identifiers executions travel under.
\<close>

section \<open>Identifiers\<close>

text \<open>Every execution has an id.\<close>

lemma ids_of_entries: "map entry xs = map entry ys \<Longrightarrow> map eid xs = map eid ys"
  by (metis (no_types, lifting) comp_apply entry_def fst_conv list.map_comp map_eq_conv)

definition ids_ok :: "registry \<Rightarrow> bool" where
  "ids_ok r = (\<forall>e \<in> set (store r). eid e \<noteq> [])"

lemma ids_ok_upd: "ids_ok r \<Longrightarrow> u < length (store r) \<Longrightarrow> eid (f (store r ! u)) = eid (store r ! u) \<Longrightarrow> ids_ok (upd_exec r u f)"
  unfolding ids_ok_def upd_exec_def by (simp add: all_set_conv_all_nth nth_list_update)

lemma eid_frame [simp]:
  "eid (appendEventLocked e p) = eid e" "eid (captureData st d e) = eid e" "eid (captureFailure m e) = eid e"
  "eid (captureReturns e) = eid e" "eid (appendHeartbeat e t) = eid e" "eid (deliverReport rep e) = eid e"
  "eid (reapReport rep e) = eid e"
  by (simp_all add: captureData_def captureFailure_def captureReturns_def appendHeartbeat_def
      deliverReport_def reapReport_def)

lemma captured_in_store: "Cap s u st = c \<Longrightarrow> sys_inv s \<Longrightarrow> c \<noteq> CapNone \<Longrightarrow> u < length (store (Reg s))"
  using sys_inv_cap by blast

lemma ids_ok_step: "exec_step s s' \<Longrightarrow> sys_inv s \<Longrightarrow> ids_ok (Reg s) \<Longrightarrow> ids_ok (Reg s')"
proof (induction rule: exec_step.induct)
  case (x_register s spec pid pg r' u)
  then show ?case
    using Register_accepted [OF x_register.hyps(1)]
    by (auto simp: ids_ok_def specError_def newExecution_def split: if_splits)
next
  case (x_cancel s i kill e r')
  have "u < length (store (Reg s))" if "map_of (executions (Reg s)) i = Some u" for u
    using map_of_SomeD [OF that] x_cancel.prems by (auto simp: sys_inv_def reg_wf_def table_wf_def)
  then show ?case using x_cancel
    by (auto simp: Cancel_def Let_def ids_ok_upd split: option.splits if_splits)
next
  case (x_drain s d r')
  then show ?case by (auto simp: Drain_def Let_def closeDrainedLocked_def ids_ok_def split: if_splits)
next
  case (x_complete s u now)
  then have "u < length (store (Reg s))" using sys_inv_sup [of s u] by simp
  then show ?case
    using x_complete by (auto simp: completeExecution_eq ids_ok_def dest!: set_list_updateD)
next
  case (x_expire s u)
  then show ?case by (auto simp: expire_def Let_def ids_ok_def)
next
  case (x_receive s u rep e')
  then have "u < length (store (Reg s))" using sys_inv_sup [of s u] by simp
  moreover have "eid e' = eid (store (Reg s) ! u)"
    using x_receive(2) by (auto simp: receiveReport_def split: option.splits)
  ultimately show ?case using x_receive by (simp add: ids_ok_upd)
next
  case (x_reap s u rep)
  then have "u < length (store (Reg s))" using sys_inv_sup [of s u] by simp
  then show ?case using x_reap by (simp add: ids_ok_upd)
qed (auto dest: captured_in_store intro!: ids_ok_upd)

lemma reachable_ids_ok: "exec_reachable s \<Longrightarrow> ids_ok (Reg s)"
proof (induction rule: exec_reachable.induct)
  case (xr_init ret hb)
  then show ?case by (simp add: ids_ok_def init_esys_def newRegistry_def)
next
  case (xr_step s s')
  then show ?case using ids_ok_step reachable_sys_inv by blast
qed

section \<open>What the host sees of a guest\<close>

lemma running_in_List:
  assumes "reg_wf r" and "u < length (store r)" and "running (store r ! u)"
  shows "executionStateOf (store r ! u) \<in> set (List_exec r)"
proof -
  have "(eid (store r ! u), u) \<in> set (executions r)" using assms by (simp add: reg_wf_def table_wf_def)
  then show ?thesis unfolding set_List_exec by (rule rev_image_eqI) simp
qed

lemma List_running:
  assumes "reg_wf r" and "st \<in> set (List_exec r)" and "xsRunning st"
  obtains u where "u < length (store r)" "running (store r ! u)" "st = executionStateOf (store r ! u)"
  using assms by (auto simp: set_List_exec reg_wf_def table_wf_def executionStateOf_def)

text \<open>The running slots of a Reattach are the occupied slots of the registry.\<close>

lemma running_of_slots:
  assumes "reg_wf r" and "k < 2 ^ 32"
  shows "running_of (List_exec r) k \<longleftrightarrow> rslots r (of_nat k) \<noteq> None"
proof -
  have w: "(unat sl = k) = (sl = of_nat k)" for sl :: "32 word"
    using assms(2) by (auto simp: unat_of_nat)
  have "running_of (List_exec r) k \<longleftrightarrow> (\<exists>st \<in> set (List_exec r). xsRunning st \<and> xsSlot st = of_nat k)"
    by (simp add: running_of_def list_ex_iff w)
  also have "\<dots> \<longleftrightarrow> activeBySlot (List_exec r) (of_nat k) \<noteq> None"
    using activeBySlot_None [of "List_exec r" "of_nat k"] by auto
  also have "\<dots> \<longleftrightarrow> rslots r (of_nat k) \<noteq> None" by (simp add: activeBySlot_slots [OF assms(1)])
  finally show ?thesis .
qed

section \<open>Installing adopted bindings\<close>

definition adopted_slot :: "time \<Rightarrow> slotBinding \<Rightarrow> slotState" where
  "adopted_slot now b = \<lparr>boundAt = (if time_IsZero (BoundAt b) then now else BoundAt b), busy = True,
     slotJobID = bJobID b, slotRunID = bRunID b, executionID = ExecutionID b, resumeCursor = ResumeCursor b,
     jobCancel = None, reapWarnedAt = time_zero, adopted = True, slotErr = None\<rparr>"

lemma installBinding_slots:
  "slots (installBinding now st b) =
     (if SlotIndex b < 0 \<or> int (length (slots st)) \<le> SlotIndex b \<or> \<not> adoptedSlotBindingBusy b then slots st
      else (slots st)[nat (SlotIndex b) := adopted_slot now b])"
  by (simp add: installBinding_def adopted_slot_def)

lemma installBinding_vm [simp]: "vm (installBinding now st b) = vm st"
  by (simp add: installBinding_def)

lemma length_installs [simp]: "length (slots (foldl (installBinding now) st bs)) = length (slots st)"
  by (induction bs arbitrary: st) simp_all

lemma installs_vm [simp]: "vm (foldl (installBinding now) st bs) = vm st"
  by (induction bs arbitrary: st) simp_all

lemma installs_nth:
  assumes "b \<in> set bs" and "SlotIndex b = int k" and "k < length (slots st)" and "adoptedSlotBindingBusy b"
    and "\<forall>b' \<in> set bs. SlotIndex b' = int k \<longrightarrow> b' = b"
  shows "slots (foldl (installBinding now) st bs) ! k = adopted_slot now b"
  using assms
proof (induction bs rule: rev_induct)
  case Nil
  from Nil(1) show ?case by simp
next
  case (snoc x bs)
  let ?st = "foldl (installBinding now) st bs"
  show ?case
  proof (cases "x = b")
    case True
    have "k < length (slots ?st)" using snoc.prems(3) by simp
    then show ?thesis using True snoc.prems(2,4) by (simp add: installBinding_slots)
  next
    case False
    then have "b \<in> set bs" using snoc.prems(1) by simp
    moreover have "\<forall>b' \<in> set bs. SlotIndex b' = int k \<longrightarrow> b' = b"
      using snoc.prems(5) unfolding set_append by blast
    ultimately have ih: "slots ?st ! k = adopted_slot now b"
      using snoc.IH snoc.prems(2-4) by blast
    have "x \<in> set (bs @ [x])" by simp
    then have "SlotIndex x \<noteq> int k" using False snoc.prems(5) by blast
    then have "nat (SlotIndex x) \<noteq> k" if "0 \<le> SlotIndex x" using that by simp
    then show ?thesis using ih by (simp add: installBinding_slots)
  qed
qed

lemma installAdopted_nth:
  assumes "b \<in> set bs" and "SlotIndex b = int k" and "int k < n" and "adoptedSlotBindingBusy b"
    and "\<forall>b' \<in> set bs. SlotIndex b' = int k \<longrightarrow> b' = b"
  shows "slots (installAdopted now n v bs) ! k = adopted_slot now b
    \<and> length (slots (installAdopted now n v bs)) = nat n \<and> vm (installAdopted now n v bs) = Some v"
proof -
  let ?st = "\<lparr>vm = Some v, bornAt = now, idleSince = now, warming = False, recycle = False,
        slots = makeSlots n, lastErr = None\<rparr>"
  have "k < length (slots ?st)" using assms(3) by (simp add: makeSlots_def)
  then show ?thesis
    using installs_nth [OF assms(1,2) _ assms(4,5), of ?st now] by (simp add: installAdopted_def makeSlots_def)
qed

text \<open>The bindings of a Reattach, for the executions of a well-formed registry: one per occupied slot.\<close>

lemma reattach_binding:
  assumes r: "reg_wf r" and u: "u < length (store r)" "running (store r ! u)" and n: "uint (eslot (store r ! u)) < n"
  obtains b where "b \<in> set (reattachSlots (List_exec r) n)" "SlotIndex b = uint (eslot (store r ! u))"
    "ExecutionID b = eid (store r ! u)" "ResumeCursor b = xsLastSequence (executionStateOf (store r ! u))"
    "adoptedSlotBindingBusy b"
    "\<forall>b' \<in> set (reattachSlots (List_exec r) n). SlotIndex b' = uint (eslot (store r ! u)) \<longrightarrow> b' = b"
proof -
  let ?f = "\<lambda>st. \<lparr>SlotIndex = uint (xsSlot st), bRepo = jmRepo (xsMeta st), bJobID = jmJobID (xsMeta st),
                 bRunID = jmRunID (xsMeta st), ExecutionID = xsID st, ResumeCursor = xsLastSequence st,
                 BoundAt = time_zero, ObservedActive = True\<rparr>"
  let ?st = "executionStateOf (store r ! u)"
  have set: "set (reattachSlots (List_exec r) n) = ?f ` {st \<in> set (List_exec r). xsRunning st \<and> uint (xsSlot st) < n}"
    by (auto simp: reattachSlots_def)
  have st: "?st \<in> set (List_exec r)" "xsRunning ?st" "xsSlot ?st = eslot (store r ! u)" "xsID ?st = eid (store r ! u)"
    using running_in_List [OF r u] u by (simp_all add: executionStateOf_def)
  have uniq: "st = ?st" if a: "st \<in> set (List_exec r)" "xsRunning st" "uint (xsSlot st) = uint (eslot (store r ! u))" for st
  proof -
    obtain v where v: "v < length (store r)" "running (store r ! v)" "st = executionStateOf (store r ! v)"
      using List_running [OF r a(1,2)] .
    have "eslot (store r ! v) = eslot (store r ! u)" using a(3) v(3) by (simp add: executionStateOf_def word_uint_eq_iff)
    then have "v = u" using slots_wf_unique [of r v u] r u v by (simp add: reg_wf_def)
    then show ?thesis using v by simp
  qed
  show ?thesis
  proof (rule that [of "?f ?st"])
    show "?f ?st \<in> set (reattachSlots (List_exec r) n)" unfolding set
      by (rule imageI) (use st n in simp)
    show "\<forall>b' \<in> set (reattachSlots (List_exec r) n). SlotIndex b' = uint (eslot (store r ! u)) \<longrightarrow> b' = ?f ?st"
    proof (intro ballI impI)
    fix b' assume "b' \<in> set (reattachSlots (List_exec r) n)" "SlotIndex b' = uint (eslot (store r ! u))"
    then obtain st where "st \<in> set (List_exec r)" "xsRunning st" "b' = ?f st" "uint (xsSlot st) = uint (eslot (store r ! u))"
      unfolding set by auto
    then show "b' = ?f ?st" using uniq by blast
    qed
  qed (simp_all add: st adoptedSlotBindingBusy_def)
qed

section \<open>Reaping\<close>

lemma set_state_other: "j \<noteq> i \<Longrightarrow> states (set_state p j st) ! i = states p ! i"
  by (simp add: set_state_def)

lemma warn_other_worker:
  assumes "bcIndex c \<noteq> i"
  shows "states (warnAndRequestBusyRecycle p c) ! i = states p ! i"
  using assms
  by (auto simp: warnAndRequestBusyRecycle_def claimSlotReapWarning_def requestBusyRecycle_def Let_def
      set_state_other broadcast_def split: option.splits)

lemma warn_recycling_worker:
  assumes "recycle (states p ! bcIndex c)"
  shows "warnAndRequestBusyRecycle p c = p"
  using assms by (simp add: warnAndRequestBusyRecycle_def claimSlotReapWarning_def Let_def)

lemma reapLoop_recycling:
  "recycle (states p ! i) \<Longrightarrow> states (fst (reapLoop opts prober probes p cs)) ! i = states p ! i"
proof (induction cs arbitrary: p probes)
  case Nil
  then show ?case by simp
next
  case (Cons c cs)
  let ?p = "if fst (reapDecision opts prober probes c) = KeepSlot then p else warnAndRequestBusyRecycle p c"
  have same: "states ?p ! i = states p ! i"
    using Cons.prems warn_other_worker [of c i p] warn_recycling_worker [of p c] by (cases "bcIndex c = i") auto
  then have "recycle (states ?p ! i)" using Cons.prems by simp
  then show ?case using Cons.IH [of ?p] same by (simp add: Let_def split_beta)
qed

end
