(* ===== verification/System_Demo.thy ===== *)
theory System_Demo
  imports System_Props Pool_Demo
begin

text \<open>
  The properties of \<open>System_Props\<close> at concrete states: a guest that runs one execution on slot 0 of two, a
  broker that adopts its VM, a reaper that probes it, and a job that is cancelled.
\<close>

declare One_nat_def [simp del]

abbreviation demo_guest :: registry where
  "demo_guest \<equiv> dx_reg (dx_running False None False 2) True"

definition demo_adopted :: workerState where
  "demo_adopted = installAdopted 5 2 demo_vm (reattachSlots (Reattach demo_guest) 2)"

theorem adopted_slots_resume_what_runs_witness:
  "(\<exists>jobCtx p'. claimResumeSlot (demo_pool [] demo_adopted False ctxs3 1) 2 0 0 demo_vm
        = (Some (''o/r#8#7'', 1, jobCtx, 2), p'))
   \<and> claimResumeSlot (demo_pool [] demo_adopted False ctxs3 1) 2 0 1 demo_vm = (None, demo_pool [] demo_adopted False ctxs3 1)"
proof -
  let ?p = "demo_pool [] demo_adopted False ctxs3 1"
  have p: "states ?p = [demo_adopted]" "\<not> ctx_done (contexts ?p) 2" "\<not> shuttingDown ?p"
    by (simp_all add: demo_pool_def ctx_done_live)
  have s: "rslots demo_guest 0 = Some ''o/r#8#7''" "rslots demo_guest 1 = None" by (simp_all add: dx_reg_def)
  have e: "xsLastSequence (executionStateOf (dx_running False None False 2)) = 1"
    by (simp add: executionStateOf_def dx_running_def)
  have "\<exists>jobCtx p'. claimResumeSlot ?p 2 0 (unat (0 :: 32 word)) demo_vm = (Some (''o/r#8#7'', 1, jobCtx, nat 2), p')"
    using adopted_slots_resume_what_runs [OF dx_registered, of 0 2 0 ?p 5 demo_vm 2] p s e
    by (auto simp: demo_adopted_def)
  moreover have "claimResumeSlot ?p 2 0 (unat (1 :: 32 word)) demo_vm = (None, ?p)"
    using adopted_slots_resume_what_runs [OF dx_registered, of 1 2 0 ?p 5 demo_vm 2] p s
    by (simp add: demo_adopted_def)
  ultimately show ?thesis by simp
qed

definition demo_candidate :: "nat \<Rightarrow> busyCandidate" where
  "demo_candidate k = \<lparr>bcIndex = 0, bcSlotIndex = k, bcSlotCount = 2, bcVM = demo_vm, bcBoundAt = 5, bcJobID = 7, bcRunID = 8, bcNow = 25\<rparr>"


text \<open>A job with context 3 below the context 2 of its slot, below the pool's context 1.\<close>

theorem cancellation_meaning_reaches_the_job_witness:
  "classifyCancel (contexts (CancelRun (demo_pool [] (demo_worker (Some demo_vm) 0 False False demo_slot) False ctxs4 2) 7)) 3
     = cancelTeardown
   \<and> classifyCancel (contexts (Shutdown (demo_pool [] (demo_worker (Some demo_vm) 0 False False demo_slot) False ctxs4 2))) 3
     = cancelDetach"
proof -
  let ?p = "demo_pool [] (demo_worker (Some demo_vm) 0 False False demo_slot) False ctxs4 2"
  have live: "ctx_cause (contexts ?p) 3 = None" by (simp add: demo_pool_def ctx_cause.simps)
  have d: "descends (contexts ?p) 3 3" "descends (contexts ?p) 3 1" by (simp_all add: demo_pool_def descends.simps)
  have f: "findBound 7 0 (states ?p) = Some (0, 0)" "jobCancel (slots (states ?p ! 0) ! 0) = Some 3"
    "\<not> shutdownOnce ?p" "poolCtx ?p = Some 1"
    by (simp_all add: demo_pool_def demo_worker_def demo_slot_def boundSlot_def)
  have far: "ctx_cancel cs 9 None = cs" if "length cs = 4" for cs using that by (simp add: ctx_cancel_def)
  have l: "length (contexts (CancelRun ?p 7)) = 4" "length (contexts (Shutdown ?p)) = 4"
    using f by (simp_all add: CancelRun_cancels Shutdown_cancels) (simp_all add: demo_pool_def)
  show ?thesis
    using cancellation_meaning_reaches_the_job [OF live, of _ _ _ 9 None 7 0 0] f d far [OF l(1)] far [OF l(2)] by auto
qed

text \<open>Two jobs were bound past \<open>MaxBind\<close>; the first was reaped, which requested the recycle; the second stays.\<close>

definition demo_stuck :: workerState where
  "demo_stuck = \<lparr>vm = Some demo_vm, bornAt = 5, idleSince = 0, warming = False, recycle = True,
     slots = [emptySlotState, demo_slot], lastErr = None\<rparr>"

theorem recycling_worker_is_never_reaped_witness:
  "length (busyCandidates (demo_pool [] demo_stuck False ctxs4 2) 1000) = 1
   \<and> fst (reapDecision demo_opts None [] (hd (busyCandidates (demo_pool [] demo_stuck False ctxs4 2) 1000))) = ReapPastMaxBind
   \<and> states (reapBusyWorkers (demo_pool [] demo_stuck False ctxs4 2) None 1000) ! 0 = demo_stuck"
proof -
  let ?p = "demo_pool [] demo_stuck False ctxs4 2"
  have "recycle (states ?p ! 0)" by (simp add: demo_pool_def demo_stuck_def)
  from recycling_worker_is_never_reaped [OF this, of None 1000]
  have "states (reapBusyWorkers ?p None 1000) ! 0 = demo_stuck" by (simp add: demo_pool_def)
  moreover have "length (busyCandidates ?p 1000) = 1" by code_simp
  moreover have "fst (reapDecision demo_opts None [] (hd (busyCandidates ?p 1000))) = ReapPastMaxBind" by code_simp
  ultimately show ?thesis by simp
qed

end
