(* ===== verification/Go_Rel.thy ===== *)
theory Go_Rel
  imports Go_Path "HOL-Library.Sublist"
begin

text \<open>
  \<open>filepath.Abs\<close> and \<open>filepath.Rel\<close>, and what the code decides with them: that the relative path from a directory to a
  target does not start by going up says that the elements of the one are a prefix of the elements of the other.
\<close>

text \<open>\<open>filepath.Abs\<close>, and \<open>filepath.Rel\<close> between two absolute cleaned paths.\<close>

definition filepath_Abs :: "string option \<Rightarrow> string \<Rightarrow> string option" where
  "filepath_Abs cwd p =
     (if filepath_IsAbs p then Some (filepath_Clean p)
      else map_option (\<lambda>d. filepath_Join [d, p]) cwd)"

definition path_elems :: "string \<Rightarrow> string list" where
  "path_elems p = filter (\<lambda>e. e \<noteq> []) (SplitOn slash p)"

fun rel_elems :: "string list \<Rightarrow> string list \<Rightarrow> string list" where
  "rel_elems (b # bs) (t # ts) =
     (if b = t then rel_elems bs ts else map (\<lambda>_. ''..'') (b # bs) @ t # ts)"
| "rel_elems bs ts = map (\<lambda>_. ''..'') bs @ ts"

definition filepath_Rel :: "string \<Rightarrow> string \<Rightarrow> string" where
  "filepath_Rel base targ =
     (let es = rel_elems (path_elems base) (path_elems targ) in if es = [] then ''.'' else JoinStr es ''/'')"

text \<open>\<open>filepath.Rel\<close> in general: there is none from a base that goes up where the two part, or between an absolute and a relative path.\<close>

definition filepath_RelTo :: "string \<Rightarrow> string \<Rightarrow> string option" where
  "filepath_RelTo base targ =
     (let b = filepath_Clean base; t = filepath_Clean targ; b' = (if b = ''.'' then [] else b);
          left = drop (length (longest_common_prefix (path_elems b') (path_elems t))) (path_elems b')
      in if b = t then Some ''.''
         else if filepath_IsAbs b' \<noteq> filepath_IsAbs t then None
         else if left \<noteq> [] \<and> hd left = ''..'' then None
         else Some (filepath_Rel b' t))"

section \<open>Elements of clean paths\<close>

lemma clean_elems_plain:
  "\<lbrakk>list_all plain_elem acc; list_all (\<lambda>e. slash \<notin> set e) es\<rbrakk> \<Longrightarrow> list_all plain_elem (clean_elems True acc es)"
proof (induction True acc es rule: clean_elems.induct)
  case (1 acc)
  then show ?case by (simp add: list_all_iff)
next
  case (2 acc e es)
  then show ?case by (cases acc) (auto simp: plain_elem_def)
qed

lemma SplitOn_JoinStr:
  "es \<noteq> [] \<Longrightarrow> list_all plain_elem es \<Longrightarrow> SplitOn slash (JoinStr es [slash]) = es"
proof (induction es rule: rev_induct)
  case Nil
  then show ?case by simp
next
  case (snoc e es)
  then show ?case
    by (cases "es = []") (simp_all add: SplitOn_plain plain_elem_def JoinStr_snoc SplitOn_append)
qed

lemma path_elems_Clean:
  assumes "filepath_IsAbs p"
  shows "path_elems (filepath_Clean p) = clean_elems True [] (SplitOn slash p)"
    and "list_all plain_elem (path_elems (filepath_Clean p))"
proof -
  let ?es = "clean_elems True [] (SplitOn slash p)"
  have s: "list_all plain_elem ?es"
    by (rule clean_elems_plain) (auto simp: list_all_iff dest: SplitOn_no_sep)
  have "p \<noteq> []" using assms by (auto simp: filepath_IsAbs_def HasPrefix_def)
  then have "filepath_Clean p = slash # JoinStr ?es [slash]"
    using assms by (simp add: filepath_Clean_def slash_def)
  then have "path_elems (filepath_Clean p) = filter (\<lambda>e. e \<noteq> []) (SplitOn slash (JoinStr ?es [slash]))"
    by (simp add: path_elems_def)
  also have "\<dots> = ?es"
    using s by (cases "?es = []") (auto simp: SplitOn_JoinStr list_all_iff plain_elem_def intro!: filter_True)
  finally show "path_elems (filepath_Clean p) = ?es" .
  then show "list_all plain_elem (path_elems (filepath_Clean p))" using s by simp
qed

lemma rel_elems_within: "prefix bs ts \<Longrightarrow> rel_elems bs ts = drop (length bs) ts"
  by (induction bs ts rule: rel_elems.induct) auto

lemma rel_elems_outside: "\<not> prefix bs ts \<Longrightarrow> \<exists>xs. rel_elems bs ts = ''..'' # xs"
  by (induction bs ts rule: rel_elems.induct) (auto simp: neq_Nil_conv)

lemma dotdot_prefix: "HasPrefix (e @ slash # y) ''../'' \<Longrightarrow> slash \<notin> set e \<Longrightarrow> e = ''..''"
  by (cases e; cases "tl e"; cases "tl (tl e)") (auto simp: HasPrefix_def slash_def split: if_splits)

lemma JoinStr_plain:
  assumes "plain_elem e"
  shows "JoinStr (e # es) [slash] \<noteq> ''..'' \<and> \<not> HasPrefix (JoinStr (e # es) [slash]) ''../''"
proof (cases es)
  case Nil
  then show ?thesis using assms by (auto simp: plain_elem_def HasPrefix_iff slash_def)
next
  case (Cons f fs)
  have "slash \<notin> set ''..''" by (simp add: slash_def)
  then have "e @ slash # JoinStr es [slash] \<noteq> ''..''" by (metis in_set_conv_decomp)
  then show ?thesis using assms Cons dotdot_prefix [of e "JoinStr es [slash]"] by (auto simp: plain_elem_def)
qed

text \<open>What \<open>isWithin\<close> and \<open>withinDest\<close> test.\<close>

lemma Rel_inside:
  assumes "filepath_IsAbs path" and "filepath_IsAbs root"
  shows "filepath_Rel (filepath_Clean root) (filepath_Clean path) \<noteq> ''..''
      \<and> \<not> HasPrefix (filepath_Rel (filepath_Clean root) (filepath_Clean path)) ''../''
    \<longleftrightarrow> prefix (path_elems (filepath_Clean root)) (path_elems (filepath_Clean path))"
proof -
  let ?bs = "path_elems (filepath_Clean root)" and ?ts = "path_elems (filepath_Clean path)"
  let ?rel = "filepath_Rel (filepath_Clean root) (filepath_Clean path)"
  have sl: "''/'' = [slash]" by (simp add: slash_def)
  show ?thesis
  proof (cases "prefix ?bs ?ts")
    case True
    then have e: "rel_elems ?bs ?ts = drop (length ?bs) ?ts" by (rule rel_elems_within)
    show ?thesis
    proof (cases "drop (length ?bs) ?ts")
      case Nil
      then show ?thesis using True by (simp add: filepath_Rel_def Let_def e HasPrefix_def)
    next
      case (Cons x xs)
      then have "x \<in> set ?ts" by (metis in_set_dropD list.set_intros(1))
      then have "plain_elem x" using path_elems_Clean(2) [OF assms(1)] by (simp add: list_all_iff)
      moreover have "?rel = JoinStr (x # xs) [slash]" by (simp add: filepath_Rel_def Let_def e Cons sl del: JoinStr.simps)
      ultimately show ?thesis using True JoinStr_plain [of x xs] by simp
    qed
  next
    case False
    then obtain xs where "rel_elems ?bs ?ts = ''..'' # xs" using rel_elems_outside by blast
    then have "?rel = ''..'' \<or> HasPrefix ?rel ''../''"
      by (cases xs) (simp_all add: filepath_Rel_def HasPrefix_def)
    then show ?thesis using False by auto
  qed
qed

lemma RelTo_absolute:
  assumes "filepath_IsAbs targ" and "filepath_IsAbs base"
  shows "filepath_RelTo base targ = Some (filepath_Rel (filepath_Clean base) (filepath_Clean targ))"
proof -
  let ?b = "filepath_Clean base" and ?t = "filepath_Clean targ"
  have ab: "filepath_IsAbs ?b" "filepath_IsAbs ?t"
    using assms by (auto simp: filepath_Clean_def filepath_IsAbs_def HasPrefix_def Let_def)
  then have dot: "?b \<noteq> ''.''" by (auto simp: filepath_IsAbs_def HasPrefix_def)
  have plain: "list_all plain_elem (path_elems ?b)" using path_elems_Clean(2) [OF assms(2)] .
  have "hd left \<noteq> ''..''" if "left = drop n (path_elems ?b)" "left \<noteq> []" for left n
  proof -
    have "hd left \<in> set (path_elems ?b)" using that by (metis hd_in_set in_set_dropD)
    then show ?thesis using plain by (auto simp: list_all_iff plain_elem_def)
  qed
  moreover have "filepath_Rel ?b ?b = ''.''" by (simp add: filepath_Rel_def Let_def rel_elems_within)
  ultimately show ?thesis using ab dot by (auto simp: filepath_RelTo_def Let_def)
qed

end
