(* ===== verification/Host_Config.thy ===== *)
theory Host_Config
  imports Go_Rel Pool_Types
begin

text \<open>
  \<open>internal/config\<close>: the configuration file as records, its defaults, its validation, and the mapping of image
  requests to approved tags. The TOML decoder, the file system and the environment are arguments: a file read is
  \<open>err + string\<close>, \<open>home\<close> and \<open>cwd\<close> are absent where the call that finds them fails.
\<close>

section \<open>Records\<close>

record imageMapping =
  imMacOS :: string
  imXcode :: string
  imTag :: string

record appConfig =
  AppID :: string
  PrivateKeyPath :: string
  WebhookSecretPath :: string
  CapacityTokenPath :: string
  WebhookCIDRsPath :: string

record tartConfig =
  tcBinary :: string
  tcGoldenImage :: string
  tcBaseImage :: string
  tcWarmBudget :: int
  tcGoldenBudget :: int
  tcImages :: "imageMapping list"
  tcVMNamePrefix :: string
  tcCacheDir :: string
  tcFastPull :: "bool option"
  tcFastPullDir :: string
  tcFastPullParallel :: int

record maintenanceConfig =
  mcCommand :: string
  mcIntervalSeconds :: int

record metricsConfig =
  meEnabled :: "bool option"
  meInterval :: duration
  meDiskPath :: string

record config =
  ListenAddr :: string
  cfRunnerCount :: int
  cfJobsPerVM :: int
  cfMaxIdle :: duration
  cfMaxAge :: duration
  cfMaxBind :: duration
  cfPickupTimeout :: duration
  cfStallTimeout :: duration
  cfStallReap :: bool
  HostedMacOSConcurrencyLimit :: int
  cfApp :: appConfig
  cfTart :: tartConfig
  cfMaintenance :: maintenanceConfig
  cfMetrics :: metricsConfig
  cfLabels :: "string list"

section \<open>Defaults\<close>

definition DefaultBaseImage :: string where "DefaultBaseImage = ''ghcr.io/cirruslabs/macos-tahoe-xcode:26.5''"
definition cirrusImagePrefix :: string where "cirrusImagePrefix = ''ghcr.io/cirruslabs/''"

definition or_default :: "string \<Rightarrow> string \<Rightarrow> string" where
  "or_default d s = (if s = [] then d else s)"

definition or_number :: "int \<Rightarrow> int \<Rightarrow> int" where
  "or_number d n = (if n = 0 then d else n)"

definition or_positive :: "int \<Rightarrow> int \<Rightarrow> int" where
  "or_positive d n = (if n \<le> 0 then d else n)"

text \<open>\<open>applyDefaults\<close> on the \<open>tart\<close> table; the default mapping uses the base image after its own default.\<close>

definition tartDefaults :: "string option \<Rightarrow> string \<Rightarrow> tartConfig \<Rightarrow> tartConfig" where
  "tartDefaults home tmp t =
     (let base = or_default DefaultBaseImage (tcBaseImage t)
      in t\<lparr>tcBinary := or_default ''tart'' (tcBinary t),
           tcVMNamePrefix := or_default ''gha-runner'' (tcVMNamePrefix t),
           tcBaseImage := base,
           tcWarmBudget := or_number 2 (tcWarmBudget t),
           tcGoldenBudget := or_number 3 (tcGoldenBudget t),
           tcImages := (if tcImages t = [] then [\<lparr>imMacOS = ''tahoe'', imXcode = ''26.5'', imTag = base\<rparr>] else tcImages t),
           tcFastPull := (case tcFastPull t of None \<Rightarrow> Some True | Some b \<Rightarrow> Some b),
           tcCacheDir := or_default (case home of Some h \<Rightarrow> filepath_Join [h, ''pool-cache'']
                                     | None \<Rightarrow> filepath_Join [tmp, ''gha-mac-broker-pool-cache'']) (tcCacheDir t),
           tcFastPullDir := or_default (filepath_Join [tmp, ''gha-mac-broker-fastpull-blobs'']) (tcFastPullDir t),
           tcFastPullParallel := or_positive 16 (tcFastPullParallel t)\<rparr>)"

definition applyDefaults :: "string option \<Rightarrow> string \<Rightarrow> config \<Rightarrow> config" where
  "applyDefaults home tmp c =
     c\<lparr>ListenAddr := or_default ''[::1]:8080'' (ListenAddr c),
       cfRunnerCount := or_number 3 (cfRunnerCount c),
       cfJobsPerVM := or_number 1 (cfJobsPerVM c),
       HostedMacOSConcurrencyLimit := or_number 5 (HostedMacOSConcurrencyLimit c),
       cfTart := tartDefaults home tmp (cfTart c),
       cfMaintenance := (cfMaintenance c)\<lparr>mcIntervalSeconds := or_positive 3600 (mcIntervalSeconds (cfMaintenance c))\<rparr>,
       cfMetrics := (cfMetrics c)\<lparr>meInterval := or_number (60 * second) (meInterval (cfMetrics c)),
          meDiskPath := or_default ''/'' (meDiskPath (cfMetrics c)),
          meEnabled := (case meEnabled (cfMetrics c) of None \<Rightarrow> Some True | Some b \<Rightarrow> Some b)\<rparr>,
       cfLabels := (if cfLabels c = [] then [''self-hosted'', ''macOS'', ''ARM64'', ''agk-local-macos-26''] else cfLabels c)\<rparr>"

definition zeroConfig :: config where
  "zeroConfig =
     \<lparr>ListenAddr = [], cfRunnerCount = 0, cfJobsPerVM = 0, cfMaxIdle = 0, cfMaxAge = 0, cfMaxBind = 0,
      cfPickupTimeout = 0, cfStallTimeout = 0, cfStallReap = False, HostedMacOSConcurrencyLimit = 0,
      cfApp = \<lparr>AppID = [], PrivateKeyPath = [], WebhookSecretPath = [], CapacityTokenPath = [], WebhookCIDRsPath = []\<rparr>,
      cfTart = \<lparr>tcBinary = [], tcGoldenImage = [], tcBaseImage = [], tcWarmBudget = 0, tcGoldenBudget = 0, tcImages = [],
         tcVMNamePrefix = [], tcCacheDir = [], tcFastPull = None, tcFastPullDir = [], tcFastPullParallel = 0\<rparr>,
      cfMaintenance = \<lparr>mcCommand = [], mcIntervalSeconds = 0\<rparr>,
      cfMetrics = \<lparr>meEnabled = None, meInterval = 0, meDiskPath = []\<rparr>, cfLabels = []\<rparr>"

definition Default :: "string option \<Rightarrow> string \<Rightarrow> config" where
  "Default home tmp = applyDefaults home tmp zeroConfig"

definition DefaultConfigPath :: "string \<Rightarrow> string option \<Rightarrow> string" where
  "DefaultConfigPath xdg home =
     (if xdg \<noteq> [] then filepath_Join [xdg, ''gha-mac-broker'', ''config.toml'']
      else filepath_Join [case home of Some h \<Rightarrow> h | None \<Rightarrow> ''.'', ''.config'', ''gha-mac-broker'', ''config.toml''])"

section \<open>Image tags\<close>

definition image_blanks :: string where "image_blanks = ''/ '' @ tab @ cr @ nl"

definition safeCirrusImageTag :: "string \<Rightarrow> bool" where
  "safeCirrusImageTag tag0 =
     (let tag = TrimSpace tag0;
          (repository, version, ok) = Cut tag CHR 0x3A
      in if \<not> ok then False
         else if version = [] \<or> ContainsAny version image_blanks then False
         else if \<not> HasPrefix repository (cirrusImagePrefix @ ''macos-'') then False
         else if \<not> HasSuffix repository ''-xcode'' then False
         else
           let macosPart = TrimSuffix (TrimPrefix repository (cirrusImagePrefix @ ''macos-'')) ''-xcode''
           in if macosPart = [] then False else \<not> ContainsAny macosPart image_blanks)"

definition normalizeImageKey :: "string \<Rightarrow> string" where
  "normalizeImageKey v = ToLower (TrimSpace v)"

fun findImage :: "string \<Rightarrow> string \<Rightarrow> imageMapping list \<Rightarrow> string option" where
  "findImage macos xcode [] = None"
| "findImage macos xcode (im # ims) =
     (if normalizeImageKey (imMacOS im) \<noteq> macos then findImage macos xcode ims
      else if normalizeImageKey (imXcode im) \<noteq> xcode then findImage macos xcode ims
      else if \<not> safeCirrusImageTag (imTag im) then None
      else Some (imTag im))"

text \<open>\<open>ResolveImage\<close>: \<open>None\<close> is \<open>ok=false\<close>.\<close>

definition ResolveImage :: "config \<Rightarrow> string \<Rightarrow> string \<Rightarrow> string option" where
  "ResolveImage c macos0 xcode0 =
     (let macos = normalizeImageKey macos0; xcode = normalizeImageKey xcode0
      in if macos = [] \<and> xcode = [] then
           (if safeCirrusImageTag (tcBaseImage (cfTart c)) then Some (tcBaseImage (cfTart c)) else None)
         else if macos = [] \<or> xcode = [] then None
         else findImage macos xcode (tcImages (cfTart c)))"

section \<open>Validation\<close>

definition isWithin :: "string option \<Rightarrow> string \<Rightarrow> string \<Rightarrow> bool" where
  "isWithin cwd path root =
     (case (filepath_Abs cwd path, filepath_Abs cwd root) of
        (Some absPath, Some absRoot) \<Rightarrow>
          (let rel = filepath_Rel absRoot absPath in rel = ''.'' \<or> \<not> HasPrefix rel ''../'' \<and> rel \<noteq> ''..'')
      | _ \<Rightarrow> False)"

text \<open>The checks of \<open>validate\<close> in their order; the first that fails is the error.\<close>

fun first_error :: "(bool \<times> string) list \<Rightarrow> err option" where
  "first_error [] = None"
| "first_error ((bad, msg) # rest) = (if bad then Some (Msg (''config: '' @ msg)) else first_error rest)"

definition missing_fields :: "config \<Rightarrow> string list" where
  "missing_fields c = (if AppID (cfApp c) = [] then [''app.app_id''] else [])
     @ (if PrivateKeyPath (cfApp c) = [] then [''app.private_key_path''] else [])"

definition image_checks :: "imageMapping \<Rightarrow> (bool \<times> string) list" where
  "image_checks im =
     [(imMacOS im = [] \<or> imXcode im = [] \<or> imTag im = [], ''tart.images entries require macos, xcode, and tag''),
      (\<not> safeCirrusImageTag (imTag im), ''tart.images tag '' @ Quote (imTag im) @ '' must be a ghcr.io/cirruslabs/macos-*-xcode:* tag'')]"

definition validate_config :: "string option \<Rightarrow> config \<Rightarrow> err option" where
  "validate_config cwd c =
     first_error
       ([(missing_fields c \<noteq> [], ''missing required fields: '' @ JoinStr (missing_fields c) '', ''),
         (cfRunnerCount c < 1, ''runner_count must be at least 1''),
         (cfJobsPerVM c < 1, ''jobs_per_vm must be at least 1''),
         (cfMaxIdle c < 0, ''max_idle must not be negative''),
         (cfMaxAge c < 0, ''max_age must not be negative''),
         (cfMaxBind c < 0, ''max_bind must not be negative''),
         (cfPickupTimeout c < 0, ''pickup_timeout must not be negative''),
         (cfStallTimeout c < 0, ''stall_timeout must not be negative''),
         (meInterval (cfMetrics c) < 0, ''metrics.interval must not be negative''),
         (\<not> safeCirrusImageTag (tcBaseImage (cfTart c)), ''tart.base_image must be a ghcr.io/cirruslabs/macos-*-xcode:* tag'')]
        @ concat (map image_checks (tcImages (cfTart c)))
        @ [(tcCacheDir (cfTart c) \<noteq> [] \<and> tcFastPullDir (cfTart c) \<noteq> []
              \<and> isWithin cwd (tcFastPullDir (cfTart c)) (tcCacheDir (cfTart c)),
            ''tart.fast_pull_dir '' @ Quote (tcFastPullDir (cfTart c)) @ '' must not be inside tart.cache_dir ''
              @ Quote (tcCacheDir (cfTart c)) @ '' (cache_dir is mounted into every VM)'')])"

section \<open>Loading\<close>

text \<open>\<open>Load\<close>: \<open>decode\<close> is the TOML decoder on the zero configuration.\<close>

definition Load_config ::
  "(string \<Rightarrow> err + config) \<Rightarrow> string option \<Rightarrow> string \<Rightarrow> string option \<Rightarrow> string \<Rightarrow> err + string \<Rightarrow> err + config" where
  "Load_config decode home tmp cwd path file =
     (case file of
        Inl e \<Rightarrow> Inl (Wrapf (''config: read '' @ path @ '': '') e [])
      | Inr raw \<Rightarrow>
          (case decode raw of
             Inl e \<Rightarrow> Inl (Wrapf (''config: parse '' @ path @ '': '') e [])
           | Inr c0 \<Rightarrow>
               (let c = applyDefaults home tmp c0
                in case validate_config cwd c of Some e \<Rightarrow> Inl e | None \<Rightarrow> Inr c)))"

definition ReadPrivateKey :: "config \<Rightarrow> (string \<Rightarrow> err + string) \<Rightarrow> err + string" where
  "ReadPrivateKey c readFile =
     (let path = PrivateKeyPath (cfApp c)
      in case readFile path of
           Inl e \<Rightarrow> Inl (Wrapf (''config: read private key '' @ path @ '': '') e [])
         | Inr key \<Rightarrow> Inr key)"

definition ReadCapacityToken :: "config \<Rightarrow> (string \<Rightarrow> err + string) \<Rightarrow> err + string" where
  "ReadCapacityToken c readFile =
     (let path = CapacityTokenPath (cfApp c)
      in if path = [] then Inr []
         else (case readFile path of
                 Inl e \<Rightarrow> Inl (Wrapf (''config: read capacity token '' @ path @ '': '') e [])
               | Inr token \<Rightarrow> Inr (TrimRight token (cr @ nl))))"

definition ReadWebhookSecret :: "config \<Rightarrow> (string \<Rightarrow> err + string) \<Rightarrow> err + string" where
  "ReadWebhookSecret c readFile =
     (let path = WebhookSecretPath (cfApp c)
      in if path = [] then Inl (Msg ''config: webhook_secret_path is required'')
         else (case readFile path of
                 Inl e \<Rightarrow> Inl (Wrapf (''config: read webhook secret '' @ path @ '': '') e [])
               | Inr secret \<Rightarrow> Inr (TrimRight secret (cr @ nl))))"

text \<open>\<open>ParseCIDR\<close> is the library's parser.\<close>

fun parse_cidrs :: "(string \<Rightarrow> err + 'net) \<Rightarrow> string list \<Rightarrow> err + 'net list" where
  "parse_cidrs ParseCIDR [] = Inr []"
| "parse_cidrs ParseCIDR (line # ls) =
     (if TrimSpace line = [] then parse_cidrs ParseCIDR ls
      else (case ParseCIDR (TrimSpace line) of
              Inl e \<Rightarrow> Inl (Wrapf (''config: parse CIDR '' @ Quote (TrimSpace line) @ '': '') e [])
            | Inr n \<Rightarrow> (case parse_cidrs ParseCIDR ls of Inl e \<Rightarrow> Inl e | Inr ns \<Rightarrow> Inr (n # ns))))"

definition ReadWebhookCIDRs :: "(string \<Rightarrow> err + 'net) \<Rightarrow> config \<Rightarrow> (string \<Rightarrow> err + string) \<Rightarrow> err + 'net list" where
  "ReadWebhookCIDRs ParseCIDR c readFile =
     (let path = WebhookCIDRsPath (cfApp c)
      in if path = [] then Inr []
         else (case readFile path of
                 Inl e \<Rightarrow> Inl (Wrapf (''config: read webhook CIDRs '' @ path @ '': '') e [])
               | Inr raw \<Rightarrow> parse_cidrs ParseCIDR (SplitOn (hd nl) raw)))"

text \<open>\<open>runnerPoolOptionsFromConfig\<close> of \<open>main.go\<close>.\<close>

definition runnerPoolOptionsFromConfig :: "config \<Rightarrow> string \<Rightarrow> clock option \<Rightarrow> options" where
  "runnerPoolOptionsFromConfig c runToken now =
     \<lparr>RunnerCount = cfRunnerCount c, JobsPerVM = cfJobsPerVM c, Image = tcBaseImage (cfTart c),
      MaxIdle = cfMaxIdle c, MaxAge = cfMaxAge c, MaxBind = cfMaxBind c, PickupTimeout = cfPickupTimeout c,
      RunToken = runToken, WarmRetryDelay = 0, Now = now\<rparr>"

end
