(* ===== verification/Hosted_Load.thy ===== *)
theory Hosted_Load
  imports Go_Strings
begin

text \<open>
  \<open>internal/hostedload\<close>: the set of GitHub-hosted macOS jobs in progress. The tracker's mutex makes each
  operation atomic; a job is known by its id.
\<close>

type_synonym tracker = "int set"

definition NewTracker :: tracker where "NewTracker = {}"

definition MarkInProgress :: "tracker \<Rightarrow> int \<Rightarrow> tracker" where "MarkInProgress t jobID = insert jobID t"

definition MarkCompleted :: "tracker \<Rightarrow> int \<Rightarrow> tracker" where "MarkCompleted t jobID = t - {jobID}"

definition tracker_Reconcile :: "tracker \<Rightarrow> int set \<Rightarrow> tracker" where "tracker_Reconcile t jobIDs = jobIDs"

definition tracker_Count :: "tracker \<Rightarrow> nat" where "tracker_Count t = card t"

definition hostedMacOSLabelPrefix :: string where "hostedMacOSLabelPrefix = ''macos-''"

definition IsHostedMacOSJob :: "string list \<Rightarrow> string list \<Rightarrow> bool" where
  "IsHostedMacOSJob jobLabels poolLabels =
     (if \<not> list_ex (\<lambda>label. HasPrefix (ToLower label) hostedMacOSLabelPrefix) jobLabels then False
      else \<not> list_ex (\<lambda>label. list_ex (\<lambda>poolLabel. EqualFold label poolLabel) poolLabels) jobLabels)"

text \<open>The sweep of \<open>main.go\<close> (\<open>reconcileHostedLoadOnce\<close>): a listing that failed keeps the live set.\<close>

definition reconcileHostedLoadOnce :: "tracker \<Rightarrow> err + int set \<Rightarrow> tracker" where
  "reconcileHostedLoadOnce t r = (case r of Inl e \<Rightarrow> t | Inr jobs \<Rightarrow> tracker_Reconcile t jobs)"

lemmas tracker_ops = NewTracker_def MarkInProgress_def MarkCompleted_def tracker_Reconcile_def tracker_Count_def

text \<open>What webhook deliveries do to the tracker, one event after another.\<close>

datatype hosted_event = InProgress int | Completed int

definition tracked :: "tracker \<Rightarrow> hosted_event \<Rightarrow> tracker" where
  "tracked t ev = (case ev of InProgress i \<Rightarrow> MarkInProgress t i | Completed i \<Rightarrow> MarkCompleted t i)"

definition event_job :: "hosted_event \<Rightarrow> int" where
  "event_job ev = (case ev of InProgress i \<Rightarrow> i | Completed i \<Rightarrow> i)"

lemma tracked_finite: "finite t \<Longrightarrow> finite (foldl tracked t evs)"
  by (induction evs arbitrary: t) (auto simp: tracked_def tracker_ops split: hosted_event.splits)

lemma tracked_member:
  "i \<in> foldl tracked t evs \<longleftrightarrow>
     (case filter (\<lambda>ev. event_job ev = i) evs of [] \<Rightarrow> i \<in> t | _ # _ \<Rightarrow> last (filter (\<lambda>ev. event_job ev = i) evs) = InProgress i)"
proof (induction evs rule: rev_induct)
  case Nil
  then show ?case by simp
next
  case (snoc ev evs)
  then show ?case
    by (cases ev) (auto simp: tracked_def tracker_ops event_job_def split: list.splits)
qed

text \<open>
  The hosted load survives redelivery: after any sequence of deliveries the count is the number of jobs
  whose last delivery was an in-progress one (or, with no delivery of their own, were tracked before), however often
  each delivery was repeated.
\<close>

theorem hosted_count_is_live_jobs:
  "tracker_Count (foldl tracked t evs) =
     card {i. case filter (\<lambda>ev. event_job ev = i) evs of
                [] \<Rightarrow> i \<in> t
              | _ # _ \<Rightarrow> last (filter (\<lambda>ev. event_job ev = i) evs) = InProgress i}"
  unfolding tracked_member [symmetric] by (simp add: tracker_Count_def)

end
