(* ===== verification/Server.thy ===== *)
theory Server
  imports Host_Config Hosted_Load Pool_Status
begin

text \<open>
  \<open>internal/server\<close>: the webhook, capacity, status and health handlers over the pool and the hosted-job tracker. The
  keyed hash, the JSON decoder and the address parsers of the library are arguments; a request's body is what reading it
  gives, and the sample of host statistics is its JSON text. A cancellation the handler starts in the background is recorded by what it was started with.
\<close>

section \<open>Requests, responses, state\<close>

record ('ip, 'net) server_env =
  hmacSHA256 :: "string \<Rightarrow> string \<Rightarrow> string"
  srvParseIP :: "string \<Rightarrow> 'ip option"
  cidrContains :: "'net \<Rightarrow> 'ip \<Rightarrow> bool"

record webhookPayload =
  Action :: string
  FullName :: string
  jobFieldID :: int
  jobFieldLabels :: "string list"
  jobFieldRunID :: int
  Conclusion :: string
  HeadSHA :: string

record http_request =
  Method :: string
  Header :: "string \<Rightarrow> string"
  RemoteAddr :: string
  Body :: "err + string"
  Query :: "string \<Rightarrow> string"
  reqCtxErr :: "err option"

datatype http_body =
    NoBody
  | Text string
  | CapacityJSON bool bool
  | StatusJSON snapshot "workerView list" "string option"

type_synonym http_response = "int \<times> http_body"

record 'net server =
  webhookKey :: string
  capacityToken :: string
  webhookCIDRs :: "'net list"
  srvCfg :: config
  srvPool :: pool
  hostedTracker :: tracker
  hasRunCanceller :: bool
  runCancels :: "(string \<times> string) list"

definition maxBodyBytes :: nat where "maxBodyBytes = 1048576"
definition githubEventHeader :: string where "githubEventHeader = ''X-Github-Event''"

definition New_server ::
  "string \<Rightarrow> config \<Rightarrow> string \<Rightarrow> 'net list \<Rightarrow> pool \<Rightarrow> tracker \<Rightarrow> bool \<Rightarrow> 'net server" where
  "New_server key cfg token cidrs p t runs =
     \<lparr>webhookKey = key, capacityToken = token, webhookCIDRs = cidrs, srvCfg = cfg, srvPool = p, hostedTracker = t,
      hasRunCanceller = runs, runCancels = []\<rparr>"

definition Reconfigure_server :: "'net server \<Rightarrow> string \<Rightarrow> config \<Rightarrow> string \<Rightarrow> 'net list \<Rightarrow> 'net server" where
  "Reconfigure_server s key cfg token cidrs =
     s\<lparr>webhookKey := key, capacityToken := token, webhookCIDRs := cidrs, srvCfg := cfg\<rparr>"

definition http_Error :: "string \<Rightarrow> int \<Rightarrow> http_response" where
  "http_Error msg code = (code, Text msg)"

section \<open>Signatures and addresses\<close>

definition hex_val :: "char \<Rightarrow> nat option" where
  "hex_val c =
     (let n = (of_char c :: nat)
      in if 48 \<le> n \<and> n \<le> 57 then Some (n - 48) else if 97 \<le> n \<and> n \<le> 102 then Some (n - 87)
         else if 65 \<le> n \<and> n \<le> 70 then Some (n - 55) else None)"

fun hex_DecodeString :: "string \<Rightarrow> string option" where
  "hex_DecodeString [] = Some []"
| "hex_DecodeString [c] = None"
| "hex_DecodeString (a # b # rest) =
     (case (hex_val a, hex_val b, hex_DecodeString rest) of
        (Some x, Some y, Some bs) \<Rightarrow> Some (char_of (16 * x + y) # bs)
      | _ \<Rightarrow> None)"

definition verifySignature :: "(string \<Rightarrow> string \<Rightarrow> string) \<Rightarrow> string \<Rightarrow> string \<Rightarrow> string \<Rightarrow> bool" where
  "verifySignature mac secret body sigHeader =
     (if \<not> HasPrefix sigHeader ''sha256='' then False
      else (case hex_DecodeString (drop (length ''sha256='') sigHeader) of
              None \<Rightarrow> False
            | Some sig \<Rightarrow> mac secret body = sig))"

definition last_index :: "char \<Rightarrow> string \<Rightarrow> nat option" where
  "last_index c s = (if c \<in> set s then Some (length s - 1 - length (takeWhile (\<lambda>x. x \<noteq> c) (rev s))) else None)"

definition first_index :: "char \<Rightarrow> string \<Rightarrow> nat option" where
  "first_index c s = (if c \<in> set s then Some (length (takeWhile (\<lambda>x. x \<noteq> c) s)) else None)"

text \<open>\<open>net.SplitHostPort\<close>: the host, unless the address is malformed.\<close>

definition split_host :: "string \<Rightarrow> string option" where
  "split_host hp =
     (case last_index CHR 0x3A hp of
        None \<Rightarrow> None
      | Some i \<Rightarrow>
          if hd hp = CHR 0x5B then
            (case first_index CHR 0x5D hp of
               None \<Rightarrow> None
             | Some e \<Rightarrow>
                 if Suc e \<noteq> i \<or> CHR 0x5B \<in> set (drop 1 hp) \<or> CHR 0x5D \<in> set (drop (Suc e) hp) then None
                 else Some (take (e - 1) (drop 1 hp)))
          else if CHR 0x3A \<in> set (take i hp) \<or> CHR 0x5B \<in> set hp \<or> CHR 0x5D \<in> set hp then None
          else Some (take i hp))"

definition webhookClientIP :: "http_request \<Rightarrow> string" where
  "webhookClientIP r =
     (if Header r ''Cf-Connecting-Ip'' \<noteq> [] then Header r ''Cf-Connecting-Ip''
      else if Header r ''True-Client-Ip'' \<noteq> [] then Header r ''True-Client-Ip''
      else (case split_host (RemoteAddr r) of None \<Rightarrow> RemoteAddr r | Some host \<Rightarrow> host))"

definition checkWebhookIP :: "('ip, 'net) server_env \<Rightarrow> 'net server \<Rightarrow> http_request \<Rightarrow> bool" where
  "checkWebhookIP env s r =
     (if webhookCIDRs s = [] then True
      else (case srvParseIP env (webhookClientIP r) of
              None \<Rightarrow> False
            | Some ip \<Rightarrow> list_ex (\<lambda>cidr. cidrContains env cidr ip) (webhookCIDRs s)))"

definition readVerifiedBody :: "('ip, 'net) server_env \<Rightarrow> 'net server \<Rightarrow> http_request \<Rightarrow> http_response + string" where
  "readVerifiedBody env s r =
     (case Body r of
        Inl e \<Rightarrow> Inl (http_Error ''read error'' 400)
      | Inr full \<Rightarrow>
          (let body = take maxBodyBytes full
           in if \<not> verifySignature (hmacSHA256 env) (webhookKey s) body (Header r ''X-Hub-Signature-256'')
              then Inl (http_Error ''unauthorized'' 401) else Inr body))"

definition checkBearerToken :: "'net server \<Rightarrow> http_request \<Rightarrow> bool" where
  "checkBearerToken s r =
     (let auth = Header r ''Authorization''
      in if capacityToken s = [] then False
         else if length auth < length ''Bearer '' \<or> \<not> EqualFold (take (length ''Bearer '') auth) ''Bearer '' then False
         else drop (length ''Bearer '') auth = capacityToken s)"

definition hasLabel :: "config \<Rightarrow> string list \<Rightarrow> bool" where
  "hasLabel cfg jobLabels = list_ex (\<lambda>jl. list_ex (\<lambda>sl. EqualFold jl sl) (cfLabels cfg)) jobLabels"

section \<open>Handlers\<close>

definition dispatchJob :: "'net server \<Rightarrow> http_request \<Rightarrow> webhookPayload \<Rightarrow> http_response \<times> 'net server" where
  "dispatchJob s r pl =
     (if \<not> hasLabel (srvCfg s) (jobFieldLabels pl) then ((204, NoBody), s)
      else if ResolveImage (srvCfg s) [] [] = None then ((204, NoBody), s)
      else
        (case Enqueue (srvPool s) (reqCtxErr r) \<lparr>Repo = FullName pl, JobID = jobFieldID pl, RunID = jobFieldRunID pl\<rparr> of
           (Some e, p) \<Rightarrow> (http_Error ''pool unavailable'' 503, s\<lparr>srvPool := p\<rparr>)
         | (None, p) \<Rightarrow> ((202, NoBody), s\<lparr>srvPool := p\<rparr>)))"

definition handlePullRequestClose :: "'net server \<Rightarrow> webhookPayload \<Rightarrow> http_response \<times> 'net server" where
  "handlePullRequestClose s pl =
     (if Action pl \<noteq> ''closed'' then ((204, NoBody), s)
      else if FullName pl = [] \<or> HeadSHA pl = [] then ((204, NoBody), s)
      else if \<not> hasRunCanceller s then ((204, NoBody), s)
      else ((204, NoBody), s\<lparr>runCancels := runCancels s @ [(FullName pl, HeadSHA pl)]\<rparr>))"

definition handleJobAction :: "'net server \<Rightarrow> http_request \<Rightarrow> webhookPayload \<Rightarrow> http_response \<times> 'net server" where
  "handleJobAction s r pl =
     (if Action pl = ''queued'' then dispatchJob s r pl
      else if Action pl = ''in_progress'' then
        ((204, NoBody),
         if IsHostedMacOSJob (jobFieldLabels pl) (cfLabels (srvCfg s))
         then s\<lparr>hostedTracker := MarkInProgress (hostedTracker s) (jobFieldID pl)\<rparr> else s)
      else if Action pl = ''completed'' then
        (let s1 = s\<lparr>hostedTracker := MarkCompleted (hostedTracker s) (jobFieldID pl)\<rparr>
         in ((204, NoBody),
             if Conclusion pl = ''cancelled'' \<or> Conclusion pl = ''skipped''
             then s1\<lparr>srvPool := CancelRun (srvPool s1) (jobFieldID pl)\<rparr> else s1))
      else ((204, NoBody), s))"

definition handleWebhook ::
  "('ip, 'net) server_env \<Rightarrow> (string \<Rightarrow> err + webhookPayload) \<Rightarrow> 'net server \<Rightarrow> http_request \<Rightarrow> http_response \<times> 'net server" where
  "handleWebhook env decode s r =
     (if Method r \<noteq> ''POST'' then (http_Error ''method not allowed'' 405, s)
      else if \<not> checkWebhookIP env s r then (http_Error ''forbidden'' 403, s)
      else
        (case readVerifiedBody env s r of
           Inl resp \<Rightarrow> (resp, s)
         | Inr body \<Rightarrow>
             (case decode body of
                Inl e \<Rightarrow> (http_Error ''bad request'' 400, s)
              | Inr pl \<Rightarrow>
                  if Header r githubEventHeader = ''pull_request'' then handlePullRequestClose s pl
                  else handleJobAction s r pl)))"

definition handleCapacity :: "'net server \<Rightarrow> http_request \<Rightarrow> http_response" where
  "handleCapacity s r =
     (if Method r \<noteq> ''GET'' then http_Error ''method not allowed'' 405
      else
        let limit = HostedMacOSConcurrencyLimit (srvCfg s);
            hostedFree = (limit \<le> 0 \<or> int (tracker_Count (hostedTracker s)) < limit)
        in case ResolveImage (srvCfg s) (Query r ''os'') (Query r ''xcode'') of
             None \<Rightarrow> (200, CapacityJSON False hostedFree)
           | Some tag \<Rightarrow>
               if tag \<noteq> tcBaseImage (cfTart (srvCfg s)) then (200, CapacityJSON False hostedFree)
               else (200, CapacityJSON (Ready (srvPool s)) hostedFree))"

definition handleStatus ::
  "(err \<Rightarrow> string) \<Rightarrow> slotProber option \<Rightarrow> time \<Rightarrow> string option \<Rightarrow> 'net server \<Rightarrow> http_request \<Rightarrow> http_response" where
  "handleStatus err_text prober now latest s r =
     (if Method r \<noteq> ''GET'' then http_Error ''method not allowed'' 405
      else if \<not> checkBearerToken s r then http_Error ''unauthorized'' 401
      else (let (snap, workers) = Status err_text (srvPool s) prober now in (200, StatusJSON snap workers latest)))"

definition handleHealthz :: "http_response" where
  "handleHealthz = (200, Text ''ok'')"

end
