(* ===== verification/Guest_Boot.thy ===== *)
theory Guest_Boot
  imports Go_Path
begin

text \<open>
  \<open>internal/guestsupervisor\<close>: the slot count the host seeds into a guest and the guest's boot token, both files that are
  replaced by a rename. A file system maps paths to contents and modes; which step of a write fails is an argument, and a write
  gives the sequence of file systems a concurrent reader can see.
\<close>

section \<open>Files\<close>

type_synonym file_system = "string \<Rightarrow> (string \<times> nat) option"

text \<open>
  What the operating system does to one write: the temporary name \<open>CreateTemp\<close> makes, or its error; how many bytes a
  failing write leaves; and the errors of writing, closing, changing the mode and renaming.
\<close>

record file_faults =
  ffTemp :: "err + string"
  ffShort :: nat
  ffWrite :: "err option"
  ffClose :: "err option"
  ffChmod :: "err option"
  ffRename :: "err option"

definition tokenFileMode :: nat where "tokenFileMode = 384"
definition slotCountFileMode :: nat where "slotCountFileMode = 420"

text \<open>
  The body \<open>WriteSlotCount\<close> and \<open>WriteTokenFile\<close> share, for \<open>what\<close> written to \<open>path\<close> in \<open>mode\<close>. The list holds every state of
  the file system after each step, the last one first; the temporary file is created for its owner only.
\<close>

definition write_atomically ::
  "string \<Rightarrow> nat \<Rightarrow> file_faults \<Rightarrow> string \<Rightarrow> string \<Rightarrow> file_system \<Rightarrow> err option \<times> file_system list" where
  "write_atomically what mode ff path content fs =
     (let failed = (\<lambda>verb tgt e. Some (Wrapf (''guestsupervisor: '' @ verb @ '' '' @ what @ tgt @ '': '') e []))
      in case ffTemp ff of
           Inl e \<Rightarrow> (failed ''create'' ('' temp file for '' @ path) e, [fs])
         | Inr tmp \<Rightarrow>
             (let fs1 = fs(tmp \<mapsto> ([], tokenFileMode));
                  gone = (\<lambda>x. x(tmp := None))
              in case ffWrite ff of
                   Some e \<Rightarrow> (let fs2 = fs1(tmp \<mapsto> (take (ffShort ff) content, tokenFileMode))
                              in (failed ''write'' ('' temp file '' @ tmp) e, [gone fs2, fs2, fs1, fs]))
                 | None \<Rightarrow>
                     (let fs2 = fs1(tmp \<mapsto> (content, tokenFileMode))
                      in case ffClose ff of
                           Some e \<Rightarrow> (failed ''close'' ('' temp file '' @ tmp) e, [gone fs2, fs2, fs1, fs])
                         | None \<Rightarrow>
                             (case ffChmod ff of
                                Some e \<Rightarrow> (failed ''chmod'' ('' temp file '' @ tmp) e, [gone fs2, fs2, fs1, fs])
                              | None \<Rightarrow>
                                  (let fs3 = fs2(tmp \<mapsto> (content, mode))
                                   in case ffRename ff of
                                        Some e \<Rightarrow> (failed ''rename'' ('' file to '' @ path) e, [gone fs3, fs3, fs2, fs1, fs])
                                      | None \<Rightarrow> (None, [(gone fs3)(path \<mapsto> (content, mode)), fs3, fs2, fs1, fs]))))))"

section \<open>The slot count\<close>

definition SlotCountPath :: string where "SlotCountPath = ''/tmp/gha-guest-slots''"

definition WriteSlotCount :: "file_faults \<Rightarrow> string \<Rightarrow> 32 word \<Rightarrow> file_system \<Rightarrow> err option \<times> file_system list" where
  "WriteSlotCount ff path slotCount fs =
     (if slotCount = 0 then (Some (Msg ''guestsupervisor: slot count must be positive''), [fs])
      else write_atomically ''slot-count'' slotCountFileMode ff path (Itoa (uint slotCount)) fs)"

definition readSeededSlotCount :: "file_system \<Rightarrow> string \<Rightarrow> 32 word option" where
  "readSeededSlotCount fs path =
     (case fs path of
        None \<Rightarrow> None
      | Some (content, _) \<Rightarrow>
          (case ParseUint10 32 (TrimSpace content) of
             None \<Rightarrow> None
           | Some n \<Rightarrow> if n = 0 then None else Some (of_nat n)))"

text \<open>\<open>AwaitSlotCount\<close>: the file systems its polls saw before the deadline.\<close>

fun AwaitSlotCount :: "string \<Rightarrow> 32 word \<Rightarrow> file_system list \<Rightarrow> 32 word" where
  "AwaitSlotCount path fallback [] = fallback"
| "AwaitSlotCount path fallback (fs # polls) =
     (case readSeededSlotCount fs path of Some n \<Rightarrow> n | None \<Rightarrow> AwaitSlotCount path fallback polls)"

section \<open>The boot token\<close>

definition readBootToken :: "file_system \<Rightarrow> string \<Rightarrow> string" where
  "readBootToken fs path = (case fs path of None \<Rightarrow> [] | Some (content, _) \<Rightarrow> TrimSpace content)"

definition tokenEntropyBytes :: nat where "tokenEntropyBytes = 32"

text \<open>\<open>entropy\<close> is what \<open>rand.Read\<close> puts into the buffer of \<open>tokenEntropyBytes\<close> bytes.\<close>

definition MintToken :: "err + string \<Rightarrow> err + string" where
  "MintToken entropy =
     (case entropy of Inl e \<Rightarrow> Inl (Wrapf ''guestsupervisor: mint token: '' e []) | Inr bs \<Rightarrow> Inr (hex_EncodeToString bs))"

definition WriteTokenFile :: "file_faults \<Rightarrow> string \<Rightarrow> string \<Rightarrow> file_system \<Rightarrow> err option \<times> file_system list" where
  "WriteTokenFile ff path token fs = write_atomically ''token'' tokenFileMode ff path token fs"

text \<open>\<open>EnsureBootToken\<close>: \<open>entropy\<close> is what the random source gives if it is asked.\<close>

definition EnsureBootToken ::
  "err + string \<Rightarrow> file_faults \<Rightarrow> string \<Rightarrow> string \<Rightarrow> file_system \<Rightarrow> (err + string) \<times> file_system list" where
  "EnsureBootToken entropy ff envToken path fs =
     (case (if envToken \<noteq> [] then Inr envToken
            else if readBootToken fs path \<noteq> [] then Inr (readBootToken fs path) else MintToken entropy) of
        Inl e \<Rightarrow> (Inl e, [fs])
      | Inr token \<Rightarrow>
          (case WriteTokenFile ff path token fs of
             (Some e, states) \<Rightarrow> (Inl e, states)
           | (None, states) \<Rightarrow> (Inr token, states)))"

section \<open>Atomic replacement\<close>

text \<open>\<open>CreateTemp\<close> makes a new file: its name is not in use and is not the target.\<close>

definition fresh_temp :: "file_faults \<Rightarrow> string \<Rightarrow> file_system \<Rightarrow> bool" where
  "fresh_temp ff path fs = (case ffTemp ff of Inl e \<Rightarrow> True | Inr tmp \<Rightarrow> tmp \<noteq> path \<and> fs tmp = None)"

lemma write_atomically_effect:
  assumes "fresh_temp ff path fs" and "write_atomically what mode ff path content fs = (r, states)"
  shows "states \<noteq> []
    \<and> (if r = None then hd states = fs(path \<mapsto> (content, mode)) else hd states = fs)
    \<and> (\<forall>x \<in> set states. x path = fs path \<or> r = None \<and> x = hd states)
    \<and> (\<forall>x \<in> set states. \<forall>p. x p \<noteq> fs p \<longrightarrow> (\<exists>c m. x p = Some (c, m) \<and> m \<in> {tokenFileMode, mode}))"
  using assms
  by (auto simp: write_atomically_def fresh_temp_def Let_def fun_eq_iff split: sum.splits option.splits)

section \<open>Round trips\<close>

lemma is_space_digit: "is_digit c \<Longrightarrow> \<not> is_space c"
  by (auto simp: is_digit_def is_space_def)

lemma dropWhile_hd: "\<not> P (hd xs) \<Longrightarrow> dropWhile P xs = xs"
  by (cases xs) auto

lemma TrimSpace_id: "\<not> is_space (hd s) \<Longrightarrow> \<not> is_space (last s) \<Longrightarrow> s \<noteq> [] \<Longrightarrow> TrimSpace s = s"
  by (simp add: TrimSpace_def dropWhile_hd hd_rev)

lemma TrimSpace_solid: "list_all (\<lambda>c. \<not> is_space c) s \<Longrightarrow> TrimSpace s = s"
  by (cases "s = []") (auto simp: TrimSpace_id list_all_iff, simp add: TrimSpace_def)

lemma TrimSpace_idem: "TrimSpace (TrimSpace s) = TrimSpace s"
proof (cases "TrimSpace s = []")
  case True
  then show ?thesis by (simp only: True) (simp add: TrimSpace_def)
next
  case False
  let ?d = "dropWhile is_space s"
  have ne: "dropWhile is_space (rev ?d) \<noteq> []" using False by (simp add: TrimSpace_def)
  then have l: "\<not> is_space (last (TrimSpace s))"
    by (simp add: TrimSpace_def last_rev hd_dropWhile del: dropWhile_eq_Nil_conv)
  obtain xs where xs: "rev ?d = xs @ dropWhile is_space (rev ?d)" by (metis takeWhile_dropWhile_id)
  have "?d = TrimSpace s @ rev xs" using arg_cong [OF xs, of rev] by (simp add: TrimSpace_def)
  then have "hd ?d = hd (TrimSpace s)" using False by (metis hd_append2)
  moreover have "?d \<noteq> []" using ne by (cases "?d = []") simp_all
  ultimately have "\<not> is_space (hd (TrimSpace s))" by (metis hd_dropWhile)
  then show ?thesis using l False by (rule TrimSpace_id)
qed

lemma dec_nat_solid: "TrimSpace (dec_nat n) = dec_nat n"
  by (rule TrimSpace_solid) (use dec_nat_digits [of n] is_space_digit in \<open>auto simp: list_all_iff\<close>)

text \<open>
  The slot count arrives whole: when the host's write reports success the guest reads exactly the count that was
  written, whatever the file held before; when it reports an error the file system is as it was; and every reader
  in between sees the old file or the new count, never a part of it.
\<close>

theorem slot_count_round_trip:
  assumes "fresh_temp ff path fs" and "WriteSlotCount ff path n fs = (r, states)"
  shows "(r = None \<longrightarrow> n \<noteq> 0 \<and> readSeededSlotCount (hd states) path = Some n)
    \<and> (r \<noteq> None \<longrightarrow> hd states = fs)
    \<and> (\<forall>x \<in> set states. readSeededSlotCount x path \<in> {readSeededSlotCount fs path, Some n})"
proof (cases "n = 0")
  case True
  then show ?thesis using assms(2) by (auto simp: WriteSlotCount_def)
next
  case False
  let ?c = "Itoa (uint n)"
  have c: "?c = dec_nat (unat n)" by (simp add: Itoa_def flip: nat_uint_eq)
  have "unat n < 2 ^ 32" using unsigned_less [of n] by simp
  then have "ParseUint10 32 (TrimSpace ?c) = Some (unat n)" by (simp add: c dec_nat_solid ParseUint10_dec_nat)
  moreover have "unat n \<noteq> 0" using False by (simp add: unat_eq_zero)
  ultimately have read: "readSeededSlotCount x path = Some n" if "x path = Some (?c, m)" for x m
    using that by (simp add: readSeededSlotCount_def)
  have "write_atomically ''slot-count'' slotCountFileMode ff path ?c fs = (r, states)"
    using assms(2) False by (simp add: WriteSlotCount_def)
  note eff = write_atomically_effect [OF assms(1) this]
  have "readSeededSlotCount x path \<in> {readSeededSlotCount fs path, Some n}" if x: "x \<in> set states" for x
  proof (cases "x path = fs path")
    case True
    then show ?thesis by (simp add: readSeededSlotCount_def)
  next
    case False
    then have "r = None" "x = hd states" using eff x by auto
    then have "x path = Some (?c, slotCountFileMode)" using eff by simp
    then show ?thesis using read by blast
  qed
  moreover have "r = None \<Longrightarrow> readSeededSlotCount (hd states) path = Some n" using eff read [of "hd states"] by simp
  ultimately show ?thesis using eff False by auto
qed

lemma hex_digit_solid: "d < 16 \<Longrightarrow> \<not> is_space (hex_digit d)"
  by (auto simp: hex_digit_def is_space_def of_char_of)

lemma hex_solid: "list_all (\<lambda>c. \<not> is_space c) (hex_EncodeToString bs)"
proof (induction bs)
  case Nil
  then show ?case by (simp add: hex_EncodeToString_def)
next
  case (Cons b bs)
  have "(of_char b :: nat) < 256" by (metis of_char_mod_256 mod_less_divisor zero_less_numeral)
  then have "(of_char b :: nat) div 16 < 16" "(of_char b :: nat) mod 16 < 16" by (simp_all add: less_mult_imp_div_less)
  then show ?case using Cons by (simp add: hex_EncodeToString_def hex_digit_solid)
qed

text \<open>
  C22. A guest keeps its credential across restarts of its agent: when a start without a token from its environment
  reported a token, it is the one in the file, readable by its owner only; a later start over that file reports the same token
  whatever its random source gives, and so does the host's trimmed read of the file.
\<close>

theorem boot_token_survives_restart:
  assumes "fresh_temp ff path fs" and "EnsureBootToken (Inr bs) ff [] path fs = (Inr token, states)" and "length bs = tokenEntropyBytes"
    and "fresh_temp ff' path (hd states)" and "EnsureBootToken entropy' ff' [] path (hd states) = (r', states')"
  shows "hd states path = Some (token, tokenFileMode) \<and> readBootToken (hd states) path = token
    \<and> (\<forall>token'. r' = Inr token' \<longrightarrow> token' = token \<and> hd states' path = Some (token, tokenFileMode))"
proof -
  have tok: "token = (if readBootToken fs path \<noteq> [] then readBootToken fs path else hex_EncodeToString bs)"
    and w: "WriteTokenFile ff path token fs = (None, states)"
    using assms(2) by (auto simp: EnsureBootToken_def MintToken_def split: prod.splits option.splits if_splits)
  have ne: "hex_EncodeToString bs \<noteq> []" using assms(3) by (cases bs) (auto simp: hex_EncodeToString_def tokenEntropyBytes_def)
  have solid: "TrimSpace token = token" and "token \<noteq> []"
    using tok ne by (auto simp: readBootToken_def TrimSpace_idem TrimSpace_solid [OF hex_solid] split: option.splits)
  have stored: "hd states path = Some (token, tokenFileMode)"
    using write_atomically_effect [OF assms(1) w [unfolded WriteTokenFile_def]] by simp
  then have read: "readBootToken (hd states) path = token" using solid by (simp add: readBootToken_def)
  have "token' = token \<and> hd states' path = Some (token, tokenFileMode)" if "r' = Inr token'" for token'
  proof -
    have "token' = token" and w': "WriteTokenFile ff' path token (hd states) = (None, states')"
      using assms(5) that read \<open>token \<noteq> []\<close>
      by (auto simp: EnsureBootToken_def split: prod.splits option.splits if_splits)
    then show ?thesis using write_atomically_effect [OF assms(4) w' [unfolded WriteTokenFile_def]] by simp
  qed
  then show ?thesis using stored read by blast
qed

end
