(* ===== verification/Config_Reload.thy ===== *)
theory Config_Reload
  imports Server Guest_Boot Pool_Machine
begin

text \<open>
  The serve daemon as a whole: its start (\<open>serve.go\<close> and \<open>loadDeps\<close>, \<open>newRunnerPool\<close> of \<open>main.go\<close>), the watcher that
  polls the configuration file (\<open>reload.go\<close>), the application of a new configuration to the live components (\<open>hoststats.go\<close>),
  and the sampler of host statistics (\<open>internal/hoststats\<close>). What a poll meets (the answer of \<open>stat\<close>, the loaded
  configuration, the files it names) is an argument.
\<close>

section \<open>The watcher\<close>

record config_watcher =
  appliedModTime :: time
  pendingModTime :: time
  hasPending :: bool
  initialized :: bool

definition newConfigReloadWatcher :: "time \<Rightarrow> config_watcher" where
  "newConfigReloadWatcher t =
     \<lparr>appliedModTime = t, pendingModTime = time_zero, hasPending = False, initialized = (\<not> time_IsZero t)\<rparr>"

text \<open>
  One \<open>poll\<close>: \<open>st\<close> is the answer of \<open>stat\<close>, \<open>ld\<close> the answer \<open>load\<close> would give, and \<open>apply\<close> the callback over
  the state \<open>d\<close> it changes. The result says whether \<open>load\<close> was called.
\<close>

definition watcher_poll ::
  "config_watcher \<Rightarrow> err + time \<Rightarrow> err + 'c \<Rightarrow> ('c \<Rightarrow> 'd \<Rightarrow> err option \<times> 'd) option \<Rightarrow> 'd \<Rightarrow> bool \<times> config_watcher \<times> 'd" where
  "watcher_poll w st ld callback d =
     (case st of
        Inl e \<Rightarrow> (False, w, d)
      | Inr modTime \<Rightarrow>
          if \<not> initialized w then (False, w\<lparr>appliedModTime := modTime, initialized := True, hasPending := False\<rparr>, d)
          else if modTime = appliedModTime w then (False, w\<lparr>hasPending := False\<rparr>, d)
          else if \<not> hasPending w \<or> modTime \<noteq> pendingModTime w
          then (False, w\<lparr>pendingModTime := modTime, hasPending := True\<rparr>, d)
          else
            (case ld of
               Inl e \<Rightarrow> (True, w\<lparr>appliedModTime := modTime, hasPending := False\<rparr>, d)
             | Inr cfg \<Rightarrow>
                 (case callback of
                    None \<Rightarrow> (True, w\<lparr>appliedModTime := modTime, pendingModTime := time_zero, hasPending := False\<rparr>, d)
                  | Some f \<Rightarrow>
                      (case f cfg d of
                         (Some e, d') \<Rightarrow> (True, w, d')
                       | (None, d') \<Rightarrow> (True, w\<lparr>appliedModTime := modTime, hasPending := False\<rparr>, d')))))"

text \<open>The polls of the watcher's goroutine, one after the other: what each met.\<close>

type_synonym ('c, 'd) poll_input = "(err + time) \<times> (err + 'c) \<times> ('c \<Rightarrow> 'd \<Rightarrow> err option \<times> 'd) option"

fun run_polls :: "config_watcher \<times> 'd \<Rightarrow> ('c, 'd) poll_input list \<Rightarrow> config_watcher \<times> 'd" where
  "run_polls (w, d) [] = (w, d)"
| "run_polls (w, d) ((st, ld, callback) # polls) = run_polls (snd (watcher_poll w st ld callback d)) polls"

section \<open>The sampler\<close>

record inventory =
  invRunnerCount :: int
  invIdle :: nat
  invBusy :: nat
  invQueued :: nat

record 'h sample =
  smHost :: 'h
  smInventory :: inventory
  SampledAt :: time

record samplerOptions =
  soEnabled :: bool
  soInterval :: duration

text \<open>\<open>latest\<close> is absent where the code has the zero \<open>Sample\<close>.\<close>

record 'h sampler =
  latest :: "'h sample option"
  smEnabled :: bool
  smInterval :: duration

definition metricsOptions :: "config \<Rightarrow> samplerOptions" where
  "metricsOptions c = \<lparr>soEnabled = (meEnabled (cfMetrics c) = Some True), soInterval = meInterval (cfMetrics c)\<rparr>"

definition New_sampler :: "samplerOptions \<Rightarrow> 'h sampler" where
  "New_sampler opts = \<lparr>latest = None, smEnabled = soEnabled opts, smInterval = soInterval opts\<rparr>"

definition Reconfigure_sampler :: "'h sampler \<Rightarrow> samplerOptions \<Rightarrow> 'h sampler" where
  "Reconfigure_sampler s opts = s\<lparr>smEnabled := soEnabled opts, smInterval := soInterval opts\<rparr>"

definition sampleOnce :: "'h sampler \<Rightarrow> err + 'h \<Rightarrow> inventory \<Rightarrow> time \<Rightarrow> 'h sampler" where
  "sampleOnce s host invt now =
     (if \<not> smEnabled s then s
      else (case host of
              Inl e \<Rightarrow> s
            | Inr h \<Rightarrow> s\<lparr>latest := Some \<lparr>smHost = h, smInventory = invt, SampledAt = now\<rparr>\<rparr>))"

text \<open>The inventory callback of \<open>newHostStatsSampler\<close>: the counts of the pool's status.\<close>

definition pool_inventory :: "pool \<Rightarrow> inventory" where
  "pool_inventory p =
     (let snap = snapshotLocked p
      in \<lparr>invRunnerCount = snRunnerCount snap, invIdle = Idle snap, invBusy = Busy snap, invQueued = Queued snap\<rparr>)"

section \<open>The daemon\<close>

text \<open>The live components; the pool is the one the server holds.\<close>

record ('net, 'h) daemon =
  dBinder :: config
  dServer :: "'net server"
  dSampler :: "'h sampler"

definition applyReloadedConfig ::
  "(string \<Rightarrow> err + 'net) \<Rightarrow> (string \<Rightarrow> err + string) \<Rightarrow> config \<Rightarrow> ('net, 'h) daemon \<Rightarrow> err option \<times> ('net, 'h) daemon" where
  "applyReloadedConfig ParseCIDR readFile cfg d =
     (case ReadWebhookSecret cfg readFile of
        Inl e \<Rightarrow> (Some (Wrapf ''read webhook secret: '' e []), d)
      | Inr secret \<Rightarrow>
          (case ReadCapacityToken cfg readFile of
             Inl e \<Rightarrow> (Some (Wrapf ''read capacity token: '' e []), d)
           | Inr token \<Rightarrow>
               (case ReadWebhookCIDRs ParseCIDR cfg readFile of
                  Inl e \<Rightarrow> (Some (Wrapf ''read webhook CIDRs: '' e []), d)
                | Inr cidrs \<Rightarrow>
                    (let s = dServer d;
                         s1 = s\<lparr>srvPool := Reconfigure (srvPool s) (runnerPoolOptionsFromConfig cfg [] None)\<rparr>
                     in (None, d\<lparr>dBinder := cfg, dServer := Reconfigure_server s1 secret cfg token cidrs,
                                 dSampler := Reconfigure_sampler (dSampler d) (metricsOptions cfg)\<rparr>)))))"

definition configInitialModTime :: "err + time \<Rightarrow> time" where
  "configInitialModTime st = (case st of Inl e \<Rightarrow> time_zero | Inr t \<Rightarrow> t)"

definition loadDeps ::
  "err + config \<Rightarrow> (string \<Rightarrow> err + string) \<Rightarrow> (string \<Rightarrow> string \<Rightarrow> err + 'gh) \<Rightarrow> err + config \<times> 'gh" where
  "loadDeps ld readFile newClient =
     (case ld of
        Inl e \<Rightarrow> Inl (Wrapf ''load config: '' e [])
      | Inr cfg \<Rightarrow>
          (case ReadPrivateKey cfg readFile of
             Inl e \<Rightarrow> Inl (Wrapf ''read private key: '' e [])
           | Inr key \<Rightarrow>
               (case newClient (AppID (cfApp cfg)) key of
                  Inl e \<Rightarrow> Inl (Wrapf ''init github app: '' e [])
                | Inr gh \<Rightarrow> Inr (cfg, gh))))"

text \<open>\<open>stamp\<close> is the formatted time, \<open>entropy\<close> what the random source gives.\<close>

definition newRunToken :: "string \<Rightarrow> err + string \<Rightarrow> err + string" where
  "newRunToken stamp entropy =
     (case entropy of
        Inl e \<Rightarrow> Inl (Wrapf ''serve: generate run token entropy: '' e [])
      | Inr bs \<Rightarrow> Inr (stamp @ ''-'' @ hex_EncodeToString bs))"

definition newRunnerPool :: "config \<Rightarrow> string \<Rightarrow> err + string \<Rightarrow> err + pool" where
  "newRunnerPool cfg stamp entropy =
     (case newRunToken stamp entropy of
        Inl e \<Rightarrow> Inl e
      | Inr tok \<Rightarrow> Inr (New (runnerPoolOptionsFromConfig cfg tok (Some TimeNow)) [Ctx None None]))"

text \<open>\<open>serveDaemon\<close> up to its loops: the components, or the error it returns. \<open>listen\<close> is the error of binding the listener.\<close>

definition serveDaemon_start ::
  "(string \<Rightarrow> err + 'net) \<Rightarrow> (string \<Rightarrow> err + string) \<Rightarrow> (string \<Rightarrow> string \<Rightarrow> err + 'gh) \<Rightarrow> err + config \<Rightarrow> string \<Rightarrow> err + string
     \<Rightarrow> err option \<Rightarrow> err + ('net, 'h) daemon" where
  "serveDaemon_start ParseCIDR readFile newClient ld stamp entropy listen =
     (case loadDeps ld readFile newClient of
        Inl e \<Rightarrow> Inl e
      | Inr (cfg, gh) \<Rightarrow>
          (case ReadWebhookSecret cfg readFile of
             Inl e \<Rightarrow> Inl (Wrapf ''serve: read webhook secret: '' e [])
           | Inr secret \<Rightarrow>
               (case ReadCapacityToken cfg readFile of
                  Inl e \<Rightarrow> Inl (Wrapf ''serve: read capacity token: '' e [])
                | Inr token \<Rightarrow>
                    (case ReadWebhookCIDRs ParseCIDR cfg readFile of
                       Inl e \<Rightarrow> Inl (Wrapf ''serve: read webhook CIDRs: '' e [])
                     | Inr cidrs \<Rightarrow>
                         (case newRunnerPool cfg stamp entropy of
                            Inl e \<Rightarrow> Inl e
                          | Inr p \<Rightarrow>
                              (case listen of
                                 Some e \<Rightarrow> Inl (Wrapf (''serve: listen '' @ Quote (ListenAddr cfg) @ '': '') e [])
                               | None \<Rightarrow>
                                   Inr \<lparr>dBinder = cfg, dServer = New_server secret cfg token cidrs p NewTracker True,
                                        dSampler = New_sampler (metricsOptions cfg)\<rparr>))))))"

section \<open>Steps of the daemon\<close>

text \<open>
  One step: a poll of the watcher, whatever the configuration file holds, while the files it names read as one of the
  functions in \<open>world\<close> says; a webhook delivery; a pass of the
  sampler; a sweep of the hosted jobs; a critical section of a pool goroutine, at any of its program counters; the start of
  the pool, or a critical section of the reaper, the recycler, a cancellation or a shutdown. Only a poll reconfigures the pool.
\<close>

inductive daemon_step ::
  "('ip, 'net) server_env \<Rightarrow> (err + string \<Rightarrow> err + config) \<Rightarrow> (string \<Rightarrow> err + 'net) \<Rightarrow> ((string \<Rightarrow> err + string) \<Rightarrow> bool) \<Rightarrow> config_watcher \<times> ('net, 'h) daemon \<Rightarrow> config_watcher \<times> ('net, 'h) daemon \<Rightarrow> bool"
  for env :: "('ip, 'net) server_env" and load_of :: "err + string \<Rightarrow> err + config" and ParseCIDR :: "string \<Rightarrow> err + 'net"
    and world :: "(string \<Rightarrow> err + string) \<Rightarrow> bool" where
  ds_poll: "world readFile \<Longrightarrow> watcher_poll w st (load_of raw) (Some (applyReloadedConfig ParseCIDR readFile)) d = (called, w', d') \<Longrightarrow>
     daemon_step env load_of ParseCIDR world (w, d) (w', d')"
| ds_webhook: "handleWebhook env decode (dServer d) r = (resp, s') \<Longrightarrow>
     daemon_step env load_of ParseCIDR world (w, d) (w, d\<lparr>dServer := s'\<rparr>)"
| ds_sample: "daemon_step env load_of ParseCIDR world (w, d)
     (w, d\<lparr>dSampler := sampleOnce (dSampler d) host (pool_inventory (srvPool (dServer d))) now\<rparr>)"
| ds_hosted: "daemon_step env load_of ParseCIDR world (w, d)
     (w, d\<lparr>dServer := (dServer d)\<lparr>hostedTracker := tracker_Reconcile (hostedTracker (dServer d)) ids\<rparr>\<rparr>)"
| ds_worker: "worker_step i y wc y' \<Longrightarrow> P y = srvPool (dServer d) \<Longrightarrow>
     daemon_step env load_of ParseCIDR world (w, d) (w, d\<lparr>dServer := (dServer d)\<lparr>srvPool := P y'\<rparr>\<rparr>)"
| ds_slot: "slot_step i k y sc y' \<Longrightarrow> P y = srvPool (dServer d) \<Longrightarrow>
     daemon_step env load_of ParseCIDR world (w, d) (w, d\<lparr>dServer := (dServer d)\<lparr>srvPool := P y'\<rparr>\<rparr>)"
| ds_start: "daemon_step env load_of ParseCIDR world (w, d)
     (w, d\<lparr>dServer := (dServer d)\<lparr>srvPool := Start (srvPool (dServer d)) 0 res now\<rparr>\<rparr>)"
| ds_env: "env_op (srvPool (dServer d)) p' \<Longrightarrow> \<forall>opts. p' \<noteq> Reconfigure (srvPool (dServer d)) opts \<Longrightarrow>
     daemon_step env load_of ParseCIDR world (w, d) (w, d\<lparr>dServer := (dServer d)\<lparr>srvPool := p'\<rparr>\<rparr>)"

inductive daemon_runs ::
  "('ip, 'net) server_env \<Rightarrow> (err + string \<Rightarrow> err + config) \<Rightarrow> (string \<Rightarrow> err + 'net) \<Rightarrow> ((string \<Rightarrow> err + string) \<Rightarrow> bool) \<Rightarrow> config_watcher \<times> ('net, 'h) daemon \<Rightarrow> config_watcher \<times> ('net, 'h) daemon \<Rightarrow> bool"
  for env :: "('ip, 'net) server_env" and load_of :: "err + string \<Rightarrow> err + config" and ParseCIDR :: "string \<Rightarrow> err + 'net"
    and world :: "(string \<Rightarrow> err + string) \<Rightarrow> bool" where
  dr_refl: "daemon_runs env load_of ParseCIDR world x x"
| dr_step: "daemon_runs env load_of ParseCIDR world x y \<Longrightarrow> daemon_step env load_of ParseCIDR world y z \<Longrightarrow> daemon_runs env load_of ParseCIDR world x z"

end
