(* ===== verification/Config_Props.thy ===== *)
theory Config_Props
  imports Host_Config "HOL-Library.Sublist"
begin

text \<open>
  What a loaded configuration guarantees: usable counts and options, approved image tags, and a blob
  directory outside the cache directory that guests mount.
\<close>

section \<open>Approved tags\<close>

lemma HasSuffix_iff: "HasSuffix s p \<longleftrightarrow> (\<exists>r. s = r @ p)"
  unfolding HasSuffix_def by (auto intro!: exI [of _ "take (length s - length p) s"] simp: append_eq_conv_conj) (metis append_take_drop_id)

lemma TrimSuffix_append [simp]: "TrimSuffix (r @ p) p = r"
  by (simp add: TrimSuffix_def HasSuffix_def)

lemma TrimPrefix_append [simp]: "TrimPrefix (p @ r) p = r"
  by (simp add: TrimPrefix_def HasPrefix_def)

lemma Cut_eq_found: "Cut s c = (a, b, True) \<longleftrightarrow> s = a @ c # b \<and> c \<notin> set a"
proof (cases "c \<in> set s")
  case True
  then obtain p q where s: "s = p @ c # q" "c \<notin> set p" by (meson split_list_first)
  then have "Cut s c = (p, q, True)" by (simp add: Cut_found)
  then show ?thesis using s by (auto simp: append_eq_append_conv2 Cons_eq_append_conv append_eq_Cons_conv)
qed (auto simp: Cut_def)

lemma shorter_suffix: "xs @ r = l @ q \<Longrightarrow> length q \<le> length r \<Longrightarrow> \<exists>m. r = m @ q"
  by (auto simp: append_eq_append_conv2)

lemma macos_xcode_overlap:
  fixes P :: string
  assumes "HasPrefix repo (P @ ''macos-'')" and "HasSuffix repo ''-xcode''"
  shows "(\<exists>m. repo = P @ ''macos-'' @ m @ ''-xcode'') \<or> repo = P @ ''macos-xcode''"
proof -
  obtain r where r: "repo = (P @ ''macos-'') @ r" using assms(1) unfolding HasPrefix_iff by blast
  obtain l where l: "repo = l @ ''-xcode''" using assms(2) by (auto simp: HasSuffix_iff)
  have "P @ (''macos-'' @ r) = l @ ''-xcode''" using r l by simp
  then obtain m where "''macos-'' @ r = m @ ''-xcode''" using shorter_suffix [of P "''macos-'' @ r"] by fastforce
  then have "(\<exists>m'. r = m' @ ''-xcode'') \<or> r = ''xcode''" by (auto simp: Cons_eq_append_conv)
  then show ?thesis using r by auto
qed

text \<open>
  The image gate accepts exactly the Cirrus Xcode images: a tag, without the white space around it, is
  \<open>ghcr.io/cirruslabs/macos-<name>-xcode:<version>\<close> with a name and a version that hold no slash or blank; the
  suffix may overlap the prefix, so \<open>ghcr.io/cirruslabs/macos-xcode:<version>\<close> passes too.
\<close>

theorem image_gate_exact:
  "safeCirrusImageTag tag \<longleftrightarrow>
     (\<exists>name version. version \<noteq> [] \<and> \<not> ContainsAny version image_blanks
        \<and> (TrimSpace tag = cirrusImagePrefix @ ''macos-'' @ name @ ''-xcode:'' @ version
             \<and> name \<noteq> [] \<and> \<not> ContainsAny name image_blanks \<and> CHR 0x3A \<notin> set name
           \<or> TrimSpace tag = cirrusImagePrefix @ ''macos-xcode:'' @ version))"
    (is "?safe = ?shape")
proof
  assume ?safe
  then obtain repo version where c: "Cut (TrimSpace tag) CHR 0x3A = (repo, version, True)"
    and v: "version \<noteq> []" "\<not> ContainsAny version image_blanks"
    and p: "HasPrefix repo (cirrusImagePrefix @ ''macos-'')" and s: "HasSuffix repo ''-xcode''"
    and m: "TrimSuffix (TrimPrefix repo (cirrusImagePrefix @ ''macos-'')) ''-xcode'' \<noteq> []"
      "\<not> ContainsAny (TrimSuffix (TrimPrefix repo (cirrusImagePrefix @ ''macos-'')) ''-xcode'') image_blanks"
    by (auto simp: safeCirrusImageTag_def Let_def split: prod.splits if_splits)
  from c have t: "TrimSpace tag = repo @ CHR 0x3A # version" and col: "CHR 0x3A \<notin> set repo" by (auto simp: Cut_eq_found)
  from macos_xcode_overlap [OF p s] show ?shape
  proof
    assume "\<exists>name. repo = cirrusImagePrefix @ ''macos-'' @ name @ ''-xcode''"
    then obtain name where r: "repo = (cirrusImagePrefix @ ''macos-'') @ (name @ ''-xcode'')" by auto
    then have "name \<noteq> []" "\<not> ContainsAny name image_blanks" "CHR 0x3A \<notin> set name" using m col
      unfolding r TrimPrefix_append TrimSuffix_append by auto
    moreover have "TrimSpace tag = cirrusImagePrefix @ ''macos-'' @ name @ ''-xcode:'' @ version" using t r by simp
    ultimately show ?shape using v by blast
  next
    assume "repo = cirrusImagePrefix @ ''macos-xcode''"
    then have "TrimSpace tag = cirrusImagePrefix @ ''macos-xcode:'' @ version" using t by simp
    then show ?shape using v by blast
  qed
next
  assume ?shape
  then obtain name version where v: "version \<noteq> []" "\<not> ContainsAny version image_blanks"
    and s: "TrimSpace tag = cirrusImagePrefix @ ''macos-'' @ name @ ''-xcode:'' @ version
             \<and> name \<noteq> [] \<and> \<not> ContainsAny name image_blanks \<and> CHR 0x3A \<notin> set name
           \<or> TrimSpace tag = cirrusImagePrefix @ ''macos-xcode:'' @ version" by blast
  have col: "CHR 0x3A \<notin> set cirrusImagePrefix" by (simp add: cirrusImagePrefix_def)
  from s show ?safe
  proof (elim disjE conjE)
    assume t: "TrimSpace tag = cirrusImagePrefix @ ''macos-'' @ name @ ''-xcode:'' @ version"
      and n: "name \<noteq> []" "\<not> ContainsAny name image_blanks" "CHR 0x3A \<notin> set name"
    let ?repo = "(cirrusImagePrefix @ ''macos-'') @ (name @ ''-xcode'')"
    have "Cut (TrimSpace tag) CHR 0x3A = (?repo, version, True)" unfolding Cut_eq_found using t n(3) col by simp
    moreover have "HasPrefix ?repo (cirrusImagePrefix @ ''macos-'')" by (rule HasPrefix_append)
    moreover have "HasSuffix ?repo ''-xcode''" unfolding HasSuffix_iff by (metis append.assoc)
    moreover have "TrimSuffix (TrimPrefix ?repo (cirrusImagePrefix @ ''macos-'')) ''-xcode'' = name"
      unfolding TrimPrefix_append TrimSuffix_append by (rule refl)
    ultimately show ?safe using v n unfolding safeCirrusImageTag_def Let_def by simp
  next
    assume t: "TrimSpace tag = cirrusImagePrefix @ ''macos-xcode:'' @ version"
    let ?repo = "(cirrusImagePrefix @ ''macos-'') @ ''xcode''"
    have "Cut (TrimSpace tag) CHR 0x3A = (?repo, version, True)" unfolding Cut_eq_found using t col by simp
    moreover have "HasPrefix ?repo (cirrusImagePrefix @ ''macos-'')" by (rule HasPrefix_append)
    moreover have "HasSuffix ?repo ''-xcode''" by (simp add: cirrusImagePrefix_def HasSuffix_def)
    moreover have "TrimSuffix (TrimPrefix ?repo (cirrusImagePrefix @ ''macos-'')) ''-xcode'' = ''xcode''"
      unfolding TrimPrefix_append by (simp add: TrimSuffix_def HasSuffix_def)
    moreover have "\<not> ContainsAny ''xcode'' image_blanks" by code_simp
    ultimately show ?safe using v unfolding safeCirrusImageTag_def Let_def by simp
  qed
qed

section \<open>Containment of paths\<close>

lemma isWithin_iff:
  assumes "filepath_IsAbs path" and "filepath_IsAbs root"
  shows "isWithin cwd path root \<longleftrightarrow> prefix (path_elems (filepath_Clean root)) (path_elems (filepath_Clean path))"
  using assms Rel_inside [OF assms] by (auto simp: isWithin_def filepath_Abs_def Let_def HasPrefix_def)

section \<open>Loaded configurations\<close>

lemma first_error_None: "first_error cs = None \<longleftrightarrow> list_all (\<lambda>(bad, _). \<not> bad) cs"
  by (induction cs rule: first_error.induct) auto

lemma Load_config_Inr:
  assumes "Load_config decode home tmp cwd path file = Inr c"
  obtains c0 where "c = applyDefaults home tmp c0" "validate_config cwd c = None"
  using assms by (auto simp: Load_config_def Let_def split: sum.splits option.splits)

lemma validated:
  assumes "validate_config cwd c = None"
  shows "missing_fields c = []" "1 \<le> cfRunnerCount c" "1 \<le> cfJobsPerVM c" "0 \<le> cfMaxIdle c" "0 \<le> cfMaxAge c"
    "0 \<le> cfMaxBind c" "0 \<le> cfPickupTimeout c" "safeCirrusImageTag (tcBaseImage (cfTart c))"
    "\<And>im. im \<in> set (tcImages (cfTart c)) \<Longrightarrow> safeCirrusImageTag (imTag im)"
    "tcCacheDir (cfTart c) \<noteq> [] \<Longrightarrow> tcFastPullDir (cfTart c) \<noteq> []
       \<Longrightarrow> \<not> isWithin cwd (tcFastPullDir (cfTart c)) (tcCacheDir (cfTart c))"
  using assms unfolding validate_config_def first_error_None by (auto simp: list_all_iff image_checks_def)

lemma findImage_Some:
  "findImage m x ims = Some tag \<Longrightarrow> safeCirrusImageTag tag \<and> tag \<in> imTag ` set ims"
  by (induction m x ims rule: findImage.induct) (auto split: if_splits)

text \<open>
  C33. A configuration that loads is usable: the App identity is present, every image a request resolves to is
  approved and is the base image or a mapped one, a request without versions gets the base image, and the pool takes the
  counts, the image, the idle and age limits and the run token as they are, replacing only limits of
  zero by its defaults.
\<close>

theorem loaded_config_is_usable:
  assumes "Load_config decode home tmp cwd path file = Inr c" and "tok \<noteq> []"
  shows "AppID (cfApp c) \<noteq> [] \<and> PrivateKeyPath (cfApp c) \<noteq> [] \<and> cfLabels c \<noteq> []
    \<and> ResolveImage c [] [] = Some (tcBaseImage (cfTart c))
    \<and> (\<forall>macos xcode tag. ResolveImage c macos xcode = Some tag \<longrightarrow> safeCirrusImageTag tag
         \<and> (tag = tcBaseImage (cfTart c) \<or> tag \<in> imTag ` set (tcImages (cfTart c))))
    \<and> normalizeOptions (runnerPoolOptionsFromConfig c tok (Some TimeNow)) =
        \<lparr>RunnerCount = cfRunnerCount c, JobsPerVM = cfJobsPerVM c, Image = tcBaseImage (cfTart c),
         MaxIdle = cfMaxIdle c, MaxAge = cfMaxAge c,
         MaxBind = (if cfMaxBind c = 0 then defaultMaxBind else cfMaxBind c),
         PickupTimeout = (if cfPickupTimeout c = 0 then defaultPickupTimeout else cfPickupTimeout c),
         RunToken = tok, WarmRetryDelay = defaultWarmRetryDelay, Now = Some TimeNow\<rparr>"
proof -
  obtain c0 where c: "c = applyDefaults home tmp c0" and v: "validate_config cwd c = None"
    using Load_config_Inr [OF assms(1)] .
  note ok = validated [OF v]
  have "AppID (cfApp c) \<noteq> []" "PrivateKeyPath (cfApp c) \<noteq> []" using ok(1) by (auto simp: missing_fields_def split: if_splits)
  moreover have "cfLabels c \<noteq> []" by (simp add: c applyDefaults_def)
  moreover have "ResolveImage c [] [] = Some (tcBaseImage (cfTart c))"
    using ok(8) by (simp add: ResolveImage_def normalizeImageKey_def ToLower_def TrimSpace_def)
  moreover have "safeCirrusImageTag tag \<and> (tag = tcBaseImage (cfTart c) \<or> tag \<in> imTag ` set (tcImages (cfTart c)))"
    if "ResolveImage c macos xcode = Some tag" for macos xcode tag
    using that by (auto simp: ResolveImage_def Let_def dest: findImage_Some split: if_splits)
  moreover have "normalizeOptions (runnerPoolOptionsFromConfig c tok (Some TimeNow)) =
        \<lparr>RunnerCount = cfRunnerCount c, JobsPerVM = cfJobsPerVM c, Image = tcBaseImage (cfTart c),
         MaxIdle = cfMaxIdle c, MaxAge = cfMaxAge c,
         MaxBind = (if cfMaxBind c = 0 then defaultMaxBind else cfMaxBind c),
         PickupTimeout = (if cfPickupTimeout c = 0 then defaultPickupTimeout else cfPickupTimeout c),
         RunToken = tok, WarmRetryDelay = defaultWarmRetryDelay, Now = Some TimeNow\<rparr>"
    using ok(2,3,6,7) assms(2) by (simp add: normalizeOptions_def runnerPoolOptionsFromConfig_def Let_def)
  ultimately show ?thesis by blast
qed

text \<open>
  Image blobs never sit in the directory that is mounted into the guests: when a configuration with absolute
  directories loads, the elements of the cleaned cache directory are not a prefix of those of the cleaned
  blob directory, whatever dots and repeated slashes either path was written with.
\<close>

theorem blobs_stay_out_of_the_cache:
  assumes "Load_config decode home tmp cwd path file = Inr c"
    and "filepath_IsAbs (tcFastPullDir (cfTart c))" and "filepath_IsAbs (tcCacheDir (cfTart c))"
  shows "\<not> prefix (path_elems (filepath_Clean (tcCacheDir (cfTart c)))) (path_elems (filepath_Clean (tcFastPullDir (cfTart c))))"
proof -
  obtain c0 where "validate_config cwd c = None" using Load_config_Inr [OF assms(1)] .
  moreover have "tcFastPullDir (cfTart c) \<noteq> []" "tcCacheDir (cfTart c) \<noteq> []"
    using assms(2,3) by (auto simp: filepath_IsAbs_def HasPrefix_def)
  ultimately show ?thesis using validated(10) [of cwd c] isWithin_iff [OF assms(2,3)] by blast
qed

end
