(* ===== verification/Reload_Props.thy ===== *)
theory Reload_Props
  imports Config_Reload Config_Props
begin

text \<open>
  The live components of the daemon run one configuration at a time: the loaded one, or the last that was
  loaded and applied whole.
\<close>

section \<open>The pool keeps its options\<close>

lemmas worker_ops [pool_ops] = markWarming_def nextID_def markWarmError_def activateWorker_def clearWorker_def
  waitForWorkerRecycleOrShutdown_def Let_def

lemmas slot_ops [pool_ops] = claimResumeSlot_def endResume_def waitForSlotJob_def finishSlotJob_def recycleWorkerFreeingSlot_def

lemmas env_ops [pool_ops] = CancelRun_def claimSlotReapWarning_def requestBusyRecycle_def requestRecycle_def Shutdown_def
  watchPoolContext_def Enqueue_def Start_def

lemma worker_step_options [pool_frame]: "worker_step i s w' s' \<Longrightarrow> options (P s') = options (P s)"
  by (erule worker_step.cases)
    (auto simp: pool_ops split: option.splits if_splits prod.splits)

lemma dequeue_options: "dequeueJobLocked p = (j, p') \<Longrightarrow> options p' = options p"
  by (auto simp: dequeueJobLocked_def split: list.splits)

lemma slot_step_options [pool_frame]: "slot_step i k s q' s' \<Longrightarrow> options (P s') = options (P s)"
  by (erule slot_step.cases)
    (auto dest!: dequeue_options simp: pool_ops split: option.splits if_splits prod.splits)

lemma env_op_options [pool_frame]: "env_op p p' \<Longrightarrow> \<forall>opts. p' \<noteq> Reconfigure p opts \<Longrightarrow> options p' = options p"
  by (erule env_op.cases)
    (auto simp: pool_ops split: option.splits if_splits prod.splits)

lemma Start_options [pool_frame]: "options (Start p parent r now) = options p"
  by (simp add: pool_ops split_beta)

lemma Enqueue_options [pool_frame]: "options (snd (Enqueue p ctxErr j)) = options p"
  by (simp add: pool_ops split: option.splits)

lemma CancelRun_options [pool_frame]: "options (CancelRun p jobID) = options p"
  by (auto simp: pool_ops split: option.splits if_splits)

section \<open>One configuration\<close>

text \<open>The options a configuration gives a pool that was started with \<open>o0\<close>.\<close>

definition effective_options :: "options \<Rightarrow> config \<Rightarrow> options" where
  "effective_options o0 c =
     (normalizeOptions (runnerPoolOptionsFromConfig c (RunToken o0) (Now o0)))\<lparr>RunnerCount := RunnerCount o0, Image := Image o0\<rparr>"

definition runs_config ::
  "(string \<Rightarrow> err + 'net) \<Rightarrow> options \<Rightarrow> config \<Rightarrow> (string \<Rightarrow> err + string) \<Rightarrow> ('net, 'h) daemon \<Rightarrow> bool" where
  "runs_config ParseCIDR o0 c readFile d =
     (dBinder d = c \<and> srvCfg (dServer d) = c
      \<and> ReadWebhookSecret c readFile = Inr (webhookKey (dServer d))
      \<and> ReadCapacityToken c readFile = Inr (capacityToken (dServer d))
      \<and> ReadWebhookCIDRs ParseCIDR c readFile = Inr (webhookCIDRs (dServer d))
      \<and> smEnabled (dSampler d) = soEnabled (metricsOptions c) \<and> smInterval (dSampler d) = soInterval (metricsOptions c)
      \<and> options (srvPool (dServer d)) = effective_options o0 c)"

lemma effective_keeps [simp]:
  "RunnerCount (effective_options o0 c) = RunnerCount o0" "Image (effective_options o0 c) = Image o0"
  by (simp_all add: effective_options_def)

lemma normalize_fields:
  "RunnerCount (normalizeOptions x) = (if RunnerCount x \<le> 0 then defaultRunnerCount else RunnerCount x)"
  "JobsPerVM (normalizeOptions x) = (if JobsPerVM x \<le> 0 then defaultJobsPerVM else JobsPerVM x)"
  "Image (normalizeOptions x) = Image x" "MaxIdle (normalizeOptions x) = MaxIdle x" "MaxAge (normalizeOptions x) = MaxAge x"
  "MaxBind (normalizeOptions x) = (if MaxBind x \<le> 0 then defaultMaxBind else MaxBind x)"
  "PickupTimeout (normalizeOptions x) = (if PickupTimeout x \<le> 0 then defaultPickupTimeout else PickupTimeout x)"
  "RunToken (normalizeOptions x) = (if RunToken x = [] then ''pool'' else RunToken x)"
  "WarmRetryDelay (normalizeOptions x) = (if WarmRetryDelay x \<le> 0 then defaultWarmRetryDelay else WarmRetryDelay x)"
  "Now (normalizeOptions x) = (if Now x = None then Some TimeNow else Now x)"
  by (simp_all add: normalizeOptions_def Let_def)

lemma Reconfigure_fields:
  "options (Reconfigure p x) =
     \<lparr>RunnerCount = RunnerCount (options p), JobsPerVM = JobsPerVM (normalizeOptions x), Image = Image (options p),
      MaxIdle = MaxIdle x, MaxAge = MaxAge x, MaxBind = MaxBind (normalizeOptions x),
      PickupTimeout = PickupTimeout (normalizeOptions x),
      RunToken = (if RunToken x = [] then RunToken (options p) else RunToken x),
      WarmRetryDelay = WarmRetryDelay (normalizeOptions x),
      Now = (if Now x = None then Now (options p) else Now x)\<rparr>"
  by (simp add: Reconfigure_def Let_def normalize_fields)

definition options_named :: "options \<Rightarrow> bool" where
  "options_named opts = (Now opts \<noteq> None \<and> RunToken opts \<noteq> [])"

lemma Reconfigure_effective:
  assumes "options p = effective_options o0 c" and "options_named o0"
  shows "options (Reconfigure p (runnerPoolOptionsFromConfig c' [] None)) = effective_options o0 c'"
  using assms unfolding Reconfigure_fields
  by (intro options.equality)
    (simp_all add: effective_options_def options_named_def runnerPoolOptionsFromConfig_def normalize_fields)

lemma runs_config_pool:
  "runs_config pc o0 c rf d \<Longrightarrow> options p = options (srvPool (dServer d)) \<Longrightarrow>
     runs_config pc o0 c rf (d\<lparr>dServer := (dServer d)\<lparr>srvPool := p\<rparr>\<rparr>)"
  by (simp add: runs_config_def)

definition same_wiring :: "'net server \<Rightarrow> 'net server \<Rightarrow> bool" where
  "same_wiring s s' =
     (srvCfg s' = srvCfg s \<and> webhookKey s' = webhookKey s \<and> capacityToken s' = capacityToken s
      \<and> webhookCIDRs s' = webhookCIDRs s \<and> options (srvPool s') = options (srvPool s))"

lemma dispatchJob_wiring: "same_wiring s (snd (dispatchJob s r pl))"
  using Enqueue_options [of "srvPool s" "reqCtxErr r"]
  by (auto simp: same_wiring_def dispatchJob_def split: option.splits prod.splits) (metis snd_conv)+

lemma handleWebhook_wiring:
  assumes "handleWebhook env decode s r = (resp, s')"
  shows "same_wiring s s'"
proof -
  have refl: "same_wiring s s" by (simp add: same_wiring_def)
  have "same_wiring s (snd (handleJobAction s r pl))" for pl
    using dispatchJob_wiring [of s r pl] by (auto simp: handleJobAction_def Let_def same_wiring_def CancelRun_options)
  moreover have "same_wiring s (snd (handlePullRequestClose s pl))" for pl
    by (simp add: handlePullRequestClose_def same_wiring_def)
  ultimately have "same_wiring s (snd (handleWebhook env decode s r))"
    using refl by (simp add: handleWebhook_def split: sum.splits)
  then show ?thesis using assms by simp
qed

lemma runs_config_webhook:
  "runs_config pc o0 c rf d \<Longrightarrow> handleWebhook env decode (dServer d) r = (resp, s') \<Longrightarrow> runs_config pc o0 c rf (d\<lparr>dServer := s'\<rparr>)"
  using handleWebhook_wiring by (fastforce simp: runs_config_def same_wiring_def)

lemma applyReloadedConfig_cases:
  assumes "applyReloadedConfig pc rf c' d = (e, d')"
  shows "e \<noteq> None \<and> d' = d \<or> e = None \<and> (runs_config pc o0 c rf0 d \<longrightarrow> options_named o0 \<longrightarrow> runs_config pc o0 c' rf d')"
  using assms
  by (auto simp: applyReloadedConfig_def Let_def runs_config_def Reconfigure_server_def Reconfigure_sampler_def
      Reconfigure_effective split: sum.splits)

lemma watcher_poll_effect:
  assumes "watcher_poll w st ld callback d = (called, w', d')"
  shows "d' = d \<or> (\<exists>c f e. ld = Inr c \<and> callback = Some f \<and> f c d = (e, d'))"
  using assms by (auto simp: watcher_poll_def split: sum.splits option.splits if_splits prod.splits)

lemma runs_config_step:
  assumes "daemon_step env load_of pc world (w, d) (w', d')" and "runs_config pc o0 c rf d" and "options_named o0"
  shows "runs_config pc o0 c rf d' \<or> (\<exists>raw c' rf'. world rf' \<and> load_of raw = Inr c' \<and> runs_config pc o0 c' rf' d')"
  using assms(1)
proof (cases rule: daemon_step.cases)
  case (ds_poll readFile st raw called)
  from watcher_poll_effect [OF this(2)] ds_poll(1) show ?thesis
    using assms(2,3) applyReloadedConfig_cases by (metis option.inject)
next
  case (ds_webhook decode r resp s')
  then show ?thesis using runs_config_webhook [OF assms(2)] by blast
next
  case (ds_sample host now)
  then show ?thesis using assms(2) by (auto simp: runs_config_def sampleOnce_def split: sum.splits)
next
  case (ds_hosted ids)
  then show ?thesis using assms(2) by (simp add: runs_config_def)
next
  case (ds_worker i y wc y')
  then show ?thesis using runs_config_pool [OF assms(2)] pool_frame by metis
next
  case (ds_slot i k y sc y')
  then show ?thesis using runs_config_pool [OF assms(2)] pool_frame by metis
next
  case (ds_start res now)
  then show ?thesis using runs_config_pool [OF assms(2)] pool_frame by metis
next
  case (ds_env p')
  then show ?thesis using runs_config_pool [OF assms(2)] pool_frame by metis
qed

lemma runs_config_runs:
  assumes "daemon_runs env load_of pc world x y" and "runs_config pc o0 c rf (snd x)" and "load_of raw = Inr c" and "world rf" and "options_named o0"
  shows "\<exists>raw c rf. world rf \<and> load_of raw = Inr c \<and> runs_config pc o0 c rf (snd y)"
  using assms(1,2)
proof (induction rule: daemon_runs.induct)
  case (dr_refl x)
  then show ?case using assms(3,4) by blast
next
  case (dr_step x y z)
  then obtain raw c rf where "world rf" "load_of raw = Inr c" "runs_config pc o0 c rf (snd y)" by blast
  then show ?case
    using runs_config_step [of env load_of pc world "fst y" "snd y" "fst z" "snd z"] dr_step(2) assms(5) by fastforce
qed

lemma serveDaemon_start_config:
  assumes "serveDaemon_start pc rf newClient ld stamp entropy listen = Inr d"
  obtains c where "ld = Inr c" "options_named (options (srvPool (dServer d)))"
    "runs_config pc (options (srvPool (dServer d))) c rf d"
    "RunnerCount (options (srvPool (dServer d))) = RunnerCount (normalizeOptions (runnerPoolOptionsFromConfig c [] None))"
    "Image (options (srvPool (dServer d))) = tcBaseImage (cfTart c)"
proof -
  obtain c gh secret token cidrs p where c: "loadDeps ld rf newClient = Inr (c, gh)" "ReadWebhookSecret c rf = Inr secret"
    "ReadCapacityToken c rf = Inr token" "ReadWebhookCIDRs pc c rf = Inr cidrs" and p: "newRunnerPool c stamp entropy = Inr p"
    and d: "d = \<lparr>dBinder = c, dServer = New_server secret c token cidrs p NewTracker True,
                 dSampler = New_sampler (metricsOptions c)\<rparr>"
    using assms by (auto simp: serveDaemon_start_def split: sum.splits option.splits)
  obtain bs where "p = New (runnerPoolOptionsFromConfig c (stamp @ ''-'' @ hex_EncodeToString bs) (Some TimeNow)) [Ctx None None]"
    using p by (auto simp: newRunnerPool_def newRunToken_def split: sum.splits)
  then have o: "options p = normalizeOptions (runnerPoolOptionsFromConfig c (stamp @ ''-'' @ hex_EncodeToString bs) (Some TimeNow))"
    by (simp add: New_def Let_def)
  have "effective_options (options p) c = options p"
    unfolding o effective_options_def
    by (intro options.equality) (simp_all add: normalize_fields runnerPoolOptionsFromConfig_def)
  moreover have "options_named (options p)"
    by (simp add: o options_named_def normalize_fields runnerPoolOptionsFromConfig_def)
  ultimately show ?thesis using c d o that [of c]
    by (auto simp: loadDeps_def runs_config_def New_server_def New_sampler_def normalize_fields runnerPoolOptionsFromConfig_def
        split: sum.splits)
qed


section \<open>When a file is loaded\<close>

lemma run_polls_append: "run_polls x (ps @ qs) = run_polls (run_polls x ps) qs"
  by (induction x ps rule: run_polls.induct) auto

definition failed_stat :: "('c, 'd) poll_input \<Rightarrow> bool" where
  "failed_stat x = (case fst x of Inl e \<Rightarrow> True | Inr t \<Rightarrow> False)"

definition last_seen :: "('c, 'd) poll_input list \<Rightarrow> time \<Rightarrow> bool" where
  "last_seen ps t = (\<exists>qs x fs. ps = qs @ x # fs \<and> fst x = Inr t \<and> list_all failed_stat fs)"

lemma last_seen_now: "last_seen (ps @ [(Inr t, ld, cb)]) t"
  unfolding last_seen_def by (rule exI [of _ ps], rule exI [of _ "(Inr t, ld, cb)"]) simp

lemma last_seen_failed: "last_seen ps t \<Longrightarrow> last_seen (ps @ [(Inl e, ld, cb)]) t"
  unfolding last_seen_def by (elim exE conjE, rule exI, rule exI, rule_tac x = "fs @ [(Inl e, ld, cb)]" in exI) (simp add: failed_stat_def)

lemma pending_was_seen:
  "run_polls (newConfigReloadWatcher t0, d0) ps = (w, d) \<Longrightarrow> hasPending w \<Longrightarrow> last_seen ps (pendingModTime w)"
proof (induction ps arbitrary: w d rule: rev_induct)
  case Nil
  then show ?case by (auto simp: newConfigReloadWatcher_def)
next
  case (snoc x ps)
  obtain st ld cb where x: "x = (st, ld, cb)" by (cases x)
  obtain w1 d1 where w1: "run_polls (newConfigReloadWatcher t0, d0) ps = (w1, d1)" by fastforce
  then have w: "(w, d) = snd (watcher_poll w1 st ld cb d1)" using snoc.prems(1)
    by (cases "watcher_poll w1 st ld cb d1") (simp add: run_polls_append x)
  show ?case
  proof (cases st)
    case (Inl e)
    then have "w = w1" using w by (simp add: watcher_poll_def)
    then show ?thesis using snoc.IH [OF w1] snoc.prems(2) last_seen_failed by (simp add: x Inl)
  next
    case (Inr t)
    then have "pendingModTime w = t"
      using w snoc.prems(2) by (auto simp: watcher_poll_def split: if_splits sum.splits option.splits prod.splits)
    then show ?thesis using last_seen_now by (simp add: x Inr)
  qed
qed

text \<open>
  C23. The watcher loads a file only when it has settled: a poll that loads saw a modification time that differs from
  the applied one and that the last poll whose \<open>stat\<close> succeeded had seen too. A file that failed to load, and one that was
  applied, is not loaded again while its time stands; one that failed to apply is tried again by the next poll.
\<close>

theorem reload_waits_for_a_settled_file:
  assumes "run_polls (newConfigReloadWatcher t0, d0) ps = (w, d)"
    and "watcher_poll w st ld callback d = (True, w', d')"
  shows "\<exists>t. st = Inr t \<and> t \<noteq> appliedModTime w
    \<and> (\<exists>qs x fs. ps = qs @ x # fs \<and> fst x = Inr t \<and> list_all failed_stat fs)
    \<and> (\<forall>ld' callback' d''. fst (watcher_poll w' (Inr t) ld' callback' d'')
         = (\<exists>c f e. ld = Inr c \<and> callback = Some f \<and> fst (f c d) = Some e))"
proof -
  obtain t where t: "st = Inr t" "t \<noteq> appliedModTime w" "initialized w" "hasPending w" "t = pendingModTime w"
    using assms(2) by (auto simp: watcher_poll_def split: if_splits sum.splits)
  have "last_seen ps t" using pending_was_seen [OF assms(1) t(4)] t(5) by simp
  moreover have "fst (watcher_poll w' (Inr t) ld' callback' d'')
      = (\<exists>c f e. ld = Inr c \<and> callback = Some f \<and> fst (f c d) = Some e)" for ld' callback' d''
    using assms(2) t
    by (auto simp: watcher_poll_def split: if_splits sum.splits option.splits prod.splits)
  ultimately show ?thesis using t unfolding last_seen_def by blast
qed

end
