(* ===== verification/Server_Props.thy ===== *)
theory Server_Props
  imports Server
begin

text \<open>
  The webhook's gate and what passes it. The queue the server puts jobs on is an interface, \<open>job_queue\<close>, that the
  pool provides; what a run of deliveries leaves on it follows from the interface alone.
\<close>

section \<open>The queue as an interface\<close>

text \<open>What a client calls on a queue, and a run of calls: the jobs that were accepted, and the queue after it.\<close>

datatype 'j queue_call = Put "err option" 'j | Drop int

fun run_calls ::
  "('p \<Rightarrow> err option \<Rightarrow> 'j \<Rightarrow> err option \<times> 'p) \<Rightarrow> ('p \<Rightarrow> int \<Rightarrow> 'p) \<Rightarrow> 'p \<Rightarrow> 'j queue_call list \<Rightarrow> 'j list \<times> 'p" where
  "run_calls enq drp p [] = ([], p)"
| "run_calls enq drp p (Drop i # cs) = run_calls enq drp (drp p i) cs"
| "run_calls enq drp p (Put e j # cs) =
     (let (r, p1) = enq p e j; (js, p2) = run_calls enq drp p1 cs in (if r = None then j # js else js, p2))"

locale job_queue =
  fixes pending :: "'p \<Rightarrow> 'j list"
    and enqueue :: "'p \<Rightarrow> err option \<Rightarrow> 'j \<Rightarrow> err option \<times> 'p"
    and cancel :: "'p \<Rightarrow> int \<Rightarrow> 'p"
  assumes accepted: "enqueue p e j = (None, p') \<Longrightarrow> pending p' = pending p @ [j]"
    and refused: "enqueue p e j = (Some er, p') \<Longrightarrow> p' = p"
    and cancel_keeps: "pending (cancel p i) = pending p"
begin

lemma put_pending:
  "pending (snd (enqueue p e j)) = pending p @ (if fst (enqueue p e j) = None then [j] else [])"
proof (cases "fst (enqueue p e j)")
  case None
  then show ?thesis using accepted [of p e j "snd (enqueue p e j)"] by (simp add: prod_eq_iff)
next
  case (Some er)
  then show ?thesis using refused [of p e j er "snd (enqueue p e j)"] by (simp add: prod_eq_iff)
qed

lemma calls_in_order:
  "pending (snd (run_calls enqueue cancel p cs)) = pending p @ fst (run_calls enqueue cancel p cs)"
proof (induction cs arbitrary: p)
  case Nil
  then show ?case by simp
next
  case (Cons c cs)
  show ?case
  proof (cases c)
    case (Put e j)
    then show ?thesis using put_pending [of p e j] Cons.IH by (auto simp: split_beta Let_def)
  next
    case (Drop i)
    then show ?thesis by (simp add: Cons.IH cancel_keeps)
  qed
qed

end

interpretation pool_queue: job_queue queue Enqueue CancelRun
proof unfold_locales
  fix p p' :: pool and e j
  assume "Enqueue p e j = (None, p')"
  then show "queue p' = queue p @ [j]" by (auto simp: Enqueue_def broadcast_def split: option.splits if_splits)
next
  fix p p' :: pool and e j er
  assume "Enqueue p e j = (Some er, p')"
  then show "p' = p" by (auto simp: Enqueue_def split: option.splits if_splits)
next
  fix p :: pool and i
  show "queue (CancelRun p i) = queue p"
    by (simp add: CancelRun_def Let_def broadcast_def set_state_def split: option.splits prod.splits)
qed

section \<open>One delivery\<close>

text \<open>The payload of a request that passed the gate.\<close>

definition authentic ::
  "('ip, 'net) server_env \<Rightarrow> (string \<Rightarrow> err + webhookPayload) \<Rightarrow> 'net server \<Rightarrow> http_request \<Rightarrow> webhookPayload option" where
  "authentic env decode s r =
     (if Method r \<noteq> ''POST'' \<or> \<not> checkWebhookIP env s r then None
      else (case Body r of
              Inl e \<Rightarrow> None
            | Inr full \<Rightarrow>
                if \<not> verifySignature (hmacSHA256 env) (webhookKey s) (take maxBodyBytes full) (Header r ''X-Hub-Signature-256'')
                then None
                else (case decode (take maxBodyBytes full) of Inl e \<Rightarrow> None | Inr pl \<Rightarrow> Some pl)))"

lemma handleWebhook_authentic:
  "authentic env decode s r = Some pl \<Longrightarrow>
     handleWebhook env decode s r =
       (if Header r githubEventHeader = ''pull_request'' then handlePullRequestClose s pl else handleJobAction s r pl)"
  by (auto simp: authentic_def handleWebhook_def readVerifiedBody_def Let_def split: sum.splits if_splits)

lemma handleWebhook_rejected:
  assumes "authentic env decode s r = None" and "handleWebhook env decode s r = ((status, content), s')"
  shows "s' = s \<and> status \<in> {400, 401, 403, 405}"
  using assms
  by (auto simp: authentic_def handleWebhook_def readVerifiedBody_def Let_def http_Error_def split: sum.splits if_splits)

lemma verifySignature_iff:
  "verifySignature mac secret body h \<longleftrightarrow> (\<exists>d. h = ''sha256='' @ d \<and> hex_DecodeString d = Some (mac secret body))"
  by (auto simp: verifySignature_def HasPrefix_iff split: option.splits)

text \<open>
  C20. Only GitHub can act through the webhook: a request that changes the server, its pool or the hosted tracker, or
  that is answered as accepted, was a POST from an allowed address whose signature header is
  \<open>sha256=\<close> and the hexadecimal keyed hash, under the current secret, of the body the handler then decoded.
  Every other request is refused with a client error and leaves everything as it was.
\<close>

theorem webhook_requires_signature:
  assumes "handleWebhook env decode s r = ((status, content), s')"
    and "s' \<noteq> s \<or> status < 400 \<or> 500 \<le> status"
  shows "Method r = ''POST'' \<and> checkWebhookIP env s r
      \<and> (\<exists>full digest. Body r = Inr full \<and> Header r ''X-Hub-Signature-256'' = ''sha256='' @ digest
           \<and> hex_DecodeString digest = Some (hmacSHA256 env (webhookKey s) (take maxBodyBytes full)))"
proof -
  have "authentic env decode s r \<noteq> None"
  proof
    assume "authentic env decode s r = None"
    from handleWebhook_rejected [OF this assms(1)] assms(2) show False by auto
  qed
  then show ?thesis
    by (auto simp: authentic_def verifySignature_iff split: sum.splits if_splits)
qed

section \<open>A run of deliveries\<close>

fun serve ::
  "('ip, 'net) server_env \<Rightarrow> (string \<Rightarrow> err + webhookPayload) \<Rightarrow> 'net server \<Rightarrow> http_request list
   \<Rightarrow> http_response list \<times> 'net server" where
  "serve env decode s [] = ([], s)"
| "serve env decode s (r # rs) =
     (let (resp, s1) = handleWebhook env decode s r; (resps, s2) = serve env decode s1 rs in (resp # resps, s2))"

definition job_of :: "webhookPayload \<Rightarrow> job" where
  "job_of pl = \<lparr>Repo = FullName pl, JobID = jobFieldID pl, RunID = jobFieldRunID pl\<rparr>"

definition delivered_job :: "(string \<Rightarrow> err + webhookPayload) \<Rightarrow> http_request \<Rightarrow> job list" where
  "delivered_job decode r =
     (case Body r of Inl e \<Rightarrow> []
      | Inr full \<Rightarrow> (case decode (take maxBodyBytes full) of Inl e \<Rightarrow> [] | Inr pl \<Rightarrow> [job_of pl]))"

text \<open>What one delivery calls on the pool.\<close>

lemma delivery_calls:
  assumes "handleWebhook env decode s r = ((status, content), s')"
  shows "\<exists>cs. srvPool s' = snd (run_calls Enqueue CancelRun (srvPool s) cs)
     \<and> fst (run_calls Enqueue CancelRun (srvPool s) cs) = (if status = 202 then delivered_job decode r else [])"
proof (cases "authentic env decode s r")
  case None
  then have "s' = s" "status \<noteq> 202" using handleWebhook_rejected [OF None assms] by auto
  then show ?thesis by (auto intro: exI [of _ "[]"])
next
  case (Some pl)
  then have d: "delivered_job decode r = [job_of pl]"
    by (auto simp: authentic_def delivered_job_def split: sum.splits if_splits)
  have h: "(if Header r githubEventHeader = ''pull_request'' then handlePullRequestClose s pl else handleJobAction s r pl)
      = ((status, content), s')"
    using handleWebhook_authentic [OF Some] assms by simp
  consider "srvPool s' = srvPool s" "status \<noteq> 202" | "srvPool s' = CancelRun (srvPool s) (jobFieldID pl)" "status \<noteq> 202"
    | e p where "Enqueue (srvPool s) (reqCtxErr r) (job_of pl) = (e, p)" "srvPool s' = p" "(status = 202) = (e = None)"
    using h by (auto simp: handlePullRequestClose_def handleJobAction_def dispatchJob_def job_of_def Let_def http_Error_def
        split: if_splits option.splits prod.splits)
  then show ?thesis
  proof cases
    case 1
    then show ?thesis by (auto intro: exI [of _ "[]"])
  next
    case 2
    then show ?thesis by (auto intro: exI [of _ "[Drop (jobFieldID pl)]"])
  next
    case 3
    then show ?thesis by (auto simp: d intro!: exI [of _ "[Put (reqCtxErr r) (job_of pl)]"])
  qed
qed

text \<open>
  Accepted jobs are queued once and in order: after any run of deliveries the pool's queue is the queue before it
  followed by the jobs of exactly those deliveries that were answered 202, in the order they were served. A redelivery
  that is accepted again queues its job again; a delivery answered otherwise queues nothing.
\<close>

theorem accepted_deliveries_queue_in_order:
  assumes "serve env decode s rs = (resps, s')"
  shows "queue (srvPool s') = queue (srvPool s)
     @ concat (map (\<lambda>(r, resp). if fst resp = 202 then delivered_job decode r else []) (zip rs resps))"
  using assms
proof (induction rs arbitrary: s resps)
  case Nil
  then show ?case by simp
next
  case (Cons r rs)
  obtain status content s1 where h: "handleWebhook env decode s r = ((status, content), s1)" by (metis prod.exhaust)
  obtain resps1 where v: "serve env decode s1 rs = (resps1, s')" "resps = (status, content) # resps1"
    using Cons.prems h by (auto split: prod.splits)
  obtain cs where "srvPool s1 = snd (run_calls Enqueue CancelRun (srvPool s) cs)"
    and "fst (run_calls Enqueue CancelRun (srvPool s) cs) = (if status = 202 then delivered_job decode r else [])"
    using delivery_calls [OF h] by blast
  then have "queue (srvPool s1) = queue (srvPool s) @ (if status = 202 then delivered_job decode r else [])"
    using pool_queue.calls_in_order [of "srvPool s" cs] by simp
  then show ?case using Cons.IH [OF v(1)] v(2) by simp
qed

section \<open>Capacity and status\<close>

text \<open>
  The capacity endpoint is public and coarse: whatever the configured token and the request's headers, a GET is answered with
  pool capacity exactly when the requested image resolves to the image the pool runs and the pool is ready, and with
  hosted capacity exactly when the limit is not positive or the hosted load is below it. Nothing else of the request matters.
\<close>

theorem capacity_is_public:
  assumes "Method r = ''GET''"
  shows "handleCapacity (s\<lparr>capacityToken := token\<rparr>) (r\<lparr>Header := hs\<rparr>) =
    (200, CapacityJSON
      (ResolveImage (srvCfg s) (Query r ''os'') (Query r ''xcode'') = Some (tcBaseImage (cfTart (srvCfg s))) \<and> Ready (srvPool s))
      (0 < HostedMacOSConcurrencyLimit (srvCfg s)
         \<longrightarrow> int (tracker_Count (hostedTracker s)) < HostedMacOSConcurrencyLimit (srvCfg s)))"
  using assms by (auto simp: handleCapacity_def Let_def split: option.splits)

end
