(* ===== verification/Config_Demo.thy ===== *)
theory Config_Demo
  imports Reload_Props Server_Props
begin

text \<open>
  The properties of the host daemon's configuration, server, boot files and reload at concrete inputs: a
  configuration with the App's fields and the defaults for the rest, and its reload with two slots for each worker.
\<close>

section \<open>A configuration\<close>

definition demo_file :: "int \<Rightarrow> config" where
  "demo_file n = zeroConfig\<lparr>cfJobsPerVM := n, cfApp := \<lparr>AppID = ''1'', PrivateKeyPath = ''/k'', WebhookSecretPath = ''/s'',
     CapacityTokenPath = ''/t'', WebhookCIDRsPath = []\<rparr>\<rparr>"

text \<open>The decoder reads a file of one character per slot.\<close>

definition demo_load :: "err + string \<Rightarrow> err + config" where
  "demo_load = Load_config (\<lambda>raw. Inr (demo_file (int (length raw)))) (Some ''/h'') ''/t'' None ''/c''"

definition demo_config :: "int \<Rightarrow> config" where
  "demo_config n = applyDefaults (Some ''/h'') ''/t'' (demo_file n)"

lemma demo_valid: "validate_config None (demo_config 1) = None" "validate_config None (demo_config 2) = None"
  by code_simp+

lemma demo_loads: "demo_load (Inr ''a'') = Inr (demo_config 1)" "demo_load (Inr ''ab'') = Inr (demo_config 2)"
  using demo_valid by (simp_all add: demo_load_def Load_config_def demo_config_def)


theorem loaded_config_is_usable_witness:
  "ResolveImage (demo_config 1) [] [] = Some (tcBaseImage (cfTart (demo_config 1)))
   \<and> MaxBind (normalizeOptions (runnerPoolOptionsFromConfig (demo_config 1) ''t'' (Some TimeNow))) = defaultMaxBind"
  using loaded_config_is_usable [OF demo_loads(1) [unfolded demo_load_def], of "''t''"]
  by (simp add: demo_config_def demo_file_def applyDefaults_def zeroConfig_def)

theorem blobs_stay_out_of_the_cache_witness:
  "\<not> prefix [''h'', ''pool-cache''] [''t'', ''gha-mac-broker-fastpull-blobs'']"
proof -
  have a: "tcFastPullDir (cfTart (demo_config 1)) = ''/t/gha-mac-broker-fastpull-blobs''"
    "tcCacheDir (cfTart (demo_config 1)) = ''/h/pool-cache''" by code_simp+
  have "path_elems (filepath_Clean ''/h/pool-cache'') = [''h'', ''pool-cache'']"
    "path_elems (filepath_Clean ''/t/gha-mac-broker-fastpull-blobs'') = [''t'', ''gha-mac-broker-fastpull-blobs'']" by code_simp+
  then show ?thesis
    using blobs_stay_out_of_the_cache [OF demo_loads(1) [unfolded demo_load_def]] by (simp add: a filepath_IsAbs_def HasPrefix_def)
qed

section \<open>A reload\<close>

abbreviation demo_read :: "string \<Rightarrow> err + string" where "demo_read \<equiv> \<lambda>_. Inr ''x''"
abbreviation demo_cidr :: "string \<Rightarrow> err + string" where "demo_cidr \<equiv> Inr"

definition demo_pool_of :: pool where
  "demo_pool_of = New (runnerPoolOptionsFromConfig (demo_config 1) ''t-6162'' (Some TimeNow)) [Ctx None None]"

definition demo_server :: "string server" where
  "demo_server = New_server ''x'' (demo_config 1) ''x'' [] demo_pool_of NewTracker True"

definition demo_daemon :: "(string, nat) daemon" where
  "demo_daemon = \<lparr>dBinder = demo_config 1, dServer = demo_server, dSampler = New_sampler (metricsOptions (demo_config 1))\<rparr>"

definition demo_reloaded :: "(string, nat) daemon" where
  "demo_reloaded = snd (applyReloadedConfig demo_cidr demo_read (demo_config 2) demo_daemon)"

lemma demo_paths:
  "WebhookSecretPath (cfApp (demo_config n)) = ''/s''" "CapacityTokenPath (cfApp (demo_config n)) = ''/t''"
  "WebhookCIDRsPath (cfApp (demo_config n)) = []"
  by (simp_all add: demo_config_def demo_file_def applyDefaults_def zeroConfig_def)

lemma demo_reads:
  "ReadWebhookSecret (demo_config n) demo_read = Inr ''x''" "ReadCapacityToken (demo_config n) demo_read = Inr ''x''"
  "ReadWebhookCIDRs demo_cidr (demo_config n) demo_read = Inr []"
proof -
  have "TrimRight ''x'' (cr @ nl) = ''x''" by code_simp
  then show "ReadWebhookSecret (demo_config n) demo_read = Inr ''x''" "ReadCapacityToken (demo_config n) demo_read = Inr ''x''"
    "ReadWebhookCIDRs demo_cidr (demo_config n) demo_read = Inr []"
    by (simp_all add: ReadWebhookSecret_def ReadCapacityToken_def ReadWebhookCIDRs_def demo_paths)
qed

lemma demo_starts:
  "serveDaemon_start demo_cidr demo_read (\<lambda>_ _. Inr ()) (demo_load (Inr ''a'')) ''t'' (Inr ''ab'') None = Inr demo_daemon"
proof -
  have "''t'' @ ''-'' @ hex_EncodeToString ''ab'' = ''t-6162''" by code_simp
  then show ?thesis
    by (simp add: serveDaemon_start_def loadDeps_def demo_loads ReadPrivateKey_def demo_reads newRunnerPool_def newRunToken_def
        demo_daemon_def demo_server_def demo_pool_of_def)
qed

lemma demo_applies: "applyReloadedConfig demo_cidr demo_read (demo_config 2) demo_daemon = (None, demo_reloaded)"
  by (simp add: demo_reloaded_def applyReloadedConfig_def demo_reads Let_def)

lemma demo_runs:
  "daemon_runs env demo_load demo_cidr (\<lambda>rf. rf = demo_read) (newConfigReloadWatcher 4, demo_daemon)
     (\<lparr>appliedModTime = 5, pendingModTime = 5, hasPending = False, initialized = True\<rparr>, demo_reloaded)"
proof (rule dr_step [OF dr_step [OF dr_refl ds_poll [OF refl]]])
  show "watcher_poll (newConfigReloadWatcher 4) (Inr 5) (demo_load (Inr ''ab'')) (Some (applyReloadedConfig demo_cidr demo_read)) demo_daemon
    = (False, \<lparr>appliedModTime = 4, pendingModTime = 5, hasPending = True, initialized = True\<rparr>, demo_daemon)"
    by (simp add: watcher_poll_def newConfigReloadWatcher_def time_IsZero_def time_zero_def)
next
  have "watcher_poll \<lparr>appliedModTime = 4, pendingModTime = 5, hasPending = True, initialized = True\<rparr> (Inr 5) (demo_load (Inr ''ab''))
      (Some (applyReloadedConfig demo_cidr demo_read)) demo_daemon
    = (True, \<lparr>appliedModTime = 5, pendingModTime = 5, hasPending = False, initialized = True\<rparr>, demo_reloaded)"
    by (simp add: watcher_poll_def demo_loads demo_applies)
  then show "daemon_step env demo_load demo_cidr (\<lambda>rf. rf = demo_read) (\<lparr>appliedModTime = 4, pendingModTime = 5, hasPending = True, initialized = True\<rparr>, demo_daemon)
     (\<lparr>appliedModTime = 5, pendingModTime = 5, hasPending = False, initialized = True\<rparr>, demo_reloaded)"
    by (rule ds_poll [OF refl])
qed


theorem reload_waits_for_a_settled_file_witness:
  "fst (watcher_poll \<lparr>appliedModTime = 5, pendingModTime = 5, hasPending = False, initialized = True\<rparr> (Inr 5)
     (Inr () :: err + unit) None True) = False"
proof -
  let ?ok = "\<lambda>(_ :: unit) (_ :: bool). (None :: err option, True)"
  let ?w = "\<lparr>appliedModTime = 4, pendingModTime = 5, hasPending = True, initialized = True\<rparr>"
  have "run_polls (newConfigReloadWatcher 4, False) [(Inr 5, Inr (), Some ?ok), (Inl (Msg []), Inr (), Some ?ok)] = (?w, False)"
    by (simp add: watcher_poll_def newConfigReloadWatcher_def time_IsZero_def time_zero_def)
  moreover have "watcher_poll ?w (Inr 5) (Inr ()) (Some ?ok) False
      = (True, \<lparr>appliedModTime = 5, pendingModTime = 5, hasPending = False, initialized = True\<rparr>, True)"
    by (simp add: watcher_poll_def)
  ultimately show ?thesis using reload_waits_for_a_settled_file by fastforce
qed

section \<open>Deliveries\<close>

text \<open>A toy keyed hash, the key followed by the body; the decoder gives the job of a queued delivery.\<close>

definition demo_env :: "(string, string) server_env" where
  "demo_env = \<lparr>hmacSHA256 = \<lambda>key body. key @ body, srvParseIP = Some, cidrContains = (=)\<rparr>"

definition demo_decode :: "string \<Rightarrow> err + webhookPayload" where
  "demo_decode body = Inr \<lparr>Action = ''queued'', FullName = ''o/r'', jobFieldID = 7, jobFieldLabels = [''macos''], jobFieldRunID = 8,
     Conclusion = [], HeadSHA = []\<rparr>"

definition demo_request :: "string \<Rightarrow> http_request" where
  "demo_request sig = \<lparr>Method = ''POST'', Header = (\<lambda>h. if h = ''X-Hub-Signature-256'' then sig else []), RemoteAddr = ''1.2.3.4:5'',
     Body = Inr ''b'', Query = (\<lambda>_. []), reqCtxErr = None\<rparr>"

definition demo_accepted :: "string server" where
  "demo_accepted = demo_server\<lparr>srvPool := broadcast (demo_pool_of\<lparr>queue := [\<lparr>Repo = ''o/r'', JobID = 7, RunID = 8\<rparr>]\<rparr>)\<rparr>"

lemma demo_signature:
  "verifySignature (\<lambda>key body. key @ body) ''x'' ''b'' ''sha256=7862''" "\<not> verifySignature (\<lambda>key body. key @ body) ''x'' ''b'' ''sha256=7863''"
  by code_simp+

lemma demo_delivery:
  "handleWebhook demo_env demo_decode demo_server (demo_request ''sha256=7862'') = ((202, NoBody), demo_accepted)"
  "handleWebhook demo_env demo_decode s (demo_request ''sha256=7863'')
     = (if webhookCIDRs s = [] \<and> webhookKey s = ''x'' then (http_Error ''unauthorized'' 401, s)
        else handleWebhook demo_env demo_decode s (demo_request ''sha256=7863''))"
proof -
  have l: "hasLabel (demo_config 1) [''macos'']" "ResolveImage (demo_config 1) [] [] \<noteq> None" by code_simp+
  show "handleWebhook demo_env demo_decode demo_server (demo_request ''sha256=7862'') = ((202, NoBody), demo_accepted)"
    using demo_signature(1) l
    by (simp add: handleWebhook_def demo_request_def checkWebhookIP_def demo_server_def New_server_def readVerifiedBody_def demo_env_def
        maxBodyBytes_def demo_decode_def githubEventHeader_def handleJobAction_def dispatchJob_def Enqueue_def demo_accepted_def
        demo_pool_of_def New_def Let_def)
  show "handleWebhook demo_env demo_decode s (demo_request ''sha256=7863'')
     = (if webhookCIDRs s = [] \<and> webhookKey s = ''x'' then (http_Error ''unauthorized'' 401, s)
        else handleWebhook demo_env demo_decode s (demo_request ''sha256=7863''))"
    using demo_signature(2) by (simp add: handleWebhook_def demo_request_def checkWebhookIP_def readVerifiedBody_def demo_env_def maxBodyBytes_def)
qed

theorem webhook_requires_signature_witness:
  "Method (demo_request ''sha256=7862'') = ''POST'' \<and> checkWebhookIP demo_env demo_server (demo_request ''sha256=7862'')"
  using webhook_requires_signature [OF demo_delivery(1)] by simp

theorem accepted_deliveries_queue_in_order_witness:
  "queue (srvPool demo_accepted) = [\<lparr>Repo = ''o/r'', JobID = 7, RunID = 8\<rparr>]"
proof -
  have k: "webhookCIDRs demo_accepted = []" "webhookKey demo_accepted = ''x''"
    by (simp_all add: demo_accepted_def demo_server_def New_server_def)
  have "serve demo_env demo_decode demo_server [demo_request ''sha256=7862'', demo_request ''sha256=7863'']
      = ([(202, NoBody), http_Error ''unauthorized'' 401], demo_accepted)"
    using demo_delivery(1) demo_delivery(2) [of demo_accepted] k by simp
  from accepted_deliveries_queue_in_order [OF this] show ?thesis
    by (simp add: delivered_job_def demo_request_def maxBodyBytes_def demo_decode_def job_of_def http_Error_def
        demo_server_def New_server_def demo_pool_of_def New_def Let_def)
qed

theorem capacity_is_public_witness:
  "handleCapacity (demo_server\<lparr>capacityToken := ''secret''\<rparr>) ((demo_request [])\<lparr>Method := ''GET'', Header := \<lambda>_. []\<rparr>)
     = (200, CapacityJSON False True)"
proof -
  have "\<not> Ready demo_pool_of" by (simp add: demo_pool_of_def New_def Let_def Ready_def snapshotLocked_def)
  moreover have "tracker_Count NewTracker = 0" by (simp add: tracker_Count_def NewTracker_def)
  ultimately show ?thesis
    using capacity_is_public [where r = "(demo_request [])\<lparr>Method := ''GET''\<rparr>" and s = demo_server and token = "''secret''" and hs = "\<lambda>_. []"]
    by (simp add: demo_server_def New_server_def)
qed

section \<open>Boot files\<close>

definition demo_faults :: file_faults where
  "demo_faults = \<lparr>ffTemp = Inr ''/tmp/x'', ffShort = 0, ffWrite = None, ffClose = None, ffChmod = None, ffRename = None\<rparr>"

text \<open>The host writes six slots over an empty file system; the guest reads them.\<close>

theorem slot_count_round_trip_witness:
  "readSeededSlotCount (hd (snd (WriteSlotCount demo_faults SlotCountPath 6 (\<lambda>_. None)))) SlotCountPath = Some 6"
proof -
  have "fresh_temp demo_faults SlotCountPath (\<lambda>_. None)" by (simp add: fresh_temp_def demo_faults_def SlotCountPath_def)
  from slot_count_round_trip [OF this, of 6 "fst (WriteSlotCount demo_faults SlotCountPath 6 (\<lambda>_. None))"
      "snd (WriteSlotCount demo_faults SlotCountPath 6 (\<lambda>_. None))"]
  show ?thesis by (simp add: WriteSlotCount_def write_atomically_def demo_faults_def Let_def)
qed

definition demo_bytes :: string where "demo_bytes = replicate 32 CHR 0x61"

theorem boot_token_survives_restart_witness:
  "readBootToken (hd (snd (EnsureBootToken (Inr demo_bytes) demo_faults [] ''/t'' (\<lambda>_. None)))) ''/t'' = hex_EncodeToString demo_bytes"
proof -
  let ?tok = "hex_EncodeToString demo_bytes"
  let ?s = "[(((\<lambda>_. None)(''/tmp/x'' \<mapsto> (?tok, tokenFileMode)))(''/tmp/x'' := None))(''/t'' \<mapsto> (?tok, tokenFileMode)),
     (\<lambda>_. None)(''/tmp/x'' \<mapsto> (?tok, tokenFileMode)), (\<lambda>_. None)(''/tmp/x'' \<mapsto> (?tok, tokenFileMode)),
     (\<lambda>_. None)(''/tmp/x'' \<mapsto> ([], tokenFileMode)), (\<lambda>_. None)] :: file_system list"
  have e: "EnsureBootToken (Inr demo_bytes) demo_faults [] ''/t'' (\<lambda>_. None) = (Inr ?tok, ?s)"
    by (simp add: EnsureBootToken_def readBootToken_def MintToken_def WriteTokenFile_def write_atomically_def demo_faults_def Let_def)
  have f: "fresh_temp demo_faults ''/t'' (\<lambda>_. None)" "fresh_temp demo_faults ''/t'' (hd ?s)"
    by (simp_all add: fresh_temp_def demo_faults_def)
  have "length demo_bytes = tokenEntropyBytes" by (simp add: demo_bytes_def tokenEntropyBytes_def)
  then show ?thesis
    using boot_token_survives_restart [OF f(1) e _ f(2)] by (simp add: e) (metis surj_pair)
qed

end
