(* ===== verification/Github_App.thy ===== *)
theory Github_App
  imports Effects Hosted_Load Broker_Types
begin

text \<open>
  \<open>internal/ghapp\<close>: the client of GitHub's REST API. The world answers requests; JSON bodies are encoded and
  decoded, and tokens signed, by functions of the library that are arguments. A listing follows its pages by a loop
  that ends only when the API says so: \<open>None\<close> is a loop that does not end.
\<close>

section \<open>Requests\<close>

datatype gh_request = Request (rqMethod: string) (rqPath: string) (rqAuth: string) (rqBody: "string option")

datatype gh_reply =
    BuildFails err
  | SendFails err
  | ReadFails err
  | Reply int string string

type_synonym gh_trace = "gh_request list"
type_synonym gh_world = "gh_trace \<Rightarrow> gh_request \<Rightarrow> gh_reply"
type_synonym 'a gh_result = "(err + 'a) \<times> gh_trace"

record runRow = rowID :: int  rowStatus :: string
record jobRow = jrID :: int  jrStatus :: string  jrLabels :: "string list"
record jitConfig = EncodedJITConfig :: string  jitRunnerID :: int  jitRunnerName :: string

record gh_env =
  signJWT :: "int \<times> int \<times> string \<Rightarrow> err + string"
  encTokenRequest :: "string list \<Rightarrow> string"
  encJITRequest :: "string \<Rightarrow> string list \<Rightarrow> string"
  decInstallation :: "string \<Rightarrow> err + int"
  decToken :: "string \<Rightarrow> err + string"
  decInstallations :: "string \<Rightarrow> err + int list"
  decRepositories :: "string \<Rightarrow> err + int \<times> string list"
  decJIT :: "string \<Rightarrow> err + jitConfig"
  decRunners :: "string \<Rightarrow> err + int \<times> runner list"
  decRuns :: "string \<Rightarrow> err + int \<times> runRow list"
  decJobs :: "string \<Rightarrow> err + int \<times> jobRow list"

record gh_client =
  ghAppID :: string
  ghNow :: time

text \<open>
  \<open>unmarshalRSAPrivateKey\<close> and \<open>New\<close>. The decoders are arguments: the bytes of the first PEM block, the key of a PKCS#1 block, and
  that of a PKCS#8 block, which may hold another kind of key (\<open>None\<close>).
\<close>

definition unmarshalRSAPrivateKey ::
  "(string \<Rightarrow> string option) \<Rightarrow> (string \<Rightarrow> err + 'k) \<Rightarrow> (string \<Rightarrow> err + 'k option) \<Rightarrow> string \<Rightarrow> err + 'k" where
  "unmarshalRSAPrivateKey pem_Decode ParsePKCS1 ParsePKCS8 pemKey =
     (case pem_Decode pemKey of
        None \<Rightarrow> Inl (Msg ''ghapp: no PEM block found in private key'')
      | Some block \<Rightarrow>
          (case ParsePKCS1 block of
             Inr key \<Rightarrow> Inr key
           | Inl _ \<Rightarrow>
               (case ParsePKCS8 block of
                  Inl e \<Rightarrow> Inl (Wrapf ''ghapp: parse private key: '' e [])
                | Inr None \<Rightarrow> Inl (Msg ''ghapp: private key is not RSA'')
                | Inr (Some key) \<Rightarrow> Inr key)))"

definition New_ghapp ::
  "(string \<Rightarrow> string option) \<Rightarrow> (string \<Rightarrow> err + 'k) \<Rightarrow> (string \<Rightarrow> err + 'k option) \<Rightarrow> time \<Rightarrow> string \<Rightarrow> string \<Rightarrow> err + gh_client \<times> 'k" where
  "New_ghapp pem_Decode ParsePKCS1 ParsePKCS8 now appID pemKey =
     map_sum id (\<lambda>key. (\<lparr>ghAppID = appID, ghNow = now\<rparr>, key)) (unmarshalRSAPrivateKey pem_Decode ParsePKCS1 ParsePKCS8 pemKey)"

definition maxResponseBytes :: nat where "maxResponseBytes = 1048576"
definition jwtTTL :: duration where "jwtTTL = 540 * second"

definition bind_ok :: "'a gh_result \<Rightarrow> ('a \<Rightarrow> gh_trace \<Rightarrow> 'b gh_result) \<Rightarrow> 'b gh_result" where
  "bind_ok m f = (case m of (Inl e, tr) \<Rightarrow> (Inl e, tr) | (Inr x, tr) \<Rightarrow> f x tr)"

text \<open>The claims of \<open>appJWT\<close>: issued half a minute ago, in whole seconds, and valid for \<open>jwtTTL\<close>.\<close>

definition jwtClaims :: "gh_client \<Rightarrow> int \<times> int \<times> string" where
  "jwtClaims c =
     (let issued = ghNow c - 30 * second in (issued div second, (issued + jwtTTL) div second, ghAppID c))"

definition appJWT :: "gh_env \<Rightarrow> gh_client \<Rightarrow> err + string" where
  "appJWT g c = (case signJWT g (jwtClaims c) of Inl e \<Rightarrow> Inl (Wrapf ''ghapp: sign jwt: '' e []) | Inr t \<Rightarrow> Inr t)"

definition gh_do :: "gh_world \<Rightarrow> string \<Rightarrow> string \<Rightarrow> string \<Rightarrow> string option \<Rightarrow> gh_trace \<Rightarrow> string gh_result" where
  "gh_do w verb path auth body tr =
     (let (reply, tr1) = perform w (Request verb path auth body) tr
      in (case reply of
            BuildFails e \<Rightarrow> Inl (Wrapf (''ghapp: build request '' @ verb @ '' '' @ path @ '': '') e [])
          | SendFails e \<Rightarrow> Inl (Wrapf (''ghapp: '' @ verb @ '' '' @ path @ '': '') e [])
          | ReadFails e \<Rightarrow> Inl (Wrapf (''ghapp: read response '' @ verb @ '' '' @ path @ '': '') e [])
          | Reply code status full \<Rightarrow>
              (let payload = take maxResponseBytes full
               in if code < 200 \<or> 300 \<le> code
                  then Inl (Msg (''ghapp: '' @ verb @ '' '' @ path @ '': '' @ status @ '': '' @ TrimSpace payload))
                  else Inr payload), tr1))"

text \<open>Decoding what a request returned; \<open>msg\<close> starts the error of a body that does not decode.\<close>

definition decode_body :: "string \<Rightarrow> (string \<Rightarrow> err + 'a) \<Rightarrow> string \<Rightarrow> gh_trace \<Rightarrow> 'a gh_result" where
  "decode_body msg dec body tr = ((case dec body of Inl e \<Rightarrow> Inl (Wrapf msg e []) | Inr x \<Rightarrow> Inr x), tr)"

definition wrap_err :: "string \<Rightarrow> 'a gh_result \<Rightarrow> 'a gh_result" where
  "wrap_err msg m = (case m of (Inl e, tr) \<Rightarrow> (Inl (Wrapf msg e []), tr) | (Inr x, tr) \<Rightarrow> (Inr x, tr))"

section \<open>Tokens\<close>

definition InstallationID :: "gh_env \<Rightarrow> gh_world \<Rightarrow> gh_client \<Rightarrow> string \<Rightarrow> string \<Rightarrow> gh_trace \<Rightarrow> int gh_result" where
  "InstallationID g w c owner repo tr =
     (case appJWT g c of
        Inl e \<Rightarrow> (Inl e, tr)
      | Inr jwt \<Rightarrow>
          bind_ok (gh_do w ''GET'' (''/repos/'' @ owner @ ''/'' @ repo @ ''/installation'') (''Bearer '' @ jwt) None tr) (\<lambda>body tr1.
          bind_ok (decode_body ''ghapp: decode installation: '' (decInstallation g) body tr1) (\<lambda>n tr2.
          if n = 0 then (Inl (Msg (''ghapp: no installation for '' @ owner @ ''/'' @ repo)), tr2) else (Inr n, tr2))))"

definition installationToken :: "gh_env \<Rightarrow> gh_world \<Rightarrow> gh_client \<Rightarrow> int \<Rightarrow> string list \<Rightarrow> gh_trace \<Rightarrow> string gh_result" where
  "installationToken g w c installationID repositories tr =
     (case appJWT g c of
        Inl e \<Rightarrow> (Inl e, tr)
      | Inr jwt \<Rightarrow>
          bind_ok (gh_do w ''POST'' (''/app/installations/'' @ Itoa installationID @ ''/access_tokens'') (''Bearer '' @ jwt)
                     (Some (encTokenRequest g repositories)) tr) (\<lambda>body tr1.
          bind_ok (decode_body ''ghapp: decode token: '' (decToken g) body tr1) (\<lambda>token tr2.
          if token = [] then (Inl (Msg ''ghapp: empty installation token''), tr2) else (Inr token, tr2))))"

definition InstallationToken :: "gh_env \<Rightarrow> gh_world \<Rightarrow> gh_client \<Rightarrow> int \<Rightarrow> string \<Rightarrow> gh_trace \<Rightarrow> string gh_result" where
  "InstallationToken g w c installationID repo = installationToken g w c installationID [repo]"

definition repoToken :: "gh_env \<Rightarrow> gh_world \<Rightarrow> gh_client \<Rightarrow> string \<Rightarrow> gh_trace \<Rightarrow> (string \<times> string \<times> string) gh_result" where
  "repoToken g w c fullRepo tr =
     (let (owner, repoName, ok) = Cut fullRepo CHR 0x2F
      in if \<not> ok \<or> owner = [] \<or> repoName = []
         then (Inl (Msg (''repo must be owner/repo, got '' @ Quote fullRepo)), tr)
         else
           bind_ok (wrap_err ''installation lookup: '' (InstallationID g w c owner repoName tr)) (\<lambda>i tr1.
           bind_ok (wrap_err ''installation token: '' (InstallationToken g w c i repoName tr1)) (\<lambda>token tr2.
           (Inr (owner, repoName, token), tr2))))"

definition GenerateJITConfig ::
  "gh_env \<Rightarrow> gh_world \<Rightarrow> string \<Rightarrow> string \<Rightarrow> string \<Rightarrow> string \<Rightarrow> string list \<Rightarrow> gh_trace \<Rightarrow> jitConfig gh_result" where
  "GenerateJITConfig g w token owner repo name labels tr =
     bind_ok (gh_do w ''POST'' (''/repos/'' @ owner @ ''/'' @ repo @ ''/actions/runners/generate-jitconfig'') (''token '' @ token)
                (Some (encJITRequest g name labels)) tr) (\<lambda>body tr1.
     bind_ok (decode_body ''ghapp: decode jitconfig: '' (decJIT g) body tr1) (\<lambda>jit tr2.
     if EncodedJITConfig jit = [] then (Inl (Msg ''ghapp: empty encoded_jit_config''), tr2) else (Inr jit, tr2)))"

section \<open>Following pages\<close>

text \<open>
  The loop of every listing: fetch a page, absorb its rows, stop or go on with the next. \<open>absorb\<close> may act itself (and
  may not end).
\<close>

partial_function (option) follow ::
  "(nat \<Rightarrow> gh_trace \<Rightarrow> 'b gh_result) \<Rightarrow> (nat \<Rightarrow> 's \<Rightarrow> 'b \<Rightarrow> gh_trace \<Rightarrow> 's gh_result option) \<Rightarrow> ('s \<Rightarrow> 'b \<Rightarrow> bool)
   \<Rightarrow> nat \<Rightarrow> 's \<Rightarrow> gh_trace \<Rightarrow> 's gh_result option" where
  "follow fetch absorb stop page s tr =
     (case fetch page tr of
        (Inl e, tr1) \<Rightarrow> Some (Inl e, tr1)
      | (Inr b, tr1) \<Rightarrow>
          Option.bind (absorb page s b tr1) (\<lambda>(r, tr2).
            case r of
              Inl e \<Rightarrow> Some (Inl e, tr2)
            | Inr s' \<Rightarrow> if stop s' b then Some (Inr s', tr2) else follow fetch absorb stop (Suc page) s' tr2))"

definition page_path :: "string \<Rightarrow> nat \<Rightarrow> string" where
  "page_path base page = base @ ''per_page=100&page='' @ Itoa (int page)"

text \<open>One page of a listing of \<open>what\<close>.\<close>

definition fetch_page ::
  "gh_world \<Rightarrow> string \<Rightarrow> string \<Rightarrow> string \<Rightarrow> string \<Rightarrow> (string \<Rightarrow> err + 'b) \<Rightarrow> nat \<Rightarrow> gh_trace \<Rightarrow> 'b gh_result" where
  "fetch_page w base auth what_list what_decode dec page tr =
     bind_ok (wrap_err (''ghapp: '' @ what_list @ '' page '' @ Itoa (int page) @ '': '') (gh_do w ''GET'' (page_path base page) auth None tr)) (\<lambda>body tr1.
     decode_body (''ghapp: '' @ what_decode @ '' page '' @ Itoa (int page) @ '': '') dec body tr1)"

text \<open>A listing with a total: its rows are kept through \<open>row\<close>, and it stops at an empty page or at the total.\<close>

definition absorb_rows :: "(nat \<Rightarrow> 'r \<Rightarrow> err + 'x list) \<Rightarrow> nat \<Rightarrow> nat \<times> 'x list \<Rightarrow> int \<times> 'r list \<Rightarrow> gh_trace \<Rightarrow> (nat \<times> 'x list) gh_result option" where
  "absorb_rows row page s b tr =
     Some ((case foldl (\<lambda>acc r. case acc of Inl e \<Rightarrow> Inl e | Inr xs \<Rightarrow> (case row page r of Inl e \<Rightarrow> Inl e | Inr ys \<Rightarrow> Inr (xs @ ys)))
              (Inr (snd s)) (snd b) of
              Inl e \<Rightarrow> Inl e | Inr xs \<Rightarrow> Inr (fst s + length (snd b), xs)), tr)"

definition listed_all :: "nat \<times> 'x list \<Rightarrow> int \<times> 'r list \<Rightarrow> bool" where
  "listed_all s b = (snd b = [] \<or> fst b \<le> int (fst s))"

definition list_rows ::
  "gh_world \<Rightarrow> string \<Rightarrow> string \<Rightarrow> string \<Rightarrow> string \<Rightarrow> (string \<Rightarrow> err + int \<times> 'r list) \<Rightarrow> (nat \<Rightarrow> 'r \<Rightarrow> err + 'x list) \<Rightarrow> gh_trace \<Rightarrow> 'x list gh_result option" where
  "list_rows w base auth what_list what_decode dec row tr =
     map_option (\<lambda>(r, tr1). (map_sum id snd r, tr1))
       (follow (fetch_page w base auth what_list what_decode dec) (absorb_rows row) listed_all 1 (0, []) tr)"

section \<open>Listings\<close>

definition token_auth :: "string \<Rightarrow> string" where "token_auth token = ''token '' @ token"

definition repo_path :: "string \<Rightarrow> string \<Rightarrow> string" where
  "repo_path owner repoName = ''/repos/'' @ owner @ ''/'' @ repoName"

definition listInstallationRepos :: "gh_env \<Rightarrow> gh_world \<Rightarrow> int \<Rightarrow> string \<Rightarrow> gh_trace \<Rightarrow> string list gh_result option" where
  "listInstallationRepos g w i token =
     list_rows w ''/installation/repositories?'' (token_auth token)
       (''list installed repositories for installation '' @ Itoa i) (''decode installed repositories for installation '' @ Itoa i)
       (decRepositories g)
       (\<lambda>page name. if name = []
          then Inl (Msg (''ghapp: installed repository for installation '' @ Itoa i @ '' page '' @ Itoa (int page) @ '' has no full_name''))
          else Inr [name])"

text \<open>The repositories of the installations of one page, one installation after another.\<close>

fun absorb_installations ::
  "gh_env \<Rightarrow> gh_world \<Rightarrow> gh_client \<Rightarrow> nat \<Rightarrow> string list \<Rightarrow> int list \<Rightarrow> gh_trace \<Rightarrow> string list gh_result option" where
  "absorb_installations g w c page repos [] tr = Some (Inr repos, tr)"
| "absorb_installations g w c page repos (i # is) tr =
     (if i = 0 then Some (Inl (Msg (''ghapp: installation page '' @ Itoa (int page) @ '' contained an installation with no id'')), tr)
      else
        (case installationToken g w c i [] tr of
           (Inl e, tr1) \<Rightarrow> Some (Inl (Wrapf (''ghapp: installation token for installed repos '' @ Itoa i @ '': '') e []), tr1)
         | (Inr token, tr1) \<Rightarrow>
             Option.bind (listInstallationRepos g w i token tr1) (\<lambda>(r, tr2).
               case r of
                 Inl e \<Rightarrow> Some (Inl e, tr2)
               | Inr more_repos \<Rightarrow> absorb_installations g w c page (repos @ more_repos) is tr2)))"

definition gh_ListInstalledRepos :: "gh_env \<Rightarrow> gh_world \<Rightarrow> gh_client \<Rightarrow> gh_trace \<Rightarrow> string list gh_result option" where
  "gh_ListInstalledRepos g w c tr =
     (case appJWT g c of
        Inl e \<Rightarrow> Some (Inl e, tr)
      | Inr jwt \<Rightarrow>
          follow (fetch_page w ''/app/installations?'' (''Bearer '' @ jwt) ''list installations'' ''decode installations'' (decInstallations g))
            (absorb_installations g w c) (\<lambda>_ is. is = []) 1 [] tr)"

definition gh_ListRunners :: "gh_env \<Rightarrow> gh_world \<Rightarrow> gh_client \<Rightarrow> string \<Rightarrow> gh_trace \<Rightarrow> runner list gh_result option" where
  "gh_ListRunners g w c repo tr =
     (case repoToken g w c repo tr of
        (Inl e, tr1) \<Rightarrow> Some (Inl (Wrapf (''ghapp: prepare runner list '' @ repo @ '': '') e []), tr1)
      | (Inr (owner, repoName, token), tr1) \<Rightarrow>
          list_rows w (repo_path owner repoName @ ''/actions/runners?'') (token_auth token) (''list runners '' @ repo)
            (''decode runners '' @ repo) (decRunners g) (\<lambda>_ r. Inr [r]) tr1)"

definition listActiveRunIDsForHeadSHA ::
  "gh_env \<Rightarrow> gh_world \<Rightarrow> string \<Rightarrow> string \<Rightarrow> string \<Rightarrow> string \<Rightarrow> gh_trace \<Rightarrow> int list gh_result option" where
  "listActiveRunIDsForHeadSHA g w owner repoName token headSHA =
     list_rows w (repo_path owner repoName @ ''/actions/runs?head_sha='' @ headSHA @ ''&'') (token_auth token)
       (''list runs for '' @ owner @ ''/'' @ repoName @ '' head '' @ headSHA) (''decode runs for '' @ owner @ ''/'' @ repoName @ '' head '' @ headSHA)
       (decRuns g) (\<lambda>_ run. Inr (if rowStatus run \<noteq> ''completed'' then [rowID run] else []))"

definition listInProgressRunIDs :: "gh_env \<Rightarrow> gh_world \<Rightarrow> string \<Rightarrow> string \<Rightarrow> string \<Rightarrow> gh_trace \<Rightarrow> int list gh_result option" where
  "listInProgressRunIDs g w owner repoName token =
     list_rows w (repo_path owner repoName @ ''/actions/runs?status=in_progress&'') (token_auth token)
       (''list in-progress runs '' @ owner @ ''/'' @ repoName) (''decode in-progress runs '' @ owner @ ''/'' @ repoName)
       (decRuns g) (\<lambda>_ run. Inr [rowID run])"

definition collectHostedMacOSJobs ::
  "gh_env \<Rightarrow> gh_world \<Rightarrow> string \<Rightarrow> string \<Rightarrow> string \<Rightarrow> int \<Rightarrow> string list \<Rightarrow> gh_trace \<Rightarrow> int list gh_result option" where
  "collectHostedMacOSJobs g w owner repoName token runID poolLabels =
     list_rows w (repo_path owner repoName @ ''/actions/runs/'' @ Itoa runID @ ''/jobs?'') (token_auth token)
       (''list jobs for run '' @ owner @ ''/'' @ repoName @ ''#'' @ Itoa runID) (''decode jobs for run '' @ owner @ ''/'' @ repoName @ ''#'' @ Itoa runID)
       (decJobs g) (\<lambda>_ j. Inr (if jrStatus j = ''in_progress'' \<and> IsHostedMacOSJob (jrLabels j) poolLabels then [jrID j] else []))"

section \<open>Runs and runners\<close>

definition cancel_request :: "string \<Rightarrow> string \<Rightarrow> string \<Rightarrow> int \<Rightarrow> gh_request" where
  "cancel_request owner repoName token runID =
     Request ''POST'' (repo_path owner repoName @ ''/actions/runs/'' @ Itoa runID @ ''/cancel'') (token_auth token) None"

definition gh_CancelRun :: "gh_env \<Rightarrow> gh_world \<Rightarrow> gh_client \<Rightarrow> string \<Rightarrow> int \<Rightarrow> gh_trace \<Rightarrow> unit gh_result" where
  "gh_CancelRun g w c repo runID tr =
     bind_ok (wrap_err (''ghapp: prepare cancel run '' @ repo @ ''#'' @ Itoa runID @ '': '') (repoToken g w c repo tr)) (\<lambda>(owner, repoName, token) tr1.
     bind_ok (wrap_err (''ghapp: cancel run '' @ repo @ ''#'' @ Itoa runID @ '': '')
                (gh_do w ''POST'' (repo_path owner repoName @ ''/actions/runs/'' @ Itoa runID @ ''/cancel'') (token_auth token) None tr1))
       (\<lambda>_ tr2. (Inr (), tr2)))"

text \<open>The cancels of \<open>CancelActiveRunsForHeadSHA\<close>: how many succeeded and how many failed.\<close>

fun cancel_runs :: "gh_world \<Rightarrow> string \<Rightarrow> string \<Rightarrow> string \<Rightarrow> int list \<Rightarrow> gh_trace \<Rightarrow> (nat \<times> nat) \<times> gh_trace" where
  "cancel_runs w owner repoName token [] tr = ((0, 0), tr)"
| "cancel_runs w owner repoName token (i # is) tr =
     (let (r, tr1) = gh_do w ''POST'' (repo_path owner repoName @ ''/actions/runs/'' @ Itoa i @ ''/cancel'') (token_auth token) None tr;
          ((cancelled, failed), tr2) = cancel_runs w owner repoName token is tr1
      in ((case r of Inl e \<Rightarrow> (cancelled, Suc failed) | Inr _ \<Rightarrow> (Suc cancelled, failed)), tr2))"

definition CancelActiveRunsForHeadSHA ::
  "gh_env \<Rightarrow> gh_world \<Rightarrow> gh_client \<Rightarrow> string \<Rightarrow> string \<Rightarrow> gh_trace \<Rightarrow> ((nat \<times> err option) \<times> gh_trace) option" where
  "CancelActiveRunsForHeadSHA g w c repo headSHA tr =
     (case repoToken g w c repo tr of
        (Inl e, tr1) \<Rightarrow> Some ((0, Some (Wrapf (''ghapp: prepare cancel runs for '' @ repo @ ''@'' @ headSHA @ '': '') e [])), tr1)
      | (Inr (owner, repoName, token), tr1) \<Rightarrow>
          map_option (\<lambda>(r, tr2). case r of
              Inl e \<Rightarrow> ((0, Some e), tr2)
            | Inr runIDs \<Rightarrow>
                (let ((cancelled, failed), tr3) = cancel_runs w owner repoName token runIDs tr2
                 in ((cancelled, if 0 < failed
                      then Some (Msg (''ghapp: cancel runs for '' @ repo @ ''@'' @ headSHA @ '': '' @ Itoa (int failed) @ '' of ''
                             @ Itoa (int (length runIDs)) @ '' cancels failed''))
                      else None), tr3)))
            (listActiveRunIDsForHeadSHA g w owner repoName token headSHA tr1))"

definition gh_DeleteRunner :: "gh_env \<Rightarrow> gh_world \<Rightarrow> gh_client \<Rightarrow> string \<Rightarrow> int \<Rightarrow> gh_trace \<Rightarrow> unit gh_result" where
  "gh_DeleteRunner g w c repo runnerID tr =
     bind_ok (wrap_err (''ghapp: prepare runner delete '' @ repo @ ''#'' @ Itoa runnerID @ '': '') (repoToken g w c repo tr)) (\<lambda>(owner, repoName, token) tr1.
     bind_ok (wrap_err (''ghapp: delete runner '' @ repo @ ''#'' @ Itoa runnerID @ '': '')
                (gh_do w ''DELETE'' (repo_path owner repoName @ ''/actions/runners/'' @ Itoa runnerID) (token_auth token) None tr1))
       (\<lambda>_ tr2. (Inr (), tr2)))"

section \<open>The hosted-job sweep\<close>

fun collect_runs ::
  "gh_env \<Rightarrow> gh_world \<Rightarrow> string \<Rightarrow> string \<Rightarrow> string \<Rightarrow> string list \<Rightarrow> int set \<Rightarrow> int list \<Rightarrow> gh_trace \<Rightarrow> int set gh_result option" where
  "collect_runs g w owner repoName token poolLabels jobs [] tr = Some (Inr jobs, tr)"
| "collect_runs g w owner repoName token poolLabels jobs (runID # runIDs) tr =
     Option.bind (collectHostedMacOSJobs g w owner repoName token runID poolLabels tr) (\<lambda>(r, tr1).
       case r of
         Inl e \<Rightarrow> Some (Inl e, tr1)
       | Inr ids \<Rightarrow> collect_runs g w owner repoName token poolLabels (jobs \<union> set ids) runIDs tr1)"

fun sweep_repos ::
  "gh_env \<Rightarrow> gh_world \<Rightarrow> gh_client \<Rightarrow> string list \<Rightarrow> int set \<Rightarrow> string list \<Rightarrow> gh_trace \<Rightarrow> int set gh_result option" where
  "sweep_repos g w c poolLabels jobs [] tr = Some (Inr jobs, tr)"
| "sweep_repos g w c poolLabels jobs (repo # repos) tr =
     (let (owner, repoName, ok) = Cut repo CHR 0x2F
      in if \<not> ok \<or> owner = [] \<or> repoName = [] then sweep_repos g w c poolLabels jobs repos tr
         else
           (case repoToken g w c repo tr of
              (Inl e, tr1) \<Rightarrow> Some (Inl (Wrapf (''ghapp: repo token for hosted job sweep '' @ repo @ '': '') e []), tr1)
            | (Inr (_, _, token), tr1) \<Rightarrow>
                Option.bind (listInProgressRunIDs g w owner repoName token tr1) (\<lambda>(r, tr2).
                  case r of
                    Inl e \<Rightarrow> Some (Inl e, tr2)
                  | Inr runIDs \<Rightarrow>
                      Option.bind (collect_runs g w owner repoName token poolLabels jobs runIDs tr2) (\<lambda>(r', tr3).
                        case r' of
                          Inl e \<Rightarrow> Some (Inl e, tr3)
                        | Inr jobs' \<Rightarrow> sweep_repos g w c poolLabels jobs' repos tr3))))"

definition ListInProgressHostedMacOSJobs ::
  "gh_env \<Rightarrow> gh_world \<Rightarrow> gh_client \<Rightarrow> string list \<Rightarrow> gh_trace \<Rightarrow> int set gh_result option" where
  "ListInProgressHostedMacOSJobs g w c poolLabels tr =
     Option.bind (gh_ListInstalledRepos g w c tr) (\<lambda>(r, tr1).
       case r of
         Inl e \<Rightarrow> Some (Inl (Wrapf ''ghapp: list installed repos for hosted job sweep: '' e []), tr1)
       | Inr repos \<Rightarrow> sweep_repos g w c poolLabels {} repos tr1)"

section \<open>Stale runners\<close>

text \<open>\<open>deleteStaleRunners\<close> of \<open>main.go\<close>: the number of runners deleted; failures are logged and passed over.\<close>

fun delete_offline ::
  "gh_env \<Rightarrow> gh_world \<Rightarrow> gh_client \<Rightarrow> string \<Rightarrow> string \<Rightarrow> runner list \<Rightarrow> gh_trace \<Rightarrow> nat \<times> gh_trace" where
  "delete_offline g w c prefix repo [] tr = (0, tr)"
| "delete_offline g w c prefix repo (r # rs) tr =
     (if \<not> EqualFold (rStatus r) ''offline'' \<or> \<not> HasPrefix (rName r) prefix then delete_offline g w c prefix repo rs tr
      else
        (let (res, tr1) = gh_DeleteRunner g w c repo (rID r) tr; (n, tr2) = delete_offline g w c prefix repo rs tr1
         in (case res of Inl e \<Rightarrow> (n, tr2) | Inr _ \<Rightarrow> (Suc n, tr2))))"

fun delete_in_repos ::
  "gh_env \<Rightarrow> gh_world \<Rightarrow> gh_client \<Rightarrow> string \<Rightarrow> string list \<Rightarrow> gh_trace \<Rightarrow> (nat \<times> gh_trace) option" where
  "delete_in_repos g w c prefix [] tr = Some (0, tr)"
| "delete_in_repos g w c prefix (repo # repos) tr =
     Option.bind (gh_ListRunners g w c repo tr) (\<lambda>(r, tr1).
       let (n, tr2) = (case r of Inl e \<Rightarrow> (0, tr1) | Inr runners \<Rightarrow> delete_offline g w c prefix repo runners tr1)
       in map_option (\<lambda>(m, tr3). (n + m, tr3)) (delete_in_repos g w c prefix repos tr2))"

definition deleteStaleRunners :: "gh_env \<Rightarrow> gh_world \<Rightarrow> gh_client \<Rightarrow> string \<Rightarrow> gh_trace \<Rightarrow> (nat \<times> gh_trace) option" where
  "deleteStaleRunners g w c vmNamePrefix tr =
     Option.bind (gh_ListInstalledRepos g w c tr) (\<lambda>(r, tr1).
       case r of Inl e \<Rightarrow> Some (0, tr1) | Inr repos \<Rightarrow> delete_in_repos g w c vmNamePrefix repos tr1)"

end
