(* ===== verification/Github_Props.thy ===== *)
theory Github_Props
  imports Github_App
begin

text \<open>Listings return all rows of the pages the API serves, and a closed pull request's runs are cancelled.\<close>

section \<open>Pages\<close>

text \<open>A loop over pages that are served the same whenever they are asked for, up to the one it stops at.\<close>

lemma follow_served:
  assumes "\<And>n tr. page \<le> n \<Longrightarrow> n \<le> page + k \<Longrightarrow> fetch n tr = (Inr (b n), tr @ [rq n])"
    and "\<And>n s tr. page \<le> n \<Longrightarrow> n \<le> page + k \<Longrightarrow> absorb n s (b n) tr = Some (Inr (upd s (b n)), tr)"
    and "\<And>n. page \<le> n \<Longrightarrow> n < page + k \<Longrightarrow> \<not> stop (foldl upd s (map b [page ..< Suc n])) (b n)"
    and "stop (foldl upd s (map b [page ..< Suc (page + k)])) (b (page + k))"
  shows "follow fetch absorb stop page s tr =
    Some (Inr (foldl upd s (map b [page ..< Suc (page + k)])), tr @ map rq [page ..< Suc (page + k)])"
  using assms
proof (induction k arbitrary: page s tr)
  case 0
  then show ?case by (subst follow.simps) simp
next
  case (Suc k)
  have go_on: "\<not> stop (upd s (b page)) (b page)" using Suc.prems(3) [of page] by simp
  have range: "[page ..< Suc (page + Suc k)] = page # [Suc page ..< Suc (Suc page + k)]"
    by (simp add: upt_conv_Cons)
  have "follow fetch absorb stop (Suc page) (upd s (b page)) (tr @ [rq page]) =
      Some (Inr (foldl upd (upd s (b page)) (map b [Suc page ..< Suc (Suc page + k)])),
            (tr @ [rq page]) @ map rq [Suc page ..< Suc (Suc page + k)])"
  proof (rule Suc.IH)
    fix n tr' assume "Suc page \<le> n" "n \<le> Suc page + k"
    then show "fetch n tr' = (Inr (b n), tr' @ [rq n])" using Suc.prems(1) [of n] by simp
  next
    fix n s' tr' assume "Suc page \<le> n" "n \<le> Suc page + k"
    then show "absorb n s' (b n) tr' = Some (Inr (upd s' (b n)), tr')" using Suc.prems(2) [of n] by simp
  next
    fix n assume n: "Suc page \<le> n" "n < Suc page + k"
    have "[page ..< Suc n] = page # [Suc page ..< Suc n]" using n(1) by (simp add: upt_conv_Cons)
    then show "\<not> stop (foldl upd (upd s (b page)) (map b [Suc page ..< Suc n])) (b n)"
      using Suc.prems(3) [of n] n by simp
  next
    show "stop (foldl upd (upd s (b page)) (map b [Suc page ..< Suc (Suc page + k)])) (b (Suc page + k))"
      using Suc.prems(4) unfolding range by simp
  qed
  then show ?case
    using Suc.prems(1) [of page tr] Suc.prems(2) [of page s] go_on unfolding range
    by (subst follow.simps) simp
qed

lemma absorb_rows_total:
  "absorb_rows (\<lambda>_ r. Inr (f r)) page s b tr = Some (Inr (fst s + length (snd b), snd s @ concat (map f (snd b))), tr)"
proof -
  have "foldl (\<lambda>acc r. case acc of Inl e \<Rightarrow> Inl e | Inr xs \<Rightarrow> (case Inr (f r) of Inl e \<Rightarrow> Inl e | Inr ys \<Rightarrow> Inr (xs @ ys)))
          (Inr xs :: err + 'a list) rs = Inr (xs @ concat (map f rs))" for xs rs
    by (induction rs arbitrary: xs) auto
  then show ?thesis by (simp add: absorb_rows_def)
qed

text \<open>
  A listing whose API serves pages \<open>1 \<dots> k\<close> of rows with the total \<open>T\<close>, page \<open>k\<close> being the first that is empty or
  reaches the total.
\<close>

definition serves ::
  "gh_world \<Rightarrow> string \<Rightarrow> string \<Rightarrow> (string \<Rightarrow> err + int \<times> 'r list) \<Rightarrow> int \<Rightarrow> (nat \<Rightarrow> 'r list) \<Rightarrow> nat \<Rightarrow> bool" where
  "serves w base auth dec T rows k =
     (1 \<le> k
      \<and> (\<forall>n \<in> {1 .. k}. \<forall>tr. \<exists>code status body. w tr (Request ''GET'' (page_path base n) auth None) = Reply code status body
            \<and> 200 \<le> code \<and> code < 300 \<and> dec (take maxResponseBytes body) = Inr (T, rows n))
      \<and> (\<forall>n \<in> {1 ..< k}. rows n \<noteq> [] \<and> int (length (concat (map rows [1 ..< Suc n]))) < T)
      \<and> (rows k = [] \<or> T \<le> int (length (concat (map rows [1 ..< Suc k])))))"

definition page_requests :: "string \<Rightarrow> string \<Rightarrow> nat \<Rightarrow> gh_request list" where
  "page_requests base auth k = map (\<lambda>n. Request ''GET'' (page_path base n) auth None) [1 ..< Suc k]"

lemma foldl_rows:
  "foldl (\<lambda>s b. (fst s + length (snd b), snd s @ concat (map f (snd b)))) (n, xs) (map (\<lambda>i. (T, rows i)) is)
    = (n + length (concat (map rows is)), xs @ concat (map f (concat (map rows is))))"
  by (induction "is" arbitrary: n xs) simp_all

lemma list_rows_served:
  assumes "serves w base auth dec T rows k"
  shows "list_rows w base auth l d dec (\<lambda>_ r. Inr (f r)) tr
    = Some (Inr (concat (map f (concat (map rows [1 ..< Suc k])))), tr @ page_requests base auth k)"
proof -
  let ?b = "\<lambda>n. (T, rows n)" and ?rq = "\<lambda>n. Request ''GET'' (page_path base n) auth None"
  let ?upd = "\<lambda>s b. (fst s + length (snd b), snd s @ concat (map f (snd b)))"
  have k: "1 + (k - 1) = k" using assms by (simp add: serves_def)
  have "follow (fetch_page w base auth l d dec) (absorb_rows (\<lambda>_ r. Inr (f r))) listed_all 1 (0, []) tr
     = Some (Inr (foldl ?upd (0, []) (map ?b [1 ..< Suc (1 + (k - 1))])), tr @ map ?rq [1 ..< Suc (1 + (k - 1))])"
  proof (rule follow_served)
    fix n tr' assume "1 \<le> n" "n \<le> 1 + (k - 1)"
    then have "n \<in> {1 .. k}" using k by simp
    then obtain code status body where "w tr' (?rq n) = Reply code status body"
      "200 \<le> code" "code < 300" "dec (take maxResponseBytes body) = Inr (T, rows n)"
      using assms unfolding serves_def by blast
    then show "fetch_page w base auth l d dec n tr' = (Inr (?b n), tr' @ [?rq n])"
      by (simp add: fetch_page_def gh_do_def bind_ok_def wrap_err_def decode_body_def perform_def)
  next
    fix n s tr' show "absorb_rows (\<lambda>_ r. Inr (f r)) n s (?b n) tr' = Some (Inr (?upd s (?b n)), tr')"
      by (rule absorb_rows_total)
  next
    fix n assume "1 \<le> n" "n < 1 + (k - 1)"
    then have "n \<in> {1 ..< k}" using k by simp
    then have "rows n \<noteq> [] \<and> int (length (concat (map rows [1 ..< Suc n]))) < T"
      using assms unfolding serves_def by blast
    then show "\<not> listed_all (foldl ?upd (0, []) (map ?b [1 ..< Suc n])) (?b n)"
      unfolding foldl_rows listed_all_def by simp
  next
    show "listed_all (foldl ?upd (0, []) (map ?b [1 ..< Suc (1 + (k - 1))])) (?b (1 + (k - 1)))"
      using assms unfolding k serves_def foldl_rows listed_all_def by auto
  qed
  then show ?thesis unfolding list_rows_def k foldl_rows page_requests_def by simp
qed

section \<open>Closed pull requests\<close>

lemma gh_do_trace: "snd (gh_do w verb path auth body tr) = tr @ [Request verb path auth body]"
  by (simp add: gh_do_def perform_def)

lemma cancel_runs_all:
  "cancel_runs w owner repoName token ids tr = ((cancelled, failed), tr')
    \<Longrightarrow> tr' = tr @ map (cancel_request owner repoName token) ids \<and> cancelled + failed = length ids"
proof (induction ids arbitrary: tr cancelled failed tr')
  case Nil
  then show ?case by simp
next
  case (Cons i ids)
  obtain r tr1 where d: "gh_do w ''POST'' (repo_path owner repoName @ ''/actions/runs/'' @ Itoa i @ ''/cancel'') (token_auth token) None tr = (r, tr1)"
    by (metis prod.exhaust)
  have tr1: "tr1 = tr @ [cancel_request owner repoName token i]"
    using gh_do_trace [of w "''POST''" _ "token_auth token" None tr] d unfolding cancel_request_def by (metis snd_conv)
  obtain c f tr2 where c: "cancel_runs w owner repoName token ids tr1 = ((c, f), tr2)" by (metis prod.exhaust)
  show ?case using Cons.IH [OF c] Cons.prems d c tr1 by (auto split: sum.splits)
qed

text \<open>
  C21. A closed pull request's runs are all cancelled, and no other: when the API serves the runs of the head commit
  in pages, \<open>CancelActiveRunsForHeadSHA\<close> returns, after asking for each page once and then for the cancellation of each run that is not
  completed once, in order, with the repository's own token; a cancellation that fails does not stop the others, the count is
  of those that succeeded, and there is an error exactly when one failed.
\<close>

theorem closed_pull_request_runs_cancelled:
  assumes "repoToken g w c repo tr = (Inr (owner, repoName, token), tr1)"
    and "serves w (repo_path owner repoName @ ''/actions/runs?head_sha='' @ headSHA @ ''&'') (token_auth token) (decRuns g) T rows k"
  shows "\<exists>cancelled e. let ids = map rowID (filter (\<lambda>r. rowStatus r \<noteq> ''completed'') (concat (map rows [1 ..< Suc k])))
    in CancelActiveRunsForHeadSHA g w c repo headSHA tr =
       Some ((cancelled, e), tr1 @ page_requests (repo_path owner repoName @ ''/actions/runs?head_sha='' @ headSHA @ ''&'') (token_auth token) k
             @ map (cancel_request owner repoName token) ids)
     \<and> cancelled \<le> length ids \<and> (e = None) = (cancelled = length ids)"
proof -
  let ?rows = "concat (map rows [1 ..< Suc k])"
  let ?ids = "map rowID (filter (\<lambda>r. rowStatus r \<noteq> ''completed'') ?rows)"
  let ?base = "repo_path owner repoName @ ''/actions/runs?head_sha='' @ headSHA @ ''&''"
  let ?tr2 = "tr1 @ page_requests ?base (token_auth token) k"
  have ids: "concat (map (\<lambda>r. if rowStatus r \<noteq> ''completed'' then [rowID r] else []) rs)
      = map rowID (filter (\<lambda>r. rowStatus r \<noteq> ''completed'') rs)" for rs by (induction rs) auto
  have l: "listActiveRunIDsForHeadSHA g w owner repoName token headSHA tr1 = Some (Inr ?ids, ?tr2)"
    unfolding listActiveRunIDsForHeadSHA_def list_rows_served [OF assms(2)] ids by (rule refl)
  obtain cancelled failed tr3 where c: "cancel_runs w owner repoName token ?ids ?tr2 = ((cancelled, failed), tr3)"
    by (metis prod.exhaust)
  note all = cancel_runs_all [OF c]
  show ?thesis
    unfolding Let_def CancelActiveRunsForHeadSHA_def assms(1)
    using c all by (auto simp: l intro!: exI [of _ cancelled])
qed

section \<open>App tokens\<close>

text \<open>
  An App token is issued in the past and expires soon enough: its issue time is at least half a minute ago in whole
  seconds, and its expiry is after now but within GitHub's ten minutes.
\<close>

theorem app_token_window:
  assumes "jwtClaims c = (iat, exp, iss)"
  shows "iss = ghAppID c \<and> iat * second \<le> ghNow c - 30 * second \<and> exp - iat = 540
    \<and> ghNow c < exp * second \<and> exp * second \<le> ghNow c + 600 * second - 90 * second"
proof -
  have c: "iat = (ghNow c - 30 * second) div second" "exp = (ghNow c - 30 * second + 540 * second) div second" "iss = ghAppID c"
    using assms by (auto simp: jwtClaims_def jwtTTL_def Let_def)
  have s: "0 < second" by (simp add: second_def)
  have "exp = iat + 540" using c(1,2) div_mult_self1 [of second "ghNow c - 30 * second" 540] s by simp
  moreover have "iat * second + (ghNow c - 30 * second) mod second = ghNow c - 30 * second"
    unfolding c(1) by (rule div_mult_mod_eq)
  moreover have "0 \<le> (ghNow c - 30 * second) mod second" "(ghNow c - 30 * second) mod second < second"
    using s by simp_all
  ultimately show ?thesis using c(3) unfolding second_def by linarith
qed

section \<open>The key of the App\<close>

text \<open>A client is made exactly for an RSA key in a PEM block, in either encoding; its requests are signed with that key.\<close>

lemma client_key_forms:
  "New_ghapp pem_Decode ParsePKCS1 ParsePKCS8 now appID pemKey = Inr (c, key) \<longleftrightarrow>
     c = \<lparr>ghAppID = appID, ghNow = now\<rparr>
     \<and> (\<exists>block. pem_Decode pemKey = Some block
          \<and> (ParsePKCS1 block = Inr key \<or> (\<exists>e. ParsePKCS1 block = Inl e) \<and> ParsePKCS8 block = Inr (Some key)))"
  by (auto simp: New_ghapp_def unmarshalRSAPrivateKey_def split: option.splits sum.splits)

end
