(* ===== verification/Github_Demo.thy ===== *)
theory Github_Demo
  imports Github_Props
begin

text \<open>
  The properties of \<open>Github_Props\<close> at a concrete API: it knows one installation, one token and one page with a run in
  progress and a completed one, and accepts every cancellation.
\<close>

definition demo_gh :: gh_env where
  "demo_gh = \<lparr>signJWT = \<lambda>_. Inr ''jwt'', encTokenRequest = \<lambda>_. [], encJITRequest = \<lambda>_ _. [], decInstallation = \<lambda>_. Inr 1,
     decToken = \<lambda>_. Inr ''tok'', decInstallations = \<lambda>_. Inr [], decRepositories = \<lambda>_. Inr (0, []),
     decJIT = \<lambda>_. Inl (Msg []), decRunners = \<lambda>_. Inr (0, []),
     decRuns = \<lambda>_. Inr (2, [\<lparr>rowID = 8, rowStatus = ''in_progress''\<rparr>, \<lparr>rowID = 9, rowStatus = ''completed''\<rparr>]),
     decJobs = \<lambda>_. Inr (0, [])\<rparr>"

definition demo_client :: gh_client where
  "demo_client = \<lparr>ghAppID = ''1'', ghNow = 100500000000\<rparr>"

abbreviation demo_world :: gh_world where "demo_world \<equiv> \<lambda>tr rq. Reply 200 ''OK'' ''b''"

definition demo_trace :: gh_trace where
  "demo_trace = snd (repoToken demo_gh demo_world demo_client ''o/r'' [])"

lemma demo_token: "repoToken demo_gh demo_world demo_client ''o/r'' [] = (Inr (''o'', ''r'', ''tok''), demo_trace)"
proof -
  have "Cut ''o/r'' CHR 0x2F = (''o'', ''r'', True)" by code_simp
  then show ?thesis
    by (simp add: demo_trace_def repoToken_def InstallationID_def InstallationToken_def installationToken_def appJWT_def
        gh_do_def perform_def decode_body_def wrap_err_def bind_ok_def demo_gh_def Let_def)
qed

lemma demo_serves:
  "serves demo_world base auth (decRuns demo_gh) 2 (\<lambda>n. [\<lparr>rowID = 8, rowStatus = ''in_progress''\<rparr>, \<lparr>rowID = 9, rowStatus = ''completed''\<rparr>]) 1"
  by (simp add: serves_def demo_gh_def maxResponseBytes_def)

theorem closed_pull_request_runs_cancelled_witness:
  "\<exists>cancelled e path. CancelActiveRunsForHeadSHA demo_gh demo_world demo_client ''o/r'' ''abc'' [] =
     Some ((cancelled, e), demo_trace @ [Request ''GET'' path (token_auth ''tok'') None, cancel_request ''o'' ''r'' ''tok'' 8])
     \<and> (e = None) = (cancelled = 1)"
  using closed_pull_request_runs_cancelled [OF demo_token demo_serves, of "''abc''"]
  by (auto simp: page_requests_def Let_def)

theorem app_token_window_witness:
  "fst (jwtClaims demo_client) * second \<le> 70500000000"
  using app_token_window [of demo_client "fst (jwtClaims demo_client)" "fst (snd (jwtClaims demo_client))" "snd (snd (jwtClaims demo_client))"]
  by (simp add: demo_client_def second_def)

end
