(* ===== verification/Deploy.thy ===== *)
theory Deploy
  imports Go_Strings
begin

text \<open>
  \<open>internal/deploy\<close> and the command around it (\<open>deploy.go\<close>): the choice of the action that brings a running broker to a
  compiled artifact, and what \<open>-execute\<close> does with it. The restart of the managed service is an argument.
\<close>

section \<open>The decision\<close>

datatype action =
    ActionNoop
  | ActionWorkerReload
  | ActionServiceRestart
  | ActionGuestReload
  | ActionGoldenRebuildRecycle
  | OtherAction int

fun Action_String :: "action \<Rightarrow> string" where
  "Action_String ActionNoop = ''noop''"
| "Action_String ActionWorkerReload = ''worker-reload''"
| "Action_String ActionServiceRestart = ''service-restart''"
| "Action_String ActionGuestReload = ''guest-reload''"
| "Action_String ActionGoldenRebuildRecycle = ''golden-rebuild-recycle''"
| "Action_String (OtherAction n) = ''unknown''"

record deploy_inputs =
  CompiledBaseRef :: string
  RunningBaseRef :: string
  CompiledGuestFingerprint :: string
  RunningGuestFingerprint :: string
  CompiledProtocolMajor :: "32 word"
  GuestProtocolMajor :: "32 word"
  CompiledHostFingerprint :: string
  RunningHostFingerprint :: string
  SupervisorPresent :: bool

definition Decide :: "deploy_inputs \<Rightarrow> action" where
  "Decide i =
     (if CompiledBaseRef i \<noteq> RunningBaseRef i then ActionGoldenRebuildRecycle
      else if CompiledGuestFingerprint i \<noteq> RunningGuestFingerprint i then
        (if GuestProtocolMajor i = CompiledProtocolMajor i then ActionGuestReload else ActionGoldenRebuildRecycle)
      else if CompiledHostFingerprint i \<noteq> RunningHostFingerprint i then
        (if SupervisorPresent i then ActionWorkerReload else ActionServiceRestart)
      else ActionNoop)"

text \<open>
  The actions are ordered least destructive first, as their numbers are; a number outside the enumeration comes right after the
  action of that number.
\<close>

fun action_key :: "action \<Rightarrow> int" where
  "action_key ActionNoop = 0"
| "action_key ActionWorkerReload = 2"
| "action_key ActionServiceRestart = 4"
| "action_key ActionGuestReload = 6"
| "action_key ActionGoldenRebuildRecycle = 8"
| "action_key (OtherAction n) = 2 * n + 1"

lemma action_key_eq: "action_key a = action_key b \<longleftrightarrow> a = b"
proof -
  have "even (action_key x) \<longleftrightarrow> (\<forall>n. x \<noteq> OtherAction n)" for x by (cases x) auto
  then show ?thesis by (cases a; cases b; fastforce)
qed

instantiation action :: linorder
begin

definition less_eq_action :: "action \<Rightarrow> action \<Rightarrow> bool" where
  "less_eq_action a b = (action_key a \<le> action_key b)"

definition less_action :: "action \<Rightarrow> action \<Rightarrow> bool" where
  "less_action a b = (action_key a < action_key b)"

instance
  by standard (auto simp: less_eq_action_def less_action_def action_key_eq)

end

text \<open>More differences never choose a less destructive action.\<close>

lemma Decide_mono:
  assumes "CompiledBaseRef i \<noteq> RunningBaseRef i \<longrightarrow> CompiledBaseRef j \<noteq> RunningBaseRef j"
    and "CompiledGuestFingerprint i \<noteq> RunningGuestFingerprint i \<longrightarrow> CompiledGuestFingerprint j \<noteq> RunningGuestFingerprint j"
    and "GuestProtocolMajor i \<noteq> CompiledProtocolMajor i \<longrightarrow> GuestProtocolMajor j \<noteq> CompiledProtocolMajor j"
    and "CompiledHostFingerprint i \<noteq> RunningHostFingerprint i \<longrightarrow> CompiledHostFingerprint j \<noteq> RunningHostFingerprint j"
    and "SupervisorPresent i = SupervisorPresent j"
  shows "Decide i \<le> Decide j"
  using assms by (auto simp: Decide_def less_eq_action_def)

section \<open>The command\<close>

text \<open>A \<open>uint\<close> flag has 64 bits; \<open>^uint32(0)\<close> is the word of ones.\<close>

definition clampUint32 :: "64 word \<Rightarrow> 32 word" where
  "clampUint32 v = (if v > ucast (- 1 :: 32 word) then - 1 else ucast v)"

record deploy_flags =
  dfRunningBase :: string
  dfCompiledGuestFP :: string
  dfRunningGuestFP :: string
  dfCompiledProtocol :: "64 word"
  dfGuestProtocol :: "64 word"
  dfCompiledHostFP :: string
  dfRunningHostFP :: string
  dfExecute :: bool

text \<open>What the command did: the lines it wrote and how often it restarted the service.\<close>

record deploy_out =
  doLines :: "string list"
  doRestarts :: nat

definition executeDeploy :: "err + bool \<Rightarrow> action \<Rightarrow> deploy_out \<Rightarrow> err option \<times> deploy_out" where
  "executeDeploy restart a out =
     (let line = (\<lambda>l x. x\<lparr>doLines := doLines x @ [l]\<rparr>)
      in case a of
           ActionNoop \<Rightarrow> (None, line ''deploy: nothing to reconcile'' out)
         | OtherAction n \<Rightarrow> (Some (Msg (''deploy: unknown action '' @ Action_String a)), out)
         | _ \<Rightarrow>
             if a = ActionWorkerReload \<or> a = ActionServiceRestart then
               (let out1 = out\<lparr>doRestarts := Suc (doRestarts out)\<rparr>
                in case restart of
                     Inl e \<Rightarrow> (Some (Wrapf ''deploy: reconcile host: '' e []), out1)
                   | Inr True \<Rightarrow> (None, line (''deploy: host reconciled ('' @ Action_String a @ '')'') out1)
                   | Inr False \<Rightarrow> (None, line ''deploy: no managed service to reconcile'' out1))
             else (None, line (''deploy: '' @ Action_String a @ '' touches the pool and is held for the operator; not applied'') out))"

text \<open>\<open>runDeployWithWriters\<close> after its flags are parsed: \<open>base\<close> is the base image of the loaded configuration, or the error of loading it.\<close>

definition runDeploy :: "err + bool \<Rightarrow> err + string \<Rightarrow> deploy_flags \<Rightarrow> err option \<times> deploy_out" where
  "runDeploy restart base f =
     (let out0 = \<lparr>doLines = [], doRestarts = 0\<rparr>
      in case base of
           Inl e \<Rightarrow> (Some (Wrapf ''deploy: load config: '' e []), out0)
         | Inr baseImage \<Rightarrow>
             (let i = \<lparr>CompiledBaseRef = baseImage,
                       RunningBaseRef = (if dfRunningBase f = [] then baseImage else dfRunningBase f),
                       CompiledGuestFingerprint = dfCompiledGuestFP f, RunningGuestFingerprint = dfRunningGuestFP f,
                       CompiledProtocolMajor = clampUint32 (dfCompiledProtocol f),
                       GuestProtocolMajor = clampUint32 (dfGuestProtocol f),
                       CompiledHostFingerprint = dfCompiledHostFP f, RunningHostFingerprint = dfRunningHostFP f,
                       SupervisorPresent = False\<rparr>;
                  a = Decide i;
                  out = out0\<lparr>doLines := [''deploy plan: '' @ Action_String a]\<rparr>
              in if \<not> dfExecute f then (None, out) else executeDeploy restart a out))"

section \<open>Properties\<close>

lemma clampUint32_saturates: "unat (clampUint32 v) = min (unat v) (2 ^ 32 - 1)"
proof -
  have m: "unat (ucast (- 1 :: 32 word) :: 64 word) = 2 ^ 32 - 1" by (simp add: unsigned_ucast_eq unsigned_minus_1_eq_mask mask_eq_exp_minus_1)
  show ?thesis
  proof (cases "unat v > 2 ^ 32 - 1")
    case True
    then show ?thesis by (simp add: clampUint32_def word_less_nat_alt m unsigned_minus_1_eq_mask mask_eq_exp_minus_1)
  next
    case False
    then have "unat (ucast v :: 32 word) = unat v" by (simp add: unsigned_ucast_eq take_bit_nat_eq_self)
    then show ?thesis using False by (simp add: clampUint32_def word_less_nat_alt m)
  qed
qed

lemma clampUint32_eq:
  "clampUint32 v = clampUint32 u \<longleftrightarrow> min (unat v) (2 ^ 32 - 1) = min (unat u) (2 ^ 32 - 1)"
  by (metis clampUint32_saturates word_unat_eq_iff)

text \<open>
  The deploy command restarts the host service only for a host change: it does so, once, exactly when it was told to execute
  and the configuration loaded and the base image and the guest fingerprint agree and the host fingerprint
  differs; whatever touches the pool is only reported. The plan to rebuild and recycle is made for another base
  image, and also for another guest fingerprint whose protocol major, saturated at 32 bits, differs.
\<close>

theorem deploy_restarts_only_the_host:
  "(let (e, out) = runDeploy restart base f;
        same_base = (\<exists>b. base = Inr b \<and> (dfRunningBase f = [] \<or> dfRunningBase f = b));
        same_guest = (dfCompiledGuestFP f = dfRunningGuestFP f)
    in doRestarts out = (if dfExecute f \<and> same_base \<and> same_guest \<and> dfCompiledHostFP f \<noteq> dfRunningHostFP f then 1 else 0)
       \<and> (''deploy plan: golden-rebuild-recycle'' \<in> set (doLines out)) =
           ((\<exists>b. base = Inr b) \<and> (\<not> same_base \<or>
             (\<not> same_guest \<and> min (unat (dfGuestProtocol f)) (2 ^ 32 - 1) \<noteq> min (unat (dfCompiledProtocol f)) (2 ^ 32 - 1)))))"
proof (cases base)
  case (Inl e)
  then show ?thesis by (simp add: runDeploy_def)
next
  case (Inr b)
  then show ?thesis
    by (auto simp: runDeploy_def executeDeploy_def Decide_def Let_def clampUint32_eq simp del: min_def split: sum.splits bool.splits)
qed

text \<open>An agent with another protocol, and an execution that is told to restart for a host change.\<close>

theorem deploy_restarts_only_the_host_witness:
  "doRestarts (snd (runDeploy (Inr True) (Inr ''b'') \<lparr>dfRunningBase = [], dfCompiledGuestFP = ''g'', dfRunningGuestFP = ''g'',
       dfCompiledProtocol = 1, dfGuestProtocol = 1, dfCompiledHostFP = ''h2'', dfRunningHostFP = ''h1'', dfExecute = True\<rparr>)) = 1
   \<and> ''deploy plan: golden-rebuild-recycle'' \<in> set (doLines (snd (runDeploy (Inr True) (Inr ''b'') \<lparr>dfRunningBase = ''b'',
       dfCompiledGuestFP = ''g2'', dfRunningGuestFP = ''g1'', dfCompiledProtocol = 2, dfGuestProtocol = 1, dfCompiledHostFP = ''h'',
       dfRunningHostFP = ''h'', dfExecute = True\<rparr>)))"
  using deploy_restarts_only_the_host [of "Inr True" "Inr ''b''" "\<lparr>dfRunningBase = [], dfCompiledGuestFP = ''g'', dfRunningGuestFP = ''g'',
       dfCompiledProtocol = 1, dfGuestProtocol = 1, dfCompiledHostFP = ''h2'', dfRunningHostFP = ''h1'', dfExecute = True\<rparr>"]
    deploy_restarts_only_the_host [of "Inr True" "Inr ''b''" "\<lparr>dfRunningBase = ''b'', dfCompiledGuestFP = ''g2'', dfRunningGuestFP = ''g1'',
       dfCompiledProtocol = 2, dfGuestProtocol = 1, dfCompiledHostFP = ''h'', dfRunningHostFP = ''h'', dfExecute = True\<rparr>"]
  by (simp add: Let_def split_beta)

end
