(* ===== verification/Disk.thy ===== *)
theory Disk
  imports Go_Rel "HOL-Library.AList"
begin

text \<open>
  The part of Go's \<open>os\<close> the code uses, over a Unix file tree: directories, files that are names of inodes (so that hard
  links share their content), and symbolic links that are followed where the system follows them. A path is
  the list of the elements below the root. What fails for reasons that are not in the tree (permissions, space, a device)
  is an argument, per call.
\<close>

section \<open>The tree\<close>

type_synonym path = "string list"

datatype node = DirNode nat | FileNode nat | LinkNode string

record disk =
  nodes :: "(path \<times> node) list"
  inodes :: "nat \<Rightarrow> string \<times> nat"
  nextInode :: nat
  ticks :: nat

text \<open>
  The environment of a process: the failure of the \<open>n\<close>-th call, if any, and the bytes a failing write leaves; the mode a
  file asked for with a mode gets (the umask); the working directory; the names \<open>CreateTemp\<close> draws.
\<close>

record os_env =
  io :: "nat \<Rightarrow> err option"
  short :: "nat \<Rightarrow> nat"
  umasked :: "nat \<Rightarrow> nat"
  wd :: path
  tempName :: "nat \<Rightarrow> string"

definition node_at :: "disk \<Rightarrow> path \<Rightarrow> node option" where
  "node_at d p = (if p = [] then Some (DirNode 493) else map_of (nodes d) p)"

definition put_node :: "disk \<Rightarrow> path \<Rightarrow> node \<Rightarrow> disk" where
  "put_node d p n = d\<lparr>nodes := AList.update p n (nodes d)\<rparr>"

definition del_node :: "disk \<Rightarrow> path \<Rightarrow> disk" where
  "del_node d p = d\<lparr>nodes := AList.delete p (nodes d)\<rparr>"

definition set_inode :: "disk \<Rightarrow> nat \<Rightarrow> string \<Rightarrow> nat \<Rightarrow> disk" where
  "set_inode d i c m = d\<lparr>inodes := (inodes d)(i := (c, m))\<rparr>"

fun is_dir :: "node option \<Rightarrow> bool" where
  "is_dir (Some (DirNode m)) = True"
| "is_dir x = False"

section \<open>Resolving a path\<close>

definition ENOTDIR :: err where "ENOTDIR = Msg ''not a directory''"
definition EISDIR :: err where "EISDIR = Msg ''is a directory''"
definition EEXIST :: err where "EEXIST = Msg ''file exists''"
definition ELOOP :: err where "ELOOP = Msg ''too many levels of symbolic links''"
definition ENOTEMPTY :: err where "ENOTEMPTY = Msg ''directory not empty''"
definition EPERM :: err where "EPERM = Msg ''operation not permitted''"
definition ENOENT :: err where "ENOENT = Sentinel ErrNotExist"

text \<open>
  The walk from a directory along the remaining elements, with the number of links that may still be followed. A link at the
  end is followed only if \<open>follow\<close>. The result is where the path leads; the last element may be missing there.
\<close>

function walk :: "disk \<Rightarrow> bool \<Rightarrow> nat \<Rightarrow> path \<Rightarrow> string list \<Rightarrow> err + path" where
  "walk d follow n cur [] = Inr cur"
| "walk d follow n cur (e # es) =
     (if \<not> is_dir (node_at d cur) then Inl ENOTDIR
      else if e = [] \<or> e = ''.'' then walk d follow n cur es
      else if e = ''..'' then walk d follow n (butlast cur) es
      else
        (case node_at d (cur @ [e]) of
           None \<Rightarrow> if es = [] then Inr (cur @ [e]) else Inl ENOENT
         | Some (DirNode m) \<Rightarrow> walk d follow n (cur @ [e]) es
         | Some (FileNode i) \<Rightarrow> if es = [] then Inr (cur @ [e]) else Inl ENOTDIR
         | Some (LinkNode t) \<Rightarrow>
             if es = [] \<and> \<not> follow then Inr (cur @ [e])
             else if n = 0 then Inl ELOOP
             else walk d follow (n - 1) (if filepath_IsAbs t then [] else cur) (SplitOn slash t @ es)))"
  by pat_completeness auto

termination
  by (relation "inv_image (less_than <*lex*> less_than) (\<lambda>(d, follow, n, cur, es). (n, length es))") auto

definition max_links :: nat where "max_links = 32"

definition lookup_elems :: "os_env \<Rightarrow> disk \<Rightarrow> bool \<Rightarrow> bool \<Rightarrow> string list \<Rightarrow> err + path" where
  "lookup_elems E d follow absolute es = walk d follow max_links (if absolute then [] else wd E) es"

definition lookup :: "os_env \<Rightarrow> disk \<Rightarrow> bool \<Rightarrow> string \<Rightarrow> err + path" where
  "lookup E d follow p =
     (if p = [] then Inl ENOENT else lookup_elems E d follow (filepath_IsAbs p) (SplitOn slash p))"

section \<open>Calls\<close>

type_synonym 'a sys = "disk \<Rightarrow> (err + 'a) \<times> disk"

text \<open>One call: it may fail, or acts on the tree.\<close>

definition syscall :: "os_env \<Rightarrow> 'a sys \<Rightarrow> 'a sys" where
  "syscall E f d =
     (let d1 = d\<lparr>ticks := Suc (ticks d)\<rparr> in case io E (ticks d) of Some e \<Rightarrow> (Inl e, d1) | None \<Rightarrow> f d1)"

definition sbind :: "(err + 'a) \<times> 's \<Rightarrow> ('a \<Rightarrow> 's \<Rightarrow> (err + 'b) \<times> 's) \<Rightarrow> (err + 'b) \<times> 's" where
  "sbind m f = (case m of (Inl e, d) \<Rightarrow> (Inl e, d) | (Inr x, d) \<Rightarrow> f x d)"

text \<open>The error of a call, wrapped.\<close>

definition wrapping :: "string \<Rightarrow> (err + 'a) \<times> 's \<Rightarrow> (err + 'a) \<times> 's" where
  "wrapping msg m = (case m of (Inl e, d) \<Rightarrow> (Inl (Wrapf msg e []), d) | (Inr x, d) \<Rightarrow> (Inr x, d))"

definition found :: "disk \<Rightarrow> err + path \<Rightarrow> err + node" where
  "found d r = (case r of Inl e \<Rightarrow> Inl e | Inr p \<Rightarrow> (case node_at d p of None \<Rightarrow> Inl ENOENT | Some n \<Rightarrow> Inr n))"

definition stat_elems :: "os_env \<Rightarrow> bool \<Rightarrow> bool \<Rightarrow> string list \<Rightarrow> node sys" where
  "stat_elems E follow absolute es = syscall E (\<lambda>d. (found d (lookup_elems E d follow absolute es), d))"

definition os_Stat :: "os_env \<Rightarrow> string \<Rightarrow> node sys" where
  "os_Stat E p = syscall E (\<lambda>d. (found d (lookup E d True p), d))"

definition mkdir_elems :: "os_env \<Rightarrow> nat \<Rightarrow> bool \<Rightarrow> string list \<Rightarrow> unit sys" where
  "mkdir_elems E mode absolute es = syscall E (\<lambda>d.
     case lookup_elems E d False absolute es of
       Inl e \<Rightarrow> (Inl e, d)
     | Inr p \<Rightarrow> if node_at d p \<noteq> None then (Inl EEXIST, d) else (Inr (), put_node d p (DirNode (umasked E mode))))"

text \<open>\<open>MkdirAll\<close>, on the elements of the path with the last one first; \<open>mkdir_here\<close> is its last step, when the parents are there.\<close>

definition mkdir_here :: "os_env \<Rightarrow> nat \<Rightarrow> bool \<Rightarrow> string list \<Rightarrow> unit sys" where
  "mkdir_here E mode absolute es d =
     (case mkdir_elems E mode absolute es d of
        (Inr u, d1) \<Rightarrow> (Inr u, d1)
      | (Inl er, d1) \<Rightarrow>
          (case stat_elems E False absolute es d1 of
             (Inr n, d2) \<Rightarrow> if is_dir (Some n) then (Inr (), d2) else (Inl er, d2)
           | (Inl _, d2) \<Rightarrow> (Inl er, d2)))"

fun mkdir_up :: "os_env \<Rightarrow> nat \<Rightarrow> bool \<Rightarrow> string list \<Rightarrow> unit sys" where
  "mkdir_up E mode absolute [] d = (Inr (), d)"
| "mkdir_up E mode absolute (e # up) d =
     (case stat_elems E True absolute (rev up @ [e]) d of
        (Inr n, d1) \<Rightarrow> if is_dir (Some n) then (Inr (), d1) else (Inl ENOTDIR, d1)
      | (Inl _, d1) \<Rightarrow> sbind (mkdir_up E mode absolute up d1) (\<lambda>_. mkdir_here E mode absolute (rev up @ [e])))"

definition os_MkdirAll :: "os_env \<Rightarrow> string \<Rightarrow> nat \<Rightarrow> unit sys" where
  "os_MkdirAll E p mode = mkdir_up E mode (filepath_IsAbs p) (rev (SplitOn slash p))"

definition new_file :: "disk \<Rightarrow> path \<Rightarrow> nat \<Rightarrow> nat \<times> disk" where
  "new_file d p mode =
     (nextInode d, (put_node (set_inode d (nextInode d) [] mode) p (FileNode (nextInode d)))\<lparr>nextInode := Suc (nextInode d)\<rparr>)"

text \<open>\<open>OpenFile\<close> with \<open>O_CREATE\<close> and \<open>O_WRONLY\<close>: truncating or appending, with or without \<open>O_NOFOLLOW\<close>.\<close>

definition os_Open :: "os_env \<Rightarrow> bool \<Rightarrow> bool \<Rightarrow> string \<Rightarrow> nat \<Rightarrow> nat sys" where
  "os_Open E trunc nofollow p mode = syscall E (\<lambda>d.
     case lookup E d (\<not> nofollow) p of
       Inl e \<Rightarrow> (Inl e, d)
     | Inr q \<Rightarrow>
         (case node_at d q of
            None \<Rightarrow> (let (i, d1) = new_file d q (umasked E mode) in (Inr i, d1))
          | Some (DirNode m) \<Rightarrow> (Inl EISDIR, d)
          | Some (LinkNode t) \<Rightarrow> (Inl ELOOP, d)
          | Some (FileNode i) \<Rightarrow> (Inr i, if trunc then set_inode d i [] (snd (inodes d i)) else d)))"

text \<open>Writing all of a file that is open and empty.\<close>

definition os_Write :: "os_env \<Rightarrow> nat \<Rightarrow> string \<Rightarrow> unit sys" where
  "os_Write E i content d =
     (let d1 = d\<lparr>ticks := Suc (ticks d)\<rparr>
      in case io E (ticks d) of
           Some e \<Rightarrow> (Inl e, set_inode d1 i (take (short E (ticks d)) content) (snd (inodes d i)))
         | None \<Rightarrow> (Inr (), set_inode d1 i content (snd (inodes d i))))"

definition os_Close :: "os_env \<Rightarrow> unit sys" where
  "os_Close E = syscall E (\<lambda>d. (Inr (), d))"

definition os_Fchmod :: "os_env \<Rightarrow> nat \<Rightarrow> nat \<Rightarrow> unit sys" where
  "os_Fchmod E i mode = syscall E (\<lambda>d. (Inr (), set_inode d i (fst (inodes d i)) mode))"

definition os_ReadFile :: "os_env \<Rightarrow> string \<Rightarrow> string sys" where
  "os_ReadFile E p = syscall E (\<lambda>d.
     ((case found d (lookup E d True p) of
         Inl e \<Rightarrow> Inl e
       | Inr (FileNode i) \<Rightarrow> Inr (fst (inodes d i))
       | Inr n \<Rightarrow> Inl EISDIR), d))"

definition os_WriteFile :: "os_env \<Rightarrow> string \<Rightarrow> string \<Rightarrow> nat \<Rightarrow> unit sys" where
  "os_WriteFile E p content mode d =
     sbind (os_Open E True False p mode d) (\<lambda>i d1.
       case os_Write E i content d1 of
         (Inl e, d2) \<Rightarrow> (Inl e, snd (os_Close E d2))
       | (Inr u, d2) \<Rightarrow> os_Close E d2)"

definition os_Remove :: "os_env \<Rightarrow> string \<Rightarrow> unit sys" where
  "os_Remove E p = syscall E (\<lambda>d.
     case lookup E d False p of
       Inl e \<Rightarrow> (Inl e, d)
     | Inr q \<Rightarrow>
         (case node_at d q of
            None \<Rightarrow> (Inl ENOENT, d)
          | Some (DirNode m) \<Rightarrow>
              if q = [] then (Inl EPERM, d)
              else if list_ex (\<lambda>(c, _). c \<noteq> [] \<and> butlast c = q) (nodes d) then (Inl ENOTEMPTY, d)
              else (Inr (), del_node d q)
          | Some _ \<Rightarrow> (Inr (), del_node d q)))"

definition os_Symlink :: "os_env \<Rightarrow> string \<Rightarrow> string \<Rightarrow> unit sys" where
  "os_Symlink E target p = syscall E (\<lambda>d.
     case lookup E d False p of
       Inl e \<Rightarrow> (Inl e, d)
     | Inr q \<Rightarrow> if node_at d q \<noteq> None then (Inl EEXIST, d) else (Inr (), put_node d q (LinkNode target)))"

text \<open>\<open>link(2)\<close> as on macOS, which follows a link at the end of the old path.\<close>

definition os_Link :: "os_env \<Rightarrow> string \<Rightarrow> string \<Rightarrow> unit sys" where
  "os_Link E old p = syscall E (\<lambda>d.
     case found d (lookup E d True old) of
       Inl e \<Rightarrow> (Inl e, d)
     | Inr n \<Rightarrow>
         (case lookup E d False p of
            Inl e \<Rightarrow> (Inl e, d)
          | Inr q \<Rightarrow>
              if node_at d q \<noteq> None then (Inl EEXIST, d)
              else (case n of FileNode i \<Rightarrow> (Inr (), put_node d q (FileNode i)) | _ \<Rightarrow> (Inl EPERM, d))))"

text \<open>\<open>CreateTemp\<close>: the name it settles on and the inode.\<close>

definition joinPath :: "string \<Rightarrow> string \<Rightarrow> string" where
  "joinPath dir name = (if dir \<noteq> [] \<and> last dir = slash then dir @ name else dir @ slash # name)"

definition os_CreateTemp :: "os_env \<Rightarrow> string \<Rightarrow> (string \<times> nat) sys" where
  "os_CreateTemp E dir = (\<lambda>d0. let name = joinPath dir (tempName E (ticks d0)) in
     syscall E (\<lambda>d.
       case lookup E d False name of
         Inl e \<Rightarrow> (Inl e, d)
       | Inr q \<Rightarrow> if node_at d q \<noteq> None then (Inl EEXIST, d)
                  else (let (i, d1) = new_file d q (umasked E 384) in (Inr (name, i), d1))) d0)"

text \<open>\<open>Rename\<close> of a file.\<close>

definition os_Rename :: "os_env \<Rightarrow> string \<Rightarrow> string \<Rightarrow> unit sys" where
  "os_Rename E old p = syscall E (\<lambda>d.
     case lookup E d False old of
       Inl e \<Rightarrow> (Inl e, d)
     | Inr q1 \<Rightarrow>
         (case node_at d q1 of
            None \<Rightarrow> (Inl ENOENT, d)
          | Some n \<Rightarrow>
              (case lookup E d False p of
                 Inl e \<Rightarrow> (Inl e, d)
               | Inr q2 \<Rightarrow>
                   if is_dir (Some n) \<or> is_dir (node_at d q2) then (Inl EISDIR, d)
                   else if node_at d q2 = Some n then (Inr (), d)
                   else (Inr (), put_node (del_node d q1) q2 n))))"

section \<open>Facts\<close>

lemma node_at_root [simp]: "node_at d [] = Some (DirNode 493)"
  by (simp add: node_at_def)

lemma node_at_put: "p \<noteq> [] \<Longrightarrow> node_at (put_node d p n) q = (if q = p then Some n else node_at d q)"
  by (auto simp: node_at_def put_node_def update_conv')

lemma node_at_del: "node_at (del_node d p) q = (if q = p \<and> p \<noteq> [] then None else node_at d q)"
  by (auto simp: node_at_def del_node_def delete_conv')

lemma node_at_others [simp]:
  "node_at (d\<lparr>ticks := t\<rparr>) q = node_at d q" "node_at (d\<lparr>inodes := x\<rparr>) q = node_at d q"
  "node_at (d\<lparr>nextInode := k\<rparr>) q = node_at d q" "node_at (set_inode d i c m) q = node_at d q"
  by (simp_all add: node_at_def set_inode_def)

lemma disk_fields [simp]:
  "inodes (put_node d p n) = inodes d" "nextInode (put_node d p n) = nextInode d" "ticks (put_node d p n) = ticks d"
  "inodes (del_node d p) = inodes d" "nextInode (del_node d p) = nextInode d" "ticks (del_node d p) = ticks d"
  "inodes (set_inode d i c m) = (inodes d)(i := (c, m))" "nextInode (set_inode d i c m) = nextInode d"
  by (simp_all add: put_node_def del_node_def set_inode_def)

lemma is_dir_iff: "is_dir x \<longleftrightarrow> (\<exists>m. x = Some (DirNode m))"
  by (cases x rule: is_dir.cases) auto

lemma sbind_Inr: "sbind m f = (Inr y, d') \<longleftrightarrow> (\<exists>x d. m = (Inr x, d) \<and> f x d = (Inr y, d'))"
  by (cases m; cases "fst m") (auto simp: sbind_def)

lemma wrapping_Inr [simp]: "wrapping msg m = (Inr y, d') \<longleftrightarrow> m = (Inr y, d')"
  by (cases m; cases "fst m") (auto simp: wrapping_def)

lemma sbind_wrapping [simp]:
  "sbind (wrapping msg (r, d)) f = (case r of Inl e \<Rightarrow> (Inl (Wrapf msg e []), d) | Inr x \<Rightarrow> f x d)"
  by (cases r) (simp_all add: sbind_def wrapping_def)

lemma sbind_pair: "sbind (r, d) f = (case r of Inl e \<Rightarrow> (Inl e, d) | Inr x \<Rightarrow> f x d)"
  by (simp add: sbind_def)

lemma fst_wrapping [simp]: "fst (wrapping msg m) = Inr y \<longleftrightarrow> fst m = Inr y"
  by (cases m; cases "fst m") (auto simp: wrapping_def)

lemma snd_wrapping [simp]: "snd (wrapping msg m) = snd m"
  by (cases m; cases "fst m") (auto simp: wrapping_def)

text \<open>What a walk sees is \<open>node_at\<close>, and a file put where it ends does not divert it.\<close>

lemma walk_cong: "node_at d = node_at d' \<Longrightarrow> walk d follow n cur es = walk d' follow n cur es"
proof (induction d follow n cur es rule: walk.induct)
  case (1 d follow n cur)
  then show ?case by simp
next
  case (2 d follow n cur e es)
  have eq: "node_at d p = node_at d' p" for p using 2(5) by simp
  show ?case by (subst (1 2) walk.simps) (use 2 eq in \<open>auto split: option.split node.split\<close>)
qed

lemma lookup_cong: "node_at d = node_at d' \<Longrightarrow> lookup E d follow p = lookup E d' follow p"
  using walk_cong [of d d'] by (simp add: lookup_def lookup_elems_def)

lemma walk_put_file:
  "walk d follow n cur es = Inr q \<Longrightarrow> node_at d q = None \<Longrightarrow> walk (put_node d q (FileNode i)) follow n cur es = Inr q"
proof (induction d follow n cur es rule: walk.induct)
  case (1 d follow n cur)
  then show ?case by simp
next
  case (2 d follow n cur e es)
  have ne: "q \<noteq> []" using 2(6) by auto
  have at: "node_at (put_node d q (FileNode i)) p = (if p = q then Some (FileNode i) else node_at d p)" for p
    using ne by (simp add: node_at_put)
  have cur: "cur \<noteq> q" using 2(5,6) by (auto split: if_splits)
  show ?case
    using 2 cur by (subst walk.simps) (auto simp: at split: option.splits node.splits if_splits)
qed

end
