(* ===== verification/Disk_Region.thy ===== *)
theory Disk_Region
  imports Disk
begin

text \<open>
  Keeping changes of the tree below a directory \<open>D\<close>. A tree is sealed when no link lies on the way to \<open>D\<close>, the links
  below \<open>D\<close> are among \<open>L\<close>, and no file has names both below and outside of \<open>D\<close>. A call on a path that does not pass through a
  link of \<open>L\<close> then acts on exactly that place, so it keeps the tree sealed and everything outside as it was.
\<close>

section \<open>Clean absolute paths\<close>

definition abs_path :: "path \<Rightarrow> string" where
  "abs_path es = slash # JoinStr es [slash]"

lemma abs_path_IsAbs [simp]: "filepath_IsAbs (abs_path es)" and abs_path_ne [simp]: "abs_path es \<noteq> []"
  by (simp_all add: abs_path_def filepath_IsAbs_def HasPrefix_def slash_def)

lemma SplitOn_abs_path: "list_all plain_elem es \<Longrightarrow> SplitOn slash (abs_path es) = [] # (if es = [] then [[]] else es)"
  by (cases es) (simp_all add: abs_path_def SplitOn_JoinStr del: JoinStr.simps, simp)

lemma Clean_abs: "filepath_IsAbs p \<Longrightarrow> filepath_Clean p = abs_path (path_elems (filepath_Clean p))"
proof -
  assume a: "filepath_IsAbs p"
  then have "p \<noteq> []" by (auto simp: filepath_IsAbs_def HasPrefix_def)
  then show ?thesis using a by (simp add: path_elems_Clean(1) abs_path_def) (simp add: filepath_Clean_def slash_def)
qed

lemma path_elems_abs_path: "list_all plain_elem es \<Longrightarrow> path_elems (abs_path es) = es"
  unfolding path_elems_def by (simp add: SplitOn_abs_path) (auto simp: list_all_iff plain_elem_def intro!: filter_True)

lemma clean_elems_id: "list_all plain_elem es \<Longrightarrow> clean_elems True acc es = rev acc @ es"
  by (induction es arbitrary: acc) (auto simp: plain_elem_def)

lemma Clean_abs_path: "list_all plain_elem es \<Longrightarrow> filepath_Clean (abs_path es) = abs_path es"
  by (simp add: filepath_Clean_def SplitOn_abs_path clean_elems_id) (simp add: abs_path_def slash_def)

lemma dir_prefix_snoc: "slash \<notin> set e \<Longrightarrow> dir_prefix (p @ slash # e) = p @ [slash]"
proof -
  assume "slash \<notin> set e"
  then have "dropWhile (\<lambda>c. c \<noteq> slash) (rev e @ slash # rev p) = slash # rev p"
    by (subst dropWhile_append2) auto
  then show ?thesis by (simp add: dir_prefix_def)
qed

lemma abs_path_snoc: "es \<noteq> [] \<Longrightarrow> abs_path (es @ [e]) = abs_path es @ slash # e"
  by (simp add: abs_path_def JoinStr_snoc)

lemma Dir_abs_path:
  assumes "list_all plain_elem es"
  shows "filepath_Dir (abs_path es) = abs_path (butlast es)"
proof (cases es rule: rev_cases)
  case Nil
  have "filepath_Dir (abs_path []) = abs_path []" by code_simp
  then show ?thesis using Nil by simp
next
  case (snoc ys e)
  then have e: "slash \<notin> set e" and ys: "list_all plain_elem ys" using assms by (auto simp: plain_elem_def)
  have "dir_prefix (abs_path es) = abs_path ys @ (if ys = [] then [] else [slash])"
  proof (cases "ys = []")
    case True
    then show ?thesis using dir_prefix_snoc [OF e, of "[]"] snoc by (simp add: abs_path_def)
  next
    case False
    then show ?thesis using dir_prefix_snoc [OF e, of "abs_path ys"] snoc by (simp add: abs_path_snoc)
  qed
  moreover have "filepath_Clean (abs_path ys @ [slash]) = abs_path ys"
  proof -
    have "SplitOn slash (abs_path ys @ slash # []) = SplitOn slash (abs_path ys) @ [[]]" by (rule SplitOn_append) simp
    moreover have "filepath_IsAbs (abs_path ys @ [slash])" by (simp add: abs_path_def filepath_IsAbs_def HasPrefix_def slash_def)
    moreover have "clean_elems True [] (ys @ [[]]) = ys" using clean_elems_id [OF ys, of "[]"] by (simp add: clean_elems_acc)
    ultimately show ?thesis using ys
      by (simp add: filepath_Clean_def SplitOn_abs_path) (simp add: abs_path_def slash_def)
  qed
  moreover have "filepath_Clean (abs_path []) = abs_path []" using Clean_abs_path [of "[]"] by simp
  ultimately show ?thesis using snoc by (auto simp: filepath_Dir_def)
qed

section \<open>Walks that meet no link\<close>

lemma walk_plain:
  assumes "walk d follow n cur es = Inr q" and "list_all plain_elem es"
    and "\<And>p t. strict_prefix cur p \<Longrightarrow> prefix p (cur @ es) \<Longrightarrow> follow \<or> p \<noteq> cur @ es \<Longrightarrow> node_at d p \<noteq> Some (LinkNode t)"
  shows "q = cur @ es"
  using assms
proof (induction es arbitrary: cur)
  case Nil
  then show ?case by simp
next
  case (Cons e es)
  have e: "e \<noteq> []" "e \<noteq> ''.''" "e \<noteq> ''..''" using Cons.prems(2) by (auto simp: plain_elem_def)
  have link: "node_at d (cur @ [e]) \<noteq> Some (LinkNode t)" if "follow \<or> es \<noteq> []" for t
    using Cons.prems(3) [of "cur @ [e]" t] that by (auto simp: strict_prefix_def prefix_def)
  have below: "node_at d p \<noteq> Some (LinkNode t)"
    if "strict_prefix (cur @ [e]) p" "prefix p ((cur @ [e]) @ es)" "follow \<or> p \<noteq> (cur @ [e]) @ es" for p t
    using Cons.prems(3) [of p t] that by (auto simp: strict_prefix_def prefix_def)
  show ?case
    using Cons.prems(1) e link Cons.IH [of "cur @ [e]"] Cons.prems(2) below
    by (auto split: if_splits option.splits node.splits)
qed

lemma lookup_abs_path:
  "list_all plain_elem es \<Longrightarrow> lookup E d follow (abs_path es) = walk d follow max_links [] es"
  by (cases "es = []") (simp_all add: lookup_def lookup_elems_def SplitOn_abs_path)

section \<open>Regions\<close>

definition sealed :: "path \<Rightarrow> path set \<Rightarrow> disk \<Rightarrow> bool" where
  "sealed D L d =
     ((\<forall>p t. prefix p D \<longrightarrow> node_at d p \<noteq> Some (LinkNode t))
      \<and> (\<forall>p t. prefix D p \<longrightarrow> node_at d p = Some (LinkNode t) \<longrightarrow> p \<in> L)
      \<and> (\<forall>p q i. prefix D p \<longrightarrow> node_at d p = Some (FileNode i) \<longrightarrow> node_at d q = Some (FileNode i) \<longrightarrow> prefix D q)
      \<and> (\<forall>p i. node_at d p = Some (FileNode i) \<longrightarrow> i < nextInode d))"

text \<open>Outside, nothing but the missing directories on the way to \<open>D\<close> may have appeared.\<close>

definition within_region :: "path \<Rightarrow> disk \<Rightarrow> disk \<Rightarrow> bool" where
  "within_region D d d' =
     ((\<forall>p. \<not> prefix D p \<longrightarrow> node_at d' p = node_at d p \<or> prefix p D \<and> node_at d p = None \<and> is_dir (node_at d' p))
      \<and> (\<forall>p i. \<not> prefix D p \<longrightarrow> node_at d p = Some (FileNode i) \<longrightarrow> inodes d' i = inodes d i))"

definition stays :: "path \<Rightarrow> path set \<Rightarrow> disk \<Rightarrow> disk \<Rightarrow> bool" where
  "stays D L d d' = (sealed D L d' \<and> within_region D d d')"

lemma within_refl [simp]: "within_region D d d"
  by (simp add: within_region_def)

lemma within_trans: "within_region D d d' \<Longrightarrow> within_region D d' d'' \<Longrightarrow> within_region D d d''"
  unfolding within_region_def by (metis is_dir.simps(2) option.distinct(1))

lemma stays_trans: "stays D L d d' \<Longrightarrow> (sealed D L d' \<Longrightarrow> stays D L d' d'') \<Longrightarrow> stays D L d d''"
  using within_trans by (auto simp: stays_def)

lemma stays_refl: "sealed D L d \<Longrightarrow> stays D L d d"
  by (simp add: stays_def)

lemma stays_tick: "sealed D L d \<Longrightarrow> stays D L d (d\<lparr>ticks := t\<rparr>)"
  by (simp add: stays_def sealed_def within_region_def)

lemma stays_put_dir:
  assumes "sealed D L d" and "prefix D p \<or> prefix p D" and "node_at d p = None"
  shows "stays D L d (put_node d p (DirNode m))"
proof -
  have "p \<noteq> []" using assms(3) by auto
  then show ?thesis using assms by (auto simp: stays_def sealed_def within_region_def node_at_put)
qed

lemma stays_put_link:
  assumes "sealed D L d" and "strict_prefix D p" and "p \<in> L"
  shows "stays D L d (put_node d p (LinkNode t))"
proof -
  have "p \<noteq> []" "\<not> prefix p D" using assms(2) by (auto simp: strict_prefix_def)
  then show ?thesis using assms by (auto simp: stays_def sealed_def within_region_def node_at_put strict_prefix_def)
qed

lemma stays_put_file:
  assumes "sealed D L d" and "prefix D p" and "node_at d p = None" and "i < nextInode d"
    and "\<And>q. node_at d q = Some (FileNode i) \<Longrightarrow> prefix D q"
  shows "stays D L d (put_node d p (FileNode i))"
proof -
  have "p \<noteq> []" using assms(3) by auto
  then show ?thesis using assms by (auto simp: stays_def sealed_def within_region_def node_at_put)
qed

lemma stays_del: "sealed D L d \<Longrightarrow> prefix D p \<Longrightarrow> stays D L d (del_node d p)"
  by (auto simp: stays_def sealed_def within_region_def node_at_del)

lemma stays_set_inode:
  "sealed D L d \<Longrightarrow> (\<And>q. node_at d q = Some (FileNode i) \<Longrightarrow> prefix D q) \<Longrightarrow> stays D L d (set_inode d i c m)"
  by (auto simp: stays_def sealed_def within_region_def)

lemma stays_new_file:
  assumes "sealed D L d" and "prefix D p" and "node_at d p = None" and "new_file d p mode = (i, d')"
  shows "stays D L d d' \<and> (\<forall>q. node_at d' q = Some (FileNode i) \<longrightarrow> prefix D q)"
proof -
  have ne: "p \<noteq> []" using assms(3) by auto
  have i: "i = nextInode d" and d': "d' = (put_node (set_inode d i [] mode) p (FileNode i))\<lparr>nextInode := Suc i\<rparr>"
    using assms(4) by (auto simp: new_file_def)
  have fresh: "node_at d q \<noteq> Some (FileNode i)" for q using assms(1) i by (auto simp: sealed_def)
  show ?thesis using assms(1,2,3) ne fresh unfolding d'
    by (auto simp: stays_def sealed_def within_region_def node_at_put i less_SucI)
qed

section \<open>Calls that stay inside\<close>

definition clear_of :: "path set \<Rightarrow> path \<Rightarrow> bool" where
  "clear_of L p = (\<forall>l \<in> L. \<not> strict_prefix l p)"

lemma sealed_walk:
  assumes "sealed D L d" and "prefix D es \<or> prefix es D" and "clear_of L es" and "follow \<longrightarrow> es \<notin> L"
    and "walk d follow n [] es = Inr q" and "list_all plain_elem es"
  shows "q = es"
proof -
  have "node_at d p \<noteq> Some (LinkNode t)" if p: "prefix p es" "follow \<or> p \<noteq> es" for p t
  proof (cases "prefix p D")
    case True
    then show ?thesis using assms(1) by (simp add: sealed_def)
  next
    case False
    then have "prefix D p" using assms(2) p(1) by (meson prefix_order.trans prefix_same_cases)
    moreover have "p \<notin> L" using p assms(3,4) by (auto simp: clear_of_def strict_prefix_def)
    ultimately show ?thesis using assms(1) unfolding sealed_def by blast
  qed
  then show ?thesis using walk_plain [OF assms(5,6)] by simp
qed

lemma stays_syscall:
  assumes "sealed D L d" and "\<And>d1. sealed D L d1 \<Longrightarrow> stays D L d1 (snd (f d1))"
  shows "stays D L d (snd (syscall E f d))"
  using stays_tick [OF assms(1)] assms(2) unfolding syscall_def Let_def
  by (auto split: option.splits intro: stays_trans)

lemma stays_sbind:
  assumes "stays D L d (snd m)" and "\<And>x d1. m = (Inr x, d1) \<Longrightarrow> sealed D L d1 \<Longrightarrow> stays D L d1 (snd (f x d1))"
  shows "stays D L d (snd (sbind m f))"
proof (cases m)
  case (Pair r d1)
  then show ?thesis using assms by (cases r) (auto simp: sbind_def intro: stays_trans)
qed

lemma stays_stat: "sealed D L d \<Longrightarrow> stays D L d (snd (stat_elems E follow absolute es d))"
  unfolding stat_elems_def by (rule stays_syscall) (simp_all add: stays_refl)

lemma stays_os_Stat: "sealed D L d \<Longrightarrow> stays D L d (snd (os_Stat E p d))"
  unfolding os_Stat_def by (rule stays_syscall) (simp_all add: stays_refl)

lemma stays_os_Close: "sealed D L d \<Longrightarrow> stays D L d (snd (os_Close E d))"
  unfolding os_Close_def by (rule stays_syscall) (simp_all add: stays_refl)

text \<open>The elements of a clean path, or the one empty element after the slash of the root.\<close>

definition plain_or_root :: "path \<Rightarrow> bool" where
  "plain_or_root es = (list_all plain_elem es \<or> es = [[]])"

lemma stays_mkdir:
  assumes "sealed D L d" and "prefix D es \<or> prefix es D \<or> es = [[]]" and "clear_of L es \<or> es = [[]]" and "plain_or_root es"
  shows "stays D L d (snd (mkdir_elems E mode True ([] # es) d))"
  unfolding mkdir_elems_def
proof (rule stays_syscall [OF assms(1)])
  fix d1
  assume s: "sealed D L d1"
  have l: "lookup_elems E d1 False True ([] # es) = walk d1 False max_links [] es" by (simp add: lookup_elems_def)
  show "stays D L d1 (snd (case lookup_elems E d1 False True ([] # es) of Inl e \<Rightarrow> (Inl e, d1)
      | Inr p \<Rightarrow> if node_at d1 p \<noteq> None then (Inl EEXIST, d1) else (Inr (), put_node d1 p (DirNode (umasked E mode)))))"
  proof (cases "es = [[]]")
    case True
    then show ?thesis using s unfolding l by (simp add: stays_refl)
  next
    case False
    then have es: "prefix D es \<or> prefix es D" "clear_of L es" "list_all plain_elem es"
      using assms(2-4) by (auto simp: plain_or_root_def)
    show ?thesis using sealed_walk [OF s es(1,2) _ _ es(3)] s es(1)
      unfolding l by (auto split: sum.splits intro: stays_refl stays_put_dir)
  qed
qed

lemma clear_of_prefix: "clear_of L es \<Longrightarrow> prefix p es \<Longrightarrow> clear_of L p"
  by (auto simp: clear_of_def dest: prefix_order.dual_order.strict_trans2)

lemma stays_mkdir_here:
  assumes "sealed D L d" and "prefix D es \<or> prefix es D \<or> es = [[]]" and "clear_of L es \<or> es = [[]]" and "plain_or_root es"
  shows "stays D L d (snd (mkdir_here E mode True ([] # es) d))"
proof -
  obtain r1 d1 where m: "mkdir_elems E mode True ([] # es) d = (r1, d1)" by fastforce
  obtain r2 d2 where l: "stat_elems E False True ([] # es) d1 = (r2, d2)" by fastforce
  have s1: "stays D L d d1" using stays_mkdir [OF assms, of E mode] m by simp
  then have "stays D L d1 d2" using stays_stat [of D L d1 E False True "[] # es"] l by (simp add: stays_def)
  then have "stays D L d d2" using s1 by (blast intro: stays_trans)
  then show ?thesis using m l s1 by (simp add: mkdir_here_def split: sum.split)
qed

lemma stays_mkdir_level:
  assumes "sealed D L d" and "prefix D es \<or> prefix es D \<or> es = [[]]" "clear_of L es \<or> es = [[]]" "plain_or_root es"
    and p: "rev up @ [e] = [] # es"
    and above: "\<And>d1. sealed D L d1 \<Longrightarrow> stays D L d1 (snd (mkdir_up E mode True up d1))"
  shows "stays D L d (snd (mkdir_up E mode True (e # up) d))"
proof -
  obtain r d1 where s1: "stat_elems E True True ([] # es) d = (r, d1)" by fastforce
  then have d1: "stays D L d d1" using stays_stat [OF assms(1), of E True True "[] # es"] by simp
  let ?rest = "snd (sbind (mkdir_up E mode True up d1) (\<lambda>_. mkdir_here E mode True ([] # es)))"
  have "stays D L d1 ?rest"
    by (rule stays_sbind) (use above d1 stays_mkdir_here [OF _ assms(2-4)] in \<open>auto simp: stays_def\<close>)
  then have "stays D L d ?rest" using d1 by (blast intro: stays_trans)
  then show ?thesis using d1 s1 by (simp add: p split: sum.split)
qed

lemma stays_mkdir_up:
  assumes "sealed D L d" and "prefix D es \<or> prefix es D" and "clear_of L es" and "list_all plain_elem es"
  shows "stays D L d (snd (mkdir_up E mode True (rev es @ [[]]) d))"
  using assms
proof (induction es arbitrary: d rule: rev_induct)
  case Nil
  have "stays D L d (snd (mkdir_up E mode True ([] # []) d))"
    by (rule stays_mkdir_level [of D L d "[]"]) (use Nil in \<open>simp_all add: stays_refl plain_or_root_def\<close>)
  then show ?case by simp
next
  case (snoc e es)
  have es: "prefix D es \<or> prefix es D" using snoc.prems(2) by (auto dest: append_prefixD)
  have cl: "clear_of L es" using clear_of_prefix [OF snoc.prems(3)] by simp
  have pl: "list_all plain_elem es" using snoc.prems(4) by simp
  have "stays D L d (snd (mkdir_up E mode True (e # (rev es @ [[]])) d))"
    by (rule stays_mkdir_level [of D L d "es @ [e]"]) (use snoc es cl pl in \<open>auto simp: plain_or_root_def\<close>)
  then show ?case by simp
qed

lemma stays_os_MkdirAll:
  assumes "sealed D L d" and "prefix D es \<or> prefix es D" and "clear_of L es" and "list_all plain_elem es"
  shows "stays D L d (snd (os_MkdirAll E (abs_path es) mode d))"
proof (cases "es = []")
  case True
  have "stays D L d1 (snd (mkdir_up E mode True [[]] d1))" if "sealed D L d1" for d1
    using stays_mkdir_up [OF that, of "[]" E mode] by (simp add: clear_of_def)
  then have "stays D L d (snd (mkdir_up E mode True ([] # [[]]) d))"
    by (intro stays_mkdir_level [OF assms(1), of "[[]]"]) (simp_all add: plain_or_root_def)
  then show ?thesis using True by (simp add: os_MkdirAll_def SplitOn_abs_path)
next
  case False
  then show ?thesis using stays_mkdir_up [OF assms, of E mode] assms(4) by (simp add: os_MkdirAll_def SplitOn_abs_path)
qed

lemma sealed_lookup:
  assumes "sealed D L d" and "prefix D es \<or> prefix es D" and "clear_of L es" and "list_all plain_elem es"
    and "follow \<longrightarrow> es \<notin> L" and "lookup E d follow (abs_path es) = Inr q"
  shows "q = es"
  using sealed_walk [OF assms(1,2,3,5) _ assms(4)] assms(6) by (simp add: lookup_abs_path [OF assms(4)])

text \<open>The outcome of \<open>f\<close> as a whole, under a call.\<close>

lemma syscall_outcome:
  assumes "syscall E f d = (r, d')" and "sealed D L d"
    and "\<And>d1 r1 d2. sealed D L d1 \<Longrightarrow> f d1 = (r1, d2) \<Longrightarrow> stays D L d1 d2 \<and> (\<forall>x. r1 = Inr x \<longrightarrow> Q x d2)"
  shows "stays D L d d' \<and> (\<forall>x. r = Inr x \<longrightarrow> Q x d')"
proof -
  let ?d1 = "d\<lparr>ticks := Suc (ticks d)\<rparr>"
  have t: "stays D L d ?d1" by (rule stays_tick [OF assms(2)])
  show ?thesis
  proof (cases "io E (ticks d)")
    case None
    then have "f ?d1 = (r, d')" using assms(1) by (simp add: syscall_def Let_def)
    then show ?thesis using assms(3) [of ?d1 r d'] t by (auto simp: stays_def intro: within_trans)
  next
    case (Some e)
    then show ?thesis using assms(1) t by (auto simp: syscall_def Let_def)
  qed
qed

definition only_inside :: "path \<Rightarrow> nat \<Rightarrow> disk \<Rightarrow> bool" where
  "only_inside D i d = (\<forall>q. node_at d q = Some (FileNode i) \<longrightarrow> prefix D q)"

lemma sealed_only_inside: "sealed D L d \<Longrightarrow> prefix D p \<Longrightarrow> node_at d p = Some (FileNode i) \<Longrightarrow> only_inside D i d"
  by (auto simp: sealed_def only_inside_def)

lemma stays_os_Open:
  assumes "os_Open E trunc True (abs_path es) mode d = (r, d')"
    and "sealed D L d" and es: "prefix D es" "clear_of L es" "list_all plain_elem es"
  shows "stays D L d d' \<and> (\<forall>i. r = Inr i \<longrightarrow> only_inside D i d')"
proof (rule syscall_outcome [OF assms(1) [unfolded os_Open_def] assms(2)])
  fix d1 r1 d2
  assume s: "sealed D L d1"
    and f: "(case lookup E d1 (\<not> True) (abs_path es) of Inl e \<Rightarrow> (Inl e, d1) | Inr q \<Rightarrow>
         (case node_at d1 q of
            None \<Rightarrow> (let (i, d3) = new_file d1 q (umasked E mode) in (Inr i, d3))
          | Some (DirNode m) \<Rightarrow> (Inl EISDIR, d1)
          | Some (LinkNode t) \<Rightarrow> (Inl ELOOP, d1)
          | Some (FileNode i) \<Rightarrow> (Inr i, if trunc then set_inode d1 i [] (snd (inodes d1 i)) else d1))) = (r1, d2)"
  show "stays D L d1 d2 \<and> (\<forall>i. r1 = Inr i \<longrightarrow> only_inside D i d2)"
  proof (cases "lookup E d1 False (abs_path es)")
    case (Inl e)
    then show ?thesis using f s by (auto intro: stays_refl)
  next
    case (Inr q)
    then have q: "q = es" using sealed_lookup [OF s] es by blast
    show ?thesis
    proof (cases "node_at d1 es")
      case None
      obtain i d3 where n: "new_file d1 es (umasked E mode) = (i, d3)" by fastforce
      then show ?thesis using f Inr q None stays_new_file [OF s es(1) None n] by (auto simp: only_inside_def)
    next
      case (Some n)
      then show ?thesis
      proof (cases n)
        case (FileNode i)
        have o: "only_inside D i d1" using sealed_only_inside [OF s es(1)] Some FileNode by simp
        then have "stays D L d1 (set_inode d1 i c m)" for c m using stays_set_inode [OF s] by (simp add: only_inside_def)
        then show ?thesis using f Inr q Some FileNode o s by (auto simp: only_inside_def stays_refl split: if_splits)
      qed (use f Inr q Some s in \<open>auto intro: stays_refl\<close>)
    qed
  qed
qed

lemma stays_os_Write:
  assumes "sealed D L d" and "only_inside D i d"
  shows "stays D L d (snd (os_Write E i c d))"
proof -
  let ?d1 = "d\<lparr>ticks := Suc (ticks d)\<rparr>"
  have t: "stays D L d ?d1" by (rule stays_tick [OF assms(1)])
  then have "stays D L ?d1 (set_inode ?d1 i b m)" for b m
    using stays_set_inode [of D L ?d1 i] assms(2) by (simp add: stays_def only_inside_def)
  then have "stays D L d (set_inode ?d1 i b m)" for b m using t by (blast intro: stays_trans)
  then show ?thesis by (simp add: os_Write_def Let_def split: option.split)
qed

lemma stays_os_Remove:
  assumes "sealed D L d" and "prefix D es" and "clear_of L es" and "list_all plain_elem es"
  shows "stays D L d (snd (os_Remove E (abs_path es) d))"
  unfolding os_Remove_def
proof (rule stays_syscall [OF assms(1)])
  fix d1
  assume s: "sealed D L d1"
  have q: "q = es" if "lookup E d1 False (abs_path es) = Inr q" for q using sealed_lookup [OF s] assms that by blast
  show "stays D L d1 (snd (case lookup E d1 False (abs_path es) of Inl e \<Rightarrow> (Inl e, d1) | Inr q \<Rightarrow>
         (case node_at d1 q of
            None \<Rightarrow> (Inl ENOENT, d1)
          | Some (DirNode m) \<Rightarrow>
              if q = [] then (Inl EPERM, d1)
              else if list_ex (\<lambda>(c, _). c \<noteq> [] \<and> butlast c = q) (nodes d1) then (Inl ENOTEMPTY, d1)
              else (Inr (), del_node d1 q)
          | Some _ \<Rightarrow> (Inr (), del_node d1 q))))"
    using stays_del [OF s assms(2)] stays_refl [OF s] q
    by (cases "lookup E d1 False (abs_path es)") (auto split: option.split node.split)
qed

lemma stays_os_Symlink:
  assumes "sealed D L d" and "strict_prefix D es" and "clear_of L es" and "es \<in> L" and "list_all plain_elem es"
  shows "stays D L d (snd (os_Symlink E t (abs_path es) d))"
  unfolding os_Symlink_def
proof (rule stays_syscall [OF assms(1)])
  fix d1
  assume s: "sealed D L d1"
  have "prefix D es" using assms(2) by (simp add: strict_prefix_def)
  then have q: "q = es" if "lookup E d1 False (abs_path es) = Inr q" for q using sealed_lookup [OF s] assms that by blast
  show "stays D L d1 (snd (case lookup E d1 False (abs_path es) of Inl e \<Rightarrow> (Inl e, d1)
      | Inr q \<Rightarrow> if node_at d1 q \<noteq> None then (Inl EEXIST, d1) else (Inr (), put_node d1 q (LinkNode t))))"
    using stays_put_link [OF s assms(2,4)] stays_refl [OF s] q
    by (cases "lookup E d1 False (abs_path es)") auto
qed

lemma found_Inr: "found d r = Inr n \<longleftrightarrow> (\<exists>p. r = Inr p \<and> node_at d p = Some n)"
  by (auto simp: found_def split: sum.splits option.splits)

lemma stays_os_Link:
  assumes "sealed D L d" and "prefix D es" and "clear_of L es" and "list_all plain_elem es"
    and src: "prefix D src" "clear_of L src" "src \<notin> L" "list_all plain_elem src"
  shows "stays D L d (snd (os_Link E (abs_path src) (abs_path es) d))"
  unfolding os_Link_def
proof (rule stays_syscall [OF assms(1)])
  fix d1
  assume s: "sealed D L d1"
  have q: "q = es" if "lookup E d1 False (abs_path es) = Inr q" for q using sealed_lookup [OF s] assms that by blast
  have link: "stays D L d1 (put_node d1 es (FileNode i))"
    if "found d1 (lookup E d1 True (abs_path src)) = Inr (FileNode i)" and "node_at d1 es = None" for i
  proof -
    obtain p where p: "lookup E d1 True (abs_path src) = Inr p" "node_at d1 p = Some (FileNode i)"
      using \<open>found _ _ = _\<close> by (auto simp: found_Inr)
    then have "p = src" using sealed_lookup [OF s _ src(2,4) _ p(1)] src(1,3) by blast
    then have "only_inside D i d1" "i < nextInode d1"
      using p(2) sealed_only_inside [OF s src(1)] s by (auto simp: sealed_def)
    then show ?thesis using stays_put_file [OF s assms(2) that(2)] by (simp add: only_inside_def)
  qed
  show "stays D L d1 (snd (case found d1 (lookup E d1 True (abs_path src)) of Inl e \<Rightarrow> (Inl e, d1)
     | Inr n \<Rightarrow>
         (case lookup E d1 False (abs_path es) of
            Inl e \<Rightarrow> (Inl e, d1)
          | Inr q \<Rightarrow>
              if node_at d1 q \<noteq> None then (Inl EEXIST, d1)
              else (case n of FileNode i \<Rightarrow> (Inr (), put_node d1 q (FileNode i)) | _ \<Rightarrow> (Inl EPERM, d1)))))"
    using link q stays_refl [OF s]
    by (cases "found d1 (lookup E d1 True (abs_path src))"; cases "lookup E d1 False (abs_path es)")
      (auto split: node.split)
qed

end
