(* ===== verification/Disk_Keep.thy ===== *)
theory Disk_Keep
  imports Disk_Region
begin

text \<open>
  Changes that only add to a tree, the outcome of \<open>CreateTemp\<close>, and places that no link is on the way to.
\<close>

section \<open>Trees that only grow\<close>

definition keeps :: "disk \<Rightarrow> disk \<Rightarrow> bool" where
  "keeps d d' =
     ((\<forall>p n. node_at d p = Some n \<longrightarrow> node_at d' p = Some n) \<and> (\<forall>i < nextInode d. inodes d' i = inodes d i)
      \<and> nextInode d \<le> nextInode d' \<and> (\<forall>p t. node_at d' p = Some (LinkNode t) \<longrightarrow> node_at d p = Some (LinkNode t)))"

lemma keeps_refl [simp]: "keeps d d"
  by (simp add: keeps_def)

lemma keepsD:
  assumes "keeps d d'"
  shows "node_at d p = Some n \<Longrightarrow> node_at d' p = Some n" "i < nextInode d \<Longrightarrow> inodes d' i = inodes d i"
    "nextInode d \<le> nextInode d'" "node_at d' p = Some (LinkNode t) \<Longrightarrow> node_at d p = Some (LinkNode t)"
  using assms unfolding keeps_def by blast+

lemma keeps_trans: "keeps d d' \<Longrightarrow> keeps d' d'' \<Longrightarrow> keeps d d''"
  unfolding keeps_def [of d d''] using keepsD [of d d'] keepsD [of d' d''] by (metis order_less_le_trans order_trans)

lemma keeps_tick [simp]: "keeps d (d\<lparr>ticks := t\<rparr>)"
  by (simp add: keeps_def)

lemma keeps_put: "node_at d p = None \<Longrightarrow> keeps d (put_node d p (DirNode m))"
  by (cases "p = []") (auto simp: keeps_def node_at_put split: if_splits)

lemma keeps_new_file: "node_at d p = None \<Longrightarrow> new_file d p m = (i, d') \<Longrightarrow> keeps d d' \<and> i = nextInode d"
  by (cases "p = []") (auto simp: new_file_def keeps_def node_at_put split: if_splits)

lemma keeps_syscall:
  assumes "\<And>d1. keeps d1 (snd (f d1))"
  shows "keeps d (snd (syscall E f d))"
  using assms [of "d\<lparr>ticks := Suc (ticks d)\<rparr>"] by (auto simp: syscall_def Let_def intro: keeps_trans [OF keeps_tick] split: option.split)

lemma keeps_sbind: "keeps d (snd m) \<Longrightarrow> (\<And>x d1. keeps d1 (snd (f x d1))) \<Longrightarrow> keeps d (snd (sbind m f))"
  by (cases m; cases "fst m") (auto simp: sbind_def intro: keeps_trans)

lemma keeps_stats: "keeps d (snd (stat_elems E follow absolute es d))" "keeps d (snd (os_Stat E p d))" "keeps d (snd (os_Close E d))"
  unfolding stat_elems_def os_Stat_def os_Close_def by (rule keeps_syscall, simp)+

lemma keeps_mkdir: "keeps d (snd (mkdir_elems E mode absolute es d))"
  unfolding mkdir_elems_def by (rule keeps_syscall) (auto simp: keeps_put split: sum.split)

lemma keeps_mkdir_here: "keeps d (snd (mkdir_here E mode absolute es d))"
proof -
  obtain r1 d1 where m: "mkdir_elems E mode absolute es d = (r1, d1)" by fastforce
  obtain r2 d2 where l: "stat_elems E False absolute es d1 = (r2, d2)" by fastforce
  have "keeps d d1" "keeps d1 d2" using m l keeps_mkdir [of d] keeps_stats(1) [of d1] by (metis snd_conv)+
  then have "keeps d d1" "keeps d d2" by (auto intro: keeps_trans)
  then show ?thesis using m l by (auto simp: mkdir_here_def split: sum.split)
qed

lemma keeps_mkdir_up: "keeps d (snd (mkdir_up E mode absolute es d))"
proof (induction es arbitrary: d)
  case Nil
  then show ?case by simp
next
  case (Cons e up)
  obtain r d1 where s: "stat_elems E True absolute (rev up @ [e]) d = (r, d1)" by fastforce
  have d1: "keeps d d1" using s keeps_stats(1) [of d] by (metis snd_conv)
  have "keeps d1 (snd (sbind (mkdir_up E mode absolute up d1) (\<lambda>_. mkdir_here E mode absolute (rev up @ [e]))))"
    by (rule keeps_sbind [OF Cons.IH]) (rule keeps_mkdir_here)
  then show ?case using s d1 by (auto intro: keeps_trans split: sum.split)
qed

lemma keeps_MkdirAll: "keeps d (snd (os_MkdirAll E p mode d))"
  by (simp add: os_MkdirAll_def keeps_mkdir_up)

text \<open>Writing where nothing is.\<close>

definition missing :: "os_env \<Rightarrow> disk \<Rightarrow> string \<Rightarrow> bool" where
  "missing E d p = (\<forall>q. lookup E d True p = Inr q \<longrightarrow> node_at d q = None)"

definition present :: "os_env \<Rightarrow> disk \<Rightarrow> string \<Rightarrow> bool" where
  "present E d p = (\<exists>q n. lookup E d True p = Inr q \<and> node_at d q = Some n)"

lemma tick_lookup: "lookup E (d\<lparr>ticks := t\<rparr>) follow p = lookup E d follow p"
  using lookup_cong [of "d\<lparr>ticks := t\<rparr>" d] by (simp add: fun_eq_iff)

lemma open_missing:
  assumes "missing E d p" and "os_Open E trunc False p mode d = (r, d')"
  shows "keeps d d' \<and> (\<forall>i. r = Inr i \<longrightarrow> i = nextInode d \<and> present E d' p)"
proof -
  let ?d1 = "d\<lparr>ticks := Suc (ticks d)\<rparr>"
  show ?thesis
  proof (cases "io E (ticks d)")
    case (Some e)
    then show ?thesis using assms(2) by (auto simp: os_Open_def syscall_def Let_def)
  next
    case None
    show ?thesis
    proof (cases "lookup E d True p")
      case (Inl e)
      then show ?thesis using assms(2) None by (auto simp: os_Open_def syscall_def Let_def tick_lookup)
    next
      case (Inr q)
      have q: "node_at d q = None" using assms(1) Inr by (simp add: missing_def)
      obtain i d2 where n: "new_file ?d1 q (umasked E mode) = (i, d2)" by fastforce
      then have r: "r = Inr i" "d' = d2" using assms(2) None Inr q by (auto simp: os_Open_def syscall_def Let_def tick_lookup)
      have k: "keeps ?d1 d2 \<and> i = nextInode d" using keeps_new_file [OF _ n] q by simp
      have ne: "q \<noteq> []" using q by auto
      have at: "node_at d2 = node_at (put_node ?d1 q (FileNode i))"
        using n ne by (auto simp: new_file_def fun_eq_iff node_at_put)
      have "lookup E ?d1 True p = Inr q" using Inr by (simp add: tick_lookup)
      then have "lookup E (put_node ?d1 q (FileNode i)) True p = Inr q"
        using q walk_put_file by (auto simp: lookup_def lookup_elems_def split: if_splits)
      then have "lookup E d2 True p = Inr q" using lookup_cong [OF at] by simp
      moreover have "node_at d2 q = Some (FileNode i)" using at ne by (simp add: node_at_put)
      ultimately show ?thesis using r k keeps_trans [OF keeps_tick] by (auto simp: present_def)
    qed
  qed
qed

lemma walk_keeps:
  "walk d follow n cur es = Inr q \<Longrightarrow> node_at d q \<noteq> None \<Longrightarrow> (\<And>p n. node_at d p = Some n \<Longrightarrow> node_at d' p = Some n)
   \<Longrightarrow> walk d' follow n cur es = Inr q"
proof (induction d follow n cur es rule: walk.induct)
  case (1 d follow n cur)
  then show ?case by simp
next
  case (2 d follow n cur e es)
  have k: "node_at d p = Some x \<Longrightarrow> node_at d' p = Some x" for p x by (rule 2(7))
  then have kd: "is_dir (node_at d p) \<Longrightarrow> is_dir (node_at d' p)" for p by (auto simp: is_dir_iff)
  show ?case
    using 2 k kd by (subst walk.simps) (auto split: option.splits node.splits if_splits)
qed

lemma present_keeps:
  assumes "present E d p" and "keeps d d'"
  shows "present E d' p"
  using assms walk_keeps [of d True _ _ _ _ d'] unfolding present_def keeps_def lookup_def lookup_elems_def
  by (metis (no_types, lifting) Inl_Inr_False option.distinct(1))

lemma keeps_set_inode: "nextInode d0 \<le> i \<Longrightarrow> keeps d0 d \<Longrightarrow> keeps d0 (set_inode d i c m)"
proof -
  assume i: "nextInode d0 \<le> i" and k: "keeps d0 d"
  have "inodes (set_inode d i c m) j = inodes d0 j" if "j < nextInode d0" for j
    using keepsD(2) [OF k that] i that by simp
  moreover have "node_at (set_inode d i c m) p = Some n" if "node_at d0 p = Some n" for p n using keepsD(1) [OF k that] by simp
  moreover have "node_at d0 p = Some (LinkNode t)" if "node_at (set_inode d i c m) p = Some (LinkNode t)" for p t
    using keepsD(4) [OF k] that by simp
  moreover have "nextInode d0 \<le> nextInode (set_inode d i c m)" using keepsD(3) [OF k] by simp
  ultimately show ?thesis unfolding keeps_def by blast
qed

lemma keeps_ticked: "keeps d0 d \<Longrightarrow> keeps d0 (d\<lparr>ticks := t\<rparr>)"
  by (erule keeps_trans) simp

lemma keeps_Write: "nextInode d0 \<le> i \<Longrightarrow> keeps d0 d \<Longrightarrow> keeps d0 (snd (os_Write E i c d))"
  by (simp add: os_Write_def Let_def keeps_set_inode keeps_ticked split: option.split)

lemma write_missing:
  assumes "missing E d p"
  shows "keeps d (snd (os_WriteFile E p c mode d)) \<and> (fst (os_WriteFile E p c mode d) = Inr u \<longrightarrow> present E (snd (os_WriteFile E p c mode d)) p)"
proof -
  obtain r d1 where o: "os_Open E True False p mode d = (r, d1)" by fastforce
  have k: "keeps d d1" and i: "\<And>i. r = Inr i \<Longrightarrow> i = nextInode d \<and> present E d1 p" using open_missing [OF assms o] by auto
  show ?thesis
  proof (cases r)
    case (Inl e)
    then show ?thesis using o k by (simp add: os_WriteFile_def sbind_def)
  next
    case (Inr i)
    obtain r2 d2 where w: "os_Write E i c d1 = (r2, d2)" by fastforce
    have d2: "keeps d d2" "node_at d2 = node_at d1"
      using keeps_Write [of d i d1 E c] k \<open>r = Inr i\<close> i w by (auto simp: os_Write_def Let_def fun_eq_iff split: option.splits)
    have c: "keeps d (snd (os_Close E d2))" "node_at (snd (os_Close E d2)) = node_at d1"
      using d2 keeps_trans [OF d2(1) keeps_stats(3)] by (auto simp: os_Close_def syscall_def Let_def fun_eq_iff split: option.split)
    have "present E (snd (os_Close E d2)) p"
      using i [OF Inr] lookup_cong [OF c(2)] c(2) by (simp add: present_def)
    then show ?thesis using o Inr w c(1) by (auto simp: os_WriteFile_def sbind_def split: sum.split)
  qed
qed

section \<open>One place\<close>

text \<open>The tree is \<open>d\<close> but for the place \<open>q\<close>, and the files of \<open>d\<close> are as they were.\<close>

definition only_at :: "path \<Rightarrow> disk \<Rightarrow> disk \<Rightarrow> bool" where
  "only_at q d d' =
     ((\<forall>p. p \<noteq> q \<longrightarrow> node_at d' p = node_at d p) \<and> (\<forall>i < nextInode d. inodes d' i = inodes d i) \<and> nextInode d \<le> nextInode d')"

lemma close_same: "node_at (snd (os_Close E d)) = node_at d" "inodes (snd (os_Close E d)) = inodes d"
    "nextInode (snd (os_Close E d)) = nextInode d"
  by (auto simp: os_Close_def syscall_def Let_def fun_eq_iff split: option.split)

lemma remove_at:
  assumes "lookup E d False p = Inr q"
  shows "only_at q d (snd (os_Remove E p d))"
proof -
  have "lookup E (d\<lparr>ticks := t\<rparr>) False p = Inr q" for t
    using assms lookup_cong [of "d\<lparr>ticks := t\<rparr>" d] by (simp add: fun_eq_iff)
  then show ?thesis
    by (auto simp: os_Remove_def syscall_def Let_def only_at_def node_at_del split: option.split node.split)
qed

lemma temp_created:
  assumes "os_CreateTemp E dir d = (Inr (name, i), d')"
  obtains q where "name = joinPath dir (tempName E (ticks d))" "i = nextInode d" "lookup E d False name = Inr q" "node_at d q = None"
    "lookup E d' False name = Inr q" "only_at q d d'" "nextInode d' = Suc i" "node_at d' q = Some (FileNode i)"
proof -
  let ?d1 = "d\<lparr>ticks := Suc (ticks d)\<rparr>"
  obtain q where n: "name = joinPath dir (tempName E (ticks d))" and q: "lookup E ?d1 False name = Inr q" "node_at ?d1 q = None"
    and d': "new_file ?d1 q (umasked E 384) = (i, d')"
    using assms by (auto simp: os_CreateTemp_def syscall_def Let_def split: option.splits sum.splits if_splits prod.splits)
  have ne: "q \<noteq> []" using q(2) by auto
  have i: "i = nextInode d" "nextInode d' = Suc i" and dd: "node_at d' = node_at (put_node ?d1 q (FileNode i))"
    using d' ne by (auto simp: new_file_def fun_eq_iff node_at_put)
  have "lookup E (put_node ?d1 q (FileNode i)) False name = Inr q"
    using q walk_put_file by (auto simp: lookup_def lookup_elems_def split: if_splits)
  then have l: "lookup E d' False name = Inr q" using lookup_cong [OF dd] by simp
  have o: "only_at q d d'" using d' ne by (auto simp: only_at_def new_file_def node_at_put)
  have "lookup E d False name = Inr q" using q(1) lookup_cong [of ?d1 d] by (simp add: fun_eq_iff)
  moreover have "node_at d' q = Some (FileNode i)" using dd ne by (simp add: node_at_put)
  ultimately show thesis using that [OF n i(1)] i l o q(2) by simp
qed

section \<open>Straight places\<close>

text \<open>Directories on the way to a place, none of them a link.\<close>

definition straight :: "disk \<Rightarrow> path \<Rightarrow> bool" where
  "straight d es = (\<forall>p t. strict_prefix p es \<longrightarrow> node_at d p \<noteq> Some (LinkNode t))"

lemma straight_lookup:
  assumes "straight d es" and "list_all plain_elem es" and "lookup E d False (abs_path es) = Inr q"
  shows "q = es"
proof -
  have "walk d False max_links [] es = Inr q" using assms(3) by (simp add: lookup_abs_path [OF assms(2)])
  then show ?thesis using walk_plain [OF _ assms(2)] assms(1) by (fastforce simp: straight_def strict_prefix_def)
qed

lemma straight_keeps: "straight d es \<Longrightarrow> keeps d d' \<Longrightarrow> straight d' es"
  unfolding straight_def keeps_def by blast

end
