(* ===== verification/Disk_Replace.thy ===== *)
theory Disk_Replace
  imports Disk_Keep
begin

text \<open>
  Replacing a file through a temporary one beside it, as the provisioner and the installer place a binary, and why the file is
  never seen half written: whatever call fails, the place holds the old file, and when none does, all of the new one.
\<close>

section \<open>The two steps\<close>

text \<open>Filling the temporary file; the messages are those of a failing copy, mode change and close.\<close>

definition fill_temp :: "os_env \<Rightarrow> string \<times> string \<times> string \<Rightarrow> nat \<Rightarrow> string \<Rightarrow> nat \<Rightarrow> unit sys" where
  "fill_temp E msgs i content mode d =
     (let (copyMsg, chmodMsg, closeMsg) = msgs
      in case os_Write E i content d of
           (Inl e, d1) \<Rightarrow> (Inl (Wrapf copyMsg e []), snd (os_Close E d1))
         | (Inr _, d1) \<Rightarrow>
             (case os_Fchmod E i mode d1 of
                (Inl e, d2) \<Rightarrow> (Inl (Wrapf chmodMsg e []), snd (os_Close E d2))
              | (Inr _, d2) \<Rightarrow> wrapping closeMsg (os_Close E d2)))"

text \<open>Then the rename; unless it succeeds, the temporary file is removed.\<close>

definition replace_through ::
  "os_env \<Rightarrow> string \<times> string \<times> string \<Rightarrow> string \<Rightarrow> string \<Rightarrow> nat \<Rightarrow> string \<Rightarrow> nat \<Rightarrow> string \<Rightarrow> unit sys" where
  "replace_through E msgs renameMsg tempPath i content mode dest d =
     (case sbind (fill_temp E msgs i content mode d) (\<lambda>_ d1. wrapping renameMsg (os_Rename E tempPath dest d1)) of
        (Inl e, d2) \<Rightarrow> (Inl e, snd (os_Remove E tempPath d2))
      | (Inr u, d2) \<Rightarrow> (Inr u, d2))"

section \<open>All or nothing\<close>

text \<open>Only the content or the mode of inode \<open>i\<close> has changed.\<close>

definition only_inode :: "nat \<Rightarrow> disk \<Rightarrow> disk \<Rightarrow> bool" where
  "only_inode i d d' = (node_at d' = node_at d \<and> (\<forall>j. j \<noteq> i \<longrightarrow> inodes d' j = inodes d j))"

lemma only_inode_refl [simp]: "only_inode i d d"
  by (simp add: only_inode_def)

lemma only_inode_trans: "only_inode i d d' \<Longrightarrow> only_inode i d' d'' \<Longrightarrow> only_inode i d d''"
  by (simp add: only_inode_def)

lemma only_inode_calls:
  "only_inode i d (snd (os_Write E i c d))" "only_inode i d (snd (os_Fchmod E i m d))" "only_inode i d (snd (os_Close E d))"
  by (auto simp: only_inode_def os_Write_def os_Fchmod_def os_Close_def syscall_def Let_def fun_eq_iff split: option.split)

lemma Write_content: "os_Write E i c d = (Inr u, d') \<Longrightarrow> fst (inodes d' i) = c"
  by (auto simp: os_Write_def Let_def split: option.splits)

lemma Fchmod_inode: "os_Fchmod E i m d = (Inr u, d') \<Longrightarrow> inodes d' i = (fst (inodes d i), m)"
  by (auto simp: os_Fchmod_def syscall_def Let_def split: option.splits)

lemma Close_inode: "inodes (snd (os_Close E d)) = inodes d"
  by (rule close_same)

lemma fill_temp_outcome:
  assumes "fill_temp E msgs i content mode d = (r, d')"
  shows "only_inode i d d' \<and> (r = Inr () \<longrightarrow> inodes d' i = (content, mode))"
proof -
  obtain m1 m2 m3 where m: "msgs = (m1, m2, m3)" by (cases msgs)
  obtain r1 d1 where 1: "os_Write E i content d = (r1, d1)" by fastforce
  obtain r2 d2 where 2: "os_Fchmod E i mode d1 = (r2, d2)" by fastforce
  have o1: "only_inode i d d1" and o2: "only_inode i d1 d2"
    using only_inode_calls(1) [of i d E content] only_inode_calls(2) [of i d1 E mode] 1 2 by simp_all
  have oc: "only_inode i x (snd (os_Close E x))" for x by (rule only_inode_calls(3))
  have c: "inodes d2 i = (content, mode)" if "r1 = Inr ()" "r2 = Inr ()"
    using Write_content [of E i content d "()" d1] Fchmod_inode [of E i mode d1 "()" d2] 1 2 that by simp
  have o12: "only_inode i d d2" by (rule only_inode_trans [OF o1 o2])
  show ?thesis
  proof (cases r1)
    case (Inl e)
    then show ?thesis using assms m 1 only_inode_trans [OF o1 oc] by (auto simp: fill_temp_def)
  next
    case (Inr u)
    show ?thesis
    proof (cases r2)
      case (Inl e)
      then show ?thesis using assms m 1 2 Inr only_inode_trans [OF o12 oc] by (auto simp: fill_temp_def)
    next
      case (Inr u')
      have w: "(r, d') = wrapping m3 (os_Close E d2)" using assms m 1 2 \<open>r1 = Inr u\<close> Inr by (simp add: fill_temp_def)
      then have "d' = snd (os_Close E d2)" by (metis snd_conv snd_wrapping)
      then show ?thesis using only_inode_trans [OF o12 oc] c \<open>r1 = Inr u\<close> Inr by (simp add: Close_inode)
    qed
  qed
qed

lemma rename_outcome:
  assumes "os_Rename E old (abs_path es) d = (r, d')" and "lookup E d False old = Inr q" and "node_at d q = Some (FileNode i)"
    and "straight d es" and "list_all plain_elem es" and "q \<noteq> es"
  shows "inodes d' = inodes d
    \<and> (case r of Inr u \<Rightarrow> node_at d' es = Some (FileNode i) | Inl e \<Rightarrow> node_at d' = node_at d)"
proof -
  have l: "lookup E d False (abs_path es) = Inr q2 \<Longrightarrow> q2 = es" for q2 by (rule straight_lookup [OF assms(4,5)])
  have qn: "q \<noteq> []" using assms(3) by auto
  show ?thesis
  proof (cases "io E (ticks d)")
    case (Some e)
    then show ?thesis using assms(1) by (auto simp: os_Rename_def syscall_def Let_def fun_eq_iff)
  next
    case None
    show ?thesis
    proof (cases "lookup E d False (abs_path es)")
      case (Inl e)
      then show ?thesis using assms(1-3) None by (auto simp: os_Rename_def syscall_def Let_def tick_lookup fun_eq_iff)
    next
      case (Inr q2)
      then have q2: "q2 = es" by (rule l)
      show ?thesis
      proof (cases "is_dir (node_at d es)")
        case True
        then show ?thesis using assms(1-3) None Inr q2 by (auto simp: os_Rename_def syscall_def Let_def tick_lookup fun_eq_iff)
      next
        case False
        then have "es \<noteq> []" by auto
        then show ?thesis using assms(1-3) None Inr q2 False
          by (auto simp: os_Rename_def syscall_def Let_def tick_lookup node_at_put node_at_del split: if_splits)
      qed
    qed
  qed
qed

lemma replace_all_or_nothing:
  assumes run: "replace_through E msgs renameMsg tempPath i content mode (abs_path es) d = (r, d')"
    and temp: "lookup E d False tempPath = Inr q" "node_at d q = Some (FileNode i)"
    and es: "straight d es" "list_all plain_elem es" "q \<noteq> es"
  shows "(r = Inr () \<longrightarrow> node_at d' es = Some (FileNode i) \<and> inodes d' i = (content, mode))
    \<and> (r \<noteq> Inr () \<longrightarrow> node_at d' es = node_at d es \<and> (\<forall>j. j \<noteq> i \<longrightarrow> inodes d' j = inodes d j))"
proof -
  obtain r1 d1 where 1: "fill_temp E msgs i content mode d = (r1, d1)" by fastforce
  have f: "only_inode i d d1" "r1 = Inr () \<Longrightarrow> inodes d1 i = (content, mode)" using fill_temp_outcome [OF 1] by simp_all
  then have n1: "node_at d1 = node_at d" by (simp add: only_inode_def)
  have l1: "lookup E d1 False tempPath = Inr q" using temp(1) lookup_cong [OF n1] by simp
  have s1: "straight d1 es" using es(1) by (simp add: straight_def n1)
  obtain r2 d2 where 2: "os_Rename E tempPath (abs_path es) d1 = (r2, d2)" by fastforce
  have ren: "inodes d2 = inodes d1" "case r2 of Inr u \<Rightarrow> node_at d2 es = Some (FileNode i) | Inl e \<Rightarrow> node_at d2 = node_at d1"
    using rename_outcome [OF 2 l1 _ s1 es(2,3)] temp(2) n1 by simp_all
  have gone: "node_at (snd (os_Remove E tempPath x)) es = node_at x es \<and> inodes (snd (os_Remove E tempPath x)) = inodes x"
    if "node_at x = node_at d" for x
  proof -
    have "lookup E x False tempPath = Inr q" using temp(1) lookup_cong [OF that] by simp
    then show ?thesis using es(3)
      by (auto simp: os_Remove_def syscall_def Let_def tick_lookup node_at_del split: option.split node.split)
  qed
  show ?thesis
  proof (cases r1)
    case (Inl e)
    then have "r = Inl e" "d' = snd (os_Remove E tempPath d1)" using run 1 by (auto simp: replace_through_def sbind_def)
    then show ?thesis using gone [OF n1] n1 f(1) by (simp add: only_inode_def)
  next
    case (Inr u)
    show ?thesis
    proof (cases r2)
      case (Inl e)
      then have n2: "node_at d2 = node_at d" using ren n1 by simp
      have "\<exists>e'. r = Inl e'" "d' = snd (os_Remove E tempPath d2)"
        using run 1 2 Inr Inl by (auto simp: replace_through_def sbind_def wrapping_def)
      then show ?thesis using gone [OF n2] n2 ren(1) f(1) by (auto simp: only_inode_def)
    next
      case (Inr u')
      then have "r = Inr ()" "d' = d2" using run 1 2 \<open>r1 = Inr u\<close> by (auto simp: replace_through_def sbind_def wrapping_def)
      then show ?thesis using ren f(2) Inr \<open>r1 = Inr u\<close> by simp
    qed
  qed
qed

end
