(* ===== verification/Golden_Provision.thy ===== *)
theory Golden_Provision
  imports Disk_Replace Golden_Build
begin

text \<open>
  The in-VM provisioner (\<open>golden_provision.go\<close>), over the file tree of \<^theory_text>\<open>Disk\<close>: installing the runner from a
  verified tarball, baking the guest binary, its launchd unit, the receipt and the fingerprint, and removing the retired
  watchdog. The HTTP client, the gzip and tar decoder, the hash, the JSON encoder and the signing tools are arguments.
\<close>

section \<open>What is outside\<close>

datatype tar_type = TypeDir | TypeReg | TypeSymlink | TypeLink | TypeOther

text \<open>A tar header with what can be read of its body, and the error reading it ends in, if any.\<close>

record tar_entry =
  teName :: string
  teType :: tar_type
  teMode :: nat
  teLink :: string
  teBody :: string
  teBodyErr :: "err option"

text \<open>
  \<open>gunzip\<close>: opening the gzip stream, and what the calls of \<open>Next\<close> give until the archive ends. \<open>httpGet\<close>: the status of the
  response, its body and the error reading it ends in. \<open>tool\<close>: a command run to its end, with its combined output.
\<close>

record provision_env =
  newRequest :: "string \<Rightarrow> err option"
  httpGet :: "string \<Rightarrow> err + nat \<times> string \<times> err option"
  seek :: "err option"
  gunzip :: "string \<Rightarrow> err + (err + tar_entry) list"
  sha256hex :: "string \<Rightarrow> string"
  encodeReceipt :: "runnerReceipt \<Rightarrow> err + string"
  agentPlist :: string
  tempDir :: string
  tool :: "string list \<Rightarrow> disk \<Rightarrow> (err option \<times> string) \<times> disk"

record provisionPaths =
  binaryDest :: string
  plistDest :: string
  fingerprintDest :: string
  runnerReceiptDest :: string
  watchdogScript :: string
  watchdogPlist :: string
  ppRunnerDir :: string

definition LegacyWatchdogPlistPath :: string where
  "LegacyWatchdogPlistPath = ''/Library/LaunchDaemons/io.goodkind.gha-broker-watchdog.plist''"

definition defaultProvisionPaths :: "string \<Rightarrow> provisionPaths" where
  "defaultProvisionPaths dir =
     \<lparr>binaryDest = BakedBinaryPath, plistDest = GuestAgentPlistPath, fingerprintDest = FingerprintPath,
      runnerReceiptDest = RunnerReceiptPath, watchdogScript = LegacyWatchdogScriptPath,
      watchdogPlist = LegacyWatchdogPlistPath, ppRunnerDir = dir\<rparr>"

type_synonym runnerDownloader = "string \<Rightarrow> err + string \<times> err option"
type_synonym binarySigner = "string \<Rightarrow> unit sys"

record provisionRequest =
  prRunnerVersion :: string
  prRunnerDigest :: string
  prBinarySource :: string
  prFingerprint :: string
  prPaths :: provisionPaths
  prDownload :: runnerDownloader
  prSign :: binarySigner

abbreviation bakedBinaryMode :: nat where "bakedBinaryMode \<equiv> 493"
abbreviation bakedFileMode :: nat where "bakedFileMode \<equiv> 420"
abbreviation bakedDirMode :: nat where "bakedDirMode \<equiv> 493"
definition runnerRunScript :: string where "runnerRunScript = ''run.sh''"

definition provision_err :: "string \<Rightarrow> err" where
  "provision_err msg = Msg (''golden-provision: '' @ msg)"

section \<open>Extraction\<close>

definition withinDest :: "string \<Rightarrow> string \<Rightarrow> bool" where
  "withinDest destDir p =
     (case filepath_RelTo destDir p of None \<Rightarrow> False | Some rel \<Rightarrow> rel \<noteq> ''..'' \<and> \<not> HasPrefix rel ''../'')"

definition safeJoin :: "string \<Rightarrow> string \<Rightarrow> err + string" where
  "safeJoin destDir name =
     (let target = filepath_Join [destDir, name]
      in if \<not> withinDest destDir target
         then Inl (provision_err (''tar entry '' @ Quote name @ '' escapes runner dir''))
         else Inr target)"

definition rejectEscapingLink :: "string \<Rightarrow> string \<Rightarrow> string \<Rightarrow> err" where
  "rejectEscapingLink kind target linkname =
     provision_err (kind @ '' entry '' @ Quote target @ '' -> '' @ Quote linkname @ '' escapes runner dir'')"

text \<open>\<open>io.Copy\<close> of a body into an open empty file, and \<open>Close\<close> with the result of the copy.\<close>

definition copy_body :: "os_env \<Rightarrow> nat \<Rightarrow> string \<times> err option \<Rightarrow> unit sys" where
  "copy_body E i body d =
     sbind (os_Write E i (fst body) d) (\<lambda>_ d1. (case snd body of Some e \<Rightarrow> Inl e | None \<Rightarrow> Inr (), d1))"

definition writeTarRegular :: "os_env \<Rightarrow> string \<times> err option \<Rightarrow> string \<Rightarrow> nat \<Rightarrow> unit sys" where
  "writeTarRegular E body target mode d =
     sbind (wrapping (''golden-provision: create parent of '' @ target @ '': '') (os_MkdirAll E (filepath_Dir target) bakedDirMode d)) (\<lambda>_ d1.
     sbind (wrapping (''golden-provision: create '' @ target @ '': '') (os_Open E True True target mode d1)) (\<lambda>i d2.
       case copy_body E i body d2 of
         (Inl e, d3) \<Rightarrow> (Inl (Wrapf (''golden-provision: write '' @ target @ '': '') e []), snd (os_Close E d3))
       | (Inr _, d3) \<Rightarrow> wrapping (''golden-provision: close '' @ target @ '': '') (os_Close E d3)))"

definition writeTarSymlink :: "os_env \<Rightarrow> string \<Rightarrow> string \<Rightarrow> string \<Rightarrow> unit sys" where
  "writeTarSymlink E destDir target linkname d =
     (if filepath_IsAbs linkname then (Inl (rejectEscapingLink ''symlink'' target linkname), d)
      else if \<not> withinDest destDir (filepath_Clean (filepath_Join [filepath_Dir target, linkname]))
      then (Inl (rejectEscapingLink ''symlink'' target linkname), d)
      else
        sbind (wrapping (''golden-provision: create parent of '' @ target @ '': '') (os_MkdirAll E (filepath_Dir target) bakedDirMode d)) (\<lambda>_ d1.
          wrapping (''golden-provision: symlink '' @ target @ '': '') (os_Symlink E linkname target (snd (os_Remove E target d1)))))"

definition writeTarHardlink :: "os_env \<Rightarrow> string \<Rightarrow> string \<Rightarrow> string \<Rightarrow> unit sys" where
  "writeTarHardlink E destDir target linkname d =
     (let source = filepath_Clean (filepath_Join [destDir, linkname])
      in if filepath_IsAbs linkname then (Inl (rejectEscapingLink ''hardlink'' target linkname), d)
         else if \<not> withinDest destDir source then (Inl (rejectEscapingLink ''hardlink'' target linkname), d)
         else
           sbind (wrapping (''golden-provision: create parent of '' @ target @ '': '') (os_MkdirAll E (filepath_Dir target) bakedDirMode d)) (\<lambda>_ d1.
             wrapping (''golden-provision: hardlink '' @ target @ '': '') (os_Link E source target (snd (os_Remove E target d1)))))"

definition extractTarEntry :: "os_env \<Rightarrow> tar_entry \<Rightarrow> string \<Rightarrow> string \<Rightarrow> unit sys" where
  "extractTarEntry E h destDir target d =
     (let entryMode = teMode h mod 512
      in case teType h of
           TypeDir \<Rightarrow> wrapping (''golden-provision: create dir '' @ target @ '': '') (os_MkdirAll E target entryMode d)
         | TypeReg \<Rightarrow> writeTarRegular E (teBody h, teBodyErr h) target entryMode d
         | TypeSymlink \<Rightarrow> writeTarSymlink E destDir target (teLink h) d
         | TypeLink \<Rightarrow> writeTarHardlink E destDir target (teLink h) d
         | TypeOther \<Rightarrow> (Inr (), d))"

text \<open>The loop over the archive.\<close>

fun extract_entries :: "os_env \<Rightarrow> string \<Rightarrow> (err + tar_entry) list \<Rightarrow> unit sys" where
  "extract_entries E destDir [] d = (Inr (), d)"
| "extract_entries E destDir (Inl e # rest) d =
     (if errors_Is e IoEOF then (Inr (), d) else (Inl (Wrapf ''golden-provision: read runner tar: '' e []), d))"
| "extract_entries E destDir (Inr h # rest) d =
     (case safeJoin destDir (teName h) of
        Inl e \<Rightarrow> (Inl e, d)
      | Inr target \<Rightarrow> sbind (extractTarEntry E h destDir target d) (\<lambda>_. extract_entries E destDir rest))"

definition extractRunnerTarball :: "os_env \<Rightarrow> (string \<Rightarrow> err + (err + tar_entry) list) \<Rightarrow> string \<Rightarrow> string \<Rightarrow> unit sys" where
  "extractRunnerTarball E unzip stream destDir d =
     sbind (wrapping (''golden-provision: create runner dir '' @ destDir @ '': '') (os_MkdirAll E destDir bakedDirMode d)) (\<lambda>_ d1.
       case unzip stream of
         Inl e \<Rightarrow> (Inl (Wrapf ''golden-provision: open runner gzip: '' e []), d1)
       | Inr entries \<Rightarrow> extract_entries E destDir entries d1)"

section \<open>The runner\<close>

definition provisionRunnerURL :: "string \<Rightarrow> string" where
  "provisionRunnerURL version =
     ''https://github.com/actions/runner/releases/download/v'' @ version @ ''/actions-runner-osx-arm64-'' @ version @ ''.tar.gz''"

definition downloadRunnerTarball :: "provision_env \<Rightarrow> runnerDownloader" where
  "downloadRunnerTarball P version =
     (let url = provisionRunnerURL version
      in case newRequest P url of
           Some e \<Rightarrow> Inl (Wrapf ''golden-provision: build runner request: '' e [])
         | None \<Rightarrow>
             (case httpGet P url of
                Inl e \<Rightarrow> Inl (Wrapf (''golden-provision: download runner '' @ url @ '': '') e [])
              | Inr (status, body) \<Rightarrow>
                  if status \<noteq> 200
                  then Inl (Wrapf (''golden-provision: download runner '' @ url @ '': '') (Msg (''status '' @ dec_nat status)) [])
                  else Inr body))"

text \<open>What \<open>installRunner\<close> does between opening the temporary file (inode \<open>i\<close>) and removing it.\<close>

definition runner_from_temp :: "os_env \<Rightarrow> provision_env \<Rightarrow> nat \<Rightarrow> string \<times> err option \<Rightarrow> string \<Rightarrow> string \<Rightarrow> unit sys" where
  "runner_from_temp E P i body expectedDigest runnerDir d =
     sbind (wrapping ''golden-provision: buffer runner tarball: '' (copy_body E i body d)) (\<lambda>_ d1.
       let got = sha256hex P (fst body)
       in if got \<noteq> expectedDigest
          then (Inl (provision_err (''runner tarball digest '' @ got @ '' does not match expected '' @ expectedDigest)), d1)
          else
            case seek P of
              Some e \<Rightarrow> (Inl (Wrapf ''golden-provision: rewind runner tarball: '' e []), d1)
            | None \<Rightarrow>
                sbind (extractRunnerTarball E (gunzip P) (fst (inodes d1 i)) runnerDir d1) (\<lambda>_ d2.
                sbind (wrapping (''golden-provision: runner '' @ runnerRunScript @ '' missing after extract: '')
                         (os_Stat E (filepath_Join [runnerDir, runnerRunScript]) d2)) (\<lambda>_ d3. (Inr (), d3))))"

definition installRunner :: "os_env \<Rightarrow> provision_env \<Rightarrow> runnerDownloader \<Rightarrow> string \<Rightarrow> string \<Rightarrow> string \<Rightarrow> unit sys" where
  "installRunner E P fetch version expectedDigest runnerDir d =
     (case fetch version of
        Inl e \<Rightarrow> (Inl e, d)
      | Inr body \<Rightarrow>
          sbind (wrapping ''golden-provision: create runner temp file: '' (os_CreateTemp E (tempDir P) d)) (\<lambda>(tarballPath, i) d1.
            let (r, d2) = runner_from_temp E P i body expectedDigest runnerDir d1
            in (r, snd (os_Remove E tarballPath (snd (os_Close E d2))))))"

section \<open>Baked files\<close>

text \<open>The content of the source is what reading it gives when it is opened.\<close>

definition copyFileMode :: "os_env \<Rightarrow> string \<Rightarrow> string \<Rightarrow> nat \<Rightarrow> unit sys" where
  "copyFileMode E source dest mode d =
     (let destDir = filepath_Dir dest
      in sbind (wrapping (''golden-provision: create dir '' @ destDir @ '': '') (os_MkdirAll E destDir bakedDirMode d)) (\<lambda>_ d1.
         sbind (wrapping (''golden-provision: open source '' @ source @ '': '') (os_ReadFile E source d1)) (\<lambda>content d2.
         sbind (wrapping (''golden-provision: create temp in '' @ destDir @ '': '') (os_CreateTemp E destDir d2)) (\<lambda>(tempPath, i) d3.
           replace_through E
             (''golden-provision: copy to '' @ tempPath @ '': '', ''golden-provision: chmod '' @ tempPath @ '': '',
              ''golden-provision: close '' @ tempPath @ '': '')
             (''golden-provision: rename to '' @ dest @ '': '') tempPath i content mode dest d3))))"

definition installBakedBinary :: "os_env \<Rightarrow> string \<Rightarrow> string \<Rightarrow> binarySigner \<Rightarrow> unit sys" where
  "installBakedBinary E source dest sign d =
     sbind (copyFileMode E source dest bakedBinaryMode d) (\<lambda>_. sign dest)"

definition writeBakedFile :: "os_env \<Rightarrow> string \<Rightarrow> string \<Rightarrow> nat \<Rightarrow> unit sys" where
  "writeBakedFile E dest content mode d =
     sbind (wrapping (''golden-provision: create dir '' @ filepath_Dir dest @ '': '') (os_MkdirAll E (filepath_Dir dest) bakedDirMode d)) (\<lambda>_ d1.
       wrapping (''golden-provision: write '' @ dest @ '': '') (os_WriteFile E dest content mode d1))"

fun remove_each :: "os_env \<Rightarrow> string list \<Rightarrow> unit sys" where
  "remove_each E [] d = (Inr (), d)"
| "remove_each E (p # ps) d =
     (case os_Remove E p d of
        (Inl e, d1) \<Rightarrow>
          if errors_Is e ErrNotExist then remove_each E ps d1
          else (Inl (Wrapf (''golden-provision: remove '' @ p @ '': '') e []), d1)
      | (Inr _, d1) \<Rightarrow> remove_each E ps d1)"

definition removeLegacyWatchdog :: "os_env \<Rightarrow> provisionPaths \<Rightarrow> unit sys" where
  "removeLegacyWatchdog E paths = remove_each E [watchdogScript paths, watchdogPlist paths]"

definition codesignAdhoc :: "provision_env \<Rightarrow> binarySigner" where
  "codesignAdhoc P p d =
     (let (_, d1) = tool P [''xattr'', ''-c'', p] d
      in case tool P [''codesign'', ''-s'', ''-'', ''-f'', p] d1 of
           ((Some e, out), d2) \<Rightarrow> (Inl (Wrapf (''golden-provision: codesign '' @ p @ '': '') e ('': '' @ TrimSpace out)), d2)
         | ((None, out), d2) \<Rightarrow> (Inr (), d2))"

section \<open>The command\<close>

definition writeReceipt :: "os_env \<Rightarrow> provision_env \<Rightarrow> provisionRequest \<Rightarrow> unit sys" where
  "writeReceipt E P req d =
     (let runner = \<lparr>rrVersion = prRunnerVersion req, rrTarballDigest = prRunnerDigest req\<rparr>
      in case Receipt_Validate runner of
           Some e \<Rightarrow> (Inl (Wrapf ''golden-provision: runner receipt: '' e []), d)
         | None \<Rightarrow>
             (case encodeReceipt P runner of
                Inl e \<Rightarrow> (Inl (Wrapf ''golden-provision: encode runner receipt: '' e []), d)
              | Inr receipt \<Rightarrow>
                  wrapping ''golden-provision: write runner receipt: ''
                    (writeBakedFile E (runnerReceiptDest (prPaths req)) receipt bakedFileMode d)))"

definition provisionGolden :: "os_env \<Rightarrow> provision_env \<Rightarrow> provisionRequest \<Rightarrow> unit sys" where
  "provisionGolden E P req d =
     sbind (installRunner E P (prDownload req) (prRunnerVersion req) (prRunnerDigest req) (ppRunnerDir (prPaths req)) d) (\<lambda>_ d1.
     sbind (installBakedBinary E (prBinarySource req) (binaryDest (prPaths req)) (prSign req) d1) (\<lambda>_ d2.
     sbind (wrapping ''golden-provision: write guest agent plist: ''
              (writeBakedFile E (plistDest (prPaths req)) (agentPlist P) bakedFileMode d2)) (\<lambda>_ d3.
     sbind (writeReceipt E P req d3) (\<lambda>_ d4.
     sbind (wrapping ''golden-provision: write fingerprint: ''
              (writeBakedFile E (fingerprintDest (prPaths req)) (prFingerprint req @ nl) bakedFileMode d4)) (\<lambda>_.
       removeLegacyWatchdog E (prPaths req))))))"

text \<open>The flags of \<open>golden-provision\<close>, each empty when it is not given; parsing them is the flag package's.\<close>

definition runGoldenProvision :: "os_env \<Rightarrow> provision_env \<Rightarrow> err + (string \<Rightarrow> string) \<Rightarrow> unit sys" where
  "runGoldenProvision E P flags d =
     (case flags of
        Inl e \<Rightarrow> (Inl (Wrapf ''golden-provision flags: '' e []), d)
      | Inr f \<Rightarrow>
          if f ''runner-version'' = [] then (Inl (Msg ''golden-provision requires -runner-version''), d)
          else if f ''runner-digest'' = [] then (Inl (Msg ''golden-provision requires -runner-digest''), d)
          else if f ''binary'' = [] then (Inl (Msg ''golden-provision requires -binary''), d)
          else if f ''fingerprint'' = [] then (Inl (Msg ''golden-provision requires -fingerprint''), d)
          else if f ''runner-dir'' = [] then (Inl (Msg ''golden-provision requires -runner-dir''), d)
          else
            provisionGolden E P
              \<lparr>prRunnerVersion = f ''runner-version'', prRunnerDigest = f ''runner-digest'', prBinarySource = f ''binary'',
               prFingerprint = f ''fingerprint'', prPaths = defaultProvisionPaths (f ''runner-dir''),
               prDownload = downloadRunnerTarball P, prSign = codesignAdhoc P\<rparr> d)"

end
