(* ===== verification/Provision_Props.thy ===== *)
theory Provision_Props
  imports Golden_Provision Disk_Keep
begin

text \<open>
  What the provisioner guarantees: an archive that does not write through its own links stays inside the runner directory, and
  one that does can leave it; a tarball with the wrong digest changes nothing.
\<close>

section \<open>Targets\<close>

definition entry_target :: "path \<Rightarrow> string \<Rightarrow> path" where
  "entry_target D name = path_elems (filepath_Join [abs_path D, name])"

lemma abs_path_append_IsAbs: "filepath_IsAbs (abs_path es @ s)"
  by (simp add: abs_path_def filepath_IsAbs_def HasPrefix_def slash_def)

lemma Join_under:
  "filepath_Join [abs_path D, name] = filepath_Clean (if name = [] then abs_path D else abs_path D @ ''/'' @ name)"
  by (simp add: filepath_Join_def)

lemma Join_abs_path:
  shows Join_target: "filepath_Join [abs_path D, name] = abs_path (entry_target D name)"
    and entry_target_plain: "list_all plain_elem (entry_target D name)"
    and Join_Clean: "filepath_Clean (filepath_Join [abs_path D, name]) = filepath_Join [abs_path D, name]"
proof -
  define p where "p = (if name = [] then abs_path D else abs_path D @ ''/'' @ name)"
  have a: "filepath_IsAbs p" using abs_path_append_IsAbs by (simp add: p_def)
  have j: "filepath_Join [abs_path D, name] = filepath_Clean p" by (simp add: Join_under p_def)
  then show t: "filepath_Join [abs_path D, name] = abs_path (entry_target D name)"
    using Clean_abs [OF a] by (simp add: entry_target_def)
  show pl: "list_all plain_elem (entry_target D name)" using path_elems_Clean(2) [OF a] j by (simp add: entry_target_def)
  show "filepath_Clean (filepath_Join [abs_path D, name]) = filepath_Join [abs_path D, name]"
    using Clean_abs_path [OF pl] t by simp
qed

lemma withinDest_iff:
  assumes "list_all plain_elem D" and "list_all plain_elem es"
  shows "withinDest (abs_path D) (abs_path es) \<longleftrightarrow> prefix D es"
  using Rel_inside [of "abs_path es" "abs_path D"] assms
  by (simp add: withinDest_def RelTo_absolute Clean_abs_path path_elems_abs_path)

lemma safeJoin_target:
  assumes "list_all plain_elem D" and "safeJoin (abs_path D) name = Inr target"
  shows "target = abs_path (entry_target D name)" and "prefix D (entry_target D name)"
  using assms withinDest_iff [OF assms(1) entry_target_plain] by (auto simp: safeJoin_def Let_def Join_target split: if_splits)

section \<open>Plain archives\<close>

text \<open>
  The places inside \<open>D\<close> of the symbolic links of an archive, and what it means that nothing in it lies behind one of
  them. An entry or a source outside of \<open>D\<close> is refused anyway.
\<close>

definition entry_link :: "path \<Rightarrow> tar_entry \<Rightarrow> bool" where
  "entry_link D h = (teType h = TypeSymlink \<and> prefix D (entry_target D (teName h)))"

definition archive_links :: "path \<Rightarrow> (err + tar_entry) list \<Rightarrow> path set" where
  "archive_links D entries =
     set (map (\<lambda>h. entry_target D (teName h)) (filter (entry_link D) (map projr (filter (\<lambda>x. \<not> isl x) entries))))"

definition plain_entry :: "path \<Rightarrow> path set \<Rightarrow> tar_entry \<Rightarrow> bool" where
  "plain_entry D L h =
     (let t = entry_target D (teName h); src = entry_target D (teLink h)
      in prefix D t \<longrightarrow>
           clear_of L t \<and> (teType h = TypeSymlink \<longrightarrow> t \<noteq> D)
           \<and> (teType h = TypeLink \<longrightarrow> prefix D src \<longrightarrow> clear_of L src \<and> src \<notin> L))"

definition plain_archive :: "path \<Rightarrow> (err + tar_entry) list \<Rightarrow> bool" where
  "plain_archive D entries =
     list_all (\<lambda>x. case x of Inl e \<Rightarrow> True | Inr h \<Rightarrow> plain_entry D (archive_links D entries) h) entries"

lemma archive_links_iff:
  "p \<in> archive_links D entries \<longleftrightarrow> (\<exists>h. Inr h \<in> set entries \<and> entry_link D h \<and> p = entry_target D (teName h))"
proof -
  have "h \<in> projr ` {x \<in> set entries. \<not> isl x} \<longleftrightarrow> Inr h \<in> set entries" for h
    by (force simp: sum.collapse image_iff)
  then show ?thesis by (auto simp: archive_links_def)
qed

lemma stays_copy_body:
  assumes "sealed D L d" and "only_inside D i d"
  shows "stays D L d (snd (copy_body E i body d))"
  unfolding copy_body_def
  by (rule stays_sbind [OF stays_os_Write [OF assms]]) (auto simp: stays_refl split: option.split)

lemma stays_wrapping: "stays D L d (snd m) \<Longrightarrow> stays D L d (snd (wrapping msg m))"
  by simp

lemma stays_sealed: "stays D L d d' \<Longrightarrow> sealed D L d'"
  by (simp add: stays_def)

text \<open>A place inside the destination that is not behind one of the links.\<close>

definition inside_target :: "path \<Rightarrow> path set \<Rightarrow> path \<Rightarrow> bool" where
  "inside_target D L es = (prefix D es \<and> list_all plain_elem es \<and> clear_of L es)"

lemma inside_targetD:
  assumes "inside_target D L es"
  shows "prefix D es" "list_all plain_elem es" "clear_of L es"
  using assms by (simp_all add: inside_target_def)

lemma inside_parent:
  assumes "inside_target D L es"
  shows "prefix D (butlast es) \<or> prefix (butlast es) D" "clear_of L (butlast es)" "list_all plain_elem (butlast es)"
proof -
  note t = inside_targetD [OF assms]
  show "prefix D (butlast es) \<or> prefix (butlast es) D"
    by (meson prefix_same_cases prefixeq_butlast t(1))
  show "clear_of L (butlast es)" by (rule clear_of_prefix [OF t(3)]) (rule prefixeq_butlast)
  show "list_all plain_elem (butlast es)" using t(2) by (auto simp: list_all_iff dest: in_set_butlastD)
qed

lemma stays_parent: "inside_target D L es \<Longrightarrow> sealed D L d \<Longrightarrow> stays D L d (snd (os_MkdirAll E (filepath_Dir (abs_path es)) mode d))"
  using stays_os_MkdirAll [OF _ inside_parent] by (simp add: Dir_abs_path inside_targetD(2))

lemma after_parent:
  assumes "inside_target D L es" and "sealed D L d" and "\<And>d1. sealed D L d1 \<Longrightarrow> stays D L d1 (snd (f d1))"
  shows "stays D L d (snd (sbind (wrapping msg (os_MkdirAll E (filepath_Dir (abs_path es)) mode d)) (\<lambda>_. f)))"
  by (rule stays_sbind) (use stays_parent assms in auto)

lemma stays_regular:
  assumes "inside_target D L es" and "sealed D L d"
  shows "stays D L d (snd (writeTarRegular E body (abs_path es) mode d))"
  unfolding writeTarRegular_def
proof (rule after_parent [OF assms])
  fix d1
  assume s: "sealed D L d1"
  obtain r d2 where o: "os_Open E True True (abs_path es) mode d1 = (r, d2)" by fastforce
  have od: "stays D L d1 d2" and inside: "\<And>i. r = Inr i \<Longrightarrow> only_inside D i d2"
    using stays_os_Open [OF o s inside_targetD(1,3,2) [OF assms(1)]] by auto
  have rest: "stays D L d2 (snd (case copy_body E i body d2 of
      (Inl e, d3) \<Rightarrow> (Inl (Wrapf msg e []), snd (os_Close E d3)) | (Inr _, d3) \<Rightarrow> wrapping msg' (os_Close E d3)))"
    if "r = Inr i" for i msg msg'
  proof -
    obtain r3 d3 where c: "copy_body E i body d2 = (r3, d3)" by fastforce
    have "stays D L d2 d3" using stays_copy_body [OF stays_sealed [OF od] inside [OF that], of E body] c by simp
    moreover from this have "stays D L d3 (snd (os_Close E d3))" by (intro stays_os_Close) (rule stays_sealed)
    ultimately have "stays D L d2 (snd (os_Close E d3))" by (blast intro: stays_trans)
    then show ?thesis using c by (simp split: sum.split)
  qed
  show "stays D L d1 (snd (sbind (wrapping (''golden-provision: create '' @ abs_path es @ '': '') (os_Open E True True (abs_path es) mode d1)) (\<lambda>i d2.
      case copy_body E i body d2 of
         (Inl e, d3) \<Rightarrow> (Inl (Wrapf (''golden-provision: write '' @ abs_path es @ '': '') e []), snd (os_Close E d3))
       | (Inr _, d3) \<Rightarrow> wrapping (''golden-provision: close '' @ abs_path es @ '': '') (os_Close E d3))))"
    by (rule stays_sbind) (use od o rest in auto)
qed

lemma stays_replace:
  assumes "inside_target D L es" and "sealed D L d" and "\<And>d1. sealed D L d1 \<Longrightarrow> stays D L d1 (snd (f d1))"
  shows "stays D L d (snd (f (snd (os_Remove E (abs_path es) d))))"
  using stays_os_Remove [OF assms(2) inside_targetD(1,3,2) [OF assms(1)]] assms(3) by (blast intro: stays_trans)

lemma stays_symlink:
  assumes t: "inside_target D L es" and "sealed D L d" and "es \<in> L" and "es \<noteq> D"
  shows "stays D L d (snd (writeTarSymlink E (abs_path D) (abs_path es) link d))"
proof -
  have sp: "strict_prefix D es" using inside_targetD(1) [OF t] assms(4) by (simp add: strict_prefix_def)
  have "stays D L d1 (snd (wrapping msg (os_Symlink E link (abs_path es) (snd (os_Remove E (abs_path es) d1)))))"
    if "sealed D L d1" for d1 msg
    unfolding snd_wrapping
    by (rule stays_replace [OF t that]) (rule stays_os_Symlink [OF _ sp inside_targetD(3) [OF t] assms(3) inside_targetD(2) [OF t]])
  then show ?thesis using assms(2) by (auto simp: writeTarSymlink_def stays_refl intro: after_parent [OF t])
qed

lemma stays_hardlink:
  assumes t: "inside_target D L es" and "sealed D L d" and D: "list_all plain_elem D"
    and link: "prefix D (entry_target D link) \<Longrightarrow> clear_of L (entry_target D link) \<and> entry_target D link \<notin> L"
  shows "stays D L d (snd (writeTarHardlink E (abs_path D) (abs_path es) link d))"
proof -
  let ?src = "entry_target D link"
  have src: "filepath_Clean (filepath_Join [abs_path D, link]) = abs_path ?src"
    by (simp add: Join_Clean) (rule Join_target)
  have "stays D L d1 (snd (wrapping msg (os_Link E (abs_path ?src) (abs_path es) (snd (os_Remove E (abs_path es) d1)))))"
    if "sealed D L d1" "prefix D ?src" for d1 msg
    unfolding snd_wrapping
    by (rule stays_replace [OF t that(1)])
      (rule stays_os_Link [OF _ inside_targetD(1,3,2) [OF t] that(2) _ _ entry_target_plain], use link [OF that(2)] in auto)
  then show ?thesis using assms(2) withinDest_iff [OF D entry_target_plain]
    by (auto simp: writeTarHardlink_def Let_def src stays_refl intro: after_parent [OF t])
qed

lemma stays_entry:
  assumes D: "list_all plain_elem D" and s: "sealed D L d" and h: "plain_entry D L h" and p: "prefix D (entry_target D (teName h))"
    and l: "entry_link D h \<Longrightarrow> entry_target D (teName h) \<in> L"
  shows "stays D L d (snd (extractTarEntry E h (abs_path D) (abs_path (entry_target D (teName h))) d))"
proof -
  let ?t = "entry_target D (teName h)"
  have t: "inside_target D L ?t" using h p entry_target_plain by (simp add: inside_target_def plain_entry_def Let_def)
  show ?thesis
    using h p l stays_os_MkdirAll [OF s _ inside_targetD(3,2) [OF t]] stays_regular [OF t s] stays_symlink [OF t s]
      stays_hardlink [OF t s D] inside_targetD(1) [OF t]
    by (auto simp: extractTarEntry_def Let_def plain_entry_def entry_link_def stays_refl [OF s] split: tar_type.split)
qed

lemma stays_entries:
  assumes D: "list_all plain_elem D"
  shows "sealed D L d \<Longrightarrow> list_all (\<lambda>x. case x of Inl e \<Rightarrow> True | Inr h \<Rightarrow> plain_entry D L h) entries
    \<Longrightarrow> archive_links D entries \<subseteq> L
    \<Longrightarrow> stays D L d (snd (extract_entries E (abs_path D) entries d))"
proof (induction entries arbitrary: d)
  case Nil
  then show ?case by (simp add: stays_refl)
next
  case (Cons x entries)
  show ?case
  proof (cases x)
    case (Inl e)
    then show ?thesis using Cons.prems by (simp add: stays_refl)
  next
    case (Inr h)
    then have h: "plain_entry D L h" and l: "entry_link D h \<Longrightarrow> entry_target D (teName h) \<in> L"
      and rest: "archive_links D entries \<subseteq> L"
      using Cons.prems(2,3) by (auto simp: subset_iff archive_links_iff)
    have go: "stays D L d (snd (sbind (extractTarEntry E h (abs_path D) (abs_path (entry_target D (teName h))) d)
        (\<lambda>_. extract_entries E (abs_path D) entries)))" if "prefix D (entry_target D (teName h))"
      by (rule stays_sbind [OF stays_entry [OF D Cons.prems(1) h that l]]) (use Cons rest in auto)
    show ?thesis
    proof (cases "safeJoin (abs_path D) (teName h)")
      case (Inl e)
      then show ?thesis using Inr Cons.prems by (simp add: stays_refl)
    next
      case (Inr target)
      then show ?thesis using \<open>x = Inr h\<close> go safeJoin_target [OF D Inr] by simp
    qed
  qed
qed


text \<open>
  A concrete machine: no call fails, the umask clears nothing, and the tree holds a home with a file in it.
\<close>

definition quiet_os :: os_env where
  "quiet_os = \<lparr>io = (\<lambda>_. None), short = (\<lambda>_. 0), umasked = (\<lambda>m. m), wd = [], tempName = (\<lambda>n. ''gha-runner-'' @ dec_nat n @ ''.tar.gz'')\<rparr>"

definition home_disk :: disk where
  "home_disk = \<lparr>nodes = [([''r''], DirNode 493), ([''r'', ''secret''], FileNode 0)],
     inodes = (\<lambda>i. (''key'', 384)), nextInode = 1, ticks = 0\<rparr>"

definition entry :: "tar_type \<Rightarrow> string \<Rightarrow> string \<Rightarrow> string \<Rightarrow> err + tar_entry" where
  "entry k name link body = Inr \<lparr>teName = name, teType = k, teMode = 493, teLink = link, teBody = body, teBodyErr = None\<rparr>"

definition runner_archive :: "(err + tar_entry) list" where
  "runner_archive =
     [entry TypeDir ''bin/'' [] [], entry TypeReg ''run.sh'' [] ''exec'', entry TypeSymlink ''bin/latest'' ''../run.sh'' [],
      entry TypeLink ''config.sh'' ''run.sh'' []]"

lemma home_disk_sealed:
  assumes "D = [''r'', ''a'']"
  shows "sealed D L home_disk"
proof -
  have n: "node_at home_disk p = (if p = [] then Some (DirNode 493) else if p = [''r''] then Some (DirNode 493)
      else if p = [''r'', ''secret''] then Some (FileNode 0) else None)" for p
    by (simp add: node_at_def home_disk_def)
  have x: "nextInode home_disk = 1" by (simp add: home_disk_def)
  show ?thesis by (auto simp: sealed_def n x assms prefix_def split: if_splits)
qed


definition nested_links :: "(err + tar_entry) list" where
  "nested_links = [entry TypeSymlink ''s'' ''.'' [], entry TypeSymlink ''s/t'' ''..'' [], entry TypeReg ''t/secret'' [] ''evil'']"


section \<open>The digest\<close>

lemma same_tree:
  "node_at (snd (copy_body E i body d)) = node_at d" "nextInode (snd (copy_body E i body d)) = nextInode d"
  "j \<noteq> i \<Longrightarrow> inodes (snd (copy_body E i body d)) j = inodes d j"
  by (auto simp: copy_body_def os_Write_def sbind_def fun_eq_iff Let_def split: option.split sum.split prod.split)

text \<open>
  C25. An unverified runner leaves no trace. When the tarball that was downloaded does not have the expected digest (or nothing
  could be downloaded), \<open>installRunner\<close> fails, and whatever system calls fail on the way, the tree is as it was: no file's
  content or mode has changed, and every place holds what it held, but for the place of the temporary file, which was free.
  Nothing has been extracted.
\<close>

theorem unverified_runner_changes_nothing:
  assumes "installRunner E P fetch version expectedDigest runnerDir d = (r, d')"
    and "\<And>body rerr. fetch version = Inr (body, rerr) \<Longrightarrow> sha256hex P body \<noteq> expectedDigest"
  shows "(\<exists>e. r = Inl e)
    \<and> (\<forall>p. node_at d' p = node_at d p
         \<or> node_at d p = None \<and> lookup E d False (joinPath (tempDir P) (tempName E (ticks d))) = Inr p)
    \<and> (\<forall>i < nextInode d. inodes d' i = inodes d i)"
proof (cases "fetch version")
  case (Inl e)
  then show ?thesis using assms(1) by (auto simp: installRunner_def)
next
  case (Inr body)
  obtain c rerr where body: "body = (c, rerr)" by fastforce
  obtain t d1 where t: "os_CreateTemp E (tempDir P) d = (t, d1)" by fastforce
  show ?thesis
  proof (cases t)
    case (Inl e)
    then have "node_at d1 = node_at d" "inodes d1 = inodes d"
      using t by (auto simp: os_CreateTemp_def syscall_def Let_def fun_eq_iff new_file_def split: option.splits sum.splits if_splits)
    then show ?thesis using assms(1) \<open>fetch version = Inr body\<close> t Inl by (auto simp: installRunner_def sbind_def wrapping_def)
  next
    case (Inr x)
    obtain name i where x: "x = (name, i)" by fastforce
    obtain q where q: "name = joinPath (tempDir P) (tempName E (ticks d))" "i = nextInode d" "lookup E d False name = Inr q"
      "node_at d q = None" "lookup E d1 False name = Inr q" "only_at q d d1" "nextInode d1 = Suc i"
      using temp_created [of E "tempDir P" d name i d1] t Inr x by auto
    let ?m = "runner_from_temp E P i body expectedDigest runnerDir d1"
    have m: "snd ?m = snd (copy_body E i body d1) \<and> (\<exists>e. fst ?m = Inl e)"
      using assms(2) [of c rerr] \<open>fetch version = Inr body\<close> body
      by (cases "copy_body E i body d1"; cases "fst (copy_body E i body d1)")
        (auto simp: runner_from_temp_def sbind_def wrapping_def Let_def)
    let ?d2 = "snd (os_Close E (snd ?m))"
    have d2: "node_at ?d2 = node_at d1" "\<And>j. j \<noteq> i \<Longrightarrow> inodes ?d2 j = inodes d1 j" "nextInode ?d2 = nextInode d1"
      using m by (simp_all add: close_same same_tree)
    have l: "lookup E ?d2 False name = Inr q" using q(5) lookup_cong [OF d2(1)] by simp
    have r: "d' = snd (os_Remove E name ?d2)" "r = fst ?m"
      using assms(1) \<open>fetch version = Inr body\<close> t Inr x
      by (auto simp: installRunner_def sbind_def wrapping_def split_beta Let_def)
    have o: "only_at q ?d2 d'" using remove_at [OF l] r by simp
    have "node_at d' p = node_at d p" if "p \<noteq> q" for p using o q(6) d2(1) that by (simp add: only_at_def)
    moreover have "inodes d' j = inodes d j" if "j < nextInode d" for j
      using o q(2,6,7) d2 that by (simp add: only_at_def)
    moreover have "\<exists>e. r = Inl e" using m r by simp
    ultimately show ?thesis using q(1,3,4) by (metis (no_types, lifting))
  qed
qed

text \<open>A provisioner whose hash is the content itself, and whose archives are the one above.\<close>

definition demo_provision :: provision_env where
  "demo_provision =
     \<lparr>newRequest = (\<lambda>_. None), httpGet = (\<lambda>_. Inr (200, ''tarball'', None)), seek = None, gunzip = (\<lambda>_. Inr runner_archive),
      sha256hex = (\<lambda>s. s), encodeReceipt = (\<lambda>r. Inr (rrVersion r)), agentPlist = ''plist'', tempDir = ''/r/'',
      tool = (\<lambda>_ d. ((None, []), d))\<rparr>"

lemma unverified_runner_changes_nothing_witness:
  "(let (r, d') = installRunner quiet_os demo_provision (downloadRunnerTarball demo_provision) ''2.1'' ''other'' ''/r/a'' home_disk
    in (\<exists>e. r = Inl e)
       \<and> (\<forall>p. node_at d' p = node_at home_disk p
            \<or> node_at home_disk p = None
              \<and> lookup quiet_os home_disk False (joinPath (tempDir demo_provision) (tempName quiet_os (ticks home_disk))) = Inr p)
       \<and> (\<forall>i < nextInode home_disk. inodes d' i = inodes home_disk i))"
proof -
  let ?f = "downloadRunnerTarball demo_provision"
  obtain r d' where i: "installRunner quiet_os demo_provision ?f ''2.1'' ''other'' ''/r/a'' home_disk = (r, d')" by fastforce
  have "?f ''2.1'' = Inr (''tarball'', None)" by (simp add: downloadRunnerTarball_def demo_provision_def)
  moreover have "sha256hex demo_provision = (\<lambda>s. s)" by (simp add: demo_provision_def)
  ultimately show ?thesis using unverified_runner_changes_nothing [OF i] i by simp
qed

end
