(* ===== verification/Installer.thy ===== *)
theory Installer
  imports Disk Golden_Build Host_Config
begin

text \<open>
  The installer (\<open>internal/install\<close>): scaffolding the configuration and secrets, the golden image, the launchd or systemd
  unit, the maintenance timer, and their removal and restart. The state is the file tree with the commands run and the trace on
  the host of tart; the random source, the HTTP client, the decoders and the template engine on the embedded
  templates are arguments, and so is what each command answers, which may depend on those run before. Commands do not change the
  files the installer writes.
\<close>

section \<open>State and environment\<close>

record instConfig =
  icBinPath :: string
  icHome :: string
  icConfigDir :: string
  icLogPath :: string
  icConfigPath :: string
  icMaintenance :: maintenanceConfig

record maintenanceTemplateData =
  mdLabel :: string
  mdCommand :: string
  mdScriptPath :: string
  mdLogPath :: string
  mdIntervalSeconds :: int
  mdHome :: string
  mdPath :: string

record inst =
  tree :: disk
  ran :: "string list list"
  naps :: nat
  hostTr :: host_trace

record inst_env =
  goos :: string
  uid :: nat
  fs :: os_env
  answers :: "string list list \<Rightarrow> string list \<Rightarrow> string \<times> err option"
  ctxDone :: "string list list \<Rightarrow> err option"
  lookPath :: "string \<Rightarrow> err option"
  randBytes :: "nat \<Rightarrow> err + string"
  metaRequest :: "err option"
  metaResponse :: "err + nat \<times> (err + string list)"
  exampleConfig :: string
  unitTemplate :: "string \<Rightarrow> instConfig \<Rightarrow> err + string"
  maintenanceTemplate :: "string \<Rightarrow> maintenanceTemplateData \<Rightarrow> err + string"
  decodeConfig :: "string \<Rightarrow> err + config"
  homeEnv :: "string option"
  tmpEnv :: string
  cwdEnv :: "string option"
  tartHost :: host
  goldenEnv :: golden_env
  vmSuffix :: string

type_synonym 'a ist = "inst \<Rightarrow> (err + 'a) \<times> inst"

definition on_tree :: "'a sys \<Rightarrow> 'a ist" where
  "on_tree f s = (let (r, d) = f (tree s) in (r, s\<lparr>tree := d\<rparr>))"

text \<open>The \<open>command\<close> runner: the output and the error of a tool.\<close>

definition run_command :: "inst_env \<Rightarrow> string list \<Rightarrow> inst \<Rightarrow> (string \<times> err option) \<times> inst" where
  "run_command I argv s = (answers I (ran s) argv, s\<lparr>ran := ran s @ [argv]\<rparr>)"

text \<open>A command that must succeed, and one whose failure is only logged.\<close>

definition must_run :: "inst_env \<Rightarrow> string \<Rightarrow> string list \<Rightarrow> unit ist" where
  "must_run I msg argv s =
     (let ((_, e), s1) = run_command I argv s in (case e of Some x \<Rightarrow> Inl (Wrapf msg x []) | None \<Rightarrow> Inr (), s1))"

definition may_run :: "inst_env \<Rightarrow> string list \<Rightarrow> inst \<Rightarrow> inst" where
  "may_run I argv s = snd (run_command I argv s)"

section \<open>What is logged of a command\<close>

definition installCommandRedaction :: "string \<Rightarrow> string list \<Rightarrow> bool \<times> bool" where
  "installCommandRedaction name args =
     (if list_ex (\<lambda>arg. let lower = ToLower arg in Contains lower ''jitconfig'' \<or> Contains lower ''base64''
                          \<or> Contains lower ''p12'' \<or> Contains lower ''token'') args
      then (True, True)
      else if name \<noteq> ''security'' then (False, False)
      else if \<not> list_ex (\<lambda>arg. arg = ''import'' \<or> arg = ''-P'' \<or> arg = ''-p'') args then (False, False)
      else if args \<noteq> [] \<and> hd args \<in> set [''create-keychain'', ''default-keychain'', ''list-keychains'', ''unlock-keychain'',
                ''set-keychain-settings'', ''show-keychain-info'', ''find-identity'']
      then (True, False)
      else (True, True))"

definition installCommandLogValues :: "string \<Rightarrow> string list \<Rightarrow> string \<Rightarrow> string \<times> string" where
  "installCommandLogValues name args output =
     (let (redactArgs, redactOutput) = installCommandRedaction name args
      in (if redactArgs then ''[redacted]'' else JoinStr args '' '', if redactOutput then ''[redacted]'' else TrimSpace output))"

section \<open>Scaffolding\<close>

abbreviation configDirMode :: nat where "configDirMode \<equiv> 448"
abbreviation configFileMode :: nat where "configFileMode \<equiv> 384"
abbreviation secretFileMode :: nat where "secretFileMode \<equiv> 384"
abbreviation dataFileMode :: nat where "dataFileMode \<equiv> 420"
abbreviation secretBytes :: nat where "secretBytes \<equiv> 32"
definition placeholderHome :: string where "placeholderHome = ''/Users/you''"

text \<open>\<open>strings.ReplaceAll\<close> of a text that is not empty.\<close>

function ReplaceAll :: "string \<Rightarrow> string \<Rightarrow> string \<Rightarrow> string" where
  "ReplaceAll s old new =
     (if s = [] then []
      else if old \<noteq> [] \<and> HasPrefix s old then new @ ReplaceAll (drop (length old) s) old new
      else hd s # ReplaceAll (tl s) old new)"
  by pat_completeness auto

termination
  by (relation "measure (\<lambda>(s, old, new). length s)") (auto simp: HasPrefix_def neq_Nil_conv)

declare ReplaceAll.simps [simp del]

definition ensureConfigDir :: "inst_env \<Rightarrow> string \<Rightarrow> unit sys" where
  "ensureConfigDir I dir d =
     (case os_Stat (fs I) dir d of
        (Inr (DirNode m), d1) \<Rightarrow> (Inr (), d1)
      | (_, d1) \<Rightarrow> wrapping (''install: create config dir '' @ dir @ '': '') (os_MkdirAll (fs I) dir configDirMode d1))"

text \<open>Writing a file unless it is there: \<open>produce\<close> gives the content when it is needed.\<close>

definition unless_there :: "inst_env \<Rightarrow> string \<Rightarrow> string \<Rightarrow> unit sys \<Rightarrow> unit sys" where
  "unless_there I what p produce d =
     (case os_Stat (fs I) p d of
        (Inr n, d1) \<Rightarrow> (Inr (), d1)
      | (Inl e, d1) \<Rightarrow>
          if \<not> errors_Is e ErrNotExist then (Inl (Wrapf (''install: stat '' @ what @ '' '' @ p @ '': '') e []), d1) else produce d1)"

definition scaffoldConfig :: "inst_env \<Rightarrow> instConfig \<Rightarrow> unit sys" where
  "scaffoldConfig I cfg =
     unless_there I ''config'' (icConfigPath cfg)
       (\<lambda>d. wrapping (''install: write config '' @ icConfigPath cfg @ '': '')
              (os_WriteFile (fs I) (icConfigPath cfg) (ReplaceAll (exampleConfig I) placeholderHome (icHome cfg)) configFileMode d))"

definition ensureSecret :: "inst_env \<Rightarrow> string \<Rightarrow> unit sys" where
  "ensureSecret I p =
     unless_there I ''secret'' p
       (\<lambda>d. case randBytes I (ticks d) of
              Inl e \<Rightarrow> (Inl (Wrapf (''install: generate secret '' @ p @ '': '') e []), d)
            | Inr buf \<Rightarrow>
                wrapping (''install: write secret '' @ p @ '': '') (os_WriteFile (fs I) p (hex_EncodeToString buf) secretFileMode d))"

definition ensureSecrets :: "inst_env \<Rightarrow> string \<Rightarrow> unit sys" where
  "ensureSecrets I dir d =
     sbind (ensureSecret I (filepath_Join [dir, ''webhook-secret'']) d) (\<lambda>_. ensureSecret I (filepath_Join [dir, ''capacity-token'']))"

definition fetchMetaHooks :: "inst_env \<Rightarrow> err + string list" where
  "fetchMetaHooks I =
     (case metaRequest I of
        Some e \<Rightarrow> Inl (Wrapf ''install: build meta request: '' e [])
      | None \<Rightarrow>
          (case metaResponse I of
             Inl e \<Rightarrow> Inl (Wrapf ''install: fetch meta: '' e [])
           | Inr (status, body) \<Rightarrow>
               if status \<noteq> 200 then Inl (Msg (''install: meta status '' @ dec_nat status))
               else
                 (case body of
                    Inl e \<Rightarrow> Inl (Wrapf ''install: decode meta: '' e [])
                  | Inr hooks \<Rightarrow> Inr hooks)))"

text \<open>The list is optional: whatever fails is logged.\<close>

definition ensureWebhookCIDRs :: "inst_env \<Rightarrow> string \<Rightarrow> disk \<Rightarrow> disk" where
  "ensureWebhookCIDRs I dir d =
     (let p = filepath_Join [dir, ''github-webhook-cidrs.txt'']
      in snd (unless_there I ''github webhook CIDRs'' p
           (\<lambda>d1. case fetchMetaHooks I of
                   Inl e \<Rightarrow> (Inl e, d1)
                 | Inr cidrs \<Rightarrow> os_WriteFile (fs I) p (JoinStr cidrs nl @ nl) dataFileMode d1) d))"

section \<open>The golden image\<close>

definition requireHostBinary :: "inst_env \<Rightarrow> string \<Rightarrow> string \<Rightarrow> err option" where
  "requireHostBinary I binary installHint =
     (case lookPath I binary of
        Some e \<Rightarrow> Some (Wrapf (''install: '' @ binary @ '' not found on PATH; install it with `'' @ installHint @ ''`: '') e [])
      | None \<Rightarrow> None)"

text \<open>Whether there is a stager.\<close>

definition fastPullStager :: "config \<Rightarrow> bool" where
  "fastPullStager cfg = (tcFastPull (cfTart cfg) \<noteq> Some False)"

definition buildGoldenIfAbsent :: "inst_env \<Rightarrow> config \<Rightarrow> unit ist" where
  "buildGoldenIfAbsent I cfg s =
     (case requireHostBinary I (tcBinary (cfTart cfg)) ''brew install cirruslabs/cli/tart'' of
        Some e \<Rightarrow> (Inl e, s)
      | None \<Rightarrow>
          (let stager = fastPullStager cfg
           in case (if stager then requireHostBinary I ''skopeo'' ''brew install skopeo'' else None) of
                Some e \<Rightarrow> (Inl e, s)
              | None \<Rightarrow>
                  (let gold = NameForImage (tcBaseImage (cfTart cfg));
                       (r, tr) = EnsureGolden (tartHost I) (goldenEnv I\<lparr>hasStager := stager\<rparr>) (vmSuffix I)
                         \<lparr>eoImage = tcBaseImage (cfTart cfg), eoBuildVM = gold @ ''-build'', eoRunnerVersion = []\<rparr> (hostTr s)
                   in (case r of Inl e \<Rightarrow> Inl (Wrapf ''install: ensure golden: '' e []) | Inr _ \<Rightarrow> Inr (), s\<lparr>hostTr := tr\<rparr>))))"

section \<open>Service units\<close>

definition launchdLabel :: string where "launchdLabel = ''io.goodkind.gha-mac-broker''"
definition systemdUnit :: string where "systemdUnit = ''gha-mac-broker.service''"
abbreviation unitDirMode :: nat where "unitDirMode \<equiv> 493"
abbreviation unitFileMode :: nat where "unitFileMode \<equiv> 420"
abbreviation logFileMode :: nat where "logFileMode \<equiv> 420"
abbreviation launchdUnloadPollLimit :: nat where "launchdUnloadPollLimit \<equiv> 50"
definition osDarwin :: string where "osDarwin = ''darwin''"
definition osLinux :: string where "osLinux = ''linux''"

definition gui_domain :: "inst_env \<Rightarrow> string" where
  "gui_domain I = ''gui/'' @ dec_nat (uid I)"

definition launchd_target :: "inst_env \<Rightarrow> string \<Rightarrow> string" where
  "launchd_target I label = gui_domain I @ ''/'' @ label"

definition launchd_plist :: "string \<Rightarrow> string" where
  "launchd_plist home = filepath_Join [home, ''Library'', ''LaunchAgents'', launchdLabel @ ''.plist'']"

definition systemd_unit_path :: "string \<Rightarrow> string" where
  "systemd_unit_path home = filepath_Join [home, ''.config'', ''systemd'', ''user'', systemdUnit]"

definition touchFile :: "inst_env \<Rightarrow> string \<Rightarrow> unit sys" where
  "touchFile I p d =
     sbind (wrapping (''install: touch '' @ p @ '': '') (os_Open (fs I) False False p logFileMode d)) (\<lambda>_ d1.
       wrapping (''install: close '' @ p @ '': '') (os_Close (fs I) d1))"

text \<open>The wait after a bootout: \<open>n\<close> is the number of polls left.\<close>

fun waitForLaunchdUnload :: "inst_env \<Rightarrow> nat \<Rightarrow> string \<Rightarrow> inst \<Rightarrow> inst" where
  "waitForLaunchdUnload I 0 target s = s"
| "waitForLaunchdUnload I (Suc n) target s =
     (let ((_, e), s1) = run_command I [''launchctl'', ''print'', target] s
      in if e \<noteq> None then s1
         else if n = 0 then s1
         else if ctxDone I (ran s1) \<noteq> None then s1
         else waitForLaunchdUnload I n target (s1\<lparr>naps := Suc (naps s1)\<rparr>))"

definition bootoutThenBootstrap :: "inst_env \<Rightarrow> string \<Rightarrow> string \<Rightarrow> string \<Rightarrow> string \<Rightarrow> unit ist" where
  "bootoutThenBootstrap I errorPrefix target domain plistPath s =
     must_run I (errorPrefix @ '': launchctl bootstrap: '') [''launchctl'', ''bootstrap'', domain, plistPath]
       (waitForLaunchdUnload I launchdUnloadPollLimit target (may_run I [''launchctl'', ''bootout'', target] s))"

definition installLaunchd :: "inst_env \<Rightarrow> instConfig \<Rightarrow> unit ist" where
  "installLaunchd I cfg s =
     (let plistPath = launchd_plist (icHome cfg)
      in sbind (wrapping ''install: create LaunchAgents dir: '' (on_tree (\<lambda>d. os_MkdirAll (fs I) (filepath_Dir plistPath) unitDirMode d) s)) (\<lambda>_ s1.
         sbind (wrapping ''install: create log dir: '' (on_tree (\<lambda>d. os_MkdirAll (fs I) (filepath_Dir (icLogPath cfg)) unitDirMode d) s1)) (\<lambda>_ s2.
         sbind (on_tree (touchFile I (icLogPath cfg)) s2) (\<lambda>_ s3.
           case unitTemplate I ''launchd.plist.tmpl'' cfg of
             Inl e \<Rightarrow> (Inl e, s3)
           | Inr rendered \<Rightarrow>
               sbind (wrapping (''install: write plist '' @ plistPath @ '': '') (on_tree (\<lambda>d. os_WriteFile (fs I) plistPath rendered unitFileMode d) s3))
                 (\<lambda>_. bootoutThenBootstrap I ''install'' (launchd_target I launchdLabel) (gui_domain I) plistPath)))))"

definition installSystemd :: "inst_env \<Rightarrow> instConfig \<Rightarrow> unit ist" where
  "installSystemd I cfg s =
     (let unitPath = systemd_unit_path (icHome cfg)
      in sbind (wrapping ''install: create systemd user dir: '' (on_tree (\<lambda>d. os_MkdirAll (fs I) (filepath_Dir unitPath) unitDirMode d) s)) (\<lambda>_ s1.
           case unitTemplate I ''systemd.service.tmpl'' cfg of
             Inl e \<Rightarrow> (Inl e, s1)
           | Inr rendered \<Rightarrow>
               sbind (wrapping (''install: write unit '' @ unitPath @ '': '') (on_tree (\<lambda>d. os_WriteFile (fs I) unitPath rendered unitFileMode d) s1))
                 (\<lambda>_ s2.
               sbind (must_run I ''install: systemctl daemon-reload: '' [''systemctl'', ''--user'', ''daemon-reload''] s2) (\<lambda>_.
                 must_run I ''install: systemctl enable --now: '' [''systemctl'', ''--user'', ''enable'', ''--now'', systemdUnit]))))"

definition unsupported :: "string \<Rightarrow> string \<Rightarrow> err" where
  "unsupported what os = Wrapf (what @ '': unsupported OS '' @ Quote os @ '': '') (Msg ''unsupported operation'') []"

definition installUnit :: "inst_env \<Rightarrow> instConfig \<Rightarrow> unit ist" where
  "installUnit I cfg s =
     (if goos I = osDarwin then installLaunchd I cfg s
      else if goos I = osLinux then installSystemd I cfg s
      else (Inl (unsupported ''install'' (goos I)), s))"

text \<open>Removing a file, its absence being no error.\<close>

definition remove_if_there :: "inst_env \<Rightarrow> string \<Rightarrow> string \<Rightarrow> unit ist" where
  "remove_if_there I what p s =
     (case on_tree (os_Remove (fs I) p) s of
        (Inl e, s1) \<Rightarrow>
          if errors_Is e ErrNotExist then (Inr (), s1) else (Inl (Wrapf (''install: remove '' @ what @ '' '' @ p @ '': '') e []), s1)
      | (Inr _, s1) \<Rightarrow> (Inr (), s1))"

definition uninstallLaunchd :: "inst_env \<Rightarrow> instConfig \<Rightarrow> unit ist" where
  "uninstallLaunchd I cfg s =
     remove_if_there I ''plist'' (launchd_plist (icHome cfg)) (may_run I [''launchctl'', ''bootout'', launchd_target I launchdLabel] s)"

definition uninstallSystemd :: "inst_env \<Rightarrow> instConfig \<Rightarrow> unit ist" where
  "uninstallSystemd I cfg s =
     remove_if_there I ''unit'' (systemd_unit_path (icHome cfg))
       (may_run I [''systemctl'', ''--user'', ''disable'', ''--now'', systemdUnit] s)"

definition uninstallUnit :: "inst_env \<Rightarrow> instConfig \<Rightarrow> unit ist" where
  "uninstallUnit I cfg s =
     (if goos I = osDarwin then uninstallLaunchd I cfg s
      else if goos I = osLinux then uninstallSystemd I cfg s
      else (Inl (unsupported ''install'' (goos I)), s))"

section \<open>The maintenance timer\<close>

definition maintenanceLaunchdLabel :: string where "maintenanceLaunchdLabel = ''io.goodkind.gha-mac-broker-maintenance''"
abbreviation maintenanceScriptMode :: nat where "maintenanceScriptMode \<equiv> 493"

definition maintenancePath :: "instConfig \<Rightarrow> string" where
  "maintenancePath cfg =
     JoinStr [filepath_Join [icHome cfg, ''.local'', ''bin''], ''/opt/homebrew/bin'', ''/usr/local/bin'', ''/usr/bin'', ''/bin'',
       ''/usr/sbin'', ''/sbin''] '':''"

definition maintenanceScriptPath :: "instConfig \<Rightarrow> string" where
  "maintenanceScriptPath cfg = filepath_Join [icHome cfg, ''.config'', ''gha-mac-broker'', ''maintenance.sh'']"

definition maintenancePlistPath :: "instConfig \<Rightarrow> string" where
  "maintenancePlistPath cfg = filepath_Join [icHome cfg, ''Library'', ''LaunchAgents'', maintenanceLaunchdLabel @ ''.plist'']"

definition maintenanceLogPath :: "instConfig \<Rightarrow> string" where
  "maintenanceLogPath cfg = filepath_Join [icHome cfg, ''Library'', ''Logs'', ''gha-mac-broker-maintenance.log'']"

definition maintenanceData :: "instConfig \<Rightarrow> maintenanceTemplateData" where
  "maintenanceData cfg =
     \<lparr>mdLabel = maintenanceLaunchdLabel, mdCommand = mcCommand (icMaintenance cfg), mdScriptPath = maintenanceScriptPath cfg,
      mdLogPath = maintenanceLogPath cfg, mdIntervalSeconds = mcIntervalSeconds (icMaintenance cfg), mdHome = icHome cfg,
      mdPath = maintenancePath cfg\<rparr>"

text \<open>\<open>strings.Fields\<close>.\<close>

definition Fields :: "string \<Rightarrow> string list" where
  "Fields s = filter (\<lambda>f. f \<noteq> []) (SplitOn (CHR 0x20) (map (\<lambda>c. if is_space c then CHR 0x20 else c) s))"

definition isEnvNameChar :: "char \<Rightarrow> bool" where
  "isEnvNameChar r = (r = CHR ''_'' \<or> CHR ''a'' \<le> r \<and> r \<le> CHR ''z'' \<or> CHR ''A'' \<le> r \<and> r \<le> CHR ''Z'' \<or> CHR ''0'' \<le> r \<and> r \<le> CHR ''9'')"

definition isEnvAssignment :: "string \<Rightarrow> bool" where
  "isEnvAssignment field =
     (let (name, _, ok) = Cut field (CHR ''='')
      in if \<not> ok \<or> name = [] \<or> slash \<in> set name then False else list_all isEnvNameChar name)"

definition commandBinary :: "string \<Rightarrow> string" where
  "commandBinary commandLine =
     (case dropWhile (\<lambda>f. f = ''env'' \<or> isEnvAssignment f) (Fields commandLine) of [] \<Rightarrow> [] | f # _ \<Rightarrow> f)"

definition isExecutableFile :: "inst_env \<Rightarrow> string \<Rightarrow> disk \<Rightarrow> bool \<times> disk" where
  "isExecutableFile I p d =
     (case os_Stat (fs I) p d of
        (Inr (FileNode i), d1) \<Rightarrow> (let m = snd (inodes d1 i) in odd m \<or> odd (m div 8) \<or> odd (m div 64), d1)
      | (_, d1) \<Rightarrow> (False, d1))"

fun on_path :: "inst_env \<Rightarrow> string \<Rightarrow> string list \<Rightarrow> disk \<Rightarrow> bool \<times> disk" where
  "on_path I binary [] d = (False, d)"
| "on_path I binary (dir # dirs) d =
     (if dir = [] then on_path I binary dirs d
      else let (x, d1) = isExecutableFile I (filepath_Join [dir, binary]) d in if x then (True, d1) else on_path I binary dirs d1)"

definition commandBinaryOnPath :: "inst_env \<Rightarrow> string \<Rightarrow> string \<Rightarrow> disk \<Rightarrow> bool \<times> disk" where
  "commandBinaryOnPath I binary searchPath d =
     (if Contains binary ''/'' then isExecutableFile I binary d else on_path I binary (SplitOn (CHR '':'') searchPath) d)"

text \<open>The preflight: whether it warned.\<close>

definition preflightMaintenanceCommand :: "inst_env \<Rightarrow> string \<Rightarrow> string \<Rightarrow> disk \<Rightarrow> bool \<times> disk" where
  "preflightMaintenanceCommand I commandLine searchPath d =
     (let binary = commandBinary commandLine
      in if binary = [] then (False, d) else let (there, d1) = commandBinaryOnPath I binary searchPath d in (\<not> there, d1))"

definition installLaunchdMaintenance :: "inst_env \<Rightarrow> instConfig \<Rightarrow> unit ist" where
  "installLaunchdMaintenance I cfg s =
     (let scriptPath = maintenanceScriptPath cfg; plistPath = maintenancePlistPath cfg; logPath = maintenanceLogPath cfg;
          data = maintenanceData cfg
      in sbind (wrapping ''install: create maintenance script dir: '' (on_tree (\<lambda>d. os_MkdirAll (fs I) (filepath_Dir scriptPath) unitDirMode d) s)) (\<lambda>_ s1.
         case maintenanceTemplate I ''maintenance.sh.tmpl'' data of
           Inl e \<Rightarrow> (Inl e, s1)
         | Inr script \<Rightarrow>
             sbind (wrapping (''install: write maintenance script '' @ scriptPath @ '': '')
                      (on_tree (\<lambda>d. os_WriteFile (fs I) scriptPath script maintenanceScriptMode d) s1)) (\<lambda>_ s2.
             sbind (wrapping ''install: create maintenance LaunchAgents dir: '' (on_tree (\<lambda>d. os_MkdirAll (fs I) (filepath_Dir plistPath) unitDirMode d) s2)) (\<lambda>_ s3.
             sbind (wrapping ''install: create maintenance log dir: '' (on_tree (\<lambda>d. os_MkdirAll (fs I) (filepath_Dir logPath) unitDirMode d) s3)) (\<lambda>_ s4.
             sbind (on_tree (touchFile I logPath) s4) (\<lambda>_ s5.
               case maintenanceTemplate I ''maintenance.plist.tmpl'' data of
                 Inl e \<Rightarrow> (Inl e, s5)
               | Inr rendered \<Rightarrow>
                   sbind (wrapping (''install: write maintenance plist '' @ plistPath @ '': '')
                            (on_tree (\<lambda>d. os_WriteFile (fs I) plistPath rendered unitFileMode d) s5)) (\<lambda>_ s6.
                     must_run I ''install: launchctl maintenance bootstrap: '' [''launchctl'', ''bootstrap'', gui_domain I, plistPath]
                       (may_run I [''launchctl'', ''bootout'', launchd_target I maintenanceLaunchdLabel] s6))))))))"

definition uninstallLaunchdMaintenance :: "inst_env \<Rightarrow> instConfig \<Rightarrow> unit ist" where
  "uninstallLaunchdMaintenance I cfg s =
     sbind (remove_if_there I ''maintenance plist'' (maintenancePlistPath cfg)
              (may_run I [''launchctl'', ''bootout'', launchd_target I maintenanceLaunchdLabel] s))
       (\<lambda>_. remove_if_there I ''maintenance script'' (maintenanceScriptPath cfg))"

definition installMaintenanceTimer :: "inst_env \<Rightarrow> instConfig \<Rightarrow> unit ist" where
  "installMaintenanceTimer I cfg s =
     (if goos I \<noteq> osDarwin then (Inr (), s)
      else if mcCommand (icMaintenance cfg) = [] then uninstallLaunchdMaintenance I cfg s
      else let (_, d) = preflightMaintenanceCommand I (mcCommand (icMaintenance cfg)) (maintenancePath cfg) (tree s)
           in installLaunchdMaintenance I cfg (s\<lparr>tree := d\<rparr>))"

definition uninstallMaintenanceTimer :: "inst_env \<Rightarrow> instConfig \<Rightarrow> unit ist" where
  "uninstallMaintenanceTimer I cfg s = (if goos I \<noteq> osDarwin then (Inr (), s) else uninstallLaunchdMaintenance I cfg s)"

section \<open>Install and Uninstall\<close>

text \<open>The files that are made once: directory, configuration, secrets, CIDR list.\<close>

definition scaffold :: "inst_env \<Rightarrow> instConfig \<Rightarrow> unit sys" where
  "scaffold I cfg d =
     sbind (ensureConfigDir I (icConfigDir cfg) d) (\<lambda>_ d1.
     sbind (scaffoldConfig I cfg d1) (\<lambda>_ d2.
     sbind (ensureSecrets I (icConfigDir cfg) d2) (\<lambda>_ d3. (Inr (), ensureWebhookCIDRs I (icConfigDir cfg) d3))))"

definition load_for_install :: "inst_env \<Rightarrow> instConfig \<Rightarrow> config ist" where
  "load_for_install I cfg s =
     (let (f, s1) = on_tree (os_ReadFile (fs I) (icConfigPath cfg)) s
      in (case Load_config (decodeConfig I) (homeEnv I) (tmpEnv I) (cwdEnv I) (icConfigPath cfg) f of
            Inl e \<Rightarrow> Inl (Wrapf ''install: load config: '' e [])
          | Inr c \<Rightarrow> Inr c, s1))"

definition Install :: "inst_env \<Rightarrow> instConfig \<Rightarrow> unit ist" where
  "Install I cfg s =
     sbind (on_tree (scaffold I cfg) s) (\<lambda>_ s1.
     sbind (load_for_install I cfg s1) (\<lambda>runtimeConfig s2.
     sbind (buildGoldenIfAbsent I runtimeConfig s2) (\<lambda>_ s3.
     sbind (installUnit I cfg s3) (\<lambda>_.
       installMaintenanceTimer I (cfg\<lparr>icMaintenance := cfMaintenance runtimeConfig\<rparr>)))))"

definition Uninstall :: "inst_env \<Rightarrow> instConfig \<Rightarrow> inst \<Rightarrow> err option \<times> inst" where
  "Uninstall I cfg s =
     (let (r1, s1) = uninstallUnit I cfg s;
          (r2, s2) = uninstallMaintenanceTimer I cfg s1
      in (errors_Join [case r1 of Inl e \<Rightarrow> Some e | Inr _ \<Rightarrow> None, case r2 of Inl e \<Rightarrow> Some e | Inr _ \<Rightarrow> None], s2))"

section \<open>Restart\<close>

text \<open>Whether the service is installed, and the error; \<open>home\<close> is the result of \<open>os.UserHomeDir\<close>.\<close>

definition restart_if_there :: "inst_env \<Rightarrow> string \<Rightarrow> string \<Rightarrow> unit ist \<Rightarrow> inst \<Rightarrow> (bool \<times> err option) \<times> inst" where
  "restart_if_there I what p go s =
     (case on_tree (os_Stat (fs I) p) s of
        (Inl e, s1) \<Rightarrow>
          if errors_Is e ErrNotExist then ((False, None), s1)
          else ((False, Some (Wrapf (''restart: stat '' @ what @ '' '' @ p @ '': '') e [])), s1)
      | (Inr _, s1) \<Rightarrow>
          (case go s1 of (Inl e, s2) \<Rightarrow> ((True, Some e), s2) | (Inr _, s2) \<Rightarrow> ((True, None), s2)))"

definition restartLaunchd :: "inst_env \<Rightarrow> string \<Rightarrow> inst \<Rightarrow> (bool \<times> err option) \<times> inst" where
  "restartLaunchd I home =
     restart_if_there I ''plist'' (launchd_plist home)
       (bootoutThenBootstrap I ''restart'' (launchd_target I launchdLabel) (gui_domain I) (launchd_plist home))"

definition restartSystemd :: "inst_env \<Rightarrow> string \<Rightarrow> inst \<Rightarrow> (bool \<times> err option) \<times> inst" where
  "restartSystemd I home =
     restart_if_there I ''unit'' (systemd_unit_path home)
       (\<lambda>s. sbind (must_run I ''restart: systemctl daemon-reload: '' [''systemctl'', ''--user'', ''daemon-reload''] s)
              (\<lambda>_. must_run I ''restart: systemctl restart: '' [''systemctl'', ''--user'', ''restart'', systemdUnit]))"

definition Restart :: "inst_env \<Rightarrow> err + string \<Rightarrow> inst \<Rightarrow> (bool \<times> err option) \<times> inst" where
  "Restart I home s =
     (case home of
        Inl e \<Rightarrow> ((False, Some (Wrapf ''restart: resolve home dir: '' e [])), s)
      | Inr h \<Rightarrow>
          if goos I = osDarwin then restartLaunchd I h s
          else if goos I = osLinux then restartSystemd I h s
          else ((False, Some (unsupported ''restart'' (goos I))), s))"

end
