(* ===== verification/Install_Props.thy ===== *)
theory Install_Props
  imports Installer Disk_Keep
begin

text \<open>
  What the installer guarantees: it never touches a file that is there, the service is bootstrapped after a bounded wait, and
  what it does not guarantee: a secret torn by a failing write stays, and the maintenance job is bootstrapped without the wait.
\<close>

section \<open>Scaffolding\<close>

text \<open>Calls that fail for reasons outside of the tree do not say that a file does not exist.\<close>

definition honest_faults :: "os_env \<Rightarrow> bool" where
  "honest_faults E = (\<forall>n e. io E n = Some e \<longrightarrow> \<not> errors_Is e ErrNotExist)"

lemma stat_missing:
  assumes "honest_faults E" and "os_Stat E p d = (Inl e, d1)" and "errors_Is e ErrNotExist"
  shows "missing E d1 p"
  using assms by (auto simp: os_Stat_def syscall_def Let_def honest_faults_def missing_def found_def split: option.splits sum.splits)

lemma stat_present: "os_Stat E p d = (Inr n, d1) \<Longrightarrow> present E d1 p"
  by (auto simp: os_Stat_def syscall_def Let_def present_def found_def split: option.splits sum.splits)

text \<open>A step that makes the file unless it is there.\<close>

definition makes :: "os_env \<Rightarrow> string \<Rightarrow> unit sys \<Rightarrow> bool" where
  "makes E p f = (\<forall>d. keeps d (snd (f d)) \<and> (fst (f d) = Inr () \<longrightarrow> present E (snd (f d)) p))"

lemma makesD: "makes E p f \<Longrightarrow> f d = (r, d') \<Longrightarrow> keeps d d' \<and> (r = Inr () \<longrightarrow> present E d' p)"
  unfolding makes_def by (metis fst_conv snd_conv)

lemma unless_there_makes:
  assumes "honest_faults (fs I)"
    and "\<And>d. missing (fs I) d p \<Longrightarrow> keeps d (snd (produce d)) \<and> (fst (produce d) = Inr () \<longrightarrow> present (fs I) (snd (produce d)) p)"
  shows "makes (fs I) p (unless_there I what p produce)"
  unfolding makes_def
proof
  fix d
  obtain r d1 where st: "os_Stat (fs I) p d = (r, d1)" by fastforce
  have k: "keeps d d1" using keeps_stats(2) [of d "fs I" p] st by simp
  show "keeps d (snd (unless_there I what p produce d))
      \<and> (fst (unless_there I what p produce d) = Inr () \<longrightarrow> present (fs I) (snd (unless_there I what p produce d)) p)"
  proof (cases r)
    case (Inl e)
    then show ?thesis using st k assms(2) [OF stat_missing [OF assms(1)]] by (auto simp: unless_there_def intro: keeps_trans)
  next
    case (Inr n)
    then show ?thesis using st k stat_present by (auto simp: unless_there_def)
  qed
qed

lemma scaffoldConfig_makes: "honest_faults (fs I) \<Longrightarrow> makes (fs I) (icConfigPath cfg) (scaffoldConfig I cfg)"
  unfolding scaffoldConfig_def
  by (rule unless_there_makes) (use write_missing in \<open>auto split: sum.splits\<close>)

lemma ensureSecret_makes: "honest_faults (fs I) \<Longrightarrow> makes (fs I) p (ensureSecret I p)"
  unfolding ensureSecret_def
  by (rule unless_there_makes) (use write_missing in \<open>auto split: sum.splits\<close>)

lemma cidrs_keeps: "honest_faults (fs I) \<Longrightarrow> keeps d (ensureWebhookCIDRs I dir d)"
proof -
  let ?p = "filepath_Join [dir, ''github-webhook-cidrs.txt'']"
  assume "honest_faults (fs I)"
  then have "makes (fs I) ?p (unless_there I what ?p (\<lambda>d1. case fetchMetaHooks I of
      Inl e \<Rightarrow> (Inl e, d1) | Inr cidrs \<Rightarrow> os_WriteFile (fs I) ?p (JoinStr cidrs nl @ nl) dataFileMode d1))" for what
    by (rule unless_there_makes) (use write_missing in \<open>auto split: sum.splits\<close>)
  then show ?thesis by (simp add: makes_def ensureWebhookCIDRs_def Let_def)
qed

lemma ensureConfigDir_keeps: "keeps d (snd (ensureConfigDir I dir d))"
proof -
  obtain r d1 where st: "os_Stat (fs I) dir d = (r, d1)" by fastforce
  then have "keeps d d1" using keeps_stats(2) [of d "fs I" dir] by simp
  then show ?thesis using st keeps_MkdirAll [of d1 "fs I" dir]
    by (auto simp: ensureConfigDir_def intro: keeps_trans split: sum.split node.split)
qed

text \<open>
  C28. Scaffolding adds and never touches. Whatever the environment does (an unreachable API, a failing disk, a random source that
  fails), running the scaffolding part of \<open>Install\<close> leaves every directory, link and file that was there in place, with its
  content and mode, links to files included, so a second \<open>Install\<close> cannot overwrite the configuration an operator edited nor
  rotate a secret; and when it succeeds, the configuration and both secrets are there.
\<close>

theorem scaffold_only_adds:
  assumes "honest_faults (fs I)" and "\<And>p i. node_at d p = Some (FileNode i) \<Longrightarrow> i < nextInode d"
    and "scaffold I cfg d = (r, d')"
  shows "(\<forall>p n. node_at d p = Some n \<longrightarrow> node_at d' p = Some n)
    \<and> (\<forall>p i. node_at d p = Some (FileNode i) \<longrightarrow> inodes d' i = inodes d i)
    \<and> (r = Inr () \<longrightarrow> present (fs I) d' (icConfigPath cfg)
         \<and> present (fs I) d' (filepath_Join [icConfigDir cfg, ''webhook-secret''])
         \<and> present (fs I) d' (filepath_Join [icConfigDir cfg, ''capacity-token'']))"
proof -
  let ?w = "filepath_Join [icConfigDir cfg, ''webhook-secret'']" and ?t = "filepath_Join [icConfigDir cfg, ''capacity-token'']"
  note made = scaffoldConfig_makes [OF assms(1), of cfg] ensureSecret_makes [OF assms(1), of ?w] ensureSecret_makes [OF assms(1), of ?t]
  obtain r1 d1 where 1: "ensureConfigDir I (icConfigDir cfg) d = (r1, d1)" by fastforce
  obtain r2 d2 where 2: "scaffoldConfig I cfg d1 = (r2, d2)" by fastforce
  obtain r3 d3 where 3: "ensureSecret I ?w d2 = (r3, d3)" by fastforce
  obtain r4 d4 where 4: "ensureSecret I ?t d3 = (r4, d4)" by fastforce
  let ?d5 = "ensureWebhookCIDRs I (icConfigDir cfg) d4"
  have k: "keeps d d1" "keeps d1 d2" "keeps d2 d3" "keeps d3 d4" "keeps d4 ?d5"
    using ensureConfigDir_keeps [of d I "icConfigDir cfg"] 1 makesD [OF made(1) 2] makesD [OF made(2) 3] makesD [OF made(3) 4]
      cidrs_keeps [OF assms(1)] by simp_all
  have k2: "keeps d d2" by (rule keeps_trans [OF k(1,2)])
  have k3: "keeps d d3" by (rule keeps_trans [OF k2 k(3)])
  have k4: "keeps d d4" by (rule keeps_trans [OF k3 k(4)])
  have k5: "keeps d ?d5" by (rule keeps_trans [OF k4 k(5)])
  have p: "r2 = Inr () \<Longrightarrow> present (fs I) d2 (icConfigPath cfg)" "r3 = Inr () \<Longrightarrow> present (fs I) d3 ?w" "r4 = Inr () \<Longrightarrow> present (fs I) d4 ?t"
    using makesD [OF made(1) 2] makesD [OF made(2) 3] makesD [OF made(3) 4] by simp_all
  have run: "scaffold I cfg d = (case r1 of Inl e \<Rightarrow> (Inl e, d1) | Inr _ \<Rightarrow> case r2 of Inl e \<Rightarrow> (Inl e, d2) | Inr _ \<Rightarrow>
      case r3 of Inl e \<Rightarrow> (Inl e, d3) | Inr _ \<Rightarrow> case r4 of Inl e \<Rightarrow> (Inl e, d4) | Inr _ \<Rightarrow> (Inr (), ?d5))"
    using 1 2 3 4 by (simp add: scaffold_def ensureSecrets_def sbind_def split: sum.split)
  have kd: "keeps d d'" using assms(3) run k(1) k2 k3 k4 k5 by (auto split: sum.splits)
  have "present (fs I) d' (icConfigPath cfg) \<and> present (fs I) d' ?w \<and> present (fs I) d' ?t" if "r = Inr ()"
  proof -
    have ok: "r2 = Inr ()" "r3 = Inr ()" "r4 = Inr ()" and d': "d' = ?d5" using that assms(3) run by (auto split: sum.splits)
    have t: "keeps d3 ?d5" by (rule keeps_trans [OF k(4,5)])
    have c: "keeps d2 ?d5" by (rule keeps_trans [OF k(3) t])
    show ?thesis unfolding d'
      using present_keeps [OF p(1) [OF ok(1)] c] present_keeps [OF p(2) [OF ok(2)] t] present_keeps [OF p(3) [OF ok(3)] k(5)] by simp
  qed
  then show ?thesis using keepsD(1,2) [OF kd] assms(2) by (intro conjI allI impI) blast+
qed

section \<open>Waiting for launchd\<close>

definition bootout_cmd :: "string \<Rightarrow> string list" where "bootout_cmd target = [''launchctl'', ''bootout'', target]"
definition print_cmd :: "string \<Rightarrow> string list" where "print_cmd target = [''launchctl'', ''print'', target]"
definition bootstrap_cmd :: "string \<Rightarrow> string \<Rightarrow> string list" where "bootstrap_cmd domain p = [''launchctl'', ''bootstrap'', domain, p]"

text \<open>What ends the wait after \<open>k\<close> polls: the job is gone, the polls are used up, or the context is done.\<close>

definition wait_over :: "inst_env \<Rightarrow> nat \<Rightarrow> string \<Rightarrow> string list list \<Rightarrow> nat \<Rightarrow> bool" where
  "wait_over I limit target h k =
     (let polled = h @ replicate (k - 1) (print_cmd target)
      in snd (answers I polled (print_cmd target)) \<noteq> None \<or> k = limit \<or> ctxDone I (polled @ [print_cmd target]) \<noteq> None)"

lemma replicate_shift: "xs @ x # replicate k x = xs @ replicate (Suc k) x"
  by simp

lemma wait_polls:
  "\<exists>k. 1 \<le> k \<and> k \<le> Suc n
     \<and> waitForLaunchdUnload I (Suc n) target s = s\<lparr>ran := ran s @ replicate k (print_cmd target), naps := naps s + (k - 1)\<rparr>
     \<and> wait_over I (Suc n) target (ran s) k"
proof (induction n arbitrary: s)
  case 0
  show ?case
    by (rule exI [of _ 1]) (simp add: run_command_def Let_def wait_over_def print_cmd_def split: prod.split)
next
  case (Suc n)
  let ?p = "print_cmd target"
  let ?s1 = "s\<lparr>ran := ran s @ [?p]\<rparr>"
  show ?case
  proof (cases "snd (answers I (ran s) ?p) \<noteq> None \<or> ctxDone I (ran s @ [?p]) \<noteq> None")
    case True
    then have "waitForLaunchdUnload I (Suc (Suc n)) target s = ?s1"
      by (subst waitForLaunchdUnload.simps(2)) (auto simp: run_command_def Let_def print_cmd_def split: prod.split)
    then show ?thesis using True by (intro exI [of _ 1]) (auto simp: wait_over_def Let_def)
  next
    case False
    let ?s2 = "?s1\<lparr>naps := Suc (naps s)\<rparr>"
    have step: "waitForLaunchdUnload I (Suc (Suc n)) target s = waitForLaunchdUnload I (Suc n) target ?s2"
      using False by (subst waitForLaunchdUnload.simps(2)) (auto simp: run_command_def Let_def print_cmd_def split: prod.split)
    obtain k where k: "1 \<le> k" "k \<le> Suc n"
      "waitForLaunchdUnload I (Suc n) target ?s2 = ?s2\<lparr>ran := ran ?s2 @ replicate k ?p, naps := naps ?s2 + (k - 1)\<rparr>"
      "wait_over I (Suc n) target (ran ?s2) k"
      using Suc.IH [of ?s2] by blast
    obtain j where j: "k = Suc j" using k(1) by (cases k) auto
    show ?thesis
      by (rule exI [of _ "Suc k"])
        (use k step in \<open>simp add: j wait_over_def Let_def replicate_append_same\<close>)
  qed
qed

text \<open>
  The restart of a launchd job. \<open>bootoutThenBootstrap\<close> runs a bootout, whose failure does not matter, then between one and
  50 prints with one sleep less, and then the bootstrap, whose answer decides. It only stops polling early when a
  print said that the job is gone or the context was done. The file tree is left alone.
\<close>

theorem bootstrap_after_wait:
  "\<exists>k. 1 \<le> k \<and> k \<le> 50
     \<and> (let h = ran s @ [bootout_cmd target]; polled = h @ replicate k (print_cmd target);
             (r, s') = bootoutThenBootstrap I pre target domain plistPath s
         in wait_over I 50 target h k
            \<and> s' = s\<lparr>ran := polled @ [bootstrap_cmd domain plistPath], naps := naps s + (k - 1)\<rparr>
            \<and> (r = Inr () \<longleftrightarrow> snd (answers I polled (bootstrap_cmd domain plistPath)) = None))"
proof -
  let ?s1 = "s\<lparr>ran := ran s @ [bootout_cmd target]\<rparr>"
  have m: "may_run I [''launchctl'', ''bootout'', target] s = ?s1"
    by (simp add: may_run_def run_command_def bootout_cmd_def)
  obtain k where k: "1 \<le> k" "k \<le> Suc 49"
    "waitForLaunchdUnload I (Suc 49) target ?s1 = ?s1\<lparr>ran := ran ?s1 @ replicate k (print_cmd target), naps := naps ?s1 + (k - 1)\<rparr>"
    "wait_over I (Suc 49) target (ran ?s1) k"
    using wait_polls [of 49 I target ?s1] by blast
  have w: "waitForLaunchdUnload I 50 target ?s1
      = s\<lparr>ran := ran s @ bootout_cmd target # replicate k (print_cmd target), naps := naps s + (k - 1)\<rparr>"
    using k(3) by simp
  have o: "wait_over I 50 target (ran s @ [bootout_cmd target]) k" using k(4) by simp
  obtain out e where a: "answers I (ran s @ bootout_cmd target # replicate k (print_cmd target)) (bootstrap_cmd domain plistPath) = (out, e)"
    by fastforce
  have run: "bootoutThenBootstrap I pre target domain plistPath s
      = (case e of Some x \<Rightarrow> Inl (Wrapf (pre @ '': launchctl bootstrap: '') x []) | None \<Rightarrow> Inr (),
         s\<lparr>ran := ran s @ bootout_cmd target # replicate k (print_cmd target) @ [bootstrap_cmd domain plistPath],
           naps := naps s + (k - 1)\<rparr>)"
    using a unfolding bootoutThenBootstrap_def m w must_run_def run_command_def bootstrap_cmd_def [symmetric] by simp
  show ?thesis
    by (rule exI [of _ k]) (use k(1,2) o a run in \<open>auto split: option.split\<close>)
qed

section \<open>Uninstalling\<close>

lemma Join_elems:
  assumes "H \<noteq> []" and "list_all plain_elem H" and "list_all plain_elem es" and "es \<noteq> []"
  shows "filepath_Join (abs_path H # es) = abs_path (H @ es)"
proof -
  have ne: "filter (\<lambda>e. e \<noteq> []) (abs_path H # es) = abs_path H # es"
    using assms(3) by (auto simp: list_all_iff plain_elem_def intro!: filter_True)
  have "JoinStr (abs_path H # es) ''/'' = abs_path (H @ es)"
    using assms(4)
  proof (induction es rule: rev_induct)
    case Nil
    then show ?case by simp
  next
    case (snoc e es)
    have "JoinStr ((abs_path H # es) @ [e]) ''/'' = JoinStr (abs_path H # es) ''/'' @ ''/'' @ e" by (rule JoinStr_snoc) simp
    moreover have "JoinStr (abs_path H # es) ''/'' = abs_path (H @ es)" using snoc.IH by (cases "es = []") simp_all
    moreover have "abs_path ((H @ es) @ [e]) = abs_path (H @ es) @ slash # e" using assms(1) by (intro abs_path_snoc) simp
    ultimately show ?case by (simp add: slash_def)
  qed
  then show ?thesis using ne Clean_abs_path [of "H @ es"] assms(2,3) by (simp add: filepath_Join_def)
qed

text \<open>What a removal leaves.\<close>

definition removes_only :: "path set \<Rightarrow> disk \<Rightarrow> disk \<Rightarrow> bool" where
  "removes_only S d d' =
     ((\<forall>p. node_at d' p = node_at d p \<or> p \<in> S \<and> node_at d' p = None) \<and> inodes d' = inodes d \<and> nextInode d' = nextInode d)"

lemma removes_refl [simp]: "removes_only S d d"
  by (simp add: removes_only_def)

lemma removes_trans: "removes_only S d d' \<Longrightarrow> removes_only S d' d'' \<Longrightarrow> removes_only S d d''"
  unfolding removes_only_def by metis

lemma straight_removes: "straight d es \<Longrightarrow> removes_only S d d' \<Longrightarrow> straight d' es"
  unfolding straight_def removes_only_def by (metis option.distinct(1))

lemma remove_only:
  assumes "straight d es" and "list_all plain_elem es" and "es \<in> S"
  shows "removes_only S d (snd (os_Remove E (abs_path es) d))"
proof -
  have q: "q = es" if "lookup E d False (abs_path es) = Inr q" for q by (rule straight_lookup [OF assms(1,2) that])
  have "removes_only S d (del_node (d\<lparr>ticks := t\<rparr>) es)" for t
    using assms(3) by (auto simp: removes_only_def node_at_del)
  moreover have "removes_only S d (d\<lparr>ticks := t\<rparr>)" for t by (simp add: removes_only_def)
  ultimately show ?thesis using q
    by (cases "lookup E d False (abs_path es)")
      (auto simp: os_Remove_def syscall_def Let_def tick_lookup split: option.split node.split)
qed

lemma remove_if_there_only:
  assumes "straight (tree s) es" and "list_all plain_elem es" and "es \<in> S" and "remove_if_there I what (abs_path es) s = (r, s')"
  shows "removes_only S (tree s) (tree s') \<and> ran s' = ran s"
  using remove_only [OF assms(1-3), of "fs I"] assms(4)
  by (auto simp: remove_if_there_def on_tree_def split: prod.splits sum.splits if_splits)

text \<open>
  Uninstalling on macOS, with no links on the way to the three files. Both the service and the maintenance timer are booted
  out, also when the first removal fails, and of the file tree nothing goes but the two plists and the maintenance script:
  configuration, secrets, logs and everything else stay as they are.
\<close>

theorem uninstall_removes_only:
  assumes "goos I = osDarwin" and "icHome cfg = abs_path H" and H: "H \<noteq> []" "list_all plain_elem H"
    and "straight (tree s) (H @ [''Library'', ''LaunchAgents'', launchdLabel @ ''.plist''])"
    and "straight (tree s) (H @ [''Library'', ''LaunchAgents'', maintenanceLaunchdLabel @ ''.plist''])"
    and "straight (tree s) (H @ [''.config'', ''gha-mac-broker'', ''maintenance.sh''])"
  shows "let (e, s') = Uninstall I cfg s
    in ran s' = ran s @ [bootout_cmd (launchd_target I launchdLabel), bootout_cmd (launchd_target I maintenanceLaunchdLabel)]
       \<and> removes_only {H @ [''Library'', ''LaunchAgents'', launchdLabel @ ''.plist''],
            H @ [''Library'', ''LaunchAgents'', maintenanceLaunchdLabel @ ''.plist''],
            H @ [''.config'', ''gha-mac-broker'', ''maintenance.sh'']} (tree s) (tree s')"
proof -
  let ?u = "H @ [''Library'', ''LaunchAgents'', launchdLabel @ ''.plist'']"
  let ?m = "H @ [''Library'', ''LaunchAgents'', maintenanceLaunchdLabel @ ''.plist'']"
  let ?c = "H @ [''.config'', ''gha-mac-broker'', ''maintenance.sh'']"
  let ?S = "{?u, ?m, ?c}"
  have el: "list_all plain_elem [''Library'', ''LaunchAgents'', launchdLabel @ ''.plist'']"
    "list_all plain_elem [''Library'', ''LaunchAgents'', maintenanceLaunchdLabel @ ''.plist'']"
    "list_all plain_elem [''.config'', ''gha-mac-broker'', ''maintenance.sh'']"
    by code_simp+
  have pl: "list_all plain_elem ?u" "list_all plain_elem ?m" "list_all plain_elem ?c" using H(2) el by simp_all
  have at: "launchd_plist (icHome cfg) = abs_path ?u" "maintenancePlistPath cfg = abs_path ?m" "maintenanceScriptPath cfg = abs_path ?c"
    using Join_elems [OF H el(1)] Join_elems [OF H el(2)] Join_elems [OF H el(3)] assms(2)
    by (simp_all add: launchd_plist_def maintenancePlistPath_def maintenanceScriptPath_def)
  define s1 where "s1 = may_run I (bootout_cmd (launchd_target I launchdLabel)) s"
  have s1: "tree s1 = tree s" "ran s1 = ran s @ [bootout_cmd (launchd_target I launchdLabel)]"
    by (simp_all add: s1_def may_run_def run_command_def)
  obtain r2 s2 where 2: "remove_if_there I ''plist'' (abs_path ?u) s1 = (r2, s2)" by fastforce
  have d2: "removes_only ?S (tree s) (tree s2)" "ran s2 = ran s1"
    using remove_if_there_only [OF _ pl(1) _ 2, of ?S] assms(5) s1(1) by simp_all
  define s3 where "s3 = may_run I (bootout_cmd (launchd_target I maintenanceLaunchdLabel)) s2"
  have s3: "tree s3 = tree s2" "ran s3 = ran s2 @ [bootout_cmd (launchd_target I maintenanceLaunchdLabel)]"
    by (simp_all add: s3_def may_run_def run_command_def)
  obtain r4 s4 where 4: "remove_if_there I ''maintenance plist'' (abs_path ?m) s3 = (r4, s4)" by fastforce
  have d4: "removes_only ?S (tree s2) (tree s4)" "ran s4 = ran s3"
    using remove_if_there_only [OF _ pl(2) _ 4, of ?S] straight_removes [OF assms(6) d2(1)] s3(1) by simp_all
  have d4': "removes_only ?S (tree s) (tree s4)" by (rule removes_trans [OF d2(1) d4(1)])
  obtain r5 s5 where 5: "remove_if_there I ''maintenance script'' (abs_path ?c) s4 = (r5, s5)" by fastforce
  have d5: "removes_only ?S (tree s4) (tree s5)" "ran s5 = ran s4"
    using remove_if_there_only [OF _ pl(3) _ 5, of ?S] straight_removes [OF assms(7) d4'] by simp_all
  have "Uninstall I cfg s = (fst (Uninstall I cfg s), (case r4 of Inl e \<Rightarrow> s4 | Inr _ \<Rightarrow> s5))"
    using assms(1) 2 4 5
    by (simp add: Uninstall_def uninstallUnit_def uninstallLaunchd_def uninstallMaintenanceTimer_def uninstallLaunchdMaintenance_def
        at bootout_cmd_def [symmetric] s1_def [symmetric] s3_def [symmetric] sbind_def Let_def split: sum.split)
  then show ?thesis using d2(2) d4(2) d5(2) s1(2) s3(2) d4' removes_trans [OF d4' d5(1)]
    by (cases "Uninstall I cfg s") (auto split: sum.splits)
qed

end
