(* ===== verification/Install_Demo.thy ===== *)
theory Install_Demo
  imports Install_Props
begin

text \<open>
  The installer on a concrete Mac: the cases of its properties, and two behaviours that its comments do not promise: a secret torn
  by a failing write is kept by every later install, and the maintenance job is bootstrapped while it is still unloading.
\<close>

section \<open>A host\<close>

definition calm_fs :: os_env where
  "calm_fs = \<lparr>io = (\<lambda>_. None), short = (\<lambda>_. 0), umasked = (\<lambda>m. m), wd = [], tempName = dec_nat\<rparr>"

text \<open>A launchd that unloads a job while it is being polled: the first print after a bootout still finds it, and a bootstrap is refused until then.\<close>

definition slow_launchd :: "string list list \<Rightarrow> string list \<Rightarrow> string \<times> err option" where
  "slow_launchd h argv =
     (let polls = length (filter (\<lambda>c. take 2 c = [''launchctl'', ''print'']) h)
      in if take 2 argv = [''launchctl'', ''print''] then ([], if polls = 0 then None else Some (Msg ''could not find service''))
         else if take 2 argv = [''launchctl'', ''bootstrap''] \<and> polls < 2 then ([], Some (Msg ''operation in progress''))
         else ([], None))"

text \<open>Encoding by the bits of a character, for evaluation.\<close>

definition nibble :: "bool \<Rightarrow> bool \<Rightarrow> bool \<Rightarrow> bool \<Rightarrow> char" where
  "nibble b0 b1 b2 b3 =
     (if b3 then (if b2 then (if b1 then (if b0 then CHR ''f'' else CHR ''e'') else (if b0 then CHR ''d'' else CHR ''c''))
                  else (if b1 then (if b0 then CHR ''b'' else CHR ''a'') else (if b0 then CHR ''9'' else CHR ''8'')))
      else (if b2 then (if b1 then (if b0 then CHR ''7'' else CHR ''6'') else (if b0 then CHR ''5'' else CHR ''4''))
            else (if b1 then (if b0 then CHR ''3'' else CHR ''2'') else (if b0 then CHR ''1'' else CHR ''0''))))"

lemma hex_by_bits [code]:
  "hex_EncodeToString [] = []"
  "hex_EncodeToString (Char b0 b1 b2 b3 b4 b5 b6 b7 # bs) = nibble b4 b5 b6 b7 # nibble b0 b1 b2 b3 # hex_EncodeToString bs"
proof -
  show "hex_EncodeToString [] = []" by (simp add: hex_EncodeToString_def)
  have "hex_digit (of_char (Char b0 b1 b2 b3 b4 b5 b6 b7) div 16) = nibble b4 b5 b6 b7"
    by (cases b0; cases b1; cases b2; cases b3; cases b4; cases b5; cases b6; cases b7)
      (simp_all add: hex_digit_def nibble_def char_of_def bit_iff_odd)
  moreover have "hex_digit (of_char (Char b0 b1 b2 b3 b4 b5 b6 b7) mod 16) = nibble b0 b1 b2 b3"
    by (cases b0; cases b1; cases b2; cases b3; cases b4; cases b5; cases b6; cases b7)
      (simp_all add: hex_digit_def nibble_def char_of_def bit_iff_odd)
  ultimately show "hex_EncodeToString (Char b0 b1 b2 b3 b4 b5 b6 b7 # bs) = nibble b4 b5 b6 b7 # nibble b0 b1 b2 b3 # hex_EncodeToString bs"
    by (simp add: hex_EncodeToString_def)
qed

definition demo_random :: "nat \<Rightarrow> err + string" where "demo_random n = Inr (replicate 32 (CHR 0x6B))"
definition demo_decode :: "string \<Rightarrow> err + config" where "demo_decode raw = Inr zeroConfig"
definition demo_unit :: "string \<Rightarrow> instConfig \<Rightarrow> err + string" where "demo_unit name c = Inr (icBinPath c)"
definition demo_maintenance :: "string \<Rightarrow> maintenanceTemplateData \<Rightarrow> err + string" where "demo_maintenance name m = Inr (mdCommand m)"
definition demo_tart :: host where
  "demo_tart tr x = \<lparr>ansErr = None, ansOut = [], ansVMs = [], ansProtocol = 0, ansExecs = []\<rparr>"
definition never_done :: "string list list \<Rightarrow> err option" where "never_done h = None"
definition found_all :: "string \<Rightarrow> err option" where "found_all b = None"

definition mac_env :: "os_env \<Rightarrow> inst_env" where
  "mac_env E =
     \<lparr>goos = ''darwin'', uid = 5, fs = E, answers = slow_launchd, ctxDone = never_done, lookPath = found_all,
      randBytes = demo_random, metaRequest = None, metaResponse = Inr (200, Inr []),
      exampleConfig = ''d=/Users/you/c'', unitTemplate = demo_unit,
      maintenanceTemplate = demo_maintenance, decodeConfig = demo_decode, homeEnv = None, tmpEnv = [],
      cwdEnv = None, tartHost = demo_tart,
      goldenEnv = \<lparr>sha256 = id, decodeReceipt = Inl \<circ> Msg, parseIP = list_all is_digit, plist = [], polls = 1, ctxErr = Msg [],
                   hasStager = False\<rparr>,
      vmSuffix = []\<rparr>"

definition mac_config :: instConfig where
  "mac_config =
     \<lparr>icBinPath = ''/h/.local/bin/gha-mac-broker'', icHome = ''/h'', icConfigDir = ''/h/c'', icLogPath = ''/h/l/broker.log'',
      icConfigPath = ''/h/c/config.toml'', icMaintenance = \<lparr>mcCommand = ''true'', mcIntervalSeconds = 3600\<rparr>\<rparr>"

definition bare_home :: disk where
  "bare_home = \<lparr>nodes = [([''h''], DirNode 493)], inodes = (\<lambda>_. ([], 0)), nextInode = 0, ticks = 0\<rparr>"

definition fresh_mac :: inst where
  "fresh_mac = \<lparr>tree = bare_home, ran = [], naps = 0, hostTr = []\<rparr>"

text \<open>The content of a file.\<close>

definition content_at :: "os_env \<Rightarrow> disk \<Rightarrow> string \<Rightarrow> string option" where
  "content_at E d p =
     (case lookup E d True p of Inr q \<Rightarrow> (case node_at d q of Some (FileNode i) \<Rightarrow> Some (fst (inodes d i)) | _ \<Rightarrow> None) | Inl _ \<Rightarrow> None)"

section \<open>Cases of the properties\<close>

lemma bare_home_node: "node_at bare_home p = (if p = [] \<or> p = [''h''] then Some (DirNode 493) else None)"
  by (simp add: node_at_def bare_home_def)

lemma scaffold_only_adds_witness:
  "let (r, d') = scaffold (mac_env calm_fs) mac_config bare_home
   in r = Inr () \<and> (\<forall>p n. node_at bare_home p = Some n \<longrightarrow> node_at d' p = Some n)
      \<and> present calm_fs d' ''/h/c/config.toml'' \<and> present calm_fs d' ''/h/c/webhook-secret''
      \<and> content_at calm_fs d' ''/h/c/config.toml'' = Some ''d=/h/c''"
proof -
  obtain r d' where run: "scaffold (mac_env calm_fs) mac_config bare_home = (r, d')" by fastforce
  have h: "honest_faults (fs (mac_env calm_fs))" by (simp add: honest_faults_def mac_env_def calm_fs_def)
  have w: "\<And>p i. node_at bare_home p = Some (FileNode i) \<Longrightarrow> i < nextInode bare_home"
    by (simp add: bare_home_node split: if_splits)
  have c: "let (r, d') = scaffold (mac_env calm_fs) mac_config bare_home
    in r = Inr () \<and> content_at calm_fs d' ''/h/c/config.toml'' = Some ''d=/h/c''" by code_simp
  have f: "fs (mac_env calm_fs) = calm_fs" by (simp add: mac_env_def)
  have n: "icConfigPath mac_config = ''/h/c/config.toml''"
    "filepath_Join [icConfigDir mac_config, ''webhook-secret''] = ''/h/c/webhook-secret''" by code_simp+
  show ?thesis using scaffold_only_adds [OF h w run] run c by (simp add: f n)
qed

lemma uninstall_removes_only_witness:
  "let (e, s') = Uninstall (mac_env calm_fs) mac_config (snd (installLaunchd (mac_env calm_fs) mac_config fresh_mac))
   in e = None
      \<and> node_at (tree (snd (installLaunchd (mac_env calm_fs) mac_config fresh_mac)))
          [''h'', ''Library'', ''LaunchAgents'', ''io.goodkind.gha-mac-broker.plist''] \<noteq> None
      \<and> node_at (tree s') [''h'', ''Library'', ''LaunchAgents'', ''io.goodkind.gha-mac-broker.plist''] = None
      \<and> removes_only {[''h''] @ [''Library'', ''LaunchAgents'', launchdLabel @ ''.plist''],
            [''h''] @ [''Library'', ''LaunchAgents'', maintenanceLaunchdLabel @ ''.plist''],
            [''h''] @ [''.config'', ''gha-mac-broker'', ''maintenance.sh'']}
          (tree (snd (installLaunchd (mac_env calm_fs) mac_config fresh_mac))) (tree s')"
proof -
  let ?I = "mac_env calm_fs"
  define s where "s = snd (installLaunchd ?I mac_config fresh_mac)"
  have nodes: "list_all (\<lambda>(p, n). case n of LinkNode t \<Rightarrow> False | _ \<Rightarrow> True) (nodes (tree s))" unfolding s_def by code_simp
  have "node_at (tree s) p \<noteq> Some (LinkNode t)" for p t
  proof
    assume "node_at (tree s) p = Some (LinkNode t)"
    then have "(p, LinkNode t) \<in> set (nodes (tree s))" by (auto simp: node_at_def split: if_splits dest: map_of_SomeD)
    then show False using nodes by (auto simp: list_all_iff)
  qed
  then have st: "straight (tree s) es" for es by (simp add: straight_def)
  have "goos ?I = osDarwin" "icHome mac_config = abs_path [''h'']" "list_all plain_elem [''h'']" by code_simp+
  from uninstall_removes_only [OF this(1,2) _ this(3) st st st]
  have u: "let (e, s') = Uninstall ?I mac_config s
    in ran s' = ran s @ [bootout_cmd (launchd_target ?I launchdLabel), bootout_cmd (launchd_target ?I maintenanceLaunchdLabel)]
       \<and> removes_only {[''h''] @ [''Library'', ''LaunchAgents'', launchdLabel @ ''.plist''],
            [''h''] @ [''Library'', ''LaunchAgents'', maintenanceLaunchdLabel @ ''.plist''],
            [''h''] @ [''.config'', ''gha-mac-broker'', ''maintenance.sh'']} (tree s) (tree s')"
    by simp
  have c: "let s = snd (installLaunchd ?I mac_config fresh_mac); (e, s') = Uninstall ?I mac_config s
    in e = None \<and> node_at (tree s) [''h'', ''Library'', ''LaunchAgents'', ''io.goodkind.gha-mac-broker.plist''] \<noteq> None
      \<and> node_at (tree s') [''h'', ''Library'', ''LaunchAgents'', ''io.goodkind.gha-mac-broker.plist''] = None"
    by code_simp
  obtain e s' where r: "Uninstall ?I mac_config s = (e, s')" by fastforce
  show ?thesis using u c r unfolding s_def [symmetric] by (simp only: Let_def case_prod_conv r simp_thms)
qed

section \<open>A torn secret stays\<close>

text \<open>The disk is full when the webhook secret is written, after four of its 64 characters.\<close>

definition full_fs :: os_env where
  "full_fs = calm_fs\<lparr>io := (\<lambda>n. if n = 10 then Some (Msg ''no space left on device'') else None), short := (\<lambda>_. 4)\<rparr>"

text \<open>
  A torn secret stays. On a new home, a first install fails when writing the webhook secret and says so, but the four characters
  that were written stay in the file. The next install, where nothing fails, takes the file for the secret and succeeds: the
  host then runs with a four character webhook secret, and no later install repairs it.
\<close>

theorem torn_secret_stays:
  "let (r1, d1) = scaffold (mac_env full_fs) mac_config bare_home;
       (r2, d2) = scaffold (mac_env calm_fs) mac_config d1;
       (r3, d3) = scaffold (mac_env calm_fs) mac_config bare_home
   in isl r1 \<and> r2 = Inr () \<and> map_option length (content_at calm_fs d2 ''/h/c/webhook-secret'') = Some 4
      \<and> r3 = Inr () \<and> map_option length (content_at calm_fs d3 ''/h/c/webhook-secret'') = Some 64"
  by code_simp

section \<open>The maintenance job is not waited for\<close>

text \<open>
  Against a launchd that finishes unloading a job only while it is polled, installing the service succeeds, since it polls
  until the job is gone; installing the maintenance timer fails, as its bootstrap follows the bootout at once.
\<close>

theorem maintenance_is_not_waited_for:
  "fst (installLaunchd (mac_env calm_fs) mac_config fresh_mac) = Inr ()
   \<and> ran (snd (installLaunchd (mac_env calm_fs) mac_config fresh_mac))
       = [bootout_cmd ''gui/5/io.goodkind.gha-mac-broker'', print_cmd ''gui/5/io.goodkind.gha-mac-broker'',
          print_cmd ''gui/5/io.goodkind.gha-mac-broker'',
          bootstrap_cmd ''gui/5'' ''/h/Library/LaunchAgents/io.goodkind.gha-mac-broker.plist'']
   \<and> isl (fst (installLaunchdMaintenance (mac_env calm_fs) mac_config fresh_mac))
   \<and> ran (snd (installLaunchdMaintenance (mac_env calm_fs) mac_config fresh_mac))
       = [bootout_cmd ''gui/5/io.goodkind.gha-mac-broker-maintenance'',
          bootstrap_cmd ''gui/5'' ''/h/Library/LaunchAgents/io.goodkind.gha-mac-broker-maintenance.plist'']"
  by (intro conjI; code_simp)

end
