(* ===== verification/Install_Binary.thy ===== *)
theory Install_Binary
  imports Disk_Replace
begin

text \<open>
  Placing the running broker at its installed path (\<open>install_binary.go\<close>), over the file tree of \<^theory_text>\<open>Disk\<close>.
\<close>

definition brokerBinaryName :: string where "brokerBinaryName = ''gha-mac-broker''"

definition defaultInstallBinPath :: "err + string \<Rightarrow> err + string" where
  "defaultInstallBinPath home =
     (case home of
        Inl e \<Rightarrow> Inl (Wrapf ''resolve home dir: '' e [])
      | Inr h \<Rightarrow> Inr (filepath_Join [h, ''.local'', ''bin'', brokerBinaryName]))"

text \<open>\<open>os.SameFile\<close> of two paths that are there: one file by its inode, one directory by its place.\<close>

definition os_SameFile :: "os_env \<Rightarrow> disk \<Rightarrow> string \<Rightarrow> string \<Rightarrow> bool" where
  "os_SameFile E d p q =
     (case (lookup E d True p, lookup E d True q) of
        (Inr a, Inr b) \<Rightarrow>
          (case (node_at d a, node_at d b) of (Some (FileNode i), Some (FileNode j)) \<Rightarrow> i = j | _ \<Rightarrow> a = b)
      | _ \<Rightarrow> False)"

definition samePathOrFile :: "os_env \<Rightarrow> string \<Rightarrow> string \<Rightarrow> bool sys" where
  "samePathOrFile E sourcePath destinationPath d =
     (if filepath_Clean sourcePath = filepath_Clean destinationPath then (Inr True, d)
      else
        sbind (wrapping (''install: stat source binary '' @ sourcePath @ '': '') (os_Stat E sourcePath d)) (\<lambda>_ d1.
          case os_Stat E destinationPath d1 of
            (Inl e, d2) \<Rightarrow>
              if errors_Is e ErrNotExist then (Inr False, d2)
              else (Inl (Wrapf (''install: stat destination binary '' @ destinationPath @ '': '') e []), d2)
          | (Inr _, d2) \<Rightarrow> (Inr (os_SameFile E d2 sourcePath destinationPath), d2)))"

text \<open>The content of the source is what reading it gives when it is opened.\<close>

definition copyBinary :: "os_env \<Rightarrow> string \<Rightarrow> string \<Rightarrow> unit sys" where
  "copyBinary E sourcePath destinationPath d =
     sbind (wrapping (''install: stat source binary '' @ sourcePath @ '': '') (os_Stat E sourcePath d)) (\<lambda>info d1.
       case info of
         FileNode s \<Rightarrow>
           (let perm = snd (inodes d1 s) mod 512; destinationDir = filepath_Dir destinationPath
            in sbind (wrapping (''install: create binary dir '' @ destinationDir @ '': '') (os_MkdirAll E destinationDir 493 d1)) (\<lambda>_ d2.
               sbind (wrapping (''install: open source binary '' @ sourcePath @ '': '') (os_ReadFile E sourcePath d2)) (\<lambda>content d3.
               sbind (wrapping (''install: create temp binary in '' @ destinationDir @ '': '') (os_CreateTemp E destinationDir d3)) (\<lambda>(tempPath, i) d4.
                 replace_through E
                   (''install: copy binary to '' @ tempPath @ '': '', ''install: chmod binary '' @ tempPath @ '': '',
                    ''install: close binary '' @ tempPath @ '': '')
                   (''install: replace binary '' @ destinationPath @ '': '') tempPath i content perm destinationPath d4))))
       | _ \<Rightarrow> (Inl (Msg (''install: source binary '' @ sourcePath @ '' is not a regular file'')), d1))"

definition installRunningBinary :: "os_env \<Rightarrow> string \<Rightarrow> string \<Rightarrow> unit sys" where
  "installRunningBinary E sourcePath destinationPath d =
     sbind (samePathOrFile E sourcePath destinationPath d) (\<lambda>same d1.
       if same then (Inr (), d1) else copyBinary E sourcePath destinationPath d1)"

section \<open>The binary is replaced whole\<close>

lemma keeps_CreateTemp: "keeps d (snd (os_CreateTemp E dir d))"
  unfolding os_CreateTemp_def Let_def
  by (rule keeps_syscall) (auto dest: keeps_new_file split: sum.split prod.split)

lemma read_same:
  "node_at (snd (os_ReadFile E p d)) = node_at d \<and> inodes (snd (os_ReadFile E p d)) = inodes d
   \<and> nextInode (snd (os_ReadFile E p d)) = nextInode d"
  "node_at (snd (os_Stat E p d)) = node_at d \<and> inodes (snd (os_Stat E p d)) = inodes d \<and> nextInode (snd (os_Stat E p d)) = nextInode d"
  by (auto simp: os_ReadFile_def os_Stat_def syscall_def Let_def fun_eq_iff split: option.split)

lemma same_keeps:
  "node_at d' = node_at d \<and> inodes d' = inodes d \<and> nextInode d' = nextInode d \<Longrightarrow> keeps d d'"
  by (simp add: keeps_def)

lemma read_content:
  "os_ReadFile E p d = (Inr c, d') \<Longrightarrow> \<exists>q i. lookup E d True p = Inr q \<and> node_at d q = Some (FileNode i) \<and> c = fst (inodes d i)"
  by (auto simp: os_ReadFile_def syscall_def Let_def found_Inr tick_lookup found_def split: option.splits sum.splits node.splits)

lemma stat_result:
  "os_Stat E p d = (Inr n, d') \<Longrightarrow> \<exists>q. lookup E d True p = Inr q \<and> node_at d q = Some n"
  by (auto simp: os_Stat_def syscall_def Let_def found_Inr tick_lookup split: option.splits)

lemma lookup_keeps:
  assumes "lookup E d True p = Inr q" and "node_at d q = Some n" and "keeps d d'"
  shows "lookup E d' True p = Inr q" and "node_at d' q = Some n"
proof -
  show "node_at d' q = Some n" using keepsD(1) [OF assms(3,2)] .
  have "walk d' True k cur xs = Inr q" if "walk d True k cur xs = Inr q" for k cur xs
    using walk_keeps [OF that] assms(2) keepsD(1) [OF assms(3)] by blast
  then show "lookup E d' True p = Inr q" using assms(1) by (auto simp: lookup_def lookup_elems_def split: if_splits)
qed

text \<open>
  C18. The installed binary is never torn. Copying the running binary over an installed one, at a path no link lies on the way
  to, either succeeds, and the path then names a file with the content and the permission bits of the source, or fails,
  and the path still names the old file with its content and mode, whichever of the calls failed and
  however little of the copy was written.
\<close>

theorem binary_replaced_whole:
  assumes run: "copyBinary E sourcePath (abs_path es) d = (r, d')"
    and wf: "\<And>p i. node_at d p = Some (FileNode i) \<Longrightarrow> i < nextInode d"
    and es: "straight d es" "list_all plain_elem es" "node_at d es = Some (FileNode j)"
  shows "(r = Inr () \<longrightarrow> (\<exists>i s p. lookup E d True sourcePath = Inr p \<and> node_at d p = Some (FileNode s)
         \<and> node_at d' es = Some (FileNode i) \<and> inodes d' i = (fst (inodes d s), snd (inodes d s) mod 512)))
    \<and> (r \<noteq> Inr () \<longrightarrow> node_at d' es = Some (FileNode j) \<and> inodes d' j = inodes d j)"
proof -
  have old: "node_at x es = Some (FileNode j) \<and> inodes x j = inodes d j" if "keeps d x" for x
    using keepsD(1,2) [OF that] es(3) wf [OF es(3)] by blast
  obtain r1 d1 where 1: "os_Stat E sourcePath d = (r1, d1)" by fastforce
  have k1: "keeps d d1" using same_keeps [OF read_same(2)] 1 by (metis snd_conv)
  have i1: "inodes d1 = inodes d" using read_same(2) 1 by (metis snd_conv)
  show ?thesis
  proof (cases "\<exists>s. r1 = Inr (FileNode s)")
    case False
    then have "r \<noteq> Inr ()" "d' = d1" using run 1
      by (auto simp: copyBinary_def split: sum.splits node.splits)
    then show ?thesis using old [OF k1] by simp
  next
    case True
    then obtain s where s: "r1 = Inr (FileNode s)" by blast
    obtain p where p: "lookup E d True sourcePath = Inr p" "node_at d p = Some (FileNode s)" using stat_result 1 s by blast
    let ?dir = "filepath_Dir (abs_path es)"
    obtain r2 d2 where 2: "os_MkdirAll E ?dir 493 d1 = (r2, d2)" by fastforce
    obtain r3 d3 where 3: "os_ReadFile E sourcePath d2 = (r3, d3)" by fastforce
    obtain r4 d4 where 4: "os_CreateTemp E ?dir d3 = (r4, d4)" by fastforce
    have k2: "keeps d d2" using keeps_trans [OF k1 keeps_MkdirAll] 2 by (metis snd_conv)
    have k3: "keeps d d3" using keeps_trans [OF k2 same_keeps [OF read_same(1)]] 3 by (metis snd_conv)
    have k4: "keeps d d4" using keeps_trans [OF k3 keeps_CreateTemp] 4 by (metis snd_conv)
    have step: "(r, d') = (case r2 of Inl e \<Rightarrow> (Inl (Wrapf (''install: create binary dir '' @ ?dir @ '': '') e []), d2) | Inr _ \<Rightarrow>
        case r3 of Inl e \<Rightarrow> (Inl (Wrapf (''install: open source binary '' @ sourcePath @ '': '') e []), d3) | Inr c \<Rightarrow>
        case r4 of Inl e \<Rightarrow> (Inl (Wrapf (''install: create temp binary in '' @ ?dir @ '': '') e []), d4) | Inr (tp, i) \<Rightarrow>
          replace_through E (''install: copy binary to '' @ tp @ '': '', ''install: chmod binary '' @ tp @ '': '',
              ''install: close binary '' @ tp @ '': '')
            (''install: replace binary '' @ abs_path es @ '': '') tp i c (snd (inodes d1 s) mod 512) (abs_path es) d4)"
      using run [symmetric] by (simp only: copyBinary_def Let_def 1 2 3 4 s sbind_wrapping sum.case node.case split_beta)
    show ?thesis
    proof (cases "isl r2 \<or> isl r3 \<or> isl r4")
      case True
      then have "r \<noteq> Inr ()" "d' = d2 \<or> d' = d3 \<or> d' = d4" using step by (auto split: sum.splits)
      then show ?thesis using old [OF k2] old [OF k3] old [OF k4] by auto
    next
      case False
      then obtain c tp i where ok: "r3 = Inr c" "r4 = Inr (tp, i)" "\<exists>u. r2 = Inr u" by (metis isl_def sum.collapse(2) surj_pair)
      obtain q where q: "i = nextInode d3" "node_at d3 q = None" "lookup E d4 False tp = Inr q" "node_at d4 q = Some (FileNode i)"
        using temp_created [of E ?dir d3 tp i d4] 4 ok(2) by metis
      have qes: "q \<noteq> es" using q(2) old [OF k3] by auto
      have ij: "i \<noteq> j" using q(1) keepsD(3) [OF k3] wf [OF es(3)] by simp
      have rt: "replace_through E (''install: copy binary to '' @ tp @ '': '', ''install: chmod binary '' @ tp @ '': '',
              ''install: close binary '' @ tp @ '': '')
            (''install: replace binary '' @ abs_path es @ '': '') tp i c (snd (inodes d1 s) mod 512) (abs_path es) d4 = (r, d')"
        using step ok by (auto split: sum.splits)
      have st: "straight d4 es" by (rule straight_keeps [OF es(1) k4])
      note all = replace_all_or_nothing [OF rt q(3,4) st es(2) qes]
      obtain q' i' where c: "lookup E d2 True sourcePath = Inr q'" "node_at d2 q' = Some (FileNode i')" "c = fst (inodes d2 i')"
        using read_content 3 ok(1) by blast
      have "q' = p" "i' = s" using lookup_keeps [OF p k2] c(1,2) by auto
      then have "c = fst (inodes d s)" using c(3) keepsD(2) [OF k2 wf [OF p(2)]] by simp
      then show ?thesis using all p i1 old [OF k4] ij by auto
    qed
  qed
qed

section \<open>An update of the binary\<close>

text \<open>A file system whose calls fail from the given one on, with two binaries; the fifth call on is the copy itself.\<close>

definition failing_from :: "nat option \<Rightarrow> os_env" where
  "failing_from n =
     \<lparr>io = (\<lambda>k. case n of Some m \<Rightarrow> if m \<le> k then Some (Msg ''input/output error'') else None | None \<Rightarrow> None),
      short = (\<lambda>_. 1), umasked = (\<lambda>m. m), wd = [], tempName = dec_nat\<rparr>"

definition two_binaries :: disk where
  "two_binaries =
     \<lparr>nodes = [([''new''], FileNode 0), ([''bin''], DirNode 493), ([''bin'', ''broker''], FileNode 1)],
      inodes = (\<lambda>i. if i = 0 then (''v2'', 448) else (''v1'', 493)), nextInode = 2, ticks = 0\<rparr>"

definition broker_at :: "disk \<Rightarrow> (string \<times> nat) option" where
  "broker_at d = (case node_at d [''bin'', ''broker''] of Some (FileNode i) \<Rightarrow> Some (inodes d i) | _ \<Rightarrow> None)"

lemma binary_replaced_whole_witness:
  "fst (copyBinary (failing_from None) ''/new'' ''/bin/broker'' two_binaries) = Inr ()
   \<and> broker_at (snd (copyBinary (failing_from None) ''/new'' ''/bin/broker'' two_binaries)) = Some (''v2'', 448)
   \<and> fst (copyBinary (failing_from (Some 6)) ''/new'' ''/bin/broker'' two_binaries) \<noteq> Inr ()
   \<and> broker_at (snd (copyBinary (failing_from (Some 6)) ''/new'' ''/bin/broker'' two_binaries)) = Some (''v1'', 493)"
proof -
  have nodes: "node_at two_binaries p =
      (if p = [] \<or> p = [''bin''] then Some (DirNode 493) else if p = [''new''] then Some (FileNode 0)
       else if p = [''bin'', ''broker''] then Some (FileNode 1) else None)" for p
    by (simp add: node_at_def two_binaries_def)
  have nolink: "node_at two_binaries p \<noteq> Some (LinkNode t)" for p t by (simp add: nodes)
  have n2: "nextInode two_binaries = 2" by (simp add: two_binaries_def)
  have wf: "\<And>p i. node_at two_binaries p = Some (FileNode i) \<Longrightarrow> i < nextInode two_binaries"
    by (auto simp: nodes n2 split: if_splits)
  have st: "straight two_binaries [''bin'', ''broker'']" using nolink by (simp add: straight_def)
  have pl: "list_all plain_elem [''bin'', ''broker'']" "node_at two_binaries [''bin'', ''broker''] = Some (FileNode 1)"
    "abs_path [''bin'', ''broker''] = ''/bin/broker''" by code_simp+
  have src: "lookup (failing_from n) two_binaries True ''/new'' = Inr [''new'']" for n
    by (cases n) (simp_all add: lookup_def, code_simp+)
  have n: "node_at two_binaries [''new''] = Some (FileNode 0)" "inodes two_binaries 0 = (''v2'', 448)" "inodes two_binaries 1 = (''v1'', 493)"
    by code_simp+
  have r: "fst (copyBinary (failing_from None) ''/new'' ''/bin/broker'' two_binaries) = Inr ()"
    "isl (fst (copyBinary (failing_from (Some 6)) ''/new'' ''/bin/broker'' two_binaries))" by code_simp+
  have whole: "(r = Inr () \<longrightarrow> (\<exists>i s p. lookup (failing_from n) two_binaries True ''/new'' = Inr p
         \<and> node_at two_binaries p = Some (FileNode s) \<and> node_at d' [''bin'', ''broker''] = Some (FileNode i)
         \<and> inodes d' i = (fst (inodes two_binaries s), snd (inodes two_binaries s) mod 512)))
      \<and> (r \<noteq> Inr () \<longrightarrow> node_at d' [''bin'', ''broker''] = Some (FileNode 1) \<and> inodes d' 1 = inodes two_binaries 1)"
    if "copyBinary (failing_from n) ''/new'' ''/bin/broker'' two_binaries = (r, d')" for n r d'
    by (rule binary_replaced_whole [where es = "[''bin'', ''broker'']", unfolded pl(3), OF that wf st pl(1,2)])
  have "broker_at (snd (copyBinary (failing_from None) ''/new'' ''/bin/broker'' two_binaries)) = Some (''v2'', 448)"
    using whole [OF surjective_pairing, of None] r(1) by (auto simp: src n broker_at_def)
  moreover have f: "fst (copyBinary (failing_from (Some 6)) ''/new'' ''/bin/broker'' two_binaries) \<noteq> Inr ()"
    using r(2) by auto
  moreover have "broker_at (snd (copyBinary (failing_from (Some 6)) ''/new'' ''/bin/broker'' two_binaries)) = Some (''v1'', 493)"
    using whole [OF surjective_pairing, of "Some 6"] f by (simp add: n(3) [simplified] broker_at_def)
  ultimately show ?thesis using r(1) by simp
qed

end
