(* ===== verification/Commands.thy ===== *)
theory Commands
  imports Installer Install_Binary Config_Reload Github_App Guest_Boot Broker_VM Deploy
begin

text \<open>
  The commands of the binary (\<open>main.go\<close>, \<open>guest_agent.go\<close>, \<open>guest_write_slots.go\<close>) around the components: their checks, the order
  of their steps, what they print and the exit code. Parsed flags, HTTP replies, the self-update library and
  what the environment resolves are arguments; a failed parse of the flags is an \<open>Inl\<close>. Writing to standard output does not fail.
\<close>

section \<open>Dispatch\<close>

definition commands :: "string list" where
  "commands =
     [''version'', ''jitconfig'', ''bind'', ''serve'', ''status'', ''build-golden'', ''install'', ''uninstall'', ''update'',
      ''deploy'', ''guest-agent'', ''golden-provision'', ''guest-dial'', ''guest-write-slots'']"

text \<open>The exit code: \<open>run\<close> is the command with its arguments.\<close>

definition main_exit :: "(string \<Rightarrow> string list \<Rightarrow> err option) \<Rightarrow> string list \<Rightarrow> nat" where
  "main_exit run argv =
     (case argv of
        prog # name # args \<Rightarrow>
          if name \<notin> set commands then 2
          else if name = ''version'' then 0
          else if run name args \<noteq> None then 1 else 0
      | _ \<Rightarrow> 2)"

text \<open>
  The level of the logger (\<open>logging.go\<close>), from an environment variable: a value that is not one of the names keeps \<open>INFO\<close>.
\<close>

datatype log_level = LevelDebug | LevelInfo | LevelWarn | LevelError

definition logLevelNames :: "(string \<times> log_level) list" where
  "logLevelNames = [(''DEBUG'', LevelDebug), (''INFO'', LevelInfo), (''WARN'', LevelWarn), (''WARNING'', LevelWarn), (''ERROR'', LevelError)]"

definition parseLogLevel :: "string \<Rightarrow> log_level" where
  "parseLogLevel raw = (case map_of logLevelNames (ToUpper (TrimSpace raw)) of Some level \<Rightarrow> level | None \<Rightarrow> LevelInfo)"

section \<open>status\<close>

text \<open>A reply: status, body, and the error reading the body ends in.\<close>

type_synonym http_reply = "nat \<times> string \<times> err option"

definition statusEndpoint :: "(string \<Rightarrow> err + string \<times> string) \<Rightarrow> string \<Rightarrow> err + string" where
  "statusEndpoint SplitHostPort listenAddr =
     (case SplitHostPort listenAddr of
        Inl e \<Rightarrow> Inl (Wrapf (''status: parse listen_addr '' @ Quote listenAddr @ '': '') e [])
      | Inr (_, port) \<Rightarrow> Inr (''http://localhost:'' @ port @ ''/status''))"

text \<open>
  \<open>load\<close> is \<open>config.Load\<close>, \<open>get\<close> the client with the URL and the authorization header, \<open>newReq\<close> the error of making a
  request. The result has what was written to standard output and what was sent.
\<close>

definition runStatus ::
  "(string \<Rightarrow> err + string \<times> string) \<Rightarrow> (string \<Rightarrow> err option) \<Rightarrow> (string \<Rightarrow> string \<Rightarrow> err + http_reply) \<Rightarrow> (string \<Rightarrow> err + config)
    \<Rightarrow> (string \<Rightarrow> err + string) \<Rightarrow> string \<Rightarrow> err + string \<Rightarrow> (err option \<times> string) \<times> (string \<times> string) option" where
  "runStatus SplitHostPort newReq get load readFile defaultPath flags =
     (case flags of
        Inl e \<Rightarrow> ((Some (Wrapf ''status flags: '' e []), []), None)
      | Inr given \<Rightarrow>
          (case load (if given = [] then defaultPath else given) of
             Inl e \<Rightarrow> ((Some (Wrapf ''status: load config: '' e []), []), None)
           | Inr cfg \<Rightarrow>
               (case ReadCapacityToken cfg readFile of
                  Inl e \<Rightarrow> ((Some (Wrapf ''status: read capacity token: '' e []), []), None)
                | Inr token \<Rightarrow>
                    if token = [] then ((Some (Msg ''status: capacity token is not configured''), []), None)
                    else
                      (case statusEndpoint SplitHostPort (ListenAddr cfg) of
                         Inl e \<Rightarrow> ((Some e, []), None)
                       | Inr url \<Rightarrow>
                           (case newReq url of
                              Some e \<Rightarrow> ((Some (Wrapf ''status: build request: '' e []), []), None)
                            | None \<Rightarrow>
                                ((case get url (''Bearer '' @ token) of
                                    Inl e \<Rightarrow> (Some (Wrapf ''status: request: '' e []), [])
                                  | Inr (code, body, rerr) \<Rightarrow>
                                      if code \<noteq> 200 then
                                        (Some (Msg (''status: server returned '' @ dec_nat code
                                           @ (if TrimSpace body = [] then [] else '': '' @ TrimSpace body))), [])
                                      else
                                        (case rerr of
                                           Some e \<Rightarrow> (Some (Wrapf ''status: copy response: '' e []), body)
                                         | None \<Rightarrow> (None, body))), Some (url, ''Bearer '' @ token)))))))"

section \<open>update\<close>

record checkResult =
  crCurrentVersion :: string
  crLatestTag :: string
  crAssetName :: string
  crUpdateAvailable :: bool

record applyResult =
  arUpdateAvailable :: bool
  arDryRun :: bool
  arApplied :: bool

text \<open>The times of the state are formatted, or empty when they are zero.\<close>

record updateState =
  usLastCheckAt :: string
  usNextCheckAt :: string
  usLatestTag :: string
  usAppliedTag :: string
  usLastResult :: string
  usLastError :: string

record update_env =
  checkUpdate :: "err + checkResult"
  applyUpdate :: "bool \<Rightarrow> err + applyResult"
  loadUpdateState :: "err + updateState"
  buildVersion :: string
  buildCommit :: string

definition currentBuildHash :: string where "currentBuildHash = ''unknown''"

definition printUpdateCheckResult :: "checkResult \<Rightarrow> string list" where
  "printUpdateCheckResult r =
     [''current version: '' @ crCurrentVersion r, ''latest tag:      '' @ crLatestTag r, ''asset:           '' @ crAssetName r,
      if crUpdateAvailable r then ''update available: yes'' else ''update available: no'']"

definition runUpdateCheck :: "update_env \<Rightarrow> err option \<Rightarrow> err option \<times> string list" where
  "runUpdateCheck U flagErr =
     (case flagErr of
        Some e \<Rightarrow> (Some (Wrapf ''update check flags: '' e []), [])
      | None \<Rightarrow>
          (case checkUpdate U of
             Inl e \<Rightarrow> (Some (Wrapf ''update check: '' e []), [])
           | Inr r \<Rightarrow> (None, printUpdateCheckResult r)))"

text \<open>\<open>restart\<close> is \<open>reloadOrRestart\<close>; the last component says whether it was called.\<close>

definition runUpdateApply :: "update_env \<Rightarrow> (bool \<times> err option) \<Rightarrow> err + bool \<Rightarrow> (err option \<times> string list) \<times> bool" where
  "runUpdateApply U restart dryRun =
     (case dryRun of
        Inl e \<Rightarrow> ((Some (Wrapf ''update apply flags: '' e []), []), False)
      | Inr dry \<Rightarrow>
          (case applyUpdate U dry of
             Inl e \<Rightarrow> ((Some (Wrapf ''update apply: '' e []), []), False)
           | Inr r \<Rightarrow>
               if \<not> arUpdateAvailable r then ((None, [''gha-mac-broker: already current'']), False)
               else if arDryRun r then ((None, [''gha-mac-broker: update apply dry run ok'']), False)
               else if \<not> arApplied r then ((None, [''gha-mac-broker: update available but not applied'']), False)
               else
                 (case restart of
                    (_, Some e) \<Rightarrow> ((Some (Wrapf ''update apply restart: '' e []), []), True)
                  | (True, None) \<Rightarrow> ((None, [''gha-mac-broker: update applied and service restarted'']), True)
                  | (False, None) \<Rightarrow> ((None, [''gha-mac-broker: update applied; service not installed'']), True))))"

definition line_if :: "string \<Rightarrow> string \<Rightarrow> string list" where
  "line_if label v = (if v = [] then [] else [label @ v])"

definition runUpdateStatus :: "update_env \<Rightarrow> err option \<Rightarrow> err option \<times> string list" where
  "runUpdateStatus U flagErr =
     (case flagErr of
        Some e \<Rightarrow> (Some (Wrapf ''update status flags: '' e []), [])
      | None \<Rightarrow>
          (case loadUpdateState U of
             Inl e \<Rightarrow> (Some (Wrapf ''update status: '' e []), [])
           | Inr s \<Rightarrow>
               (None, [''current version:   '' @ buildVersion U, ''current commit:    '' @ buildCommit U,
                       ''current buildHash: '' @ currentBuildHash]
                  @ line_if ''last check:        '' (usLastCheckAt s) @ line_if ''next check:        '' (usNextCheckAt s)
                  @ line_if ''latest tag:        '' (usLatestTag s) @ line_if ''applied tag:       '' (usAppliedTag s)
                  @ line_if ''last result:       '' (usLastResult s) @ line_if ''last error:        '' (usLastError s))))"

text \<open>The flags of the subcommand: whether parsing them fails, and \<open>-dry-run\<close>.\<close>

definition runUpdate :: "update_env \<Rightarrow> (bool \<times> err option) \<Rightarrow> (string list \<Rightarrow> err + bool) \<Rightarrow> string list \<Rightarrow> (err option \<times> string list) \<times> bool" where
  "runUpdate U restart parse args =
     (case args of
        [] \<Rightarrow> ((Some (Msg ''update requires check, apply, or status''), []), False)
      | sub # rest \<Rightarrow>
          (let flagErr = (case parse rest of Inl e \<Rightarrow> Some e | Inr _ \<Rightarrow> None)
           in if sub = ''check'' then (runUpdateCheck U flagErr, False)
              else if sub = ''apply'' then runUpdateApply U restart (parse rest)
              else if sub = ''status'' then (runUpdateStatus U flagErr, False)
              else ((Some (Msg (''unknown update subcommand '' @ Quote sub)), []), False)))"

section \<open>install and uninstall\<close>

definition defaultLogPath :: "string \<Rightarrow> string \<Rightarrow> string" where
  "defaultLogPath os home =
     (if os = ''darwin'' then filepath_Join [home, ''Library'', ''Logs'', ''gha-mac-broker.log'']
      else filepath_Join [home, ''.local'', ''state'', ''gha-mac-broker'', ''gha-mac-broker.log''])"

text \<open>\<open>home\<close> is the result of \<open>os.UserHomeDir\<close>.\<close>

definition buildInstallConfig :: "string \<Rightarrow> err + string \<Rightarrow> string \<Rightarrow> string \<Rightarrow> err + instConfig" where
  "buildInstallConfig os home configPath binPath =
     (case home of
        Inl e \<Rightarrow> Inl (Wrapf ''resolve home dir: '' e [])
      | Inr h \<Rightarrow>
          Inr \<lparr>icBinPath = binPath, icHome = h, icConfigDir = filepath_Dir configPath, icLogPath = defaultLogPath os h,
               icConfigPath = configPath, icMaintenance = \<lparr>mcCommand = [], mcIntervalSeconds = 0\<rparr>\<rparr>)"

text \<open>The flags are the configuration path and the binary path; \<open>exe\<close> is the running executable.\<close>

definition runInstall :: "inst_env \<Rightarrow> err + string \<Rightarrow> err + string \<Rightarrow> err + string \<times> string \<Rightarrow> unit ist" where
  "runInstall I home exe flags s =
     (case flags of
        Inl e \<Rightarrow> (Inl (Wrapf ''install flags: '' e []), s)
      | Inr (configPath, binFlag) \<Rightarrow>
          (case (if binFlag = [] then defaultInstallBinPath home else Inr binFlag) of
             Inl e \<Rightarrow> (Inl e, s)
           | Inr binPath \<Rightarrow>
               (case buildInstallConfig (goos I) home configPath binPath of
                  Inl e \<Rightarrow> (Inl e, s)
                | Inr cfg \<Rightarrow>
                    (case exe of
                       Inl e \<Rightarrow> (Inl (Wrapf ''install: resolve executable: '' e []), s)
                     | Inr x \<Rightarrow>
                         sbind (on_tree (installRunningBinary (fs I) x (icBinPath cfg)) s)
                           (\<lambda>_ s1. wrapping ''run install: '' (Install I cfg s1))))))"

definition runUninstall :: "inst_env \<Rightarrow> err + string \<Rightarrow> err + string \<Rightarrow> err + string \<Rightarrow> unit ist" where
  "runUninstall I home exe flags s =
     (case flags of
        Inl e \<Rightarrow> (Inl (Wrapf ''uninstall flags: '' e []), s)
      | Inr configPath \<Rightarrow>
          (case exe of
             Inl e \<Rightarrow> (Inl (Wrapf ''uninstall: resolve executable: '' e []), s)
           | Inr x \<Rightarrow>
               (case buildInstallConfig (goos I) home configPath x of
                  Inl e \<Rightarrow> (Inl e, s)
                | Inr cfg \<Rightarrow>
                    (case Uninstall I cfg s of
                       (Some e, s1) \<Rightarrow> (Inl (Wrapf ''run uninstall: '' e []), s1)
                     | (None, s1) \<Rightarrow> (Inr (), s1)))))"

section \<open>build-golden\<close>

text \<open>The reply to the request for the latest release decodes to the name of its tag.\<close>

definition resolveRunnerVersion :: "err option \<Rightarrow> err + nat \<times> (err + string) \<Rightarrow> err + string" where
  "resolveRunnerVersion newReq reply =
     (case newReq of
        Some e \<Rightarrow> Inl (Wrapf ''build-golden: build request: '' e [])
      | None \<Rightarrow>
          (case reply of
             Inl e \<Rightarrow> Inl (Wrapf ''build-golden: fetch latest runner: '' e [])
           | Inr (status, body) \<Rightarrow>
               if status \<noteq> 200 then Inl (Msg (''build-golden: latest runner status '' @ dec_nat status))
               else
                 (case body of
                    Inl e \<Rightarrow> Inl (Wrapf ''build-golden: decode runner release: '' e [])
                  | Inr tagName \<Rightarrow> Inr (TrimPrefix tagName ''v''))))"

record buildGoldenFlags =
  bgBaseImage :: string
  bgGolden :: string
  bgBuildVM :: string
  bgRunnerVersion :: string

definition runBuildGolden ::
  "host \<Rightarrow> golden_env \<Rightarrow> err + string \<Rightarrow> err + config \<Rightarrow> config \<Rightarrow> string \<Rightarrow> err + buildGoldenFlags \<Rightarrow> host_trace \<Rightarrow> err option \<times> host_trace" where
  "runBuildGolden w g newest loaded dflt defaultPath flags tr =
     (case flags of
        Inl e \<Rightarrow> (Some (Wrapf ''build-golden flags: '' e []), tr)
      | Inr f \<Rightarrow>
          (case (if bgRunnerVersion f = [] then newest else Inr (bgRunnerVersion f)) of
             Inl e \<Rightarrow> (Some e, tr)
           | Inr version \<Rightarrow>
               (case (case loaded of Inl e \<Rightarrow> if errors_Is e ErrNotExist then Inr dflt else Inl e | Inr c \<Rightarrow> Inr c) of
                  Inl e \<Rightarrow> (Some (Wrapf (''build-golden: load config '' @ defaultPath @ '': '') e []), tr)
                | Inr cfg \<Rightarrow>
                    (case Golden_Build w (g\<lparr>hasStager := fastPullStager cfg\<rparr>)
                            \<lparr>BaseImage = bgBaseImage f, GoldenName = bgGolden f, BuildVM = bgBuildVM f,
                             goRunnerVersion = version, BinaryPath = []\<rparr> tr of
                       (Some e, tr1) \<Rightarrow> (Some (Wrapf ''build-golden: '' e []), tr1)
                     | (None, tr1) \<Rightarrow> (None, tr1)))))"

section \<open>jitconfig and bind\<close>

text \<open>The flags: repository and runner name; \<open>deps\<close> is what \<open>loadDeps\<close> gives.\<close>

definition runJITConfig ::
  "gh_env \<Rightarrow> gh_world \<Rightarrow> err + config \<times> gh_client \<Rightarrow> err + string \<times> string \<Rightarrow> gh_trace \<Rightarrow> (err option \<times> string list) \<times> gh_trace" where
  "runJITConfig g w deps flags tr =
     (case flags of
        Inl e \<Rightarrow> ((Some (Wrapf ''jitconfig flags: '' e []), []), tr)
      | Inr (repo, name) \<Rightarrow>
          if repo = [] then ((Some (Msg ''jitconfig requires -repo''), []), tr)
          else
            let (owner, repoName, ok) = Cut repo slash
            in if \<not> ok then ((Some (Msg (''repo must be owner/repo, got '' @ Quote repo)), []), tr)
               else
                 (case deps of
                    Inl e \<Rightarrow> ((Some e, []), tr)
                  | Inr (cfg, gh) \<Rightarrow>
                      (case bind_ok (wrap_err ''installation lookup: '' (InstallationID g w gh owner repoName tr)) (\<lambda>i tr1.
                            bind_ok (wrap_err ''installation token: '' (InstallationToken g w gh i repoName tr1)) (\<lambda>token tr2.
                            bind_ok (wrap_err ''generate jitconfig: ''
                                       (GenerateJITConfig g w token owner repoName name (cfLabels cfg) tr2)) (\<lambda>jit tr3.
                            (Inr [''installation: '' @ Itoa i,
                                  ''runner:       '' @ jitRunnerName jit @ '' (id '' @ Itoa (jitRunnerID jit) @ '')'',
                                  ''labels:       '' @ JoinStr (cfLabels cfg) '', '',
                                  ''encoded_jit_config:'', EncodedJITConfig jit], tr3)))) of
                         (Inl e, tr4) \<Rightarrow> ((Some e, []), tr4)
                       | (Inr ls, tr4) \<Rightarrow> ((None, ls), tr4))))"

text \<open>The flags: repository and identifier; \<open>stamp\<close> is the identifier made from the time; \<open>once\<close> is the binder's \<open>BindOnce\<close>.\<close>

definition runBind ::
  "err + 'b \<Rightarrow> string \<Rightarrow> ('b \<Rightarrow> string \<Rightarrow> string \<Rightarrow> host_trace \<Rightarrow> err option \<times> host_trace) \<Rightarrow> err + string \<times> string \<Rightarrow> host_trace
    \<Rightarrow> err option \<times> host_trace" where
  "runBind deps stamp once flags tr =
     (case flags of
        Inl e \<Rightarrow> (Some (Wrapf ''bind flags: '' e []), tr)
      | Inr (repo, ident) \<Rightarrow>
          if repo = [] then (Some (Msg ''bind requires -repo''), tr)
          else
            (case deps of
               Inl e \<Rightarrow> (Some e, tr)
             | Inr b \<Rightarrow>
                 (case once b repo (if ident = [] then stamp else ident) tr of
                    (Some e, tr1) \<Rightarrow> (Some (Wrapf ''bind: '' e []), tr1)
                  | (None, tr1) \<Rightarrow> (None, tr1))))"

section \<open>In the guest\<close>

definition runGuestWriteSlots :: "file_faults \<Rightarrow> string list \<Rightarrow> file_system \<Rightarrow> err option \<times> file_system list" where
  "runGuestWriteSlots ff args f0 =
     (case args of
        [arg] \<Rightarrow>
          (case ParseUint10 32 arg of
             None \<Rightarrow> (Some (Wrapf (''guest-write-slots parse slot count '' @ Quote arg @ '': '') (Msg ''strconv.ParseUint'') []), [f0])
           | Some n \<Rightarrow>
               if n = 0 then (Some (Msg ''guest-write-slots requires a positive slot count''), [f0])
               else
                 (case WriteSlotCount ff SlotCountPath (of_nat n) f0 of
                    (Some e, trees) \<Rightarrow> (Some (Wrapf ''guest-write-slots: '' e []), trees)
                  | (None, trees) \<Rightarrow> (None, trees)))
      | _ \<Rightarrow> (Some (Msg ''guest-write-slots requires exactly one slot count argument''), [f0]))"

definition defaultGuestAgentListenAddr :: string where "defaultGuestAgentListenAddr = ''127.0.0.1:53931''"

definition readGoldenFingerprint :: "(string \<Rightarrow> err + string) \<Rightarrow> string" where
  "readGoldenFingerprint readFile = (case readFile FingerprintPath of Inl e \<Rightarrow> [] | Inr content \<Rightarrow> TrimSpace content)"

text \<open>What the agent serves with: the listen address, the token, the slots and the fingerprint.\<close>

record agent_start =
  asAddr :: string
  asToken :: string
  asSlots :: "32 word"
  asFingerprint :: string

text \<open>
  The start of the agent: the token is settled first, then the slot count is awaited over the file systems the polls see, then the
  listener is bound. \<open>serve\<close> is what serving returns. The flags: the address and the number of slots.
\<close>

definition agent_prepare ::
  "err + string \<Rightarrow> file_faults \<Rightarrow> string \<Rightarrow> file_system \<Rightarrow> file_system list \<Rightarrow> (string \<Rightarrow> err option) \<Rightarrow> (string \<Rightarrow> err + string)
    \<Rightarrow> err + string \<times> 64 word \<Rightarrow> err + agent_start" where
  "agent_prepare entropy ff envToken f0 seen listen readFile flags =
     (case flags of
        Inl e \<Rightarrow> Inl (Wrapf ''guest-agent flags: '' e [])
      | Inr (addr, count) \<Rightarrow>
          (case fst (EnsureBootToken entropy ff envToken TokenPath f0) of
             Inl e \<Rightarrow> Inl (Wrapf ''guest-agent resolve token: '' e [])
           | Inr tok \<Rightarrow>
               if count = 0 then Inl (Msg ''guest-agent requires at least one slot'')
               else if count > ucast (- 1 :: 32 word)
               then Inl (Msg (''guest-agent slot count '' @ Itoa (uint count) @ '' exceeds uint32''))
               else
                 (let n = AwaitSlotCount SlotCountPath (ucast count) seen;
                      a = (if addr = [] then defaultGuestAgentListenAddr else addr)
                  in case listen a of
                       Some e \<Rightarrow> Inl (Wrapf (''guest-agent listen '' @ Quote a @ '': '') e [])
                     | None \<Rightarrow> Inr \<lparr>asAddr = a, asToken = tok, asSlots = n, asFingerprint = readGoldenFingerprint readFile\<rparr>)))"

definition runGuestAgent :: "err + agent_start \<Rightarrow> (agent_start \<Rightarrow> err option) \<Rightarrow> (err \<Rightarrow> bool) \<Rightarrow> err option" where
  "runGuestAgent prepared serve isCanceled =
     (case prepared of
        Inl e \<Rightarrow> Some e
      | Inr a \<Rightarrow>
          (case serve a of
             None \<Rightarrow> None
           | Some e \<Rightarrow> if isCanceled e then None else Some (Wrapf ''guest-agent: '' e [])))"

end
