(* ===== verification/Commands_Props.thy ===== *)
theory Commands_Props
  imports Commands Server
begin

text \<open>
  What the commands promise across process boundaries: the slot count a host seeds is the one the guest agent serves with, the
  \<^theory_text>\<open>status\<close> command is let in by the daemon that runs the same configuration, and a service is restarted only for an update that
  was applied.
\<close>

section \<open>The seeded slot count\<close>

lemma AwaitSlotCount_range:
  assumes "\<And>x. x \<in> set seen \<Longrightarrow> readSeededSlotCount x path = None \<or> readSeededSlotCount x path = Some n"
  shows "AwaitSlotCount path fallback seen
    = (if \<exists>x \<in> set seen. readSeededSlotCount x path = Some n then n else fallback)"
  using assms
proof (induction seen)
  case (Cons a seen)
  have a: "readSeededSlotCount a path = None \<or> readSeededSlotCount a path = Some n" using Cons.prems by simp
  have "AwaitSlotCount path fallback seen = (if \<exists>x \<in> set seen. readSeededSlotCount x path = Some n then n else fallback)"
    using Cons by simp
  then show ?case using a by auto
qed simp

lemma Itoa_uint: "Itoa (uint n) = dec_nat (unat n)" for n :: "'a::len word"
  by (simp add: Itoa_def flip: nat_uint_eq)


section \<open>status\<close>

text \<open>
  The \<open>status\<close> command is admitted. It sends one request at most, to the local port of the daemon, with a token that is not empty;
  the daemon that runs with the token of the same configuration answers that request with its status.
\<close>

theorem status_command_is_admitted:
  assumes run: "runStatus SplitHostPort newReq get load readFile path (Inr given) = (out, Some (url, auth))"
    and load: "load (if given = [] then path else given) = Inr cfg"
    and token: "ReadCapacityToken cfg readFile = Inr (capacityToken s)"
    and req: "Method req = ''GET''" "Header req ''Authorization'' = auth"
  shows "fst (handleStatus err_text prober now newest s req) = 200 \<and> auth = ''Bearer '' @ capacityToken s
    \<and> (\<exists>host port. SplitHostPort (ListenAddr cfg) = Inr (host, port) \<and> url = ''http://localhost:'' @ port @ ''/status'')"
proof -
  have a: "auth = ''Bearer '' @ capacityToken s" "capacityToken s \<noteq> []"
    "statusEndpoint SplitHostPort (ListenAddr cfg) = Inr url"
    using run load token by (auto simp: runStatus_def split: sum.splits if_splits option.splits prod.splits)
  then have "checkBearerToken s req" using req by (simp add: checkBearerToken_def EqualFold_def)
  then show ?thesis using a req by (auto simp: handleStatus_def statusEndpoint_def Let_def split: sum.splits prod.splits)
qed

section \<open>update\<close>

text \<open>The service is restarted exactly when the update library reports an update that was applied.\<close>

theorem update_restarts_only_when_applied:
  "snd (runUpdateApply U restart dryRun)
     = (\<exists>dry res. dryRun = Inr dry \<and> applyUpdate U dry = Inr res \<and> arUpdateAvailable res \<and> \<not> arDryRun res \<and> arApplied res)"
  by (auto simp: runUpdateApply_def split: sum.splits prod.splits option.splits bool.splits)

text \<open>Checking and reporting never restart it.\<close>

lemma other_updates_restart_nothing:
  "snd (runUpdate U restart parse args) \<Longrightarrow> \<exists>rest. args = ''apply'' # rest"
  by (auto simp: runUpdate_def Let_def split: list.splits if_splits)

section \<open>A run\<close>

definition no_faults :: file_faults where
  "no_faults = \<lparr>ffTemp = Inr ''/tmp/x'', ffShort = 0, ffWrite = None, ffClose = None, ffChmod = None, ffRename = None\<rparr>"


definition local_config :: config where
  "local_config = zeroConfig\<lparr>ListenAddr := '':8080'', cfApp := (cfApp zeroConfig)\<lparr>CapacityTokenPath := ''/t''\<rparr>\<rparr>"

definition local_daemon :: "pool \<Rightarrow> nat server" where
  "local_daemon p = New_server [] local_config ''abc'' [] p NewTracker False"

definition status_request :: "string \<Rightarrow> http_request" where
  "status_request auth =
     \<lparr>Method = ''GET'', Header = (\<lambda>h. if h = ''Authorization'' then auth else []), RemoteAddr = ''127.0.0.1:9'',
      Body = Inr [], Query = (\<lambda>_. []), reqCtxErr = None\<rparr>"

lemma status_command_is_admitted_witness:
  "\<forall>p. let (out, sent) = runStatus (\<lambda>a. Inr ([], ''8080'')) (\<lambda>u. None) (\<lambda>u a. Inr (200, ''{}'', None)) (\<lambda>p. Inr local_config)
       (\<lambda>p. Inr ''abc'') [] (Inr [])
   in out = (None, ''{}'') \<and> sent = Some (''http://localhost:8080/status'', ''Bearer abc'')
      \<and> fst (handleStatus (\<lambda>e. []) None 0 None (local_daemon p) (status_request ''Bearer abc'')) = 200"
proof -
  have t: "ReadCapacityToken local_config (\<lambda>p. Inr ''abc'') = Inr ''abc''"
    by (simp add: ReadCapacityToken_def local_config_def zeroConfig_def) code_simp
  have c: "capacityToken (local_daemon p) = ''abc''" for p by (simp add: local_daemon_def New_server_def)
  have r: "runStatus (\<lambda>a. Inr ([], ''8080'')) (\<lambda>u. None) (\<lambda>u a. Inr (200, ''{}'', None)) (\<lambda>p. Inr local_config)
       (\<lambda>p. Inr ''abc'') [] (Inr []) = ((None, ''{}''), Some (''http://localhost:8080/status'', ''Bearer abc''))"
    by (simp add: runStatus_def t statusEndpoint_def)
  have "fst (handleStatus (\<lambda>e. []) None 0 None (local_daemon p) (status_request ''Bearer abc'')) = 200" for p
    using status_command_is_admitted [OF r, of local_config "local_daemon p" "status_request ''Bearer abc''"]
    by (simp add: t c status_request_def)
  then show ?thesis using r by simp
qed

section \<open>The level of the logger\<close>

text \<open>Only one of the names, in any case and with space around it, leaves \<open>INFO\<close>; a typo never hides records.\<close>

lemma log_level_of_names:
  "parseLogLevel raw \<noteq> LevelInfo \<Longrightarrow> ToUpper (TrimSpace raw) \<in> {''DEBUG'', ''WARN'', ''WARNING'', ''ERROR''}"
  by (auto simp: parseLogLevel_def logLevelNames_def split: if_splits)

lemma log_level_examples:
  "parseLogLevel ''debug '' = LevelDebug" "parseLogLevel '' Warning'' = LevelWarn" "parseLogLevel ''wran'' = LevelInfo" "parseLogLevel [] = LevelInfo"
  by code_simp+

end
