(* ===== verification/Guest_Dial.thy ===== *)
theory Guest_Dial
  imports Prelude
begin

text \<open>
  The relay of \<open>guest-dial\<close> (\<open>guest_dial.go\<close>): two copies, from standard input to the agent's connection and back, and the process
  that ends with the first of them. A step copies any number of bytes that are there, or ends a copy.
\<close>

text \<open>
  What each side has still to send and what the other has received; the results of the copies that have
  ended, in the order they arrived in the channel; whether the write side of the connection was closed; the result once the
  process has ended.
\<close>

record relay =
  hostSends :: string
  agentGot :: string
  agentSends :: string
  hostGot :: string
  relayDone :: "err option list"
  writing :: bool
  reading :: bool
  halfClosed :: bool
  exited :: "err option option"

definition relay_start :: "string \<Rightarrow> string \<Rightarrow> relay" where
  "relay_start request reply =
     \<lparr>hostSends = request, agentGot = [], agentSends = reply, hostGot = [], relayDone = [], writing = True, reading = True,
      halfClosed = False, exited = None\<rparr>"

text \<open>\<open>net.ErrClosed\<close> and \<open>os.ErrClosed\<close> are an argument here: \<open>closed\<close> says which errors they are.\<close>

definition relay_result :: "(err \<Rightarrow> bool) \<Rightarrow> err option \<Rightarrow> err option" where
  "relay_result closed r =
     (case r of
        None \<Rightarrow> None
      | Some e \<Rightarrow> if errors_Is e IoEOF \<or> closed e then None else Some (Wrapf ''guest-dial: relay: '' e []))"

text \<open>The write copy ends with the end of standard input or an error, and closes the write side either way.\<close>

inductive relay_step :: "(err \<Rightarrow> bool) \<Rightarrow> relay \<Rightarrow> relay \<Rightarrow> bool" for closed :: "err \<Rightarrow> bool" where
  rs_write: "exited s = None \<Longrightarrow> writing s \<Longrightarrow> hostSends s = xs @ ys \<Longrightarrow>
     relay_step closed s (s\<lparr>hostSends := ys, agentGot := agentGot s @ xs\<rparr>)"
| rs_write_end: "exited s = None \<Longrightarrow> writing s \<Longrightarrow> r = None \<longrightarrow> hostSends s = [] \<Longrightarrow>
     relay_step closed s (s\<lparr>writing := False, halfClosed := True, relayDone := relayDone s @ [r]\<rparr>)"
| rs_read: "exited s = None \<Longrightarrow> reading s \<Longrightarrow> agentSends s = xs @ ys \<Longrightarrow>
     relay_step closed s (s\<lparr>agentSends := ys, hostGot := hostGot s @ xs\<rparr>)"
| rs_read_end: "exited s = None \<Longrightarrow> reading s \<Longrightarrow> r = None \<longrightarrow> agentSends s = [] \<Longrightarrow>
     relay_step closed s (s\<lparr>reading := False, relayDone := relayDone s @ [r]\<rparr>)"
| rs_exit: "exited s = None \<Longrightarrow> relayDone s = r # rest \<Longrightarrow>
     relay_step closed s (s\<lparr>exited := Some (relay_result closed r)\<rparr>)"

inductive relay_runs :: "(err \<Rightarrow> bool) \<Rightarrow> relay \<Rightarrow> relay \<Rightarrow> bool" for closed :: "err \<Rightarrow> bool" where
  rr_refl: "relay_runs closed s s"
| rr_step: "relay_runs closed s t \<Longrightarrow> relay_step closed t u \<Longrightarrow> relay_runs closed s u"

text \<open>
  \<open>runGuestDial\<close>: the connection is made first.
\<close>

definition runGuestDial :: "(err \<Rightarrow> bool) \<Rightarrow> err option \<Rightarrow> string \<Rightarrow> string \<Rightarrow> err option \<Rightarrow> bool" where
  "runGuestDial closed connect request reply result =
     (case connect of
        Some e \<Rightarrow> result = Some (Wrapf ''guest-dial: connect 127.0.0.1:53931: '' e [])
      | None \<Rightarrow> \<exists>s. relay_runs closed (relay_start request reply) s \<and> exited s = Some result)"

section \<open>What is relayed\<close>

definition relay_inv :: "string \<Rightarrow> string \<Rightarrow> relay \<Rightarrow> bool" where
  "relay_inv request reply s =
     (agentGot s @ hostSends s = request \<and> hostGot s @ agentSends s = reply
      \<and> (\<forall>r \<in> set (relayDone s). r = None \<longrightarrow> \<not> writing s \<and> hostSends s = [] \<or> \<not> reading s \<and> agentSends s = [])
      \<and> (exited s = Some None \<longrightarrow> relayDone s \<noteq> []))"

lemma relay_inv_start: "relay_inv request reply (relay_start request reply)"
  by (simp add: relay_inv_def relay_start_def)

lemma relay_inv_step: "relay_step closed s t \<Longrightarrow> relay_inv request reply s \<Longrightarrow> relay_inv request reply t"
  by (induction rule: relay_step.induct) (auto simp: relay_inv_def)

lemma relay_inv_runs: "relay_runs closed s t \<Longrightarrow> relay_inv request reply s \<Longrightarrow> relay_inv request reply t"
  by (induction rule: relay_runs.induct) (auto intro: relay_inv_step)



end
