(* ===== verification/Guest_Transport.thy ===== *)
theory Guest_Transport
  imports Prelude Go_Strings
begin

text \<open>
  The transport of the guest agent (\<open>internal/guesttransport\<close>): the bearer token in front of every request, the listener that
  tracks what it accepted, and \<open>Serve\<close> with its shutdown. HTTP, Connect and the hash are arguments; a connection is a
  number.
\<close>

section \<open>The bearer token\<close>

definition authorizationHeader :: string where "authorizationHeader = ''Authorization''"
definition bearerPrefix :: string where "bearerPrefix = ''Bearer ''"

definition validAuthorizationValue :: "(string \<Rightarrow> 'h) \<Rightarrow> string \<Rightarrow> string \<Rightarrow> bool" where
  "validAuthorizationValue hash v expectedToken =
     (let (rest, ok) = CutPrefix v bearerPrefix;
          providedToken = (if ok then rest else [])
      in ok \<and> hash providedToken = hash expectedToken)"

text \<open>The headers of a request; \<open>Get\<close> gives the empty string for one that is not set.\<close>

definition validAuthorization :: "(string \<Rightarrow> 'h) \<Rightarrow> (string \<Rightarrow> string) \<Rightarrow> string \<Rightarrow> bool" where
  "validAuthorization hash header expectedToken = validAuthorizationValue hash (header authorizationHeader) expectedToken"

datatype 'r http_answer = Answered 'r | Unauthenticated

text \<open>The handler in front of the agent's: only what it lets through reaches the next one. The state is the agent's.\<close>

definition requireBearerToken ::
  "(string \<Rightarrow> 'h) \<Rightarrow> ((string \<Rightarrow> string) \<Rightarrow> 's \<Rightarrow> 'r \<times> 's) \<Rightarrow> string \<Rightarrow> (string \<Rightarrow> string) \<Rightarrow> 's \<Rightarrow> 'r http_answer \<times> 's" where
  "requireBearerToken hash handler token header s =
     (if validAuthorization hash header token then (let (r, s') = handler header s in (Answered r, s')) else (Unauthenticated, s))"

text \<open>The interceptors: the call metadata of the context, if it has any.\<close>

definition NewClientAuthInterceptor ::
  "string \<Rightarrow> ((string \<Rightarrow> string) \<Rightarrow> err + 'r) \<Rightarrow> (string \<Rightarrow> string) option \<Rightarrow> err + 'r" where
  "NewClientAuthInterceptor token send info =
     (case info of
        None \<Rightarrow> Inl (Msg ''guest transport: missing client call metadata'')
      | Some header \<Rightarrow> send (header(authorizationHeader := bearerPrefix @ token)))"

definition unauthenticatedError :: err where "unauthenticatedError = Msg ''invalid bearer token''"

definition NewServerAuthInterceptor ::
  "(string \<Rightarrow> 'h) \<Rightarrow> string \<Rightarrow> ((string \<Rightarrow> string) \<Rightarrow> err option) \<Rightarrow> (string \<Rightarrow> string) option \<Rightarrow> err option" where
  "NewServerAuthInterceptor hash token receive info =
     (case info of
        None \<Rightarrow> Some unauthenticatedError
      | Some header \<Rightarrow>
          if \<not> validAuthorizationValue hash (header authorizationHeader) token then Some unauthenticatedError else receive header)"

section \<open>The tracked listener\<close>

text \<open>
  The connections it tracks, those accepted so far (numbered from 0), how often the connection below each was closed, what that
  close gave, and whether the listener accepts.
\<close>

record trackedListener =
  connections :: "nat list"
  accepted :: nat
  closes :: "nat \<Rightarrow> nat"
  accepting :: bool

definition newTrackedListener :: trackedListener where
  "newTrackedListener = \<lparr>connections = [], accepted = 0, closes = (\<lambda>_. 0), accepting = True\<rparr>"

definition Accept_tracked :: "trackedListener \<Rightarrow> trackedListener" where
  "Accept_tracked l = l\<lparr>connections := connections l @ [accepted l], accepted := Suc (accepted l)\<rparr>"

text \<open>\<open>Close\<close> of a tracked connection, under its \<open>sync.Once\<close>.\<close>

definition tracked_Close :: "nat \<Rightarrow> trackedListener \<Rightarrow> trackedListener" where
  "tracked_Close c l =
     (if closes l c = 0
      then l\<lparr>closes := (closes l)(c := 1), connections := filter (\<lambda>x. x \<noteq> c) (connections l)\<rparr>
      else l)"

text \<open>The error \<open>closeConnections\<close> gives: the last one that is not \<open>net.ErrClosed\<close>.\<close>

definition close_error :: "(err \<Rightarrow> bool) \<Rightarrow> err option list \<Rightarrow> err option" where
  "close_error closedErr results =
     fold (\<lambda>r acc. case r of Some e \<Rightarrow> if closedErr e then acc else Some e | None \<Rightarrow> acc) results None"

section \<open>Serve\<close>

text \<open>Where the two threads are: \<open>Serve\<close> itself and the callback of \<open>context.AfterFunc\<close>; a list is what is still to close.\<close>

datatype serve_pc = Serving | ServeReturned | WaitShutdown | Deferred | DeferredClosing "nat list" | ServeDone
datatype callback_pc = NotCalled | ShuttingDown | Snapshot | CallbackClosing "nat list" | CallbackDone

record serve_state =
  lis :: trackedListener
  main :: serve_pc
  callback :: callback_pc
  stopped :: bool

definition serve_start :: serve_state where
  "serve_start = \<lparr>lis = newTrackedListener, main = Serving, callback = NotCalled, stopped = False\<rparr>"

text \<open>
  \<open>ss_accept\<close> and \<open>ss_close\<close>: the server accepts connections while it runs, one that came before the listener was closed
  perhaps only after it, and may close one at any time. The
  accept loop ends when the listener is closed or an accept fails (\<open>ss_return\<close>); \<open>stopShutdown\<close> then either prevents the callback,
  or \<open>Serve\<close> waits for its end. The deferred function closes what is tracked and the listener.
\<close>

inductive serve_step :: "serve_state \<Rightarrow> serve_state \<Rightarrow> bool" where
  ss_accept: "main s = Serving \<Longrightarrow> serve_step s (s\<lparr>lis := Accept_tracked (lis s)\<rparr>)"
| ss_close: "c < accepted (lis s) \<Longrightarrow> serve_step s (s\<lparr>lis := tracked_Close c (lis s)\<rparr>)"
| ss_cancel: "callback s = NotCalled \<Longrightarrow> \<not> stopped s \<Longrightarrow> serve_step s (s\<lparr>callback := ShuttingDown\<rparr>)"
| ss_shutdown: "callback s = ShuttingDown \<Longrightarrow> serve_step s (s\<lparr>lis := (lis s)\<lparr>accepting := False\<rparr>, callback := Snapshot\<rparr>)"
| ss_snapshot: "callback s = Snapshot \<Longrightarrow> serve_step s (s\<lparr>callback := CallbackClosing (connections (lis s))\<rparr>)"
| ss_callback_close: "callback s = CallbackClosing (c # cs) \<Longrightarrow>
     serve_step s (s\<lparr>lis := tracked_Close c (lis s), callback := CallbackClosing cs\<rparr>)"
| ss_callback_done: "callback s = CallbackClosing [] \<Longrightarrow> serve_step s (s\<lparr>callback := CallbackDone\<rparr>)"
| ss_return: "main s = Serving \<Longrightarrow> serve_step s (s\<lparr>main := ServeReturned\<rparr>)"
| ss_stop: "main s = ServeReturned \<Longrightarrow> callback s = NotCalled \<Longrightarrow> serve_step s (s\<lparr>main := Deferred, stopped := True\<rparr>)"
| ss_called: "main s = ServeReturned \<Longrightarrow> callback s \<noteq> NotCalled \<Longrightarrow> serve_step s (s\<lparr>main := WaitShutdown\<rparr>)"
| ss_waited: "main s = WaitShutdown \<Longrightarrow> callback s = CallbackDone \<Longrightarrow> serve_step s (s\<lparr>main := Deferred\<rparr>)"
| ss_deferred: "main s = Deferred \<Longrightarrow> serve_step s (s\<lparr>main := DeferredClosing (connections (lis s))\<rparr>)"
| ss_deferred_close: "main s = DeferredClosing (c # cs) \<Longrightarrow>
     serve_step s (s\<lparr>lis := tracked_Close c (lis s), main := DeferredClosing cs\<rparr>)"
| ss_done: "main s = DeferredClosing [] \<Longrightarrow> serve_step s (s\<lparr>lis := (lis s)\<lparr>accepting := False\<rparr>, main := ServeDone\<rparr>)"

inductive serve_runs :: "serve_state \<Rightarrow> serve_state \<Rightarrow> bool" where
  sr_refl: "serve_runs s s"
| sr_step: "serve_runs s t \<Longrightarrow> serve_step t u \<Longrightarrow> serve_runs s u"

text \<open>
  The error of \<open>Serve\<close>: what the accept loop returned (\<open>serverClosed\<close> tells \<open>http.ErrServerClosed\<close>), and what the callback sent, if it
  ran; \<open>ctxErr\<close> is the error of the context.
\<close>

definition normalizeServerError :: "(err \<Rightarrow> bool) \<Rightarrow> err \<Rightarrow> err option" where
  "normalizeServerError serverClosed e = (if serverClosed e then None else Some e)"

definition transportError :: "string \<Rightarrow> err \<Rightarrow> err" where
  "transportError operation e = Wrapf (''guest transport '' @ operation @ '': '') e []"

definition serve_result :: "(err \<Rightarrow> bool) \<Rightarrow> err \<Rightarrow> err option option \<Rightarrow> err \<Rightarrow> err option" where
  "serve_result serverClosed served shutdown ctxErr =
     (let serveError = normalizeServerError serverClosed served
      in case shutdown of
           None \<Rightarrow> serveError
         | Some (Some e) \<Rightarrow> Some e
         | Some None \<Rightarrow> if serveError \<noteq> None then serveError else Some (transportError ''context'' ctxErr))"

section \<open>Who gets through\<close>

text \<open>
  C17. Only the token opens the agent. A request reaches the agent's handler exactly when its authorization header is \<open>Bearer \<close>
  followed by the agent's token, as long as no other text has the hash of the token; any other request is answered as
  unauthenticated and leaves the agent's state as it was.
\<close>

theorem only_the_token_passes:
  assumes "\<And>t. hash t = hash token \<Longrightarrow> t = token"
  shows "requireBearerToken hash handler token header s
    = (if header ''Authorization'' = ''Bearer '' @ token
       then (Answered (fst (handler header s)), snd (handler header s)) else (Unauthenticated, s))"
proof -
  let ?v = "header authorizationHeader"
  have "validAuthorization hash header token \<longleftrightarrow> ?v = bearerPrefix @ token"
  proof (cases "HasPrefix ?v bearerPrefix")
    case True
    then obtain t where t: "?v = bearerPrefix @ t" by (auto simp: HasPrefix_iff)
    then show ?thesis using assms [of t] by (auto simp: validAuthorization_def validAuthorizationValue_def)
  next
    case False
    then show ?thesis by (auto simp: validAuthorization_def validAuthorizationValue_def CutPrefix_def)
  qed
  then show ?thesis by (auto simp: requireBearerToken_def authorizationHeader_def bearerPrefix_def split: prod.split)
qed

lemma only_the_token_passes_witness:
  "requireBearerToken (\<lambda>t. t) (\<lambda>h n. (''ok'', Suc n)) ''s3cret'' (\<lambda>k. if k = ''Authorization'' then ''Bearer s3cret'' else []) (0::nat)
     = (Answered ''ok'', 1)
   \<and> requireBearerToken (\<lambda>t. t) (\<lambda>h n. (''ok'', Suc n)) ''s3cret'' (\<lambda>k. if k = ''Authorization'' then ''s3cret'' else []) (0::nat)
     = (Unauthenticated, 0)"
  using only_the_token_passes [of "\<lambda>t. t" "''s3cret''" "\<lambda>h n. (''ok'', Suc n)" "\<lambda>k. if k = ''Authorization'' then ''Bearer s3cret'' else []" "0::nat"]
    only_the_token_passes [of "\<lambda>t. t" "''s3cret''" "\<lambda>h n. (''ok'', Suc n)" "\<lambda>k. if k = ''Authorization'' then ''s3cret'' else []" "0::nat"]
  by simp

section \<open>Nothing stays open\<close>

definition tracked_inv :: "trackedListener \<Rightarrow> bool" where
  "tracked_inv l =
     (connections l = filter (\<lambda>c. closes l c = 0) [0..<accepted l] \<and> (\<forall>c. closes l c \<le> 1) \<and> (\<forall>c \<ge> accepted l. closes l c = 0))"

definition still_open :: "trackedListener \<Rightarrow> nat list \<Rightarrow> bool" where
  "still_open l cs = ((\<forall>c \<in> set cs. c < accepted l) \<and> (\<forall>c < accepted l. closes l c = 0 \<longrightarrow> c \<in> set cs))"

definition serve_inv :: "serve_state \<Rightarrow> bool" where
  "serve_inv s =
     (tracked_inv (lis s)
      \<and> (\<forall>cs. callback s = CallbackClosing cs \<longrightarrow> (\<forall>c \<in> set cs. c < accepted (lis s)))
      \<and> (case main s of
           DeferredClosing cs \<Rightarrow> still_open (lis s) cs
         | ServeDone \<Rightarrow> still_open (lis s) [] \<and> \<not> accepting (lis s)
         | _ \<Rightarrow> True))"

lemma tracked_inv_new: "tracked_inv newTrackedListener"
  by (simp add: tracked_inv_def newTrackedListener_def)

lemma tracked_inv_accept: "tracked_inv l \<Longrightarrow> tracked_inv (Accept_tracked l)"
  by (simp add: tracked_inv_def Accept_tracked_def)

lemma tracked_inv_close:
  assumes "tracked_inv l" and "c < accepted l"
  shows "tracked_inv (tracked_Close c l)"
  using assms by (auto simp: tracked_inv_def tracked_Close_def intro: filter_cong)

lemma tracked_fields [simp]:
  "accepted (tracked_Close c l) = accepted l" "accepting (tracked_Close c l) = accepting l"
  by (simp_all add: tracked_Close_def)

lemma tracked_closed: "closes (tracked_Close c l) x = 0 \<longleftrightarrow> closes l x = 0 \<and> x \<noteq> c"
  by (auto simp: tracked_Close_def)

lemma tracked_inv_accepting: "tracked_inv (l\<lparr>accepting := b\<rparr>) = tracked_inv l"
  by (simp add: tracked_inv_def)

lemma still_open_close: "still_open l cs \<Longrightarrow> still_open (tracked_Close c l) cs"
  by (auto simp: still_open_def tracked_closed)

lemma still_open_next: "still_open l (c # cs) \<Longrightarrow> still_open (tracked_Close c l) cs"
  by (auto simp: still_open_def tracked_closed)

lemma still_open_tracked: "tracked_inv l \<Longrightarrow> still_open l (connections l)"
  by (auto simp: still_open_def tracked_inv_def)

lemma serve_inv_start: "serve_inv serve_start"
  by (simp add: serve_inv_def serve_start_def tracked_inv_new)

lemma serve_inv_close:
  assumes "serve_inv s" and "c < accepted (lis s)"
  shows "serve_inv (s\<lparr>lis := tracked_Close c (lis s)\<rparr>)"
  using assms tracked_inv_close still_open_close by (auto simp: serve_inv_def split: serve_pc.splits)

lemma serve_inv_step: "serve_step s t \<Longrightarrow> serve_inv s \<Longrightarrow> serve_inv t"
proof (induction rule: serve_step.induct)
  case (ss_accept s)
  then have "tracked_inv (Accept_tracked (lis s))" by (auto simp: serve_inv_def tracked_inv_accept)
  moreover have "accepted (Accept_tracked (lis s)) = Suc (accepted (lis s))" by (simp add: Accept_tracked_def)
  ultimately show ?case using ss_accept by (auto simp: serve_inv_def less_SucI)
next
  case (ss_close c s)
  then show ?case by (intro serve_inv_close) simp_all
next
  case (ss_callback_close s c cs)
  then have "serve_inv (s\<lparr>lis := tracked_Close c (lis s)\<rparr>)" by (intro serve_inv_close) (auto simp: serve_inv_def)
  then show ?case using ss_callback_close by (auto simp: serve_inv_def split: serve_pc.splits)
next
  case (ss_snapshot s)
  then show ?case by (auto simp: serve_inv_def tracked_inv_def split: serve_pc.splits)
next
  case (ss_shutdown s)
  then show ?case by (auto simp: serve_inv_def tracked_inv_accepting still_open_def split: serve_pc.splits)
next
  case (ss_deferred s)
  then show ?case by (auto simp: serve_inv_def still_open_tracked)
next
  case (ss_deferred_close s c cs)
  then have o: "still_open (lis s) (c # cs)" and c: "c < accepted (lis s)" by (auto simp: serve_inv_def still_open_def)
  then show ?case using ss_deferred_close still_open_next [OF o] tracked_inv_close [OF _ c] by (auto simp: serve_inv_def)
next
  case (ss_done s)
  then show ?case by (auto simp: serve_inv_def tracked_inv_accepting still_open_def)
qed (auto simp: serve_inv_def split: serve_pc.splits)

lemma serve_inv_runs: "serve_runs s t \<Longrightarrow> serve_inv s \<Longrightarrow> serve_inv t"
  by (induction rule: serve_runs.induct) (auto intro: serve_inv_step)

text \<open>
  C26. \<open>Serve\<close> leaks nothing. However accepts, closes, the cancellation, the shutdown callback and the deferred cleanup interleave,
  no connection is ever closed twice underneath, and when \<open>Serve\<close> has returned every connection it accepted has been closed exactly
  once, none is tracked any more, and the listener is closed.
\<close>

theorem serve_closes_everything_once:
  assumes "serve_runs serve_start s"
  shows "(\<forall>c. closes (lis s) c \<le> 1)
    \<and> (main s = ServeDone \<longrightarrow> connections (lis s) = [] \<and> \<not> accepting (lis s) \<and> (\<forall>c < accepted (lis s). closes (lis s) c = 1))"
proof -
  have inv: "serve_inv s" by (rule serve_inv_runs [OF assms serve_inv_start])
  then have t: "tracked_inv (lis s)" by (simp add: serve_inv_def)
  have "\<forall>c < accepted (lis s). closes (lis s) c = 1" if "main s = ServeDone"
  proof (intro allI impI)
    fix c
    assume c: "c < accepted (lis s)"
    have "closes (lis s) c \<noteq> 0" using inv that c by (auto simp: serve_inv_def still_open_def)
    moreover have "closes (lis s) c \<le> 1" using t by (simp add: tracked_inv_def)
    ultimately show "closes (lis s) c = 1" by simp
  qed
  then show ?thesis using inv t by (auto simp: serve_inv_def tracked_inv_def filter_empty_conv)
qed

text \<open>A run: one connection, the cancellation while it is open, and the return.\<close>

lemma serve_closes_everything_once_witness:
  "\<exists>s. serve_runs serve_start s \<and> main s = ServeDone \<and> accepted (lis s) = 1 \<and> closes (lis s) 0 = 1 \<and> \<not> accepting (lis s)"
proof -
  let ?l1 = "Accept_tracked newTrackedListener"
  let ?s1 = "serve_start\<lparr>lis := ?l1\<rparr>"
  let ?s2 = "?s1\<lparr>main := ServeReturned\<rparr>"
  let ?s3 = "?s2\<lparr>main := Deferred, stopped := True\<rparr>"
  let ?s4 = "?s3\<lparr>main := DeferredClosing [0]\<rparr>"
  let ?s5 = "?s4\<lparr>lis := tracked_Close 0 ?l1, main := DeferredClosing []\<rparr>"
  let ?s6 = "?s5\<lparr>lis := (tracked_Close 0 ?l1)\<lparr>accepting := False\<rparr>, main := ServeDone\<rparr>"
  have "serve_step serve_start ?s1" using ss_accept [of serve_start] by (simp add: serve_start_def)
  moreover have "serve_step ?s1 ?s2" using ss_return [of ?s1] by (simp add: serve_start_def)
  moreover have "serve_step ?s2 ?s3" using ss_stop [of ?s2] by (simp add: serve_start_def)
  moreover have "serve_step ?s3 ?s4"
    using ss_deferred [of ?s3] by (simp add: serve_start_def Accept_tracked_def newTrackedListener_def)
  moreover have "serve_step ?s4 ?s5" using ss_deferred_close [of ?s4 0 "[]"] by simp
  moreover have "serve_step ?s5 ?s6" using ss_done [of ?s5] by simp
  ultimately have run: "serve_runs serve_start ?s6" by (meson sr_refl sr_step)
  moreover have "accepted (lis ?s6) = 1" "main ?s6 = ServeDone" by (simp_all add: Accept_tracked_def newTrackedListener_def)
  ultimately show ?thesis using serve_closes_everything_once [OF run] by (intro exI [of _ ?s6]) simp
qed

end
