(* ===== verification/Fast_Pull.thy ===== *)
theory Fast_Pull
  imports Effects Go_Path
begin

text \<open>
  Staging a base image through skopeo and a loopback registry (\<open>internal/fastpull\<close>, \<open>internal/skopeo\<close>). What the code does is
  a trace of operations; the parser of image references, the decoder of the OCI index, reading a file after what was done so far, and
  what each operation answers are arguments.
\<close>

section \<open>Operations\<close>

datatype pull_op =
    SkopeoRun string "string list"
  | ListenLoopback
  | PutManifest string string string
  | StopServer

type_synonym pull_trace = "pull_op list"

text \<open>The error of an operation, the port it listens on, whether the address is a TCP address, the status of a reply.\<close>

record pull_answer =
  paErr :: "err option"
  paPort :: "nat option"
  paStatus :: nat

type_synonym pull_world = "pull_trace \<Rightarrow> pull_op \<Rightarrow> pull_answer"

record ociDescriptor =
  odMediaType :: string
  odDigest :: string

record pull_env =
  parseRef :: "string \<Rightarrow> err + string \<times> string \<times> string"
  decodeIndex :: "string \<Rightarrow> err + ociDescriptor list"
  fileAfter :: "pull_trace \<Rightarrow> string \<Rightarrow> err + string"
  putRequest :: "string \<Rightarrow> err option"

section \<open>skopeo\<close>

record skopeo_client =
  skBin :: string
  parallelCopies :: int

definition defaultParallelCopies :: int where "defaultParallelCopies = 16"

definition New_skopeo :: "string \<Rightarrow> int \<Rightarrow> skopeo_client" where
  "New_skopeo bin parallel =
     \<lparr>skBin = (if bin = [] then ''skopeo'' else bin),
      parallelCopies = (if parallel \<le> 0 then defaultParallelCopies else parallel)\<rparr>"

definition skopeoCommandLogValues :: "string list \<Rightarrow> string \<Rightarrow> string \<times> string" where
  "skopeoCommandLogValues args output =
     (if list_ex (\<lambda>arg. let lower = ToLower arg in Contains lower ''jitconfig'' \<or> Contains lower ''base64''
                          \<or> Contains lower ''p12'' \<or> Contains lower ''token'') args
      then (''[redacted]'', ''[redacted]'') else (JoinStr args '' '', TrimSpace output))"

definition copy_args :: "skopeo_client \<Rightarrow> string \<Rightarrow> string \<Rightarrow> string \<Rightarrow> string \<Rightarrow> string \<Rightarrow> string list" where
  "copy_args c srcImageRef layoutDir tag osName arch =
     [''copy'', ''--image-parallel-copies'', Itoa (parallelCopies c), ''--override-os'', osName, ''--override-arch'', arch,
      ''docker://'' @ srcImageRef, ''oci:'' @ layoutDir @ '':'' @ tag]"

definition CopyToOCILayout ::
  "pull_world \<Rightarrow> skopeo_client \<Rightarrow> string \<Rightarrow> string \<Rightarrow> string \<Rightarrow> string \<Rightarrow> string \<Rightarrow> pull_trace \<Rightarrow> err option \<times> pull_trace" where
  "CopyToOCILayout w c srcImageRef layoutDir tag osName arch tr =
     (let (a, tr1) = perform w (SkopeoRun (skBin c) (copy_args c srcImageRef layoutDir tag osName arch)) tr
      in (map_option (\<lambda>e. Wrapf (''skopeo: copy '' @ srcImageRef @ '' to '' @ layoutDir @ '': '') e []) (paErr a), tr1))"

section \<open>The stager\<close>

record stager =
  copier :: "skopeo_client option"
  stDir :: string

definition isCirrusXcodeRepo :: "string \<Rightarrow> bool" where
  "isCirrusXcodeRepo repo = (HasPrefix repo ''cirruslabs/macos-'' \<and> HasSuffix repo ''-xcode'')"

definition cirrusRegistry :: string where "cirrusRegistry = ''ghcr.io''"

definition blobPathForDigest :: "string \<Rightarrow> string \<Rightarrow> err + string" where
  "blobPathForDigest layoutDir digest =
     (let (algorithm, hexValue, ok) = Cut digest CHR 0x3A
      in if \<not> ok \<or> algorithm = [] \<or> hexValue = [] then Inl (Msg (''fastpull: invalid digest '' @ Quote digest))
         else Inr (filepath_Join [layoutDir, ''blobs'', algorithm, hexValue]))"

definition readLayoutManifest :: "pull_env \<Rightarrow> stager \<Rightarrow> pull_trace \<Rightarrow> err + ociDescriptor \<times> string" where
  "readLayoutManifest P s tr =
     (let indexPath = filepath_Join [stDir s, ''index.json'']
      in case fileAfter P tr indexPath of
           Inl e \<Rightarrow> Inl (Wrapf (''fastpull: read OCI index '' @ indexPath @ '': '') e [])
         | Inr raw \<Rightarrow>
             (case decodeIndex P raw of
                Inl e \<Rightarrow> Inl (Wrapf (''fastpull: parse OCI index '' @ indexPath @ '': '') e [])
              | Inr manifests \<Rightarrow>
                  (case manifests of
                     [desc] \<Rightarrow>
                       if odMediaType desc = [] \<or> odDigest desc = []
                       then Inl (Msg ''fastpull: OCI index manifest descriptor missing mediaType or digest'')
                       else
                         (case blobPathForDigest (stDir s) (odDigest desc) of
                            Inl e \<Rightarrow> Inl e
                          | Inr p \<Rightarrow>
                              (case fileAfter P tr p of
                                 Inl e \<Rightarrow> Inl (Wrapf (''fastpull: read OCI manifest '' @ p @ '': '') e [])
                               | Inr bytes \<Rightarrow> Inr (desc, bytes)))
                   | _ \<Rightarrow> Inl (Msg (''fastpull: OCI index has '' @ dec_nat (length manifests) @ '' manifests, want 1'')))))"

definition putManifest :: "pull_env \<Rightarrow> pull_world \<Rightarrow> string \<Rightarrow> string \<Rightarrow> string \<Rightarrow> pull_trace \<Rightarrow> err option \<times> pull_trace" where
  "putManifest P w url mediaType body tr =
     (case putRequest P url of
        Some e \<Rightarrow> (Some (Wrapf (''fastpull: build put '' @ url @ '': '') e []), tr)
      | None \<Rightarrow>
          (let (a, tr1) = perform w (PutManifest url mediaType body) tr
           in (case paErr a of
                 Some e \<Rightarrow> Some (Wrapf (''fastpull: put '' @ url @ '': '') e [])
               | None \<Rightarrow>
                   if paStatus a < 200 \<or> 300 \<le> paStatus a
                   then Some (Msg (''fastpull: put '' @ url @ '' status '' @ dec_nat (paStatus a))) else None, tr1)))"

definition registerManifest :: "pull_env \<Rightarrow> pull_world \<Rightarrow> stager \<Rightarrow> nat \<Rightarrow> string \<Rightarrow> string \<Rightarrow> pull_trace \<Rightarrow> err option \<times> pull_trace" where
  "registerManifest P w s port repo tag tr =
     (case readLayoutManifest P s tr of
        Inl e \<Rightarrow> (Some e, tr)
      | Inr (desc, manifest) \<Rightarrow>
          (let base = ''http://localhost:'' @ dec_nat port @ ''/v2/'' @ repo @ ''/manifests/''
           in andThen (putManifest P w (base @ odDigest desc) (odMediaType desc) manifest)
                (putManifest P w (base @ tag) (odMediaType desc) manifest) tr))"

text \<open>The result of \<open>Stage\<close>: the local reference; its \<open>stop\<close> is \<open>StopServer\<close>.\<close>

definition Stage :: "pull_env \<Rightarrow> pull_world \<Rightarrow> stager \<Rightarrow> string \<Rightarrow> pull_trace \<Rightarrow> (err + string) \<times> pull_trace" where
  "Stage P w s img tr =
     (case parseRef P img of
        Inl e \<Rightarrow> (Inl (Wrapf (''fastpull: parse '' @ img @ '': '') e []), tr)
      | Inr (registryHost, repo, tag) \<Rightarrow>
          if registryHost \<noteq> cirrusRegistry \<or> \<not> isCirrusXcodeRepo repo
          then (Inl (Msg (''fastpull: refusing non-cirrus image '' @ Quote img)), tr)
          else
            (case copier s of
               None \<Rightarrow> (Inl (Msg ''fastpull: missing OCI layout copier''), tr)
             | Some c \<Rightarrow>
                 (case CopyToOCILayout w c img (stDir s) tag ''darwin'' ''arm64'' tr of
                    (Some e, tr1) \<Rightarrow> (Inl (Wrapf (''fastpull: copy '' @ img @ '' to OCI layout: '') e []), tr1)
                  | (None, tr1) \<Rightarrow>
                      (let (a, tr2) = perform w ListenLoopback tr1
                       in case paErr a of
                            Some e \<Rightarrow> (Inl (Wrapf ''fastpull: listen localhost: '' e []), tr2)
                          | None \<Rightarrow>
                              (case paPort a of
                                 None \<Rightarrow> (Inl (Msg ''fastpull: unexpected listener address type''), attempt_op w StopServer tr2)
                               | Some port \<Rightarrow>
                                   (case registerManifest P w s port repo tag tr2 of
                                      (Some e, tr3) \<Rightarrow> (Inl e, attempt_op w StopServer tr3)
                                    | (None, tr3) \<Rightarrow> (Inr (''localhost:'' @ dec_nat port @ ''/'' @ repo @ '':'' @ tag), tr3)))))))"

section \<open>What is served\<close>

text \<open>How many servers run after the operations \<open>ops\<close> that follow \<open>tr\<close>.\<close>

fun serving :: "pull_world \<Rightarrow> pull_trace \<Rightarrow> pull_op list \<Rightarrow> nat \<Rightarrow> nat" where
  "serving w tr [] n = n"
| "serving w tr (x # ops) n =
     serving w (tr @ [x]) ops
       (if x = StopServer then n - 1 else if x = ListenLoopback \<and> paErr (w tr x) = None then Suc n else n)"

definition staging_ops :: "stager \<Rightarrow> skopeo_client \<Rightarrow> string \<Rightarrow> string \<Rightarrow> pull_op list" where
  "staging_ops s c img tag = [SkopeoRun (skBin c) (copy_args c img (stDir s) tag ''darwin'' ''arm64''), ListenLoopback]"

definition manifest_base :: "nat \<Rightarrow> string \<Rightarrow> string" where
  "manifest_base port repo = ''http://localhost:'' @ dec_nat port @ ''/v2/'' @ repo @ ''/manifests/''"

lemma put_cases:
  "putManifest P w url m b tr = (r, tr') \<Longrightarrow> tr' = tr \<or> tr' = tr @ [PutManifest url m b]"
  "putManifest P w url m b tr = (None, tr') \<Longrightarrow> tr' = tr @ [PutManifest url m b]"
  by (auto simp: putManifest_def perform_def split: option.splits)

lemma register_result:
  assumes "registerManifest P w s port repo tag tr = (r, tr')"
  shows "(\<exists>ops. tr' = tr @ ops \<and> list_all (\<lambda>x. \<exists>u m b. x = PutManifest u m b) ops)
    \<and> (r = None \<longrightarrow> (\<exists>desc manifest. readLayoutManifest P s tr = Inr (desc, manifest)
         \<and> tr' = tr @ [PutManifest (manifest_base port repo @ odDigest desc) (odMediaType desc) manifest,
                        PutManifest (manifest_base port repo @ tag) (odMediaType desc) manifest]))"
proof (cases "readLayoutManifest P s tr")
  case (Inl e)
  then show ?thesis using assms by (auto simp: registerManifest_def)
next
  case (Inr dm)
  obtain desc manifest where dm: "dm = (desc, manifest)" by (cases dm)
  let ?put = "\<lambda>x. putManifest P w (manifest_base port repo @ x) (odMediaType desc) manifest"
  have run: "andThen (?put (odDigest desc)) (?put tag) tr = (r, tr')"
    using assms Inr dm by (simp add: registerManifest_def manifest_base_def)
  obtain r1 tr1 where 1: "?put (odDigest desc) tr = (r1, tr1)" by fastforce
  show ?thesis
  proof (cases r1)
    case (Some e)
    then show ?thesis using run 1 put_cases(1) [OF 1] by (auto simp: andThen_def)
  next
    case None
    then have 2: "?put tag tr1 = (r, tr')" using run 1 by (simp add: andThen_def)
    have "r = None \<Longrightarrow> tr' = tr1 @ [PutManifest (manifest_base port repo @ tag) (odMediaType desc) manifest]"
      using put_cases(2) 2 by blast
    then show ?thesis using put_cases(2) [OF 1 [unfolded None]] put_cases(1) [OF 2] Inr dm by auto
  qed
qed

lemma serving_puts: "list_all (\<lambda>x. \<exists>u m b. x = PutManifest u m b) ops \<Longrightarrow> serving w tr ops n = n"
  by (induction ops arbitrary: tr) auto

lemma serving_append: "serving w tr (xs @ ys) n = serving w (tr @ xs) ys (serving w tr xs n)"
  by (induction xs arbitrary: tr n) auto


text \<open>A layout with one manifest, and one that a second copy into the same directory has given a second manifest.\<close>

definition pull_demo :: "ociDescriptor list \<Rightarrow> pull_env" where
  "pull_demo ds =
     \<lparr>parseRef = (\<lambda>img. Inr (''ghcr.io'', ''cirruslabs/macos-tahoe-xcode'', ''26'')), decodeIndex = (\<lambda>raw. Inr ds),
      fileAfter = (\<lambda>tr p. Inr ''{}''), putRequest = (\<lambda>u. None)\<rparr>"

definition pull_ok :: pull_world where
  "pull_ok tr x = \<lparr>paErr = None, paPort = Some 7, paStatus = 201\<rparr>"

definition oci_manifest :: "string \<Rightarrow> ociDescriptor" where
  "oci_manifest h = \<lparr>odMediaType = ''m'', odDigest = ''sha256:'' @ h\<rparr>"


end
