(* ===== verification/Host_Process.thy ===== *)
theory Host_Process
  imports Effects Host_Tart
begin

text \<open>
  Running tart (\<open>runProcessGroup\<close>, \<open>execRunner\<close> and \<open>execRunnerTee\<close> in \<open>internal/tart/tart.go\<close>): a process in a group of
  its own, a goroutine that waits for it, and the deadline that signals the whole group. The processes behave
  arbitrarily: they ignore SIGTERM, fork, leave the group, and hold on to the output pipe. And the connection to a guest that
  rides on such a process (\<open>execconn.go\<close>).
\<close>

section \<open>The group and its runner\<close>

text \<open>How a run ended: by what \<open>cmd.Wait\<close> returned, or by the context.\<close>

datatype ending = ByExit "err option" | ByDeadline

datatype run_pc = Waiting | Grace | Sweeping bool | Reaping bool | Ended ending

text \<open>
  \<open>leader\<close>: the process itself lives. \<open>members\<close>: the other living processes of its group, \<open>groupPipes\<close> of them holding the
  output pipe. \<open>outsidePipes\<close>: processes that left the group and hold it. \<open>waitErr\<close>: the channel of the waiting
  goroutine, \<open>expired\<close>: the context is done.
\<close>

record proc_group =
  runPc :: run_pc
  leader :: bool
  members :: nat
  groupPipes :: nat
  outsidePipes :: nat
  waitErr :: "err option option"
  expired :: bool

definition group_start :: proc_group where
  "group_start = \<lparr>runPc = Waiting, leader = True, members = 0, groupPipes = 0, outsidePipes = 0, waitErr = None, expired = False\<rparr>"

text \<open>
  What the processes do. A descendant has the pipe when its parent has; the pipe of the leader is closed with its end.
\<close>

inductive process_step :: "proc_group \<Rightarrow> proc_group \<Rightarrow> bool" where
  ps_fork: "leader s \<or> 0 < members s \<Longrightarrow> process_step s (s\<lparr>members := Suc (members s)\<rparr>)"
| ps_fork_pipe: "leader s \<or> 0 < groupPipes s \<Longrightarrow>
     process_step s (s\<lparr>members := Suc (members s), groupPipes := Suc (groupPipes s)\<rparr>)"
| ps_leader_exit: "leader s \<Longrightarrow> process_step s (s\<lparr>leader := False\<rparr>)"
| ps_exit: "groupPipes s < members s \<Longrightarrow> process_step s (s\<lparr>members := members s - 1\<rparr>)"
| ps_exit_pipe: "0 < groupPipes s \<Longrightarrow> process_step s (s\<lparr>members := members s - 1, groupPipes := groupPipes s - 1\<rparr>)"
| ps_close_pipe: "0 < groupPipes s \<Longrightarrow> process_step s (s\<lparr>groupPipes := groupPipes s - 1\<rparr>)"
| ps_leave: "0 < groupPipes s \<Longrightarrow>
     process_step s (s\<lparr>members := members s - 1, groupPipes := groupPipes s - 1, outsidePipes := Suc (outsidePipes s)\<rparr>)"
| ps_outside_fork: "0 < outsidePipes s \<Longrightarrow> process_step s (s\<lparr>outsidePipes := Suc (outsidePipes s)\<rparr>)"
| ps_outside_close: "0 < outsidePipes s \<Longrightarrow> process_step s (s\<lparr>outsidePipes := outsidePipes s - 1\<rparr>)"
| ps_expire: "process_step s (s\<lparr>expired := True\<rparr>)"

text \<open>
  What the code does, with the kernel. \<open>cmd.Wait\<close> returns when the process is gone and the output pipe has been read to its
  end; the select of \<open>Waiting\<close> takes either ready case; after SIGTERM the grace ends with the process or with the
  timer; SIGKILL ends every process that is in the group.
\<close>

inductive runner_step :: "proc_group \<Rightarrow> proc_group \<Rightarrow> bool" where
  rp_wait: "\<not> leader s \<Longrightarrow> groupPipes s = 0 \<Longrightarrow> outsidePipes s = 0 \<Longrightarrow> waitErr s = None \<Longrightarrow>
     runner_step s (s\<lparr>waitErr := Some r\<rparr>)"
| rp_return: "runPc s = Waiting \<Longrightarrow> waitErr s = Some r \<Longrightarrow> runner_step s (s\<lparr>runPc := Ended (ByExit r)\<rparr>)"
| rp_term: "runPc s = Waiting \<Longrightarrow> expired s \<Longrightarrow> runner_step s (s\<lparr>runPc := Grace\<rparr>)"
| rp_exited: "runPc s = Grace \<Longrightarrow> waitErr s = Some r \<Longrightarrow> runner_step s (s\<lparr>runPc := Sweeping True\<rparr>)"
| rp_timeout: "runPc s = Grace \<Longrightarrow> runner_step s (s\<lparr>runPc := Sweeping False\<rparr>)"
| rp_kill: "runPc s = Sweeping leaderExited \<Longrightarrow>
     runner_step s (s\<lparr>leader := False, members := 0, groupPipes := 0, runPc := Reaping leaderExited\<rparr>)"
| rp_done: "runPc s = Reaping True \<Longrightarrow> runner_step s (s\<lparr>runPc := Ended ByDeadline\<rparr>)"
| rp_reaped: "runPc s = Reaping False \<Longrightarrow> waitErr s = Some r \<Longrightarrow> runner_step s (s\<lparr>runPc := Ended ByDeadline\<rparr>)"

inductive group_runs :: "proc_group \<Rightarrow> proc_group \<Rightarrow> bool" where
  gr_refl: "group_runs s s"
| gr_process: "group_runs s t \<Longrightarrow> process_step t u \<Longrightarrow> group_runs s u"
| gr_runner: "group_runs s t \<Longrightarrow> runner_step t u \<Longrightarrow> group_runs s u"

text \<open>Steps of the code alone, no process helping.\<close>

inductive runner_runs :: "proc_group \<Rightarrow> proc_group \<Rightarrow> bool" where
  rr_refl: "runner_runs s s"
| rr_step: "runner_step s t \<Longrightarrow> runner_runs t u \<Longrightarrow> runner_runs s u"

section \<open>What the caller gets\<close>

text \<open>The result of \<open>runProcessGroup\<close>: starting the process may fail, and \<open>ctxErr\<close> is the error of the context.\<close>

definition runProcessGroup :: "err option \<Rightarrow> err \<Rightarrow> ending \<Rightarrow> err option" where
  "runProcessGroup startErr ctxErr x =
     (case startErr of
        Some e \<Rightarrow> Some (Wrapf ''tart: start: '' e [])
      | None \<Rightarrow> (case x of ByExit r \<Rightarrow> r | ByDeadline \<Rightarrow> Some (Wrapf ''tart: bounded run: '' ctxErr [])))"

abbreviation maxTeeTailBytes :: int where "maxTeeTailBytes \<equiv> 65536"

text \<open>
  \<open>execRunnerTee\<close>, for what the process writes, piece by piece: the output returned, what the sink received, what is logged and
  the error. The writes go to the tail buffer and then to the sink, when there is one.
\<close>

definition execRunnerTee ::
  "bool \<Rightarrow> string list \<Rightarrow> err option \<Rightarrow> string list \<Rightarrow> (string \<times> string) \<times> (string \<times> string) \<times> err option" where
  "execRunnerTee hasSink args runErr writes =
     (let out = tbBuf (foldl tailBuffer_Write (newTailBuffer maxTeeTailBytes) writes)
      in ((out, if hasSink then concat writes else []), execRunner args runErr out))"

definition ExecTee :: "bool \<Rightarrow> string \<Rightarrow> string list \<Rightarrow> err option \<Rightarrow> string list \<Rightarrow> (string \<times> string) \<times> (string \<times> string) \<times> err option" where
  "ExecTee hasSink name argv runErr writes = execRunnerTee hasSink (exec_args name argv) runErr writes"

definition New_tart :: "string \<Rightarrow> string" where
  "New_tart bin = (if bin = [] then ''tart'' else bin)"

text \<open>\<open>ListVMs\<close> with the decoder of the JSON output, and \<open>List\<close>.\<close>

definition ListVMs :: "(string \<Rightarrow> err + (string \<times> string) list) \<Rightarrow> string \<times> err option \<Rightarrow> err + (string \<times> string) list" where
  "ListVMs decode run =
     (case run of
        (out, Some e) \<Rightarrow> Inl e
      | (out, None) \<Rightarrow> (case decode out of Inl e \<Rightarrow> Inl (Wrapf ''tart: parse list output: '' e []) | Inr vms \<Rightarrow> Inr vms))"

definition tart_List :: "(string \<Rightarrow> err + (string \<times> string) list) \<Rightarrow> string \<times> err option \<Rightarrow> err + string list" where
  "tart_List decode run = (case ListVMs decode run of Inl e \<Rightarrow> Inl e | Inr vms \<Rightarrow> Inr (map fst vms))"

section \<open>The deadline ends the group\<close>

definition group_inv :: "proc_group \<Rightarrow> bool" where
  "group_inv s =
     (groupPipes s \<le> members s
      \<and> (waitErr s \<noteq> None \<longrightarrow> \<not> leader s \<and> groupPipes s = 0 \<and> outsidePipes s = 0)
      \<and> (case runPc s of
           Waiting \<Rightarrow> True
         | Grace \<Rightarrow> expired s
         | Sweeping x \<Rightarrow> expired s \<and> (x \<longrightarrow> waitErr s \<noteq> None)
         | Reaping x \<Rightarrow> expired s \<and> \<not> leader s \<and> members s = 0 \<and> (x \<longrightarrow> waitErr s \<noteq> None)
         | Ended (ByExit r) \<Rightarrow> waitErr s = Some r
         | Ended ByDeadline \<Rightarrow> expired s \<and> \<not> leader s \<and> members s = 0 \<and> waitErr s \<noteq> None))"

lemma group_inv_start: "group_inv group_start"
  by (simp add: group_inv_def group_start_def)

lemma group_inv_process: "process_step s t \<Longrightarrow> group_inv s \<Longrightarrow> group_inv t"
  by (induction rule: process_step.induct) (auto simp: group_inv_def split: run_pc.splits ending.splits)

lemma group_inv_runner: "runner_step s t \<Longrightarrow> group_inv s \<Longrightarrow> group_inv t"
  by (induction rule: runner_step.induct) (auto simp: group_inv_def split: run_pc.splits ending.splits)

lemma group_inv_runs: "group_runs s t \<Longrightarrow> group_inv s \<Longrightarrow> group_inv t"
  by (induction rule: group_runs.induct) (auto intro: group_inv_process group_inv_runner)

lemma outside_unmoved: "runner_runs s t \<Longrightarrow> outsidePipes t = outsidePipes s"
  by (induction rule: runner_runs.induct) (auto elim: runner_step.cases)

lemma runner_keeps_inv: "runner_runs s t \<Longrightarrow> group_inv s \<Longrightarrow> group_inv t"
  by (induction rule: runner_runs.induct) (auto intro: group_inv_runner)

lemma runner_runs_trans: "runner_runs s t \<Longrightarrow> runner_runs t u \<Longrightarrow> runner_runs s u"
  by (induction rule: runner_runs.induct) (auto intro: rr_step)

definition can_end :: "proc_group \<Rightarrow> bool" where
  "can_end s = (\<exists>t x. runner_runs s t \<and> runPc t = Ended x)"

lemma can_endI: "runner_step s t \<Longrightarrow> can_end t \<Longrightarrow> can_end s"
  by (auto simp: can_end_def intro: rr_step)

lemma can_end_ended: "runPc s = Ended x \<Longrightarrow> can_end s"
  by (auto simp: can_end_def intro: rr_refl)

lemma can_end_reaping:
  assumes "runPc s = Reaping b" and "group_inv s" and "outsidePipes s = 0"
  shows "can_end s"
proof (cases "waitErr s")
  case (Some r)
  have "runner_step s (s\<lparr>runPc := Ended ByDeadline\<rparr>)"
    using rp_done [of s] rp_reaped [OF _ Some] assms(1) by (cases b) simp_all
  then show ?thesis by (rule can_endI) (simp add: can_end_ended)
next
  case None
  then have b: "\<not> b" using assms by (auto simp: group_inv_def)
  let ?t = "s\<lparr>waitErr := Some None\<rparr>"
  have "runner_step s ?t" using assms None by (intro rp_wait) (auto simp: group_inv_def)
  moreover have "can_end ?t" using assms(1) b by (intro can_endI [OF rp_reaped [of ?t None]] can_end_ended) auto
  ultimately show ?thesis by (rule can_endI)
qed

lemma can_end_sweeping:
  assumes "runPc s = Sweeping b" and "group_inv s" and "outsidePipes s = 0"
  shows "can_end s"
  using can_endI [OF rp_kill can_end_reaping] assms group_inv_runner [OF rp_kill] by fastforce

lemma can_end_expired:
  assumes "group_inv s" and "outsidePipes s = 0" and "expired s"
  shows "can_end s"
proof -
  have grace: "can_end t" if "runPc t = Grace" "group_inv t" "outsidePipes t = 0" for t
    by (rule can_endI [OF rp_timeout [OF that(1)] can_end_sweeping [of _ False]])
      (use that group_inv_runner [OF rp_timeout [OF that(1)]] in auto)
  show ?thesis
  proof (cases "runPc s")
    case Waiting
    show ?thesis
      by (rule can_endI [OF rp_term [OF Waiting assms(3)] grace])
        (use assms group_inv_runner [OF rp_term [OF Waiting assms(3)]] in auto)
  qed (use assms grace can_end_sweeping can_end_reaping can_end_ended in auto)
qed

text \<open>
  C12. A bounded run of tart ends. Whatever the processes of the group do (ignore SIGTERM, fork, change their groups): when
  \<open>runProcessGroup\<close> returns because of its context, the process and every member of its group are gone; and once the context is
  done the code can return without the help of any process exactly if no process outside of the group still holds the
  output pipe.
\<close>

theorem deadline_ends_the_group:
  assumes "group_runs group_start s"
  shows "(runPc s = Ended ByDeadline \<longrightarrow> \<not> leader s \<and> members s = 0)
    \<and> (expired s \<longrightarrow> (can_end s \<longleftrightarrow> outsidePipes s = 0))"
proof -
  have inv: "group_inv s" by (rule group_inv_runs [OF assms group_inv_start])
  have "outsidePipes s = 0" if c: "can_end s"
  proof -
    obtain t x where t: "runner_runs s t" "runPc t = Ended x" using c by (auto simp: can_end_def)
    have "outsidePipes t = 0" using runner_keeps_inv [OF t(1) inv] t(2) by (auto simp: group_inv_def split: ending.splits)
    then show ?thesis using outside_unmoved [OF t(1)] by simp
  qed
  then show ?thesis using inv can_end_expired [OF inv] by (auto simp: group_inv_def)
qed

text \<open>A child that starts its own session and keeps the output open: the deadline passes, the group is killed, the call hangs.\<close>

theorem escaped_child_blocks_the_run:
  "\<exists>s. group_runs group_start s \<and> expired s \<and> runPc s = Reaping False \<and> \<not> leader s \<and> members s = 0 \<and> \<not> can_end s"
proof -
  let ?s1 = "group_start\<lparr>members := 1, groupPipes := 1\<rparr>"
  let ?s2 = "group_start\<lparr>outsidePipes := 1\<rparr>"
  let ?s3 = "?s2\<lparr>expired := True\<rparr>"
  let ?s4 = "?s3\<lparr>runPc := Grace\<rparr>"
  let ?s5 = "?s3\<lparr>runPc := Sweeping False\<rparr>"
  let ?s6 = "?s3\<lparr>leader := False, runPc := Reaping False\<rparr>"
  have "process_step group_start ?s1" using ps_fork_pipe [of group_start] by (simp add: group_start_def)
  moreover have "process_step ?s1 ?s2" using ps_leave [of ?s1] by (simp add: group_start_def)
  moreover have "process_step ?s2 ?s3" by (rule ps_expire)
  moreover have "runner_step ?s3 ?s4" using rp_term [of ?s3] by (simp add: group_start_def)
  moreover have "runner_step ?s4 ?s5" using rp_timeout [of ?s4] by simp
  moreover have "runner_step ?s5 ?s6" using rp_kill [of ?s5 False] by (simp add: group_start_def)
  ultimately have run: "group_runs group_start ?s6" by (meson gr_refl gr_process gr_runner)
  have "\<not> can_end ?s6" using deadline_ends_the_group [OF run] by simp
  then show ?thesis using run by (intro exI [of _ ?s6]) (simp add: group_start_def)
qed

text \<open>A process that ignores SIGTERM, and its child: both are killed, and the call returns.\<close>

lemma deadline_ends_the_group_witness:
  "\<exists>s. group_runs group_start s \<and> runPc s = Ended ByDeadline \<and> \<not> leader s \<and> members s = 0"
proof -
  let ?s1 = "group_start\<lparr>members := 1, groupPipes := 1\<rparr>"
  let ?s2 = "?s1\<lparr>expired := True\<rparr>"
  let ?s3 = "?s2\<lparr>runPc := Grace\<rparr>"
  let ?s4 = "?s2\<lparr>runPc := Sweeping False\<rparr>"
  let ?s5 = "group_start\<lparr>expired := True, leader := False, runPc := Reaping False\<rparr>"
  let ?s6 = "?s5\<lparr>waitErr := Some None\<rparr>"
  let ?s7 = "?s6\<lparr>runPc := Ended ByDeadline\<rparr>"
  have "process_step group_start ?s1" using ps_fork_pipe [of group_start] by (simp add: group_start_def)
  moreover have "process_step ?s1 ?s2" by (rule ps_expire)
  moreover have "runner_step ?s2 ?s3" using rp_term [of ?s2] by (simp add: group_start_def)
  moreover have "runner_step ?s3 ?s4" using rp_timeout [of ?s3] by simp
  moreover have "runner_step ?s4 ?s5" using rp_kill [of ?s4 False] by (simp add: group_start_def)
  moreover have "runner_step ?s5 ?s6" using rp_wait [of ?s5 None] by (simp add: group_start_def)
  moreover have "runner_step ?s6 ?s7" using rp_reaped [of ?s6 None] by simp
  ultimately have run: "group_runs group_start ?s7" by (meson gr_refl gr_process gr_runner)
  then show ?thesis using deadline_ends_the_group [OF run] by (intro exI [of _ ?s7]) simp
qed

section \<open>A connection to a guest\<close>

text \<open>
  The connection over \<open>tart exec -i\<close> (\<open>internal/tart/execconn.go\<close>): a socket pair, a process on one end of it
  and a \<open>net.Conn\<close> on the other. The descriptors and the process are counted over the trace of calls.
\<close>

datatype conn_op =
    Socketpair
  | StartExec string "string list"
  | WrapSocket
  | CloseParent
  | CloseChild
  | CloseConn
  | KillGroup
  | WaitExec

type_synonym conn_trace = "conn_op list"
type_synonym conn_world = "conn_trace \<Rightarrow> conn_op \<Rightarrow> err option"

text \<open>\<open>execConn\<close>: whether it was closed, and with what error.\<close>

record execConn =
  connClosed :: bool
  closeErr :: "err option"

definition execconn_args :: "string \<Rightarrow> string list \<Rightarrow> string list" where
  "execconn_args name argv = [''exec'', ''-i'', name] @ argv"

definition ExecConn :: "conn_world \<Rightarrow> string \<Rightarrow> string \<Rightarrow> string list \<Rightarrow> conn_trace \<Rightarrow> (err + execConn) \<times> conn_trace" where
  "ExecConn w bin name argv tr =
     (let (pairErr, tr1) = perform w Socketpair tr
      in case pairErr of
           Some e \<Rightarrow> (Inl (Wrapf (''tart: exec conn socketpair for '' @ name @ '': '') e []), tr1)
         | None \<Rightarrow>
             (let (startErr, tr2) = perform w (StartExec bin (execconn_args name argv)) tr1
              in case startErr of
                   Some e \<Rightarrow>
                     (Inl (Wrapf (''tart: exec conn start '' @ name @ '': '') e []),
                      attempt_op w CloseChild (attempt_op w CloseParent tr2))
                 | None \<Rightarrow>
                     (let (wrapErr, tr3) = perform w WrapSocket (attempt_op w CloseChild tr2);
                          tr4 = attempt_op w CloseParent tr3
                      in case wrapErr of
                           Some e \<Rightarrow>
                             (Inl (Wrapf (''tart: exec conn wrap socket for '' @ name @ '': '') e []),
                              attempt_op w WaitExec (attempt_op w KillGroup tr4))
                         | None \<Rightarrow> (Inr \<lparr>connClosed = False, closeErr = None\<rparr>, tr4))))"

text \<open>\<open>Close\<close>, under its \<open>sync.Once\<close>.\<close>

definition execConn_Close :: "conn_world \<Rightarrow> execConn \<Rightarrow> conn_trace \<Rightarrow> (err option \<times> execConn) \<times> conn_trace" where
  "execConn_Close w c tr =
     (if connClosed c then ((closeErr c, c), tr)
      else let (e, tr1) = perform w CloseConn tr
           in ((e, \<lparr>connClosed = True, closeErr = e\<rparr>), attempt_op w WaitExec (attempt_op w KillGroup tr1)))"

section \<open>What is held\<close>

text \<open>
  How many descriptors and how many processes that were not reaped are held after the operations \<open>ops\<close> that follow \<open>tr\<close>: a close frees
  its descriptor whatever it returns, and a wait reaps the process.
\<close>

fun held :: "conn_world \<Rightarrow> conn_trace \<Rightarrow> conn_op list \<Rightarrow> int \<times> int \<Rightarrow> int \<times> int" where
  "held w tr [] n = n"
| "held w tr (x # ops) (fds, procs) =
     held w (tr @ [x]) ops
       (case x of
          Socketpair \<Rightarrow> (if w tr x = None then fds + 2 else fds, procs)
        | StartExec b a \<Rightarrow> (fds, if w tr x = None then procs + 1 else procs)
        | WrapSocket \<Rightarrow> (if w tr x = None then fds + 1 else fds, procs)
        | CloseParent \<Rightarrow> (fds - 1, procs)
        | CloseChild \<Rightarrow> (fds - 1, procs)
        | CloseConn \<Rightarrow> (fds - 1, procs)
        | KillGroup \<Rightarrow> (fds, procs)
        | WaitExec \<Rightarrow> (fds, procs - 1))"

text \<open>Closing a connection \<open>n\<close> times.\<close>

fun close_times :: "conn_world \<Rightarrow> nat \<Rightarrow> execConn \<Rightarrow> conn_trace \<Rightarrow> err option list \<times> conn_trace" where
  "close_times w 0 c tr = ([], tr)"
| "close_times w (Suc n) c tr =
     (let ((e, c1), tr1) = execConn_Close w c tr; (es, tr2) = close_times w n c1 tr1 in (e # es, tr2))"

lemma close_times_closed: "connClosed c \<Longrightarrow> close_times w n c tr = (replicate n (closeErr c), tr)"
  by (induction n) (simp_all add: execConn_Close_def)

text \<open>
  C15. A guest connection owns one descriptor and one process, and gives both back. When \<open>ExecConn\<close> fails, at whatever step, it
  holds no descriptor and no process; when it succeeds it holds the descriptor of the connection and the process; and after any
  number of calls of \<open>Close\<close>, one at least, nothing is held, the process group was killed and waited for once, and every
  call returned the same error.
\<close>

theorem exec_conn_gives_back:
  assumes "ExecConn w bin name argv tr = (r, tr')"
  shows "\<exists>ops. tr' = tr @ ops
    \<and> (case r of
         Inl e \<Rightarrow> held w tr ops (0, 0) = (0, 0)
       | Inr c \<Rightarrow> held w tr ops (0, 0) = (1, 1)
           \<and> (\<forall>n. close_times w (Suc n) c tr' = (replicate (Suc n) (w tr' CloseConn), tr' @ [CloseConn, KillGroup, WaitExec])
                  \<and> held w tr (ops @ [CloseConn, KillGroup, WaitExec]) (0, 0) = (0, 0)))"
proof -
  let ?x = "StartExec bin (execconn_args name argv)"
  let ?t1 = "tr @ [Socketpair]" and ?t3 = "tr @ [Socketpair, ?x, CloseChild]"
  have closes: "close_times w (Suc n) \<lparr>connClosed = False, closeErr = None\<rparr> t
      = (replicate (Suc n) (w t CloseConn), t @ [CloseConn, KillGroup, WaitExec])" for n t
    by (simp add: execConn_Close_def Let_def perform_def close_times_closed)
  consider (pair) e where "w tr Socketpair = Some e"
    | (start) e where "w tr Socketpair = None" "w ?t1 ?x = Some e"
    | (wrap) e where "w tr Socketpair = None" "w ?t1 ?x = None" "w ?t3 WrapSocket = Some e"
    | (ok) "w tr Socketpair = None" "w ?t1 ?x = None" "w ?t3 WrapSocket = None"
    by fastforce
  then show ?thesis
  proof cases
    case pair
    then show ?thesis using assms by (auto simp: ExecConn_def perform_def)
  next
    case start
    then show ?thesis using assms by (auto simp: ExecConn_def perform_def)
  next
    case wrap
    then show ?thesis using assms by (auto simp: ExecConn_def perform_def Let_def)
  next
    case ok
    then have "r = Inr \<lparr>connClosed = False, closeErr = None\<rparr>" "tr' = tr @ [Socketpair, ?x, CloseChild, WrapSocket, CloseParent]"
      using assms by (auto simp: ExecConn_def perform_def Let_def)
    then show ?thesis using ok closes by simp
  qed
qed

text \<open>A tart whose socket cannot be wrapped, and one that works but whose connection does not close cleanly.\<close>

definition conn_demo :: "conn_op \<Rightarrow> conn_world" where
  "conn_demo bad tr x = (if x = bad then Some (Msg ''bad descriptor'') else None)"

lemma exec_conn_gives_back_witness:
  "let failed = ExecConn (conn_demo WrapSocket) ''tart'' ''vm'' [''x''] [];
       made = ExecConn (conn_demo CloseConn) ''tart'' ''vm'' [''x''] []
   in isl (fst failed) \<and> held (conn_demo WrapSocket) [] (snd failed) (0, 0) = (0, 0)
      \<and> fst made = Inr \<lparr>connClosed = False, closeErr = None\<rparr>
      \<and> fst (close_times (conn_demo CloseConn) 2 \<lparr>connClosed = False, closeErr = None\<rparr> (snd made))
          = replicate 2 (Some (Msg ''bad descriptor''))"
proof -
  let ?f = "ExecConn (conn_demo WrapSocket) ''tart'' ''vm'' [''x''] []"
  let ?m = "ExecConn (conn_demo CloseConn) ''tart'' ''vm'' [''x''] []"
  obtain e t where f: "?f = (Inl e, t)" by (simp add: ExecConn_def conn_demo_def perform_def)
  obtain u where m: "?m = (Inr \<lparr>connClosed = False, closeErr = None\<rparr>, u)" by (simp add: ExecConn_def conn_demo_def perform_def)
  have "held (conn_demo WrapSocket) [] t (0, 0) = (0, 0)" using exec_conn_gives_back [OF f] by simp
  moreover have "fst (close_times (conn_demo CloseConn) (Suc 1) \<lparr>connClosed = False, closeErr = None\<rparr> u)
      = replicate (Suc 1) (conn_demo CloseConn u CloseConn)"
    using exec_conn_gives_back [OF m] unfolding sum.case by (metis fst_conv)
  ultimately show ?thesis using f m by (simp add: conn_demo_def numeral_2_eq_2)
qed

end
