(* ===== verification/Guest_Process.thy ===== *)
theory Guest_Process
  imports Effects Exec_Ops Exec_Log
begin

text \<open>
  The processes of the guest under \<open>Launch\<close>: the pipes and the fork (\<open>launch.go\<close>), the signal to a group (\<open>process_unix.go\<close>), the
  wait that does not reap (\<open>wait_supported.go\<close>), and the disposal of a process the registry did not accept.
\<close>

datatype pipe_end = OutRead | OutWrite | ErrRead | ErrWrite

datatype child_op =
    PipeOut
  | PipeErr
  | ForkChild "string list" "string list" string
  | CloseEnd pipe_end
  | SignalGroup int
  | WaitExited int
  | ReapChild int

record child_answer =
  caErr :: "err option"
  caPid :: int

type_synonym child_trace = "child_op list"
type_synonym child_world = "child_trace \<Rightarrow> child_op \<Rightarrow> child_answer"

section \<open>Forking\<close>

text \<open>\<open>closePipes\<close>, and the first half of it when the second pipe could not be made.\<close>

definition close_ends :: "child_world \<Rightarrow> pipe_end list \<Rightarrow> child_trace \<Rightarrow> child_trace" where
  "close_ends w xs tr = fold (\<lambda>x. attempt_op w (CloseEnd x)) xs tr"

text \<open>The part of \<open>Launch\<close> after its checks: the process, which leads its own group.\<close>

definition fork_child :: "child_world \<Rightarrow> string list \<Rightarrow> execSpec \<Rightarrow> child_trace \<Rightarrow> (err + int) \<times> child_trace" where
  "fork_child w environ spec tr =
     (let (a, tr1) = perform w PipeOut tr
      in case caErr a of
           Some e \<Rightarrow> (Inl (Wrapf ''guestexec: create stdout pipe: '' e []), tr1)
         | None \<Rightarrow>
             (let (b, tr2) = perform w PipeErr tr1
              in case caErr b of
                   Some e \<Rightarrow> (Inl (Wrapf ''guestexec: create stderr pipe: '' e []), close_ends w [OutRead, OutWrite] tr2)
                 | None \<Rightarrow>
                     (let (c, tr3) = perform w
                            (ForkChild (Command spec # Args spec) (mergedEnvironment environ (Env spec)) (WorkingDir spec)) tr2
                      in case caErr c of
                           Some e \<Rightarrow>
                             (Inl (Wrapf (''guestexec: start '' @ Quote (Command spec) @ '': '') e []),
                              close_ends w [OutRead, OutWrite, ErrRead, ErrWrite] tr3)
                         | None \<Rightarrow> (Inr (caPid c), close_ends w [OutWrite, ErrWrite] tr3))))"

definition Launch_os :: "child_world \<Rightarrow> string list \<Rightarrow> execSpec \<Rightarrow> child_trace \<Rightarrow> (err + int \<times> int) \<times> child_trace" where
  "Launch_os w environ spec tr =
     (if Command spec = [] then (Inl (Msg ''guestexec: command is required''), tr)
      else if \<not> filepath_IsAbs (Command spec) then (Inl (Msg ''guestexec: command path must be absolute''), tr)
      else (case fork_child w environ spec tr of (Inl e, tr1) \<Rightarrow> (Inl e, tr1) | (Inr pid, tr1) \<Rightarrow> (Inr (pid, pid), tr1)))"

section \<open>Signals and waits\<close>

text \<open>\<open>noSuch\<close> says which errors are \<open>ESRCH\<close>.\<close>

definition killProcessGroup :: "(err \<Rightarrow> bool) \<Rightarrow> child_world \<Rightarrow> int \<Rightarrow> child_trace \<Rightarrow> err option \<times> child_trace" where
  "killProcessGroup noSuch w grp tr =
     (if grp \<le> 1 then (Some (Msg (''refusing to kill unsafe process group '' @ Itoa grp)), tr)
      else let (a, tr1) = perform w (SignalGroup grp) tr
           in case caErr a of
                None \<Rightarrow> (None, tr1)
              | Some e \<Rightarrow> if noSuch e then (None, tr1) else (Some (Wrapf (''kill process group '' @ Itoa grp @ '': '') e []), tr1))"

text \<open>
  \<open>waitUntilExited\<close>: the results of its system calls, one after the other; \<open>None\<close> when none of them was conclusive.
  \<open>interrupted\<close> says which errors are \<open>EINTR\<close>.
\<close>

fun waitUntilExited :: "(err \<Rightarrow> bool) \<Rightarrow> int \<Rightarrow> err option list \<Rightarrow> err option option" where
  "waitUntilExited interrupted pid [] = None"
| "waitUntilExited interrupted pid (None # rest) = Some None"
| "waitUntilExited interrupted pid (Some e # rest) =
     (if interrupted e then waitUntilExited interrupted pid rest
      else Some (Some (Wrapf (''wait for process '' @ Itoa pid @ '' exit without reaping: '') e [])))"

definition waitUnsupported :: "int \<Rightarrow> err option" where
  "waitUnsupported pid = Some (Msg (''guestexec: non-reaping process wait is unsupported for process '' @ Itoa pid))"

definition processExitCode :: "int \<Rightarrow> int" where
  "processExitCode code = (if code < 0 \<or> 2147483647 < code then - 1 else code)"

text \<open>\<open>discardLaunched\<close>; its goroutine has run too.\<close>

definition discardLaunched :: "(err \<Rightarrow> bool) \<Rightarrow> child_world \<Rightarrow> int \<times> int \<Rightarrow> child_trace \<Rightarrow> child_trace" where
  "discardLaunched noSuch w launched tr =
     (let (pid, pg) = launched
      in attempt_op w (ReapChild pid) (attempt_op w (WaitExited pid)
           (close_ends w [OutRead, ErrRead] (snd (killProcessGroup noSuch w pg tr)))))"

text \<open>What the supervisor of a started process reports: \<open>joined\<close> is the text of the errors of both waits.\<close>

definition supervisor_report :: "(err \<Rightarrow> string) \<Rightarrow> int \<Rightarrow> err option \<Rightarrow> err option \<Rightarrow> int \<Rightarrow> exitReport" where
  "supervisor_report err_text pid observeErr waitErr code =
     \<lparr>erPID = pid, erExitCode = processExitCode code,
      erMessage = (case errors_Join [observeErr, waitErr] of None \<Rightarrow> [] | Some e \<Rightarrow> err_text e)\<rparr>"

section \<open>No pipe and no child is lost\<close>

text \<open>The pipe ends that are open and the children that were not reaped.\<close>

fun child_state :: "child_world \<Rightarrow> child_trace \<Rightarrow> child_op list \<Rightarrow> pipe_end set \<times> int set \<Rightarrow> pipe_end set \<times> int set" where
  "child_state w tr [] s = s"
| "child_state w tr (x # ops) (ends, kids) =
     child_state w (tr @ [x]) ops
       (case x of
          PipeOut \<Rightarrow> (if caErr (w tr x) = None then ends \<union> {OutRead, OutWrite} else ends, kids)
        | PipeErr \<Rightarrow> (if caErr (w tr x) = None then ends \<union> {ErrRead, ErrWrite} else ends, kids)
        | ForkChild a e d \<Rightarrow> (ends, if caErr (w tr x) = None then insert (caPid (w tr x)) kids else kids)
        | CloseEnd p \<Rightarrow> (ends - {p}, kids)
        | SignalGroup g \<Rightarrow> (ends, kids)
        | WaitExited p \<Rightarrow> (ends, kids)
        | ReapChild p \<Rightarrow> (ends, kids - {p}))"

lemma child_state_append: "child_state w tr (xs @ ys) s = child_state w (tr @ xs) ys (child_state w tr xs s)"
  by (induction w tr xs s rule: child_state.induct) simp_all

lemma close_ends_eq: "close_ends w xs tr = tr @ map CloseEnd xs"
  by (induction xs arbitrary: tr) (simp_all add: close_ends_def)

lemma killProcessGroup_trace:
  "snd (killProcessGroup noSuch w pg tr) = (if pg \<le> 1 then tr else tr @ [SignalGroup pg])"
  by (simp add: killProcessGroup_def perform_def Let_def split: option.split)

lemma Launch_os_refines:
  "fst (Launch_os w environ spec tr) = Launch spec (fst (fork_child w environ spec tr))"
  by (auto simp: Launch_os_def Launch_def split: sum.split prod.split)

lemma discarded:
  assumes "child_state w tr ops ({}, {}) = ({OutRead, ErrRead}, {pid})"
  shows "\<exists>more. discardLaunched noSuch w (pid, pid) (tr @ ops) = (tr @ ops) @ more
    \<and> child_state w tr (ops @ more) ({}, {}) = ({}, {}) \<and> (1 < pid \<longrightarrow> SignalGroup pid \<in> set more)"
proof -
  let ?more = "(if pid \<le> 1 then [] else [SignalGroup pid]) @ [CloseEnd OutRead, CloseEnd ErrRead, WaitExited pid, ReapChild pid]"
  have "child_state w (tr @ ops) ?more ({OutRead, ErrRead}, {pid}) = ({}, {})" by auto
  then have "child_state w tr (ops @ ?more) ({}, {}) = ({}, {})" by (simp only: child_state_append assms)
  then show ?thesis by (intro exI [of _ ?more]) (simp add: discardLaunched_def close_ends_eq killProcessGroup_trace)
qed

text \<open>
  C14. A launch leaks neither pipes nor processes. \<open>Launch\<close> with its system calls gives what the registry's model of it gives. When it
  fails, every pipe end it opened is closed and nothing was forked; when it succeeds one child runs and exactly the two read ends are
  open. Discarding a launched process then closes both, reaps the child, and signals its group unless that is 0 or 1.
\<close>

theorem launch_leaks_nothing:
  assumes "Launch_os w environ spec tr = (r, tr')"
  shows "r = Launch spec (fst (fork_child w environ spec tr))
    \<and> (\<exists>ops. tr' = tr @ ops
        \<and> (case r of
             Inl e \<Rightarrow> child_state w tr ops ({}, {}) = ({}, {})
           | Inr (pid, pg) \<Rightarrow> pg = pid \<and> child_state w tr ops ({}, {}) = ({OutRead, ErrRead}, {pid})
               \<and> (\<exists>more. discardLaunched noSuch w (pid, pg) tr' = tr' @ more
                    \<and> child_state w tr (ops @ more) ({}, {}) = ({}, {}) \<and> (1 < pg \<longrightarrow> SignalGroup pg \<in> set more))))"
proof -
  let ?f = "ForkChild (Command spec # Args spec) (mergedEnvironment environ (Env spec)) (WorkingDir spec)"
  note defs = Launch_os_def fork_child_def perform_def close_ends_eq Let_def
  let ?P = "\<lambda>ops. tr' = tr @ ops
        \<and> (case r of
             Inl e \<Rightarrow> child_state w tr ops ({}, {}) = ({}, {})
           | Inr (pid, pg) \<Rightarrow> pg = pid \<and> child_state w tr ops ({}, {}) = ({OutRead, ErrRead}, {pid})
               \<and> (\<exists>more. discardLaunched noSuch w (pid, pg) tr' = tr' @ more
                    \<and> child_state w tr (ops @ more) ({}, {}) = ({}, {}) \<and> (1 < pg \<longrightarrow> SignalGroup pg \<in> set more)))"
  have failed: "\<exists>ops. ?P ops" if "r = Inl e" "tr' = tr @ ops" "child_state w tr ops ({}, {}) = ({}, {})" for e ops
    using that by auto
  have "\<exists>ops. ?P ops"
  proof (cases "Command spec = [] \<or> \<not> filepath_IsAbs (Command spec)")
    case True
    then obtain e where "r = Inl e" "tr' = tr" using assms by (auto simp: Launch_os_def split: if_splits)
    then show ?thesis using failed [of e "[]"] by simp
  next
    case checks: False
    show ?thesis
    proof (cases "caErr (w tr PipeOut)")
      case (Some e)
      then have "\<exists>e. r = Inl e" "tr' = tr @ [PipeOut]" using assms checks by (auto simp: defs)
      then show ?thesis using failed [of _ "[PipeOut]"] Some by fastforce
    next
      case p1: None
      show ?thesis
      proof (cases "caErr (w (tr @ [PipeOut]) PipeErr)")
        case (Some e)
        let ?ops = "[PipeOut, PipeErr, CloseEnd OutRead, CloseEnd OutWrite]"
        have "child_state w tr ?ops ({}, {}) = ({}, {})" using Some p1 by auto
        moreover have "\<exists>e. r = Inl e" "tr' = tr @ ?ops" using assms checks p1 Some by (auto simp: defs)
        ultimately show ?thesis using failed [of _ ?ops] by blast
      next
        case p2: None
        show ?thesis
        proof (cases "caErr (w (tr @ [PipeOut, PipeErr]) ?f)")
          case (Some e)
          let ?ops = "[PipeOut, PipeErr, ?f, CloseEnd OutRead, CloseEnd OutWrite, CloseEnd ErrRead, CloseEnd ErrWrite]"
          have "child_state w tr ?ops ({}, {}) = ({}, {})" using Some p1 p2 by auto
          moreover have "\<exists>e. r = Inl e" "tr' = tr @ ?ops" using assms checks p1 p2 Some by (auto simp: defs)
          ultimately show ?thesis using failed [of _ ?ops] by blast
        next
          case p3: None
          let ?pid = "caPid (w (tr @ [PipeOut, PipeErr]) ?f)"
          let ?ops = "[PipeOut, PipeErr, ?f, CloseEnd OutWrite, CloseEnd ErrWrite]"
          have o: "child_state w tr ?ops ({}, {}) = ({OutRead, ErrRead}, {?pid})" using p1 p2 p3 by auto
          have ok: "r = Inr (?pid, ?pid)" "tr' = tr @ ?ops" using assms checks p1 p2 p3 by (simp_all add: defs)
          show ?thesis unfolding ok sum.case prod.case
            using discarded [OF o, of noSuch] o by (intro exI [of _ ?ops]) simp
        qed
      qed
    qed
  qed
  then show ?thesis using Launch_os_refines [of w environ spec tr] assms by simp
qed

text \<open>A machine that has run out of processes, and one that forks; the child it forks is then discarded.\<close>

definition fork_demo :: "err option \<Rightarrow> child_world" where
  "fork_demo e tr x = \<lparr>caErr = (case x of ForkChild a v d \<Rightarrow> e | _ \<Rightarrow> None), caPid = 42\<rparr>"

definition true_spec :: execSpec where
  "true_spec = \<lparr>specID = ''e'', specSlot = 0, specMeta = undefined, Command = ''/bin/true'', Args = [], Env = [], WorkingDir = []\<rparr>"

lemma launch_leaks_nothing_witness:
  "\<exists>tr more. Launch_os (fork_demo None) [] true_spec [] = (Inr (42, 42), tr)
     \<and> child_state (fork_demo None) [] tr ({}, {}) = ({OutRead, ErrRead}, {42})
     \<and> discardLaunched (\<lambda>e. False) (fork_demo None) (42, 42) tr = tr @ more
     \<and> child_state (fork_demo None) [] (tr @ more) ({}, {}) = ({}, {}) \<and> SignalGroup 42 \<in> set more"
proof -
  have a: "filepath_IsAbs ''/bin/true''" by code_simp
  obtain tr where l: "Launch_os (fork_demo None) [] true_spec [] = (Inr (42, 42), tr)"
    by (simp add: Launch_os_def fork_child_def perform_def fork_demo_def true_spec_def a)
  from launch_leaks_nothing [OF l, of "\<lambda>e. False"] show ?thesis using l by auto
qed

section \<open>A recycled process id\<close>

text \<open>
  The supervisor of a process reaps it and then reports its exit by its process id. In between the kernel may give the id to the
  process of another job. Both executions are then live owners of the id, and which one \<open>executionByPIDLocked\<close> finds is left to
  the iteration order of a Go map: with one order the first execution gets the report, with the other the second, whose process
  runs on.
\<close>

definition job_spec :: "string \<Rightarrow> 32 word \<Rightarrow> execSpec" where
  "job_spec name slot = true_spec\<lparr>specID := name, specSlot := slot\<rparr>"

theorem recycled_pid_is_ambiguous:
  "let (o1, e1, r1) = Register (newRegistry 0 0) (job_spec ''a'' 0) 7 7;
       (o2, e2, r2) = Register r1 (job_spec ''b'' 1) 7 7;
       rep = \<lparr>erPID = 7, erExitCode = 1, erMessage = []\<rparr>;
       inOrder = ReportExit r2 7 1 [];
       otherOrder = ReportExit (r2\<lparr>executions := rev (executions r2)\<rparr>) 7 1 []
   in o1 = OutcomeAccepted \<and> o2 = OutcomeAccepted
      \<and> exitReportChan (store inOrder ! 0) = Some rep \<and> exitReportChan (store inOrder ! 1) = None
      \<and> exitReportChan (store otherOrder ! 0) = None \<and> exitReportChan (store otherOrder ! 1) = Some rep"
proof -
  define x where "x n s = appendEventLocked (newExecution (job_spec n s) 7 7) (PhaseChange ''running'')" for n s
  have abs: "filepath_IsAbs ''/bin/true''" by code_simp
  have x: "processID (x n s) = 7" "running (x n s)" "\<not> reaped (x n s)" "\<not> exitReported (x n s)" "\<not> reapOnce (x n s)"
    "exitReportChan (x n s) = None" for n s
    by (simp_all add: x_def newExecution_def)
  have fields: "specID (job_spec n s) = n" "specSlot (job_spec n s) = s" "specError (job_spec n s) = (if n = [] then specError (job_spec [] s) else None)"
    for n s by (simp_all add: job_spec_def true_spec_def specError_def abs)
  define r1 where "r1 = (newRegistry 0 0)\<lparr>store := [x ''a'' 0], executions := [(''a'', 0)], rslots := [0 \<mapsto> ''a''], activeCount := 1\<rparr>"
  define r2 where "r2 = r1\<lparr>store := [x ''a'' 0, x ''b'' 1], executions := [(''a'', 0), (''b'', 1)], rslots := [0 \<mapsto> ''a'', 1 \<mapsto> ''b''],
      activeCount := 2\<rparr>"
  have 1: "Register (newRegistry 0 0) (job_spec ''a'' 0) 7 7 = (OutcomeAccepted, None, r1)"
    by (simp add: Register_def fields checkAdmissionLocked_def lookupExecution_def newRegistry_def r1_def x_def [symmetric])
  have 2: "Register r1 (job_spec ''b'' 1) 7 7 = (OutcomeAccepted, None, r2)"
    by (simp add: Register_def fields checkAdmissionLocked_def lookupExecution_def newRegistry_def r1_def r2_def x_def [symmetric])
  have s: "store r2 = [x ''a'' 0, x ''b'' 1]" "executions r2 = [(''a'', 0), (''b'', 1)]" by (simp_all add: r2_def)
  have "ReportExit r2 7 1 [] = upd_exec r2 0 (deliverReport \<lparr>erPID = 7, erExitCode = 1, erMessage = []\<rparr>)"
    by (simp add: ReportExit_def executionByPID_def s x exitStale_def)
  moreover have "ReportExit (r2\<lparr>executions := rev (executions r2)\<rparr>) 7 1 []
      = upd_exec (r2\<lparr>executions := rev (executions r2)\<rparr>) 1 (deliverReport \<lparr>erPID = 7, erExitCode = 1, erMessage = []\<rparr>)"
    by (simp add: ReportExit_def executionByPID_def s x exitStale_def)
  ultimately show ?thesis by (simp add: 1 2 s x upd_exec_def deliverReport_def)
qed

end
