(* ===== verification/Golden_Fetch.thy ===== *)
theory Golden_Fetch
  imports Provision_Props
begin

text \<open>
  What the golden builder fetches and reads on the host (\<open>internal/golden/build.go\<close>): the version of the runner, the digest of its
  tarball, the digest of a file, the copy of the binary. Requests, replies and SHA-256 are arguments. And why the runner that the
  provisioner installs in the guest is the one whose digest went into the fingerprint.
\<close>

definition runnerLatestURL :: string where
  "runnerLatestURL = ''https://api.github.com/repos/actions/runner/releases/latest''"

text \<open>The body of the reply decodes to the name of the tag.\<close>

definition ResolveRunnerVersion ::
  "(string \<Rightarrow> err option) \<Rightarrow> (string \<Rightarrow> err + nat \<times> (err + string)) \<Rightarrow> err + string" where
  "ResolveRunnerVersion newReq get =
     (case newReq runnerLatestURL of
        Some e \<Rightarrow> Inl (Wrapf ''golden: build runner request: '' e [])
      | None \<Rightarrow>
          (case get runnerLatestURL of
             Inl e \<Rightarrow> Inl (Wrapf ''golden: fetch latest runner: '' e [])
           | Inr (status, body) \<Rightarrow>
               if status \<noteq> 200 then Inl (Msg (''golden: latest runner status '' @ dec_nat status))
               else
                 (case body of
                    Inl e \<Rightarrow> Inl (Wrapf ''golden: decode runner release: '' e [])
                  | Inr tagName \<Rightarrow> Inr (TrimPrefix tagName ''v''))))"

definition runner_tarball_url :: "string \<Rightarrow> string" where
  "runner_tarball_url version =
     ''https://github.com/actions/runner/releases/download/v'' @ version @ ''/actions-runner-osx-arm64-'' @ version @ ''.tar.gz''"

definition downloadRunnerTarballDigest ::
  "(string \<Rightarrow> err option) \<Rightarrow> (string \<Rightarrow> err + nat \<times> string \<times> err option) \<Rightarrow> (string \<Rightarrow> string) \<Rightarrow> string \<Rightarrow> err + string" where
  "downloadRunnerTarballDigest newReq get sha version =
     (let url = runner_tarball_url version
      in case newReq url of
           Some e \<Rightarrow> Inl (Wrapf ''golden: build runner tarball request: '' e [])
         | None \<Rightarrow>
             (case get url of
                Inl e \<Rightarrow> Inl (Wrapf (''golden: fetch runner tarball '' @ url @ '': '') e [])
              | Inr (status, bytes, rerr) \<Rightarrow>
                  if status \<noteq> 200
                  then Inl (Wrapf (''golden: fetch runner tarball '' @ url @ '': '') (Msg (''status '' @ dec_nat status)) [])
                  else
                    (case rerr of
                       Some e \<Rightarrow> Inl (Wrapf ''golden: hash runner tarball: '' e [])
                     | None \<Rightarrow> Inr (sha bytes))))"

text \<open>The content is what reading gives when the file is opened; \<open>rerr\<close> is the error that reading on ends in.\<close>

definition sha256File :: "os_env \<Rightarrow> (string \<Rightarrow> string) \<Rightarrow> err option \<Rightarrow> string \<Rightarrow> string sys" where
  "sha256File E sha rerr p d =
     sbind (wrapping (''golden: open '' @ p @ '': '') (os_ReadFile E p d)) (\<lambda>content d1.
       case rerr of
         Some e \<Rightarrow> (Inl (Wrapf (''golden: digest '' @ p @ '': '') e []), d1)
       | None \<Rightarrow> (Inr (sha content), d1))"

definition golden_copyFileMode :: "os_env \<Rightarrow> string \<Rightarrow> string \<Rightarrow> nat \<Rightarrow> unit sys" where
  "golden_copyFileMode E source dest mode d =
     (let destDir = filepath_Dir dest
      in sbind (wrapping (''golden: create dir '' @ destDir @ '': '') (os_MkdirAll E destDir 493 d)) (\<lambda>_ d1.
         sbind (wrapping (''golden: open source '' @ source @ '': '') (os_ReadFile E source d1)) (\<lambda>content d2.
         sbind (wrapping (''golden: create temp in '' @ destDir @ '': '') (os_CreateTemp E destDir d2)) (\<lambda>(tempPath, i) d3.
           replace_through E
             (''golden: copy to '' @ tempPath @ '': '', ''golden: chmod '' @ tempPath @ '': '', ''golden: close '' @ tempPath @ '': '')
             (''golden: rename to '' @ dest @ '': '') tempPath i content mode dest d3))))"

section \<open>One runner on both sides\<close>

lemma same_url: "runner_tarball_url = provisionRunnerURL"
  by (simp add: fun_eq_iff runner_tarball_url_def provisionRunnerURL_def)

lemma host_digest:
  "downloadRunnerTarballDigest newReq get sha version = Inr digest \<Longrightarrow>
     \<exists>bytes. get (runner_tarball_url version) = Inr (200, bytes, None) \<and> digest = sha bytes"
  by (auto simp: downloadRunnerTarballDigest_def Let_def split: option.splits sum.splits prod.splits if_splits)

lemma guest_runner:
  assumes "installRunner E P (downloadRunnerTarball P) version digest dir d = (Inr (), d')"
  shows "\<exists>bytes. httpGet P (provisionRunnerURL version) = Inr (200, bytes, None) \<and> sha256hex P bytes = digest"
proof -
  obtain body where b: "downloadRunnerTarball P version = Inr body" using assms
    by (auto simp: installRunner_def split: sum.splits)
  obtain i d1 where t: "fst (runner_from_temp E P i body digest dir d1) = Inr ()"
  proof -
    obtain r1 d1 where c: "os_CreateTemp E (tempDir P) d = (r1, d1)" by fastforce
    then obtain tp i where r1: "r1 = Inr (tp, i)" using assms b
      by (cases r1) (auto simp: installRunner_def sbind_wrapping)
    obtain r2 d2 where x: "runner_from_temp E P i body digest dir d1 = (r2, d2)" by fastforce
    then have "r2 = Inr ()" using assms b c r1 by (simp add: installRunner_def sbind_wrapping)
    then show thesis using that [of i d1] x by simp
  qed
  then have "snd body = None" "sha256hex P (fst body) = digest"
    by (auto simp: runner_from_temp_def sbind_wrapping copy_body_def sbind_def Let_def split: sum.splits prod.splits option.splits if_splits)
  moreover have "httpGet P (provisionRunnerURL version) = Inr (200, body)" using b
    by (auto simp: downloadRunnerTarball_def Let_def split: option.splits sum.splits if_splits)
  ultimately show ?thesis by (cases body) auto
qed



end
