(* ===== verification/Guest_Client.thy ===== *)
theory Guest_Client
  imports Guest_Transport Guest_Agent
begin

text \<open>
  A call of the host's guest client (\<open>internal/guestclient\<close>) on its way to the agent: the stub that names its procedure and the
  adapter that procedure is registered with (\<open>guest.connect.go\<close>), the token the client's interceptor adds and the check in front of
  the agent's handlers (\<open>internal/guesttransport\<close>), and the handlers (\<open>internal/guestagent\<close>). HTTP/2, Connect's framing and the
  codec of the messages are left out: a message arrives as it was sent.
\<close>

section \<open>Messages and procedures\<close>

datatype guest_request =
    HelloRequest
  | RunJobRequest runJobRequest
  | JobStatusRequest string "64 word"
  | ReattachRequest
  | DrainRequest
  | CancelJobRequest string

datatype guest_response =
    HelloResponse helloResponse
  | RunJobResponse pb_outcome
  | JobStatusEvents "jobStatusEvent list"
  | ReattachResponse "executionState list"
  | DrainResponse drainState
  | CancelJobResponse

definition GuestAgentServiceName :: string where "GuestAgentServiceName = ''gha.guest.v1.GuestAgentService''"

definition HelloProcedure :: string where "HelloProcedure = ''/gha.guest.v1.GuestAgentService/Hello''"
definition RunJobProcedure :: string where "RunJobProcedure = ''/gha.guest.v1.GuestAgentService/RunJob''"
definition JobStatusProcedure :: string where "JobStatusProcedure = ''/gha.guest.v1.GuestAgentService/JobStatus''"
definition ReattachProcedure :: string where "ReattachProcedure = ''/gha.guest.v1.GuestAgentService/Reattach''"
definition DrainProcedure :: string where "DrainProcedure = ''/gha.guest.v1.GuestAgentService/Drain''"
definition CancelJobProcedure :: string where "CancelJobProcedure = ''/gha.guest.v1.GuestAgentService/CancelJob''"

lemmas procedures = HelloProcedure_def RunJobProcedure_def JobStatusProcedure_def ReattachProcedure_def DrainProcedure_def
  CancelJobProcedure_def

section \<open>The agent behind its handlers\<close>

text \<open>What the spec builder, the fork and the signal of a group answer, and the options of the handler.\<close>

record agent_env =
  aeHandler :: handler
  aeBuild :: "jobRequest \<Rightarrow> err + execSpec"
  aeFork :: "execSpec \<Rightarrow> err + int"
  aeKill :: "int \<Rightarrow> err option"

type_synonym guest_reply = "rpc_error + guest_response"

definition JobStatus_now :: "registry \<Rightarrow> string \<Rightarrow> 64 word \<Rightarrow> rpc_error + jobStatusEvent list" where
  "JobStatus_now r i from =
     (case Subscribe r i of
        Inl e \<Rightarrow> Inl (mapRegistryError e)
      | Inr u \<Rightarrow> Inr (JobStatus_send (drop (unat from) (events (store r ! u)))))"

text \<open>
  The adapters: each receives its own message and sends the answer of its handler. A call that is alone sees one registry at
  each of its lock points, and a status stream what the log holds.
\<close>

definition hello_adapter :: "agent_env \<Rightarrow> guest_request \<Rightarrow> registry \<Rightarrow> guest_reply \<times> registry" where
  "hello_adapter A rq r = (Inr (HelloResponse (Hello (aeHandler A) r)), r)"

definition runJob_adapter :: "agent_env \<Rightarrow> guest_request \<Rightarrow> registry \<Rightarrow> guest_reply \<times> registry" where
  "runJob_adapter A rq r =
     (case rq of
        RunJobRequest q \<Rightarrow>
          (let jr = jobRequestOf q;
               built = aeBuild A jr;
               forked = (case built of Inl e \<Rightarrow> Inl e | Inr spec \<Rightarrow> aeFork A spec)
           in case RunJob r r r jr built forked of
                (Inl e, r', _) \<Rightarrow> (Inl e, r')
              | (Inr outcome, r', _) \<Rightarrow> (Inr (RunJobResponse outcome), r'))
      | _ \<Rightarrow> (Inl (RpcError CodeInternal (Msg ''message'')), r))"

definition jobStatus_adapter :: "agent_env \<Rightarrow> guest_request \<Rightarrow> registry \<Rightarrow> guest_reply \<times> registry" where
  "jobStatus_adapter A rq r =
     (case rq of
        JobStatusRequest i from \<Rightarrow>
          (case JobStatus_now r i from of Inl e \<Rightarrow> (Inl e, r) | Inr evs \<Rightarrow> (Inr (JobStatusEvents evs), r))
      | _ \<Rightarrow> (Inl (RpcError CodeInternal (Msg ''message'')), r))"

definition reattach_adapter :: "agent_env \<Rightarrow> guest_request \<Rightarrow> registry \<Rightarrow> guest_reply \<times> registry" where
  "reattach_adapter A rq r = (Inr (ReattachResponse (Reattach r)), r)"

definition drain_adapter :: "agent_env \<Rightarrow> guest_request \<Rightarrow> registry \<Rightarrow> guest_reply \<times> registry" where
  "drain_adapter A rq r = (let (d, r') = Drain_rpc r in (Inr (DrainResponse d), r'))"

definition cancelJob_adapter :: "agent_env \<Rightarrow> guest_request \<Rightarrow> registry \<Rightarrow> guest_reply \<times> registry" where
  "cancelJob_adapter A rq r =
     (case rq of
        CancelJobRequest i \<Rightarrow>
          (case CancelJob r i (aeKill A) of (Some e, r') \<Rightarrow> (Inl e, r') | (None, r') \<Rightarrow> (Inr CancelJobResponse, r'))
      | _ \<Rightarrow> (Inl (RpcError CodeInternal (Msg ''message'')), r))"

text \<open>\<open>RegisterGuestAgentServiceHandler\<close>: the table of the server; a procedure that is not in it is unknown.\<close>

definition registered :: "(string \<times> (agent_env \<Rightarrow> guest_request \<Rightarrow> registry \<Rightarrow> guest_reply \<times> registry)) list" where
  "registered =
     [(HelloProcedure, hello_adapter), (RunJobProcedure, runJob_adapter), (JobStatusProcedure, jobStatus_adapter),
      (ReattachProcedure, reattach_adapter), (DrainProcedure, drain_adapter), (CancelJobProcedure, cancelJob_adapter)]"

definition dispatch :: "agent_env \<Rightarrow> string \<Rightarrow> guest_request \<Rightarrow> registry \<Rightarrow> guest_reply \<times> registry" where
  "dispatch A procedure rq r =
     (case map_of registered procedure of
        None \<Rightarrow> (Inl (RpcError CodeNotFound (Msg ''unknown procedure'')), r)
      | Some adapter \<Rightarrow> adapter A rq r)"

section \<open>The client\<close>

text \<open>An error of a call: the connection was refused for want of the token, or the agent answered with an error. The client wraps it.\<close>

datatype call_error = NoCall err | Refused | RpcFailed rpc_error
datatype client_error = ClientError string call_error

text \<open>The generated stub over the transport, with the token of the client and that of the server.\<close>

definition call_rpc ::
  "(string \<Rightarrow> 'h) \<Rightarrow> string \<Rightarrow> string \<Rightarrow> agent_env \<Rightarrow> string \<Rightarrow> guest_request \<Rightarrow> registry \<Rightarrow> (call_error + guest_response) \<times> registry" where
  "call_rpc hash clientToken serverToken A procedure rq r =
     (case NewClientAuthInterceptor clientToken Inr (Some (\<lambda>_. [])) of
        Inl e \<Rightarrow> (Inl (NoCall e), r)
      | Inr header \<Rightarrow>
          (case requireBearerToken hash (\<lambda>h. dispatch A procedure rq) serverToken header r of
             (Unauthenticated, r') \<Rightarrow> (Inl Refused, r')
           | (Answered (Inl e), r') \<Rightarrow> (Inl (RpcFailed e), r')
           | (Answered (Inr x), r') \<Rightarrow> (Inr x, r')))"

definition wrap_call :: "string \<Rightarrow> (call_error + guest_response) \<times> registry \<Rightarrow> (client_error + guest_response) \<times> registry" where
  "wrap_call what m =
     (case m of (Inl e, r) \<Rightarrow> (Inl (ClientError (''guestclient '' @ what @ '': '') e), r) | (Inr x, r) \<Rightarrow> (Inr x, r))"

text \<open>What reaches the agent: the hash, the two tokens, and the agent.\<close>

record 'h link =
  lkHash :: "string \<Rightarrow> 'h"
  lkClient :: string
  lkServer :: string
  lkAgent :: agent_env

definition over_link :: "'h link \<Rightarrow> string \<Rightarrow> guest_request \<Rightarrow> registry \<Rightarrow> (call_error + guest_response) \<times> registry" where
  "over_link k procedure rq r = call_rpc (lkHash k) (lkClient k) (lkServer k) (lkAgent k) procedure rq r"

definition client_Hello :: "'h link \<Rightarrow> registry \<Rightarrow> (client_error + guest_response) \<times> registry" where
  "client_Hello k r = wrap_call ''hello'' (over_link k HelloProcedure HelloRequest r)"

definition client_RunJob :: "'h link \<Rightarrow> runJobRequest \<Rightarrow> registry \<Rightarrow> (client_error + guest_response) \<times> registry" where
  "client_RunJob k q r = wrap_call ''run job'' (over_link k RunJobProcedure (RunJobRequest q) r)"

definition client_JobStatus :: "'h link \<Rightarrow> string \<Rightarrow> 64 word \<Rightarrow> registry \<Rightarrow> (client_error + guest_response) \<times> registry" where
  "client_JobStatus k i from r = wrap_call ''job status'' (over_link k JobStatusProcedure (JobStatusRequest i from) r)"

definition client_Reattach :: "'h link \<Rightarrow> registry \<Rightarrow> (client_error + guest_response) \<times> registry" where
  "client_Reattach k r = wrap_call ''reattach'' (over_link k ReattachProcedure ReattachRequest r)"

definition client_Drain :: "'h link \<Rightarrow> registry \<Rightarrow> (client_error + guest_response) \<times> registry" where
  "client_Drain k r = wrap_call ''drain'' (over_link k DrainProcedure DrainRequest r)"

definition client_CancelJob :: "'h link \<Rightarrow> string \<Rightarrow> registry \<Rightarrow> (client_error + guest_response) \<times> registry" where
  "client_CancelJob k i r = wrap_call ''cancel job'' (over_link k CancelJobProcedure (CancelJobRequest i) r)"

section \<open>Each call reaches its own handler\<close>

lemma over_link_eq:
  assumes "\<And>t. lkHash k t = lkHash k (lkServer k) \<Longrightarrow> t = lkServer k"
  shows "over_link k procedure rq r =
    (if lkClient k = lkServer k
     then (case dispatch (lkAgent k) procedure rq r of (Inl e, r') \<Rightarrow> (Inl (RpcFailed e), r') | (Inr x, r') \<Rightarrow> (Inr x, r'))
     else (Inl Refused, r))"
proof -
  let ?header = "(\<lambda>_. [])(authorizationHeader := bearerPrefix @ lkClient k)"
  have "validAuthorization (lkHash k) ?header (lkServer k) = (lkClient k = lkServer k)"
    using assms [of "lkClient k"] by (auto simp: validAuthorization_def validAuthorizationValue_def CutPrefix_def HasPrefix_def)
  then show ?thesis
    by (simp add: over_link_def call_rpc_def NewClientAuthInterceptor_def requireBearerToken_def split: prod.split sum.split)
qed

lemma dispatch_own:
  "dispatch A HelloProcedure rq = hello_adapter A rq" "dispatch A RunJobProcedure rq = runJob_adapter A rq"
  "dispatch A JobStatusProcedure rq = jobStatus_adapter A rq" "dispatch A ReattachProcedure rq = reattach_adapter A rq"
  "dispatch A DrainProcedure rq = drain_adapter A rq" "dispatch A CancelJobProcedure rq = cancelJob_adapter A rq"
  by (simp_all add: fun_eq_iff dispatch_def registered_def procedures)


text \<open>A host with the agent's token, and one with the token of an earlier boot.\<close>

definition demo_agent :: agent_env where
  "demo_agent =
     \<lparr>aeHandler = \<lparr>hSlotCount = 1, hBootID = ''b'', hAgentBuild = ''dev'', hGoldenFingerprint = ''f''\<rparr>,
      aeBuild = (\<lambda>jr. Inl (Msg [])), aeFork = (\<lambda>s. Inl (Msg [])), aeKill = (\<lambda>g. None)\<rparr>"

definition demo_link :: "string \<Rightarrow> string link" where
  "demo_link t = \<lparr>lkHash = id, lkClient = t, lkServer = ''now'', lkAgent = demo_agent\<rparr>"


end
