(* ===== verification/Pool_Drain.thy ===== *)
theory Pool_Drain
  imports Pool_Props
begin

text \<open>
  The wait of \<open>Shutdown\<close> (\<open>p.wg.Wait\<close>): once the pool shuts down and its context is done, its goroutines end. Their steps
  are those of \<open>Pool_Machine\<close>, in which the calls of the warmer and of the runner return.
\<close>

section \<open>Steps of the goroutines alone\<close>

text \<open>
  A step of a worker or a slot, with nothing from outside. The one choice left out is the retry of a failed warm, whose select
  prefers a timer started for \<open>WarmRetryDelay\<close> over the context that is done already.
\<close>

inductive drain_step :: "sys \<Rightarrow> sys \<Rightarrow> bool" where
  ds_worker: "worker_step i s w' s' \<Longrightarrow> \<not> (W s i = WRetry \<and> w' = WWarm) \<Longrightarrow> drain_step s (s'\<lparr>W := (W s')(i := w')\<rparr>)"
| ds_slot: "slot_step i k s q' s' \<Longrightarrow> drain_step s (s'\<lparr>S := (S s')(i := (S s' i)(k := q'))\<rparr>)"

inductive drain_runs :: "sys \<Rightarrow> sys \<Rightarrow> bool" where
  dr_refl: "drain_runs s s"
| dr_step: "drain_runs s t \<Longrightarrow> drain_step t u \<Longrightarrow> drain_runs s u"

text \<open>All goroutines have ended.\<close>

definition drained :: "sys \<Rightarrow> bool" where
  "drained s = (\<forall>i. W s i \<in> {WOff, WDone} \<and> (\<forall>k. S s i k \<in> {SNone, SEnd}))"

lemma drain_pool_step: "drain_step s t \<Longrightarrow> pool_step s t"
  by (induction rule: drain_step.induct) (auto intro: p_worker p_slot)

section \<open>A context that is done stays done\<close>

definition keeps_done :: "ctxs \<Rightarrow> ctxs \<Rightarrow> bool" where
  "keeps_done cs cs' = (\<forall>j. ctx_done cs j \<longrightarrow> ctx_done cs' j)"

lemma keeps_done_refl [simp]: "keeps_done cs cs"
  by (simp add: keeps_done_def)

lemma keeps_done_trans: "keeps_done cs ds \<Longrightarrow> keeps_done ds es \<Longrightarrow> keeps_done cs es"
  by (simp add: keeps_done_def)

lemma keeps_done_cancel [simp]: "keeps_done cs (ctx_cancel cs i c)"
  by (simp add: keeps_done_def ctx_done_cancel_mono)

lemma done_length: "ctx_done cs j \<Longrightarrow> j < length cs"
  by (auto simp: ctx_done_def ctx_cause.simps [of cs j] split: if_splits)

lemma keeps_done_new: "ctx_new cs p = (cs', c) \<Longrightarrow> keeps_done cs cs'"
  by (auto simp: keeps_done_def ctx_new_def ctx_done_def ctx_cause_append done_length [unfolded ctx_done_def])

lemma keeps_done_resetSlots [simp]: "keeps_done cs (fst (resetSlots cs ss))"
  by (induction ss arbitrary: cs) (auto simp: Let_def split_beta split: option.splits intro: keeps_done_trans [OF keeps_done_cancel])

lemma keeps_done_resetTo [simp]: "keeps_done cs (fst (resetWorkerSlotsToLocked cs st n))"
  by (simp add: resetWorkerSlotsToLocked_def Let_def split_beta)

lemma keeps_done_ops [simp]:
  "keeps_done (contexts p) (contexts (markWarming p i))" "keeps_done (contexts p) (contexts (markWarmError p i e))"
  "keeps_done (contexts p) (contexts (activateWorker p i v n now))" "keeps_done (contexts p) (contexts (clearWorker p i))"
  "keeps_done (contexts p) (contexts (finishSlotJob p i k v r now))"
  "keeps_done (contexts p) (contexts (recycleWorkerFreeingSlot p i k v r))"
  "keeps_done (contexts p) (contexts (snd (endResume p i k v r now)))"
  by (auto simp: markWarming_def markWarmError_def activateWorker_def clearWorker_def finishSlotJob_def recycleWorkerFreeingSlot_def
      endResume_def resetWorkerSlotsLocked_def Let_def split_beta split: option.splits)

lemma poolCtx_ops [simp]:
  "poolCtx (markWarming p i) = poolCtx p" "poolCtx (markWarmError p i e) = poolCtx p"
  "poolCtx (activateWorker p i v n now) = poolCtx p" "poolCtx (clearWorker p i) = poolCtx p"
  "poolCtx (finishSlotJob p i k v r now) = poolCtx p" "poolCtx (recycleWorkerFreeingSlot p i k v r) = poolCtx p"
  "poolCtx (snd (endResume p i k v r now)) = poolCtx p"
  by (auto simp: markWarming_def markWarmError_def activateWorker_def clearWorker_def finishSlotJob_def recycleWorkerFreeingSlot_def
      endResume_def Let_def split_beta split: option.splits)

text \<open>What a shutdown leaves to wait for.\<close>

definition stopping :: "pool \<Rightarrow> bool" where
  "stopping p = (shuttingDown p \<and> (\<exists>c. poolCtx p = Some c \<and> ctx_done (contexts p) c))"

lemma stopping_sections:
  "stopping p \<Longrightarrow> waitForWorkerRecycleOrShutdown p c i v = (WorkerReturns False False, p)"
  "stopping p \<Longrightarrow> claimResumeSlot p c i k v = (None, p)"
  "stopping p \<Longrightarrow> waitForSlotJob p c i k v now = (SlotStopped, p)"
  by (simp_all add: stopping_def waitForWorkerRecycleOrShutdown_def claimResumeSlot_def waitForSlotJob_def)

lemma worker_contexts: "worker_step i s w' s' \<Longrightarrow> stopping (P s) \<Longrightarrow>
    poolCtx (P s') = poolCtx (P s) \<and> keeps_done (contexts (P s)) (contexts (P s'))"
  by (induction rule: worker_step.induct)
     (auto simp: stopping_sections nextID_def Let_def split_beta dest: keeps_done_new)

lemma slot_contexts: "slot_step i k s q' s' \<Longrightarrow> stopping (P s) \<Longrightarrow>
    poolCtx (P s') = poolCtx (P s) \<and> keeps_done (contexts (P s)) (contexts (P s'))"
proof (induction rule: slot_step.induct)
  case (s_resumeEnds s i k v c e now cont p')
  then show ?case using keeps_done_ops(7) [of "P s" i k v e now] poolCtx_ops(7) [of "P s" i k v e now] by simp
qed (auto simp: stopping_sections)

lemma stopping_step: "drain_step s t \<Longrightarrow> stopping (P s) \<Longrightarrow> stopping (P t)"
proof (induction rule: drain_step.induct)
  case (ds_worker i s w' s')
  then show ?case using worker_contexts [of i s w' s'] shutdown_worker_step [of i s w' s']
    by (auto simp: stopping_def keeps_done_def)
next
  case (ds_slot i k s q' s')
  then show ?case using slot_contexts [of i k s q' s'] shutdown_slot_step [of i k s q' s']
    by (auto simp: stopping_def keeps_done_def)
qed

section \<open>Every slot of a serving worker has its goroutine\<close>

definition slots_spawned :: "sys \<Rightarrow> bool" where
  "slots_spawned s = (\<forall>i v c n k. serving (W s i) = Some (v, c, n) \<longrightarrow> k < n \<longrightarrow> S s i k \<noteq> SNone)"

lemma worker_spawns: "worker_step i s w' s' \<Longrightarrow>
    (\<forall>j. j \<noteq> i \<longrightarrow> S s' j = S s j) \<and> (S s' i = S s i \<and> (serving w' = serving (W s i) \<or> serving w' = None)
      \<or> (\<exists>v c n. serving w' = Some (v, c, n) \<and> (\<forall>k < n. S s' i k \<noteq> SNone)))"
  by (induction rule: worker_step.induct) auto

lemma slot_spawned: "slot_step i k s q' s' \<Longrightarrow> q' \<noteq> SNone \<and> S s' = S s"
  by (induction rule: slot_step.induct) auto

lemma slots_spawned_worker:
  assumes "worker_step i s w' s'" and "slots_spawned s"
  shows "slots_spawned (s'\<lparr>W := (W s')(i := w')\<rparr>)"
  unfolding slots_spawned_def
proof (intro allI impI)
  fix j v c n k
  assume srv: "serving (W (s'\<lparr>W := (W s')(i := w')\<rparr>) j) = Some (v, c, n)" and k: "k < n"
  show "S (s'\<lparr>W := (W s')(i := w')\<rparr>) j k \<noteq> SNone"
  proof (cases "j = i")
    case True
    have "serving w' = Some (v, c, n)" using srv True by simp
    then show ?thesis using worker_spawns [OF assms(1)] assms(2) k True unfolding slots_spawned_def by fastforce
  next
    case False
    then show ?thesis using worker_spawns [OF assms(1)] frame_worker_step [OF assms(1)] assms(2) srv k
      unfolding slots_spawned_def by auto
  qed
qed

lemma slots_spawned_step: "pool_step s s' \<Longrightarrow> ctrl_inv s \<Longrightarrow> slots_spawned s \<Longrightarrow> slots_spawned s'"
proof (induction rule: pool_step.induct)
  case (p_worker i s w' s')
  then show ?case by (intro slots_spawned_worker)
next
  case (p_slot i k s q' s')
  then show ?case using slot_spawned [OF p_slot(1)] frame_slot_step [OF p_slot(1)] unfolding slots_spawned_def by auto
qed (auto simp: slots_spawned_def split: if_splits)

lemma reachable_spawned: "reachable opts s \<Longrightarrow> slots_spawned s"
proof (induction rule: reachable.induct)
  case reach_init
  then show ?case by (simp add: slots_spawned_def init_sys_def)
next
  case (reach_step s s')
  then show ?case using slots_spawned_step reachable_ctrl_inv by blast
qed

section \<open>No goroutine is stuck\<close>

lemma slot_moves:
  assumes "stopping (P s)" and "S s i k \<notin> {SNone, SEnd}"
  shows "\<exists>q' s'. slot_step i k s q' s'"
proof (cases "S s i k")
  case (SResumed v c e)
  obtain cont p' where "endResume (P s) i k v e time_zero = (cont, p')" by fastforce
  with SResumed show ?thesis by (blast intro: s_resumeEnds)
next
  case (SResume v c)
  then show ?thesis using s_noResume [OF SResume stopping_sections(2) [OF assms(1)]] by blast
next
  case (SWait v c)
  then show ?thesis using s_stop [OF SWait stopping_sections(3) [OF assms(1)]] by blast
qed (use assms in \<open>auto intro: slot_step.intros\<close>)

lemma worker_moves:
  assumes "stopping (P s)" and "slots_spawned s" and "W s i \<notin> {WOff, WDone}"
  shows "\<exists>t. drain_step s t"
proof -
  obtain pc where pc: "poolCtx (P s) = Some pc" "ctx_done (contexts (P s)) pc" using assms(1) by (auto simp: stopping_def)
  have "(\<exists>w' s'. worker_step i s w' s' \<and> \<not> (W s i = WRetry \<and> w' = WWarm)) \<or> (\<exists>k q' s'. slot_step i k s q' s')"
  proof (cases "W s i")
    case WClaim
    then show ?thesis by (cases "claimWorker (P s) i") (auto intro: w_claim w_noclaim)
  next
    case WName
    obtain ident p' where "nextID (P s) = (ident, p')" by fastforce
    with WName show ?thesis by (auto intro: w_name)
  next
    case (WOpts ident)
    obtain img n d where "warmRequestOptions (P s) = (img, n, d)" by (cases "warmRequestOptions (P s)") auto
    with WOpts show ?thesis by (auto intro: w_opts)
  next
    case WRetry
    with pc show ?thesis by (intro disjI1 exI conjI) (rule w_giveUp, auto)
  next
    case (WSpawn v)
    obtain cs c where "ctx_new (contexts (P s)) pc = (cs, c)" by fastforce
    with WSpawn pc show ?thesis by (auto intro: w_spawn)
  next
    case (WServe v c n)
    then show ?thesis using w_wait [OF WServe pc(1) stopping_sections(1) [OF assms(1)]] by auto
  next
    case (WDrain v c n r ok)
    show ?thesis
    proof (cases "\<forall>k < n. S s i k = SEnd")
      case True
      with WDrain show ?thesis by (auto intro: w_join)
    next
      case False
      then obtain k where "k < n" "S s i k \<noteq> SEnd" by auto
      moreover have "S s i k \<noteq> SNone" using assms(2) WDrain \<open>k < n\<close> by (auto simp: slots_spawned_def)
      ultimately show ?thesis using slot_moves [OF assms(1), of i k] by blast
    qed
  qed (use assms(3) in \<open>auto dest: w_mark w_warmErr w_activate w_cancel w_teardown w_clear\<close>)
  then show ?thesis by (auto intro: ds_worker ds_slot)
qed

lemma stuck_is_drained:
  assumes "ctrl_inv s" and "slots_spawned s" and "stopping (P s)" and "\<forall>t. \<not> drain_step s t"
  shows "drained s"
proof -
  have w: "W s i \<in> {WOff, WDone}" for i using worker_moves [OF assms(3,2)] assms(4) by blast
  have "S s i k \<in> {SNone, SEnd}" for i k
    using slot_moves [OF assms(3), of i k] assms(4) by (blast intro: ds_slot)
  with w show ?thesis by (simp add: drained_def)
qed

section \<open>The steps come to an end\<close>

text \<open>
  How far a worker is from its end once the pool stops: a recycle that is under way tears its VM down first and may warm
  once more, and every wait after that returns for the shutdown.
\<close>

fun wrank :: "wpc \<Rightarrow> nat" where
  "wrank WOff = 0"
| "wrank WDone = 0"
| "wrank (WClear r ok) = (if r \<and> ok then 12 else 1)"
| "wrank WRetry = 2"
| "wrank (WDrain v c n r ok) = (if r then 14 else 2)"
| "wrank (WCancel v c n r ok) = (if r then 15 else 3)"
| "wrank (WServe v c n) = 4"
| "wrank (WSpawn v) = 5"
| "wrank (WActivate v n) = 6"
| "wrank (WWarming ident img n) = 7"
| "wrank (WOpts ident) = 8"
| "wrank WName = 9"
| "wrank WWarm = 10"
| "wrank WClaim = 11"
| "wrank (WTeardown v ok) = 13"

fun srank :: "spc \<Rightarrow> nat" where
  "srank (SResume v c) = 4"
| "srank (SResuming v c jc) = 3"
| "srank (SResumed v c e) = 2"
| "srank (SWait v c) = 1"
| "srank (SRun v c j jc) = 3"
| "srank (SFinish v c j e) = 2"
| "srank (SStall v c e) = 1"
| "srank _ = 0"

fun slots_of :: "wpc \<Rightarrow> nat" where
  "slots_of (WServe v c n) = n"
| "slots_of (WCancel v c n r ok) = n"
| "slots_of (WDrain v c n r ok) = n"
| "slots_of _ = 0"

definition live :: "sys \<Rightarrow> nat set" where
  "live s = {i. W s i \<noteq> WOff}"

definition drain_rank :: "sys \<Rightarrow> nat \<times> nat" where
  "drain_rank s = (\<Sum>i\<in>live s. wrank (W s i), \<Sum>i\<in>live s. \<Sum>k\<in>{..<slots_of (W s i)}. srank (S s i k))"

lemma worker_rank: "worker_step i s w' s' \<Longrightarrow> stopping (P s) \<Longrightarrow> \<not> (W s i = WRetry \<and> w' = WWarm) \<Longrightarrow>
    wrank w' < wrank (W s i) \<and> W s i \<noteq> WOff \<and> w' \<noteq> WOff"
  by (induction rule: worker_step.induct) (auto simp: stopping_sections)

lemma slot_rank: "slot_step i k s q' s' \<Longrightarrow> stopping (P s) \<Longrightarrow>
    srank q' < srank (S s i k) \<and> (\<exists>v c. spc_on (S s i k) = Some (v, c))"
  by (induction rule: slot_step.induct) (auto simp: stopping_sections)

lemma finite_live: "ctrl_inv s \<Longrightarrow> finite (live s)"
  by (rule finite_subset [of _ "{..< length (states (P s))}"]) (auto simp: live_def ctrl_inv_def)

lemma sum_less: "finite A \<Longrightarrow> i \<in> A \<Longrightarrow> f i < g i \<Longrightarrow> (\<And>j. j \<noteq> i \<Longrightarrow> f j = g j) \<Longrightarrow> sum f A < (sum g A :: nat)"
  by (rule sum_strict_mono_ex1) (auto, metis order_refl less_imp_le)

lemma serving_slots: "serving w = Some (v, c, n) \<Longrightarrow> slots_of w = n"
  by (cases w) auto

lemma drain_step_rank:
  assumes "drain_step s t" and inv: "ctrl_inv s" and st: "stopping (P s)"
  shows "(drain_rank t, drain_rank s) \<in> less_than <*lex*> less_than"
  using assms(1)
proof (cases rule: drain_step.cases)
  case (ds_worker i w' s')
  note W = frame_worker_step [OF ds_worker(2)]
  note r = worker_rank [OF ds_worker(2) st ds_worker(3)]
  have "live t = live s" using ds_worker(1) W r by (auto simp: live_def)
  moreover have "(\<Sum>j\<in>live s. wrank (W t j)) < (\<Sum>j\<in>live s. wrank (W s j))"
    using ds_worker(1) W r by (intro sum_less [OF finite_live [OF inv], of i]) (auto simp: live_def)
  ultimately show ?thesis by (simp add: drain_rank_def)
next
  case (ds_slot i k q' s')
  note W = frame_slot_step [OF ds_slot(2)]
  note S = slot_spawned [OF ds_slot(2)]
  note r = slot_rank [OF ds_slot(2) st]
  then obtain v c n where n: "serving (W s i) = Some (v, c, n)" "k < n" using ctrl_inv_on [OF inv] by blast
  have same: "W t = W s" using ds_slot(1) W by simp
  have St: "S t = (S s)(i := (S s i)(k := q'))" using ds_slot(1) S by simp
  have "(\<Sum>k\<in>{..<slots_of (W s i)}. srank (S t i k)) < (\<Sum>k\<in>{..<slots_of (W s i)}. srank (S s i k))"
    using r n serving_slots [OF n(1)] St by (intro sum_less [of _ k]) auto
  moreover have "i \<in> live s" using n(1) by (auto simp: live_def)
  ultimately have "(\<Sum>j\<in>live s. \<Sum>k\<in>{..<slots_of (W s j)}. srank (S t j k)) < (\<Sum>j\<in>live s. \<Sum>k\<in>{..<slots_of (W s j)}. srank (S s j k))"
    using St by (intro sum_less [OF finite_live [OF inv], of i]) auto
  then show ?thesis using same by (simp add: drain_rank_def live_def)
qed

text \<open>What the runs of the goroutines keep.\<close>

lemma drain_runs_keep:
  assumes "drain_runs s t" and "ctrl_inv s" and "slots_spawned s" and "stopping (P s)"
  shows "ctrl_inv t \<and> slots_spawned t \<and> stopping (P t) \<and> enq_log t = enq_log s \<and> disp_log t = disp_log s
    \<and> ((\<forall>i. recycling (W s i) = None) \<longrightarrow> no_recycling t \<and> torn t = torn s)"
  using assms
proof (induction rule: drain_runs.induct)
  case (dr_refl s)
  then show ?case by (simp add: no_recycling_def)
next
  case (dr_step s t u)
  note p = drain_pool_step [OF dr_step(2)]
  have sh: "shuttingDown (P t)" using dr_step by (simp add: stopping_def)
  show ?case
    using dr_step ctrl_inv_step [OF p] slots_spawned_step [OF p] stopping_step [OF dr_step(2)] shutdown_step_logs [OF p sh]
      no_recycling_step [OF p sh] by auto
qed

lemma no_endless_drain:
  assumes "ctrl_inv s" and "slots_spawned s" and "stopping (P s)" and "f 0 = s" and "\<forall>n. drain_step (f n) (f (Suc n))"
  shows False
proof -
  have runs: "drain_runs s (f n)" for n by (induction n) (auto simp: assms(4) intro: drain_runs.intros assms(5) [rule_format])
  have "(drain_rank (f (Suc n)), drain_rank (f n)) \<in> less_than <*lex*> less_than" for n
    using drain_step_rank [OF assms(5) [rule_format, of n]] drain_runs_keep [OF runs [of n] assms(1-3)] by blast
  then have "\<exists>g. \<forall>n. (g (Suc n), g n) \<in> less_than <*lex*> less_than" by (intro exI [of _ "\<lambda>n. drain_rank (f n)"]) simp
  moreover have "wf (less_than <*lex*> less_than)" by auto
  ultimately show False unfolding wf_iff_no_infinite_down_chain by blast
qed

text \<open>
  C11. A shutdown completes. In every reachable state in which the pool shuts down and its context is done, the steps of its
  goroutines alone, without a warm being retried, cannot go on for ever, and they stop only when every worker and every slot
  goroutine has ended, so the wait of \<open>Shutdown\<close> returns. On the way no job is accepted or dispatched, and a VM is torn down only
  for a recycle that was under way before.
\<close>

theorem shutdown_completes:
  assumes "reachable opts s" and "shuttingDown (P s)" and "poolCtx (P s) = Some c" and "ctx_done (contexts (P s)) c"
  shows "(\<nexists>f. f 0 = s \<and> (\<forall>n. drain_step (f n) (f (Suc n))))
    \<and> (\<forall>t. drain_runs s t \<longrightarrow>
          (drained t \<or> (\<exists>u. drain_step t u)) \<and> enq_log t = enq_log s \<and> disp_log t = disp_log s
          \<and> ((\<forall>i. recycling (W s i) = None) \<longrightarrow> torn t = torn s))"
proof -
  have st: "ctrl_inv s" "slots_spawned s" "stopping (P s)"
    using assms by (auto simp: stopping_def reachable_ctrl_inv reachable_spawned)
  show ?thesis
  proof (intro conjI allI impI)
    show "\<nexists>f. f 0 = s \<and> (\<forall>n. drain_step (f n) (f (Suc n)))" using no_endless_drain [OF st] by blast
  next
    fix t assume "drain_runs s t"
    from drain_runs_keep [OF this st]
    show "drained t \<or> (\<exists>u. drain_step t u)" "enq_log t = enq_log s" "disp_log t = disp_log s"
      "\<forall>i. recycling (W s i) = None \<Longrightarrow> torn t = torn s"
      using stuck_is_drained [of t] by auto
  qed
qed

text \<open>A pool that was started with no VM to adopt and then shut down.\<close>

definition drain_opts :: options where
  "drain_opts = \<lparr>RunnerCount = 2, JobsPerVM = 1, Image = ''img'', MaxIdle = 0, MaxAge = 0,
     MaxBind = 100, PickupTimeout = 10, RunToken = ''t'', WarmRetryDelay = 1, Now = Some TimeNow\<rparr>"

definition started_pool :: pool where
  "started_pool = Start (New drain_opts [Ctx None None]) 0 (Inr []) time_zero"

definition stopped_sys :: sys where
  "stopped_sys =
     \<lparr>P = Shutdown started_pool, W = (\<lambda>i. if int i < RunnerCount (options (New drain_opts [Ctx None None])) then WClaim else WOff),
      S = (\<lambda>_ _. SNone), enq_log = [], disp_log = [], torn = []\<rparr>"

lemma stopped_sys_reachable: "reachable drain_opts stopped_sys"
proof -
  let ?s = "init_sys drain_opts"
  have "\<not> startOnce (New drain_opts [Ctx None None])" by (simp add: New_def Let_def)
  then have "pool_step ?s (stopped_sys\<lparr>P := started_pool\<rparr>)"
    using p_start [of ?s "Inr []" time_zero] by (simp add: init_sys_def stopped_sys_def started_pool_def)
  moreover have "pool_step (stopped_sys\<lparr>P := started_pool\<rparr>) stopped_sys"
    using p_env [OF env_shutdown, of "stopped_sys\<lparr>P := started_pool\<rparr>"] by (simp add: stopped_sys_def)
  ultimately show ?thesis by (blast intro: reach_init reach_step)
qed

lemma shutdown_completes_witness:
  "(\<nexists>f. f 0 = stopped_sys \<and> (\<forall>n. drain_step (f n) (f (Suc n))))
   \<and> (drained stopped_sys \<or> (\<exists>u. drain_step stopped_sys u))"
proof -
  have "contexts started_pool = [Ctx None None, Ctx None (Some 0)]" "poolCtx started_pool = Some 1" "\<not> shutdownOnce started_pool"
    by (simp_all add: started_pool_def Start_def New_def ctx_new_def Let_def)
  then have "poolCtx (P stopped_sys) = Some 1" "shuttingDown (P stopped_sys)" "ctx_done (contexts (P stopped_sys)) 1"
    by (simp_all add: stopped_sys_def Shutdown_def broadcast_def ctx_done_cancel_self)
  from shutdown_completes [OF stopped_sys_reachable this(2,1,3)]
  show ?thesis using dr_refl [of stopped_sys] by blast
qed

end
