(* ===== verification/Daemon_Loops.thy ===== *)
theory Daemon_Loops
  imports Complex_Main Config_Reload Github_App Config_Props Pool_Drain
begin

text \<open>
  The loops around the components of the daemon: a goroutine with a ticker (the watcher of \<open>reload.go\<close>, the hosted-load sweep of
  \<open>main.go\<close>, the sampler of \<open>internal/hoststats\<close>, the reconciler of the pool), the HTTP listener of \<open>serve.go\<close> with its graceful
  stop, and the end of \<open>serveDaemon\<close>.
\<close>

section \<open>Goroutines with a ticker\<close>

datatype loop_pc = LoopWaits | LoopRuns | LoopEnded

text \<open>\<open>loDone\<close>: the context, or another channel of the select, is done. \<open>loPasses\<close> counts the passes that began.\<close>

record 'd loop =
  loPc :: loop_pc
  loData :: 'd
  loDone :: bool
  loPasses :: nat

text \<open>
  The select takes any ready case, a tick also when the context is done. The data may change between two passes, by
  other goroutines (\<open>other\<close>), and in a pass (\<open>body\<close>).
\<close>

inductive loop_step :: "('d \<Rightarrow> 'd \<Rightarrow> bool) \<Rightarrow> ('d \<Rightarrow> 'd \<Rightarrow> bool) \<Rightarrow> 'd loop \<Rightarrow> 'd loop \<Rightarrow> bool" for body other where
  lo_tick: "loPc s = LoopWaits \<Longrightarrow> loop_step body other s (s\<lparr>loPc := LoopRuns, loPasses := Suc (loPasses s)\<rparr>)"
| lo_pass: "loPc s = LoopRuns \<Longrightarrow> body (loData s) d \<Longrightarrow> loop_step body other s (s\<lparr>loPc := LoopWaits, loData := d\<rparr>)"
| lo_stop: "loPc s = LoopWaits \<Longrightarrow> loDone s \<Longrightarrow> loop_step body other s (s\<lparr>loPc := LoopEnded\<rparr>)"
| lo_other: "other (loData s) d \<Longrightarrow> loop_step body other s (s\<lparr>loData := d\<rparr>)"
| lo_done: "loop_step body other s (s\<lparr>loDone := True\<rparr>)"

text \<open>A loop that starts with a pass, and one that starts with its select.\<close>

definition loop_now :: "'d \<Rightarrow> 'd loop" where
  "loop_now d = \<lparr>loPc = LoopRuns, loData = d, loDone = False, loPasses = 1\<rparr>"

definition loop_later :: "'d \<Rightarrow> 'd loop" where
  "loop_later d = \<lparr>loPc = LoopWaits, loData = d, loDone = False, loPasses = 0\<rparr>"

inductive loop_runs :: "('d \<Rightarrow> 'd \<Rightarrow> bool) \<Rightarrow> ('d \<Rightarrow> 'd \<Rightarrow> bool) \<Rightarrow> 'd loop \<Rightarrow> 'd loop \<Rightarrow> bool" for body other where
  lr_refl: "loop_runs body other s s"
| lr_step: "loop_runs body other s t \<Longrightarrow> loop_step body other t u \<Longrightarrow> loop_runs body other s u"

text \<open>
  The contract of such a loop: a pass can always return, and passes and the other goroutines keep an invariant of the data.
  Then the invariant holds throughout, and once the context is done the loop ends after the current pass.
\<close>

locale ticker_loop =
  fixes body :: "'d \<Rightarrow> 'd \<Rightarrow> bool" and other :: "'d \<Rightarrow> 'd \<Rightarrow> bool" and inv :: "'d \<Rightarrow> bool"
  assumes returns: "\<exists>d'. body d d'"
    and body_keeps: "inv d \<Longrightarrow> body d d' \<Longrightarrow> inv d'"
    and other_keeps: "inv d \<Longrightarrow> other d d' \<Longrightarrow> inv d'"
begin

lemma step_keeps: "loop_step body other s t \<Longrightarrow> inv (loData s) \<Longrightarrow> inv (loData t)"
  by (induction rule: loop_step.induct) (auto intro: body_keeps other_keeps)

lemma runs_keep: "loop_runs body other s t \<Longrightarrow> inv (loData s) \<Longrightarrow> inv (loData t)"
  by (induction rule: loop_runs.induct) (auto intro: step_keeps)

lemma can_end:
  assumes "loDone s" and "loPc s \<noteq> LoopEnded"
  shows "\<exists>t. loop_runs body other s t \<and> loPc t = LoopEnded \<and> loPasses t = loPasses s"
proof -
  have stop: "\<exists>t. loop_runs body other r t \<and> loPc t = LoopEnded \<and> loPasses t = loPasses r"
    if "loPc r = LoopWaits" "loDone r" for r
    using that by (intro exI [of _ "r\<lparr>loPc := LoopEnded\<rparr>"]) (auto intro: lr_step [OF lr_refl] lo_stop)
  have runs_trans: "loop_runs body other r t \<Longrightarrow> loop_runs body other q r \<Longrightarrow> loop_runs body other q t" for q r t
    by (induction rule: loop_runs.induct) (auto intro: lr_step)
  show ?thesis
  proof (cases "loPc s")
    case LoopRuns
    obtain d where "body (loData s) d" using returns by blast
    let ?r = "s\<lparr>loPc := LoopWaits, loData := d\<rparr>"
    have "loop_step body other s ?r" by (rule lo_pass) (use LoopRuns \<open>body (loData s) d\<close> in auto)
    then have "loop_runs body other s ?r" by (blast intro: lr_refl lr_step)
    then show ?thesis using stop [of ?r] assms(1) runs_trans by fastforce
  qed (use assms stop in auto)
qed

end

lemma ended_stays: "loop_runs body other s t \<Longrightarrow> loPc s = LoopEnded \<Longrightarrow> loPc t = LoopEnded \<and> loPasses t = loPasses s"
  by (induction rule: loop_runs.induct) (auto elim: loop_step.cases)

section \<open>The loops of the daemon\<close>

definition configReloadPollInterval :: duration where
  "configReloadPollInterval = 5 * second"

definition watch_interval :: "duration \<Rightarrow> duration" where
  "watch_interval interval = (if interval \<le> 0 then configReloadPollInterval else interval)"

text \<open>\<open>startConfigReloadWatcher\<close>: one \<open>poll\<close> per tick, for what the poll meets.\<close>

definition watcher_pass ::
  "(err + string \<Rightarrow> err + 'c) \<Rightarrow> ('c \<Rightarrow> 'd \<Rightarrow> err option \<times> 'd) option \<Rightarrow> config_watcher \<times> 'd \<Rightarrow> config_watcher \<times> 'd \<Rightarrow> bool" where
  "watcher_pass load_of callback x y = (\<exists>st raw. y = snd (watcher_poll (fst x) st (load_of raw) callback (snd x)))"

text \<open>\<open>startHostedLoadReconcile\<close>: a sweep at once and one per tick, with webhook deliveries in between.\<close>

definition hosted_pass :: "tracker \<Rightarrow> tracker \<Rightarrow> bool" where
  "hosted_pass t t' = (\<exists>r. (case r of Inl e \<Rightarrow> True | Inr jobs \<Rightarrow> finite jobs) \<and> t' = reconcileHostedLoadOnce t r)"

definition hosted_delivery :: "tracker \<Rightarrow> tracker \<Rightarrow> bool" where
  "hosted_delivery t t' = (\<exists>ev. t' = tracked t ev)"

text \<open>\<open>Sampler.Start\<close>: an observation at once and one per interval, with reconfigurations in between.\<close>

definition sampler_pass :: "'h sampler \<Rightarrow> 'h sampler \<Rightarrow> bool" where
  "sampler_pass s s' = (\<exists>host invt now. s' = sampleOnce s host invt now)"

definition sampler_change :: "'h sampler \<Rightarrow> 'h sampler \<Rightarrow> bool" where
  "sampler_change s s' =
     (\<exists>decode home tmp cwd path file cfg.
        Load_config decode home tmp cwd path file = Inr cfg \<and> s' = Reconfigure_sampler s (metricsOptions cfg))"

text \<open>The hosted jobs stay a finite set.\<close>

lemma hosted_finite:
  "finite t \<Longrightarrow> hosted_pass t t' \<Longrightarrow> finite t'" "finite t \<Longrightarrow> hosted_delivery t t' \<Longrightarrow> finite t'"
  using tracked_finite [of t "[ev]" for ev]
  by (auto simp: hosted_pass_def hosted_delivery_def reconcileHostedLoadOnce_def tracker_Reconcile_def split: sum.splits)

interpretation hosted_loop: ticker_loop hosted_pass hosted_delivery finite
proof unfold_locales
  fix d :: tracker
  show "\<exists>d'. hosted_pass d d'" by (auto simp: hosted_pass_def intro: exI [of _ "Inl undefined"])
qed (fact hosted_finite)+

text \<open>A configuration that loads has a positive interval, so the timer of the sampler is never set to fire at once.\<close>

lemma loaded_interval:
  assumes "Load_config decode home tmp cwd path file = Inr cfg"
  shows "0 < soInterval (metricsOptions cfg)"
proof -
  obtain c0 where c: "cfg = applyDefaults home tmp c0" "validate_config cwd cfg = None" using assms by (rule Load_config_Inr)
  have "\<not> meInterval (cfMetrics cfg) < 0" using c(2) unfolding validate_config_def first_error_None by auto
  moreover have "meInterval (cfMetrics cfg) \<noteq> 0" by (simp add: c(1) applyDefaults_def or_number_def second_def)
  ultimately show ?thesis by (simp add: metricsOptions_def)
qed

lemma sampler_positive:
  "0 < smInterval s \<Longrightarrow> sampler_pass s s' \<Longrightarrow> 0 < smInterval s'" "0 < smInterval s \<Longrightarrow> sampler_change s s' \<Longrightarrow> 0 < smInterval s'"
proof -
  have "smInterval (sampleOnce s host invt now) = smInterval s" for host invt now by (simp add: sampleOnce_def split: sum.splits)
  then show "0 < smInterval s \<Longrightarrow> sampler_pass s s' \<Longrightarrow> 0 < smInterval s'" by (auto simp: sampler_pass_def)
qed (auto simp: sampler_change_def Reconfigure_sampler_def dest: loaded_interval)

interpretation sampler_loop: ticker_loop sampler_pass sampler_change "\<lambda>s. 0 < smInterval s"
proof unfold_locales
  fix d :: "'a sampler"
  show "\<exists>d'. sampler_pass d d'" by (auto simp: sampler_pass_def)
qed (fact sampler_positive)+

text \<open>A modification time that waits to be seen again is never the one that was applied.\<close>

definition watcher_inv :: "config_watcher \<times> 'd \<Rightarrow> bool" where
  "watcher_inv x = (hasPending (fst x) \<longrightarrow> initialized (fst x) \<and> pendingModTime (fst x) \<noteq> appliedModTime (fst x))"

lemma watcher_keeps: "watcher_inv (w, d) \<Longrightarrow> watcher_inv (snd (watcher_poll w st ld callback d))"
proof -
  assume "watcher_inv (w, d)"
  then show ?thesis
    by (cases st; cases ld; cases callback) (auto simp: watcher_inv_def watcher_poll_def split: option.splits prod.splits)
qed

interpretation watcher_loop: ticker_loop "watcher_pass load_of callback" "\<lambda>x y. fst y = fst x" watcher_inv for load_of callback
proof unfold_locales
  fix d :: "config_watcher \<times> 'b"
  show "\<exists>d'. watcher_pass load_of callback d d'" unfolding watcher_pass_def by blast
qed (auto simp: watcher_pass_def watcher_keeps, simp add: watcher_inv_def)

text \<open>The goroutines: what is reachable from where each of them starts. The watcher shares its components with the whole daemon.\<close>

definition startConfigReloadWatcher ::
  "(err + string \<Rightarrow> err + 'c) \<Rightarrow> ('c \<Rightarrow> 'd \<Rightarrow> err option \<times> 'd) option \<Rightarrow> time \<Rightarrow> 'd \<Rightarrow> (config_watcher \<times> 'd) loop \<Rightarrow> bool" where
  "startConfigReloadWatcher load_of callback initialModTime d =
     loop_runs (watcher_pass load_of callback) (\<lambda>x y. fst y = fst x) (loop_later (newConfigReloadWatcher initialModTime, d))"

definition startHostedLoadReconcile :: "tracker \<Rightarrow> tracker loop \<Rightarrow> bool" where
  "startHostedLoadReconcile t = loop_runs hosted_pass hosted_delivery (loop_now t)"

definition Start_sampler :: "'h sampler \<Rightarrow> 'h sampler loop \<Rightarrow> bool" where
  "Start_sampler s = loop_runs sampler_pass sampler_change (loop_now s)"

text \<open>
  What they keep, and that each of them ends with the current pass once the daemon's context is done: the count of hosted jobs is
  that of a finite set, and the timer of the sampler is always set to a positive time.
\<close>

lemma hosted_load_loop:
  assumes "startHostedLoadReconcile NewTracker s"
  shows "finite (loData s)" and "loDone s \<Longrightarrow> loPc s \<noteq> LoopEnded \<Longrightarrow>
    \<exists>t. loop_runs hosted_pass hosted_delivery s t \<and> loPc t = LoopEnded \<and> loPasses t = loPasses s"
  using hosted_loop.runs_keep [of "loop_now NewTracker" s] hosted_loop.can_end [of s] assms
  by (auto simp: startHostedLoadReconcile_def loop_now_def NewTracker_def)

lemma sampler_timer_positive:
  assumes "Load_config decode home tmp cwd path file = Inr cfg" and "Start_sampler (New_sampler (metricsOptions cfg)) s"
  shows "0 < smInterval (loData s)"
  using sampler_loop.runs_keep [of "loop_now (New_sampler (metricsOptions cfg))" s] assms loaded_interval [OF assms(1)]
  by (simp add: Start_sampler_def loop_now_def New_sampler_def)

lemma watcher_pending_is_new:
  assumes "startConfigReloadWatcher load_of callback t0 d s" and "hasPending (fst (loData s))"
  shows "pendingModTime (fst (loData s)) \<noteq> appliedModTime (fst (loData s))"
  using watcher_loop.runs_keep [of load_of callback "loop_later (newConfigReloadWatcher t0, d)" s] assms
  by (simp add: startConfigReloadWatcher_def loop_later_def watcher_inv_def newConfigReloadWatcher_def)

section \<open>The reader of host statistics\<close>

text \<open>
  \<open>hoststats/reader.go\<close>: a sample of the host from the answers of gopsutil. Its floating point numbers are rationals here, so
  rounding is left out. The processor times are cumulative.
\<close>

record times_stat =
  tsUser :: rat
  tsSystem :: rat
  tsIdle :: rat
  tsNice :: rat
  tsIowait :: rat
  tsIrq :: rat
  tsSoftirq :: rat
  tsSteal :: rat
  tsGuest :: rat
  tsGuestNice :: rat

definition totalCPUTime :: "times_stat \<Rightarrow> rat" where
  "totalCPUTime t =
     tsUser t + tsSystem t + tsIdle t + tsNice t + tsIowait t + tsIrq t + tsSoftirq t + tsSteal t + tsGuest t + tsGuestNice t"

text \<open>An answer of the library, with the error wrapped.\<close>

definition reading :: "string \<Rightarrow> err + 'a \<Rightarrow> ('a \<Rightarrow> err + 'b) \<Rightarrow> err + 'b" where
  "reading what r f = (case r of Inl e \<Rightarrow> Inl (Wrapf (''hoststats: read '' @ what @ '': '') e []) | Inr x \<Rightarrow> f x)"

text \<open>The two snapshots, and the error of the context when it ends in the window between them.\<close>

definition readCPUPercents :: "err + times_stat list \<Rightarrow> err option \<Rightarrow> err + times_stat list \<Rightarrow> err + rat \<times> rat \<times> rat" where
  "readCPUPercents r1 cancelled r2 =
     reading ''cpu times'' r1 (\<lambda>before.
       case before of
         [] \<Rightarrow> Inl (Msg ''hoststats: read cpu times: no cpu stats returned'')
       | b # _ \<Rightarrow>
           reading ''cpu times'' (case cancelled of Some e \<Rightarrow> Inl e | None \<Rightarrow> Inr ()) (\<lambda>_.
             reading ''cpu times'' r2 (\<lambda>after.
               case after of
                 [] \<Rightarrow> Inl (Msg ''hoststats: read cpu times: no cpu stats returned'')
               | a # _ \<Rightarrow>
                   (let total = totalCPUTime a - totalCPUTime b
                    in Inr (if total \<le> 0 then (0, 0, 0)
                            else ((tsUser a - tsUser b) / total * 100, (tsSystem a - tsSystem b) / total * 100,
                                  (tsIdle a - tsIdle b) / total * 100))))))"

record host_stats =
  UserPct :: rat
  SysPct :: rat
  IdlePct :: rat
  Load :: "rat \<times> rat \<times> rat"
  MemTotal :: "64 word"
  MemUsed :: "64 word"
  MemAvailable :: "64 word"
  MemUsedPct :: rat
  SwapTotal :: "64 word"
  SwapUsed :: "64 word"
  SwapIn :: "64 word"
  SwapOut :: "64 word"
  DiskPath :: string
  DiskTotal :: "64 word"
  DiskUsed :: "64 word"
  DiskFree :: "64 word"
  DiskUsedPct :: rat
  UptimeSeconds :: "64 word"
  BootTime :: "64 word"

record host_answers =
  haCPU :: "(err + times_stat list) \<times> err option \<times> (err + times_stat list)"
  haLoad :: "err + rat \<times> rat \<times> rat"
  haMem :: "err + 64 word \<times> 64 word \<times> 64 word \<times> rat"
  haSwap :: "err + 64 word \<times> 64 word \<times> 64 word \<times> 64 word"
  haDisk :: "string \<Rightarrow> err + 64 word \<times> 64 word \<times> 64 word \<times> rat"
  haInfo :: "err + 64 word \<times> 64 word"

definition Read_host :: "string \<Rightarrow> host_answers \<Rightarrow> err + host_stats" where
  "Read_host diskPath w =
     (case (let (r1, c, r2) = haCPU w in readCPUPercents r1 c r2) of
        Inl e \<Rightarrow> Inl e
      | Inr (user, sys, idle) \<Rightarrow>
          reading ''load average'' (haLoad w) (\<lambda>loads.
          reading ''virtual memory'' (haMem w) (\<lambda>(total, used, available, usedPct).
          reading ''swap memory'' (haSwap w) (\<lambda>(swTotal, swUsed, swIn, swOut).
          reading ''disk usage'' (haDisk w diskPath) (\<lambda>(dTotal, dUsed, dFree, dUsedPct).
          reading ''host info'' (haInfo w) (\<lambda>(uptime, boot).
            Inr \<lparr>UserPct = user, SysPct = sys, IdlePct = idle, Load = loads,
                 MemTotal = total, MemUsed = used, MemAvailable = available, MemUsedPct = usedPct,
                 SwapTotal = swTotal, SwapUsed = swUsed, SwapIn = swIn, SwapOut = swOut,
                 DiskPath = diskPath, DiskTotal = dTotal, DiskUsed = dUsed, DiskFree = dFree, DiskUsedPct = dUsedPct,
                 UptimeSeconds = uptime, BootTime = boot\<rparr>))))))"

text \<open>The counters of a later snapshot are not below those of an earlier one.\<close>

definition counts_on :: "times_stat \<Rightarrow> times_stat \<Rightarrow> bool" where
  "counts_on b a =
     (tsUser b \<le> tsUser a \<and> tsSystem b \<le> tsSystem a \<and> tsIdle b \<le> tsIdle a \<and> tsNice b \<le> tsNice a \<and> tsIowait b \<le> tsIowait a
      \<and> tsIrq b \<le> tsIrq a \<and> tsSoftirq b \<le> tsSoftirq a \<and> tsSteal b \<le> tsSteal a \<and> tsGuest b \<le> tsGuest a \<and> tsGuestNice b \<le> tsGuestNice a)"

lemma shares_bounded:
  assumes "counts_on b a" and "readCPUPercents (Inr (b # bs)) None (Inr (a # rest)) = Inr (u, s, i)"
  shows "0 \<le> u \<and> 0 \<le> s \<and> 0 \<le> i \<and> u + s + i \<le> 100"
proof -
  let ?t = "totalCPUTime a - totalCPUTime b"
  let ?d = "(tsUser a - tsUser b) + (tsSystem a - tsSystem b) + (tsIdle a - tsIdle b)"
  have d: "?d \<le> ?t" using assms(1) by (auto simp: totalCPUTime_def counts_on_def)
  show ?thesis
  proof (cases "?t \<le> 0")
    case True
    then show ?thesis using assms(2) by (auto simp: readCPUPercents_def reading_def Let_def)
  next
    case False
    then have p: "0 < ?t" by simp
    have e: "u = (tsUser a - tsUser b) / ?t * 100" "s = (tsSystem a - tsSystem b) / ?t * 100" "i = (tsIdle a - tsIdle b) / ?t * 100"
      using False assms(2) by (auto simp: readCPUPercents_def reading_def Let_def)
    have "u + s + i = ?d / ?t * 100" unfolding e by (simp add: add_divide_distrib distrib_right)
    moreover have "?d / ?t * 100 \<le> 1 * 100" using d p by (intro mult_right_mono) simp_all
    moreover have "0 \<le> u" "0 \<le> s" "0 \<le> i" unfolding e using assms(1) p by (simp_all add: counts_on_def)
    ultimately show ?thesis by simp
  qed
qed

text \<open>
  A reading succeeds exactly when every answer does, and none is skipped: then the shares of the processor are between 0 and
  100, together at most 100, as long as its counters do not run backwards.
\<close>

theorem host_reading_is_sound:
  assumes "Read_host diskPath w = Inr h"
  obtains b bs a rest where "haCPU w = (Inr (b # bs), None, Inr (a # rest))"
    "counts_on b a \<Longrightarrow> 0 \<le> UserPct h \<and> 0 \<le> SysPct h \<and> 0 \<le> IdlePct h \<and> UserPct h + SysPct h + IdlePct h \<le> 100"
    "haDisk w (DiskPath h) = Inr (DiskTotal h, DiskUsed h, DiskFree h, DiskUsedPct h)" "DiskPath h = diskPath"
    "haInfo w = Inr (UptimeSeconds h, BootTime h)"
proof -
  obtain r1 c r2 where cpu: "haCPU w = (r1, c, r2)" by (cases "haCPU w") auto
  obtain u s i where p: "readCPUPercents r1 c r2 = Inr (u, s, i)"
    using assms cpu by (cases "readCPUPercents r1 c r2") (auto simp: Read_host_def)
  obtain b bs a rest where s: "r1 = Inr (b # bs)" "c = None" "r2 = Inr (a # rest)"
    using p by (auto simp: readCPUPercents_def reading_def split: sum.splits list.splits option.splits)
  have h: "UserPct h = u" "SysPct h = s" "IdlePct h = i" "haDisk w diskPath = Inr (DiskTotal h, DiskUsed h, DiskFree h, DiskUsedPct h)"
      "DiskPath h = diskPath" "haInfo w = Inr (UptimeSeconds h, BootTime h)"
    using assms cpu p by (auto simp: Read_host_def reading_def split: sum.splits prod.splits)
  show thesis
    by (rule that [of b bs a rest]) (use cpu s h shares_bounded [of b a bs rest u s i] p in auto)
qed

section \<open>The HTTP listener\<close>

text \<open>
  \<open>httpServe\<close>: the goroutine that serves, and the select of the caller. \<open>hsShut\<close>: \<open>Shutdown\<close> was called, after which serving
  ends with \<open>http.ErrServerClosed\<close>; an accept that failed before that ends it with an error.
\<close>

datatype http_pc = HttpSelects | HttpStops | HttpReturned "err option"

record http_serve =
  hsPc :: http_pc
  hsServing :: bool
  hsShut :: bool
  hsErrCh :: "err option option"
  hsDone :: bool

definition http_start :: http_serve where
  "http_start = \<lparr>hsPc = HttpSelects, hsServing = True, hsShut = False, hsErrCh = None, hsDone = False\<rparr>"

inductive httpServe :: "http_serve \<Rightarrow> http_serve \<Rightarrow> bool" where
  hs_signal: "httpServe s (s\<lparr>hsDone := True\<rparr>)"
| hs_failed: "hsServing s \<Longrightarrow> \<not> hsShut s \<Longrightarrow>
     httpServe s (s\<lparr>hsServing := False, hsErrCh := Some (Some (Wrapf ''serve: listen: '' e []))\<rparr>)"
| hs_closed: "hsServing s \<Longrightarrow> hsShut s \<Longrightarrow> httpServe s (s\<lparr>hsServing := False, hsErrCh := Some None\<rparr>)"
| hs_error: "hsPc s = HttpSelects \<Longrightarrow> hsErrCh s = Some r \<Longrightarrow> httpServe s (s\<lparr>hsPc := HttpReturned r\<rparr>)"
| hs_stop: "hsPc s = HttpSelects \<Longrightarrow> hsDone s \<Longrightarrow> httpServe s (s\<lparr>hsPc := HttpStops, hsShut := True\<rparr>)"
| hs_down: "hsPc s = HttpStops \<Longrightarrow> httpServe s (s\<lparr>hsPc := HttpReturned None\<rparr>)"

inductive http_runs :: "http_serve \<Rightarrow> http_serve \<Rightarrow> bool" where
  hr_refl: "http_runs s s"
| hr_step: "http_runs s t \<Longrightarrow> httpServe t u \<Longrightarrow> http_runs s u"

definition http_inv :: "http_serve \<Rightarrow> bool" where
  "http_inv s =
     ((hsPc s = HttpSelects \<longrightarrow> \<not> hsShut s) \<and> (hsPc s = HttpStops \<longrightarrow> hsShut s)
      \<and> (\<not> hsShut s \<longrightarrow> hsServing s = (hsErrCh s = None) \<and> hsErrCh s \<noteq> Some None)
      \<and> (\<forall>r. hsPc s = HttpReturned r \<longrightarrow> (case r of None \<Rightarrow> hsDone s \<and> hsShut s | Some e \<Rightarrow> \<not> hsShut s \<and> \<not> hsServing s \<and> hsErrCh s = Some (Some e))))"

lemma http_inv_step: "httpServe s t \<Longrightarrow> http_inv s \<Longrightarrow> hsPc s = HttpStops \<longrightarrow> hsDone s \<Longrightarrow> http_inv t \<and> (hsPc t = HttpStops \<longrightarrow> hsDone t)"
  by (induction rule: httpServe.induct) (auto simp: http_inv_def split: option.splits)

lemma http_inv_runs: "http_runs s t \<Longrightarrow> http_inv s \<Longrightarrow> hsPc s = HttpStops \<longrightarrow> hsDone s \<Longrightarrow> http_inv t \<and> (hsPc t = HttpStops \<longrightarrow> hsDone t)"
  by (induction rule: http_runs.induct) (auto dest: http_inv_step)

lemma http_start_runs: "http_runs http_start s \<Longrightarrow> http_inv s"
  using http_inv_runs [of http_start s] by (auto simp: http_start_def http_inv_def)

text \<open>
  \<open>httpServe\<close> returns an error exactly when accepting failed before any stop was asked for, and that error; it returns without
  one only after the signal. Once there is a signal or a failed accept, the caller's own steps end it.
\<close>

lemma http_result:
  "http_runs http_start s \<Longrightarrow> hsPc s = HttpReturned (Some e) \<Longrightarrow> hsErrCh s = Some (Some e) \<and> \<not> hsServing s"
  "http_runs http_start s \<Longrightarrow> hsPc s = HttpReturned None \<Longrightarrow> hsDone s \<and> hsShut s"
  by (auto dest!: http_start_runs simp: http_inv_def split: option.splits)

lemma http_returns:
  assumes "hsDone s \<or> hsErrCh s \<noteq> None"
  shows "\<exists>t r. http_runs s t \<and> hsPc t = HttpReturned r"
proof -
  have stops: "\<exists>t r. http_runs u t \<and> hsPc t = HttpReturned r" if "http_runs s u" "hsPc u = HttpStops" for u
    using that by (intro exI [of _ "u\<lparr>hsPc := HttpReturned None\<rparr>"] exI [of _ None]) (auto intro: hr_step [OF hr_refl] hs_down)
  show ?thesis
  proof (cases "hsPc s")
    case HttpSelects
    show ?thesis
    proof (cases "hsErrCh s")
      case None
      let ?u = "s\<lparr>hsPc := HttpStops, hsShut := True\<rparr>"
      have "http_runs s ?u" using assms None HttpSelects by (intro hr_step [OF hr_refl] hs_stop) auto
      moreover have "http_runs s (?u\<lparr>hsPc := HttpReturned None\<rparr>)" using hr_step [OF calculation hs_down] by simp
      ultimately show ?thesis by fastforce
    next
      case (Some r)
      then have "http_runs s (s\<lparr>hsPc := HttpReturned r\<rparr>)" using HttpSelects by (intro hr_step [OF hr_refl] hs_error)
      then show ?thesis by fastforce
    qed
  next
    case HttpStops
    then show ?thesis using stops [OF hr_refl] by blast
  next
    case (HttpReturned r)
    then show ?thesis using hr_refl by blast
  qed
qed

section \<open>The end of the daemon\<close>

text \<open>\<open>listenTCP\<close> and \<open>startServeLoops\<close>: offline runners are deleted, then the pool is started. The update scheduler is left out.\<close>

definition listenTCP :: "string \<Rightarrow> err option \<Rightarrow> err option" where
  "listenTCP addr failure =
     (case failure of None \<Rightarrow> None | Some e \<Rightarrow> Some (Wrapf (''serve: listen '' @ Quote addr @ '': '') e []))"

definition startServeLoops ::
  "gh_env \<Rightarrow> gh_world \<Rightarrow> gh_client \<Rightarrow> config \<Rightarrow> err + adoptedVM list \<Rightarrow> time \<Rightarrow> gh_trace \<Rightarrow> pool \<Rightarrow> (pool \<times> gh_trace) option" where
  "startServeLoops g w c cfg res now tr p =
     map_option (\<lambda>(n, tr'). (Start p 0 res now, tr')) (deleteStaleRunners g w c (tcVMNamePrefix (cfTart cfg)) tr)"

text \<open>After the listener: whatever \<open>httpServe\<close> returned, the pool is shut down, and that is the result.\<close>

definition serveDaemon_end :: "http_serve \<Rightarrow> sys \<Rightarrow> (err option \<times> sys) option" where
  "serveDaemon_end h s = (case hsPc h of HttpReturned r \<Rightarrow> Some (r, s\<lparr>P := Shutdown (P s)\<rparr>) | _ \<Rightarrow> None)"

text \<open>
  So the daemon ends: when its listener ended, by a signal or by an accept that failed, the pool's goroutines end too, none of them
  can keep the shutdown waiting, and the exit status is the error of the accept, if that is what ended it.
\<close>

theorem daemon_ends:
  assumes "http_runs http_start h" and "serveDaemon_end h s = Some (r, s')" and "reachable opts s"
    and "poolCtx (P s) = Some c" and "c < length (contexts (P s))" and "\<not> shutdownOnce (P s)"
  shows "(r = None \<longrightarrow> hsDone h) \<and> (\<forall>e. r = Some e \<longrightarrow> hsErrCh h = Some (Some e))
    \<and> (\<nexists>f. f 0 = s' \<and> (\<forall>n. drain_step (f n) (f (Suc n))))
    \<and> (\<forall>t. drain_runs s' t \<longrightarrow> drained t \<or> (\<exists>u. drain_step t u))"
proof -
  have s': "s' = s\<lparr>P := Shutdown (P s)\<rparr>" "hsPc h = HttpReturned r"
    using assms(2) by (auto simp: serveDaemon_end_def split: http_pc.splits)
  have "stopping (P s')" using assms(4-6) s' by (simp add: stopping_def Shutdown_def broadcast_def ctx_done_cancel_self)
  moreover have "pool_step s s'" unfolding s' by (rule p_env [OF env_shutdown])
  then have "ctrl_inv s'" "slots_spawned s'"
    using assms(3) reachable_ctrl_inv reachable_spawned ctrl_inv_step slots_spawned_step by blast+
  ultimately have st: "ctrl_inv s'" "slots_spawned s'" "stopping (P s')" by auto
  have "drained t \<or> (\<exists>u. drain_step t u)" if "drain_runs s' t" for t
    using drain_runs_keep [OF that st] stuck_is_drained [of t] by blast
  moreover have "\<nexists>f. f 0 = s' \<and> (\<forall>n. drain_step (f n) (f (Suc n)))" using no_endless_drain [OF st] by blast
  ultimately show ?thesis using http_result [OF assms(1)] s'(2) by auto
qed

end
