(* ===== verification/Brew_Marker.thy ===== *)
theory Brew_Marker
  imports Disk_Keep
begin

text \<open>
  The marker of the Homebrew refresh (\<open>internal/guestagent/runner.go\<close>), a file in a directory that every user may write, over the
  file tree of \<open>Disk\<close>. \<open>Guest_Runner\<close> has the calls around it as a trace; here is what they do to the files, whatever
  others plant at the path. FIFOs and devices are not in the tree.
\<close>

section \<open>The calls\<close>

text \<open>\<open>open\<close> with \<open>O_RDONLY\<close> and \<open>O_NOFOLLOW\<close>: a link at the end is refused.\<close>

definition open_nofollow :: "os_env \<Rightarrow> string \<Rightarrow> node sys" where
  "open_nofollow E p = syscall E (\<lambda>d.
     case found d (lookup E d False p) of
       Inl e \<Rightarrow> (Inl e, d)
     | Inr (LinkNode t) \<Rightarrow> (Inl ELOOP, d)
     | Inr n \<Rightarrow> (Inr n, d))"

text \<open>\<open>open\<close> with \<open>O_CREAT\<close>, \<open>O_EXCL\<close> and \<open>O_NOFOLLOW\<close>: anything at the end is refused.\<close>

definition open_new :: "os_env \<Rightarrow> string \<Rightarrow> nat \<Rightarrow> nat sys" where
  "open_new E p mode = syscall E (\<lambda>d.
     case lookup E d False p of
       Inl e \<Rightarrow> (Inl e, d)
     | Inr q \<Rightarrow>
         if node_at d q \<noteq> None then (Inl EEXIST, d)
         else (let (i, d1) = new_file d q (umasked E mode) in (Inr i, d1)))"

definition markerFilePerm :: nat where "markerFilePerm = 420"

definition markerPresent :: "os_env \<Rightarrow> string \<Rightarrow> disk \<Rightarrow> bool \<times> disk" where
  "markerPresent E p d =
     (case open_nofollow E p d of
        (Inl e, d1) \<Rightarrow> (False, d1)
      | (Inr n, d1) \<Rightarrow>
          (let (r, d2) = syscall E (\<lambda>x. (Inr n, x)) d1;
               regular = (case r of Inr (FileNode i) \<Rightarrow> True | _ \<Rightarrow> False)
           in (regular, snd (os_Close E d2))))"

definition writeBootRefreshMarker :: "os_env \<Rightarrow> string \<Rightarrow> disk \<Rightarrow> disk" where
  "writeBootRefreshMarker E p d =
     (case open_new E p markerFilePerm d of (Inl e, d1) \<Rightarrow> d1 | (Inr i, d1) \<Rightarrow> snd (os_Close E d1))"

text \<open>
  \<open>ensureHomebrewRefreshed\<close> for one job: \<open>cleared\<close> says that the stale marker was removed before (\<open>clearMarkerOnce\<close>), \<open>brew\<close> that
  the tool is there, \<open>updated\<close> that an attempt to update succeeded. The result says whether it ran.
\<close>

definition marker_pass :: "os_env \<Rightarrow> string \<Rightarrow> bool \<Rightarrow> bool \<Rightarrow> bool \<Rightarrow> disk \<Rightarrow> bool \<times> disk" where
  "marker_pass E p cleared brew updated d =
     (let d1 = (if cleared then d else snd (os_Remove E p d));
          (present, d2) = markerPresent E p d1
      in if present \<or> \<not> brew then (False, d2)
         else (True, if updated then writeBootRefreshMarker E p d2 else d2))"

section \<open>What can happen to the files\<close>

text \<open>Equal trees: the names, and what the inodes hold.\<close>

definition same_files :: "disk \<Rightarrow> disk \<Rightarrow> bool" where
  "same_files d d' = (node_at d' = node_at d \<and> inodes d' = inodes d)"

lemma same_files_refl [simp]: "same_files d d"
  by (simp add: same_files_def)

lemma tick_same [simp]: "same_files d (d\<lparr>ticks := t\<rparr>)"
  by (simp add: same_files_def fun_eq_iff)

lemma same_trans: "same_files d d1 \<Longrightarrow> same_files d1 d2 \<Longrightarrow> same_files d d2"
  by (simp add: same_files_def)

lemma lookup_same: "same_files d d' \<Longrightarrow> lookup E d' f p = lookup E d f p"
  by (rule lookup_cong) (simp add: same_files_def)

lemma close_keeps [simp]: "same_files d (snd (os_Close E d))"
  by (simp add: os_Close_def syscall_def Let_def split: option.splits)

lemma fstat_result: "syscall E (\<lambda>x. (Inr n, x)) d = (r, d') \<Longrightarrow> same_files d d' \<and> (\<forall>m. r = Inr m \<longrightarrow> m = n)"
  by (auto simp: syscall_def Let_def split: option.splits)

lemma open_nofollow_result:
  assumes "open_nofollow E p d = (r, d')"
  shows "same_files d d'" and "r = Inr n \<Longrightarrow> \<exists>q. lookup E d False p = Inr q \<and> node_at d q = Some n \<and> (\<forall>t. n \<noteq> LinkNode t)"
proof -
  have eq: "lookup E (d\<lparr>ticks := t\<rparr>) False p = lookup E d False p" for t by (rule lookup_same) simp
  show "same_files d d'" and "r = Inr n \<Longrightarrow> \<exists>q. lookup E d False p = Inr q \<and> node_at d q = Some n \<and> (\<forall>t. n \<noteq> LinkNode t)"
    using assms
    by (auto simp: open_nofollow_def syscall_def Let_def found_def eq split: option.splits sum.splits node.splits)
qed

lemma marker_present:
  assumes "markerPresent E p d = (b, d')"
  shows "same_files d d'" and "b \<Longrightarrow> \<exists>q i. lookup E d False p = Inr q \<and> node_at d q = Some (FileNode i)"
proof -
  obtain r d1 where o: "open_nofollow E p d = (r, d1)" by fastforce
  note o1 = open_nofollow_result(1) [OF o]
  have "same_files d d' \<and> (b \<longrightarrow> (\<exists>q i. lookup E d False p = Inr q \<and> node_at d q = Some (FileNode i)))"
  proof (cases r)
    case (Inl e)
    then show ?thesis using assms o o1 by (simp add: markerPresent_def)
  next
    case (Inr n)
    obtain r2 d2 where f: "syscall E (\<lambda>x. (Inr n, x)) d1 = (r2, d2)" by fastforce
    have b: "b = (case r2 of Inr (FileNode i) \<Rightarrow> True | _ \<Rightarrow> False)" and d': "d' = snd (os_Close E d2)"
      using assms o Inr f by (simp_all add: markerPresent_def)
    have "same_files d d'" unfolding d' using o1 fstat_result [OF f] same_trans close_keeps by blast
    moreover have "\<exists>i. n = FileNode i" if b
      using that b fstat_result [OF f] by (auto split: sum.splits node.splits)
    ultimately show ?thesis using open_nofollow_result(2) [OF o, of n] Inr by auto
  qed
  then show "same_files d d'" and "b \<Longrightarrow> \<exists>q i. lookup E d False p = Inr q \<and> node_at d q = Some (FileNode i)" by auto
qed

lemma marker_written:
  "same_files d (writeBootRefreshMarker E p d)
   \<or> (\<exists>q. lookup E d False p = Inr q \<and> node_at d q = None
        \<and> node_at (writeBootRefreshMarker E p d) = (node_at d)(q \<mapsto> FileNode (nextInode d))
        \<and> inodes (writeBootRefreshMarker E p d) = (inodes d)(nextInode d := ([], umasked E markerFilePerm)))"
proof -
  obtain r d1 where o: "open_new E p markerFilePerm d = (r, d1)" by fastforce
  have eq: "lookup E (d\<lparr>ticks := t\<rparr>) False p = lookup E d False p" for t by (rule lookup_same) simp
  have w: "same_files d1 (writeBootRefreshMarker E p d)"
    using o close_keeps [of d1 E] by (cases r) (auto simp: writeBootRefreshMarker_def)
  have "same_files d d1 \<or> (\<exists>q. lookup E d False p = Inr q \<and> node_at d q = None
      \<and> node_at d1 = (node_at d)(q \<mapsto> FileNode (nextInode d)) \<and> inodes d1 = (inodes d)(nextInode d := ([], umasked E markerFilePerm)))"
  proof (cases "io E (ticks d)")
    case (Some e)
    then show ?thesis using o by (auto simp: open_new_def syscall_def Let_def)
  next
    case None
    show ?thesis
    proof (cases "lookup E d False p")
      case (Inl e)
      then show ?thesis using o None by (auto simp: open_new_def syscall_def Let_def eq)
    next
      case (Inr q)
      show ?thesis
      proof (cases "node_at d q = None")
        case True
        then have "q \<noteq> []" by auto
        then have "node_at d1 = (node_at d)(q \<mapsto> FileNode (nextInode d)) \<and> inodes d1 = (inodes d)(nextInode d := ([], umasked E markerFilePerm))"
          using o None Inr True by (auto simp: open_new_def syscall_def Let_def eq new_file_def fun_eq_iff node_at_put)
        then show ?thesis using Inr True by blast
      next
        case False
        then show ?thesis using o None Inr by (auto simp: open_new_def syscall_def Let_def eq)
      qed
    qed
  qed
  then show ?thesis using w by (auto simp: same_files_def)
qed

section \<open>The marker is safe in a directory of everyone\<close>

lemma lookup_put_marker:
  assumes "lookup E d False p = Inr q" and "node_at d q = None" and "node_at d' = (node_at d)(q \<mapsto> FileNode i)"
  shows "lookup E d' False p = Inr q"
proof -
  have "q \<noteq> []" using assms(2) by auto
  then have "node_at d' = node_at (put_node d q (FileNode i))" using assms(3) by (auto simp: fun_eq_iff node_at_put)
  then have "lookup E d' False p = lookup E (put_node d q (FileNode i)) False p" by (rule lookup_cong)
  also have "\<dots> = Inr q" using assms(1,2) walk_put_file unfolding lookup_def lookup_elems_def by (auto split: if_splits)
  finally show ?thesis .
qed

lemma quiet_present:
  assumes "\<And>n. io E n = None" and "lookup E d False p = Inr q" and "node_at d q = Some (FileNode i)"
  shows "fst (markerPresent E p d)"
proof -
  have "lookup E (d\<lparr>ticks := t\<rparr>) False p = Inr q" for t using lookup_same [of d "d\<lparr>ticks := t\<rparr>"] assms(2) by simp
  then show ?thesis using assms(1,3) by (simp add: markerPresent_def open_nofollow_def syscall_def Let_def found_def)
qed

lemma quiet_written:
  assumes "\<And>n. io E n = None" and "lookup E d False p = Inr q" and "node_at d q = None"
  shows "node_at (writeBootRefreshMarker E p d) = (node_at d)(q \<mapsto> FileNode (nextInode d))"
proof -
  have ne: "q \<noteq> []" using assms(3) by auto
  have "lookup E (d\<lparr>ticks := t\<rparr>) False p = Inr q" for t using lookup_same [of d "d\<lparr>ticks := t\<rparr>"] assms(2) by simp
  then show ?thesis using assms(1,3) ne
    by (auto simp: writeBootRefreshMarker_def open_new_def syscall_def Let_def new_file_def os_Close_def fun_eq_iff node_at_put)
qed

text \<open>
  C27. The refresh marker cannot be turned against the guest. Whatever is planted at its path, at whatever moment, and whatever call
  fails: writing the marker follows no link and truncates nothing, it leaves every name and every content as it is, except that it may
  add an empty file where there was no name at all; only a regular file counts as a marker, and looking changes nothing. And on a
  machine whose calls work, once a refresh has written its marker where nothing was, no later job runs the refresh again.
\<close>

theorem marker_is_never_redirected:
  "(same_files d (writeBootRefreshMarker E p d)
       \<or> (\<exists>q. lookup E d False p = Inr q \<and> node_at d q = None
            \<and> node_at (writeBootRefreshMarker E p d) = (node_at d)(q \<mapsto> FileNode (nextInode d))
            \<and> inodes (writeBootRefreshMarker E p d) = (inodes d)(nextInode d := ([], umasked E markerFilePerm))))
   \<and> same_files d (snd (markerPresent E p d))
   \<and> (fst (markerPresent E p d) \<longrightarrow> (\<exists>q i. lookup E d False p = Inr q \<and> node_at d q = Some (FileNode i)))
   \<and> ((\<forall>n. io E n = None) \<longrightarrow> (\<exists>q. lookup E d False p = Inr q \<and> node_at d q = None) \<longrightarrow>
        fst (marker_pass E p True True True d)
        \<and> \<not> fst (marker_pass E p True brew updated (snd (marker_pass E p True True True d))))"
proof -
  obtain b d1 where pr: "markerPresent E p d = (b, d1)" by fastforce
  note same = marker_present(1) [OF pr]
  have "fst (marker_pass E p True True True d)
      \<and> \<not> fst (marker_pass E p True brew updated (snd (marker_pass E p True True True d)))"
    if quiet: "\<forall>n. io E n = None" and free: "\<exists>q. lookup E d False p = Inr q \<and> node_at d q = None"
  proof -
    obtain q where q: "lookup E d False p = Inr q" "node_at d q = None" using free by blast
    have "\<not> b" using marker_present(2) [OF pr] q by auto
    then have d': "marker_pass E p True True True d = (True, writeBootRefreshMarker E p d1)" using pr by (simp add: marker_pass_def)
    have q1: "lookup E d1 False p = Inr q" "node_at d1 q = None" using q same lookup_same [OF same] by (simp_all add: same_files_def)
    have w: "node_at (writeBootRefreshMarker E p d1) = (node_at d1)(q \<mapsto> FileNode (nextInode d1))"
      using quiet by (intro quiet_written q1) auto
    have "fst (markerPresent E p (writeBootRefreshMarker E p d1))"
      by (rule quiet_present [OF _ lookup_put_marker [OF q1 w]]) (use quiet in \<open>auto simp: w\<close>)
    then show ?thesis using d' by (simp add: marker_pass_def split_beta)
  qed
  then show ?thesis using marker_written marker_present(2) [OF pr] pr same by auto
qed

text \<open>
  What it does not prevent, although the comment of \<open>markerPresent\<close> says that no one can suppress the refresh: a regular file that
  anyone puts at the path, after the one removal of this boot, counts as the marker.
\<close>

theorem planted_file_suppresses_refresh:
  assumes "\<And>n. io E n = None" and "lookup E d False p = Inr q" and "node_at d q = Some (FileNode i)"
  shows "\<not> fst (marker_pass E p True brew updated d)"
  using quiet_present [OF assms] by (simp add: marker_pass_def split_beta)

text \<open>A machine with \<open>/tmp\<close>, and one where a link to a file of the user waits at the path.\<close>

definition marker_os :: os_env where
  "marker_os = \<lparr>io = (\<lambda>_. None), short = (\<lambda>_. 0), umasked = (\<lambda>m. m), wd = [], tempName = (\<lambda>n. [])\<rparr>"

definition tmp_disk :: "(path \<times> node) list \<Rightarrow> disk" where
  "tmp_disk extra = \<lparr>nodes = [([''tmp''], DirNode 1023), ([''key''], FileNode 0)] @ extra, inodes = (\<lambda>_. (''key'', 384)), nextInode = 1, ticks = 0\<rparr>"

lemma marker_is_never_redirected_witness:
  "fst (marker_pass marker_os ''/tmp/m'' True True True (tmp_disk []))
   \<and> \<not> fst (marker_pass marker_os ''/tmp/m'' True True True (snd (marker_pass marker_os ''/tmp/m'' True True True (tmp_disk []))))
   \<and> same_files (tmp_disk [([''tmp'', ''m''], LinkNode ''/key'')])
       (writeBootRefreshMarker marker_os ''/tmp/m'' (tmp_disk [([''tmp'', ''m''], LinkNode ''/key'')]))"
proof -
  have l: "lookup marker_os (tmp_disk extra) False ''/tmp/m'' = Inr [''tmp'', ''m'']" "node_at (tmp_disk extra) [''tmp'', ''m''] = map_of extra [''tmp'', ''m'']"
    if "extra = [] \<or> extra = [([''tmp'', ''m''], LinkNode ''/key'')]" for extra
    using that by (auto simp: lookup_def lookup_elems_def tmp_disk_def node_at_def slash_def filepath_IsAbs_def HasPrefix_def)
  have quiet: "\<forall>n. io marker_os n = None" by (simp add: marker_os_def)
  show ?thesis
    using marker_is_never_redirected [of "tmp_disk []" marker_os "''/tmp/m''" True True]
      marker_is_never_redirected [of "tmp_disk [([''tmp'', ''m''], LinkNode ''/key'')]" marker_os "''/tmp/m''" True True]
      quiet l by auto
qed

end
