(* ===== verification/Spec2Isabelle.thy ===== *)
theory Spec2Isabelle
  imports Agent_Demo Broker_Demo Pool_Demo Pool_Reap Pool_Status Golden_Demo Broker_VM_Demo System_Demo Config_Demo Github_Demo Deploy
    Provision_Props Install_Demo Install_Binary Commands_Props Guest_Dial Guest_Transport Fast_Pull
    Host_Process Guest_Process Golden_Fetch Guest_Client Daemon_Loops Brew_Marker
begin

text \<open>
  \<^bold>\<open>gha-mac-broker\<close>

  The program runs GitHub Actions jobs on macOS virtual machines. A daemon on the host receives webhooks, keeps a pool of
  warm VMs, and hands each queued job to a slot of one of them; an agent in each VM prepares the slot, runs the runner
  process and serves its log; both sides survive a restart of the daemon. This development models the Go code under
  \<open>src/internal\<close> and the parts of \<open>src/cmd/gha-mac-broker\<close> that join it.

  \<^bold>\<open>Conventions.\<close> \<open>Prelude\<close> fixes instants (nanoseconds since Go's zero time), durations and Go errors with their
  wrapping and \<open>errors.Is\<close>; \<open>Go_Strings\<close>, \<open>Go_Path\<close> and \<open>Go_Context\<close> are the parts of the standard library the code
  uses (strings are lists of bytes and case folding is for ASCII; contexts form a tree with causes); \<open>Effects\<close> performs
  calls of the outside world against a function of the trace so far. Code outside the repository (tart, GitHub, TOML and JSON
  decoders, cryptographic hashes, the operating system) is an argument. A mutex-protected body is one definition,
  and a goroutine a step relation over such bodies. Logging and the recovery of panics are left out everywhere.

  \<^bold>\<open>Runner pool\<close> (\<open>internal/runnerpool\<close>). \<open>Pool_Types\<close>: jobs, options, slots, workers, the pool, \<open>New\<close>. \<open>Pool_Ops\<close>:
  \<open>Enqueue\<close>, \<open>Reconfigure\<close>, recycling, cancelling, \<open>Start\<close>, adoption, \<open>Shutdown\<close>, and the critical sections of the worker
  and slot loops. \<open>Pool_Machine\<close>: those loops as steps of a system with logs of accepted and dispatched jobs. \<open>Pool_Reap\<close>: the
  reconcile pass with its probe cache. \<open>Pool_Status\<close>: status rows. \<open>Pool_Inv\<close>, \<open>Pool_Reach\<close>, \<open>Pool_Safety\<close> hold the
  well-formedness of every operation, the control invariant (who owns a slot and a VM) and the safety of every reachable state;
  \<open>Pool_Props\<close> states the properties and \<open>Pool_Demo\<close> applies them; \<open>Pool_Drain\<close> shows that a shutdown completes.

  \<^bold>\<open>Guest execution registry\<close> (\<open>internal/guestexec\<close>). \<open>Exec_Types\<close>, \<open>Exec_Table\<close> (admission, the table of executions),
  \<open>Event_Log\<close> and \<open>Exec_Log\<close> (the numbered log with its byte cap, 64-bit sequence numbers and 32-bit exit codes),
  \<open>Exec_Ops\<close> (\<open>Start\<close>, \<open>Register\<close>, \<open>ReportExit\<close>, \<open>Cancel\<close>, \<open>Drain\<close>, completion), \<open>Exec_Machine\<close> (supervision, capture and
  heartbeats as steps), \<open>Exec_Inv\<close> and \<open>Exec_Subs\<close> (what subscribers have received), \<open>Exec_Props\<close>, \<open>Exec_Demo\<close>. The log
  is an interface, the locale \<open>growing_log\<close> of \<open>Event_Log\<close>, interpreted on the code's executions in \<open>Exec_Subs\<close>.
  \<open>Guest_Process\<close> is what is below it: the pipes and the fork of \<open>Launch\<close>, the signal to a group, the wait that does not reap.

  \<^bold>\<open>Guest agent\<close> (\<open>internal/guestagent\<close>, \<open>internal/guestsupervisor\<close>). \<open>Guest_Runner\<close> builds the process of a job as a trace
  of file and tool calls; \<open>Guest_Agent\<close> is the service with its lock per slot; \<open>Guest_Boot\<close> is the slot count and the
  boot token, files replaced by a rename; \<open>Brew_Marker\<close> is the marker of the Homebrew refresh over a file tree. \<open>Runner_Props\<close>, \<open>Agent_Demo\<close>.

  \<^bold>\<open>Between host and guest\<close>. \<open>Guest_Transport\<close> (\<open>internal/guesttransport\<close>): the bearer token on both sides, the tracked
  listener and the shutdown of \<open>Serve\<close> as a step relation. \<open>Host_Process\<close> has (\<open>internal/tart/execconn.go\<close>) the connection over
  \<open>tart exec\<close>, with its descriptors and its process. \<open>Guest_Dial\<close> (\<open>guest_dial.go\<close>): the byte relay in the guest as a step
  relation. \<open>Guest_Client\<close> (\<open>internal/guestclient\<close> and the stubs, adapters and table of \<open>guest.connect.go\<close>): a call from the
  host's client to the handler of the agent.

  \<^bold>\<open>Broker\<close> (\<open>internal/broker\<close>, \<open>internal/tart\<close>, \<open>internal/golden\<close>). \<open>Host_Tart\<close>: the command lines of tart and their
  results; \<open>Host_Process\<close>: the process group a command runs in and its deadline, as steps of the processes and of the code.
  \<open>Golden_Build\<close>: fingerprint, verification, build and promotion of golden images; \<open>Golden_Fetch\<close>: the version and the digest
  of the runner. \<open>Broker_VM\<close>: warming, the guest client, adoption, teardown. \<open>Broker_Drain\<close>: dispatch of a job, the drain of
  its status stream across reconnects, and what the cause of a cancellation means. \<open>Golden_Props\<close>, \<open>Broker_VM_Props\<close>,
  \<open>Broker_Props\<close> and their \<open>Demo\<close> theories. \<open>Fast_Pull\<close> (\<open>internal/fastpull\<close>, \<open>internal/skopeo\<close>): the parallel copy of an
  image and the local registry that serves it.

  \<^bold>\<open>File system\<close>. \<open>Disk\<close> is a Unix file tree: directories, symbolic links, inodes with their content and mode, open
  handles, and the calls of the package \<open>os\<close>, each of which may fail. \<open>Disk_Region\<close> says what a call can change,
  \<open>Disk_Keep\<close> what it leaves, \<open>Disk_Replace\<close> is the replacement of a file through a temporary one, \<open>Go_Rel\<close> is \<open>filepath.Rel\<close>.
  \<open>Golden_Provision\<close> (\<open>golden_provision.go\<close>): the provisioner inside the build VM, with the checked extraction of the runner;
  \<open>Provision_Props\<close>. \<open>Installer\<close> (\<open>internal/install\<close>): scaffolding, secrets, launchd and systemd units, the maintenance timer;
  \<open>Install_Props\<close>, \<open>Install_Demo\<close>. \<open>Install_Binary\<close> (\<open>install_binary.go\<close>): the running binary put in its place.

  \<^bold>\<open>Daemon\<close>. \<open>Host_Config\<close> (\<open>internal/config\<close>), \<open>Server\<close> (\<open>internal/server\<close>), \<open>Hosted_Load\<close> (\<open>internal/hostedload\<close>),
  \<open>Github_App\<close> (\<open>internal/ghapp\<close>, and the sweep of stale runners in \<open>main.go\<close>), \<open>Config_Reload\<close> (\<open>serve.go\<close>, \<open>reload.go\<close>, the
  wiring in \<open>main.go\<close> and \<open>hoststats.go\<close>, and the sampler of \<open>internal/hoststats\<close>), \<open>Deploy\<close> (\<open>internal/deploy\<close> and its
  command). The server knows the pool as the locale \<open>job_queue\<close>, interpreted on \<open>Enqueue\<close> and \<open>CancelRun\<close>. \<open>Config_Props\<close>,
  \<open>Server_Props\<close>, \<open>Github_Props\<close>, \<open>Reload_Props\<close>; witnesses in \<open>Config_Demo\<close> and \<open>Github_Demo\<close>.
  \<open>Daemon_Loops\<close>: the goroutines with a ticker (the locale \<open>ticker_loop\<close>, interpreted on the watcher, the hosted-load sweep and
  the sampler), the reader of host statistics (\<open>hoststats/reader.go\<close>), the HTTP listener with its graceful stop, and the end of the
  daemon.
  \<open>Commands\<close> and \<open>Commands_Props\<close>: the commands of \<open>main.go\<close>, the start of the guest agent (\<open>guest_agent.go\<close>) and the seeding
  of its slots (\<open>guest_write_slots.go\<close>).

  \<^bold>\<open>Across components\<close>. \<open>System_Lemmas\<close>, \<open>System_Props\<close>, \<open>System_Demo\<close>: the guest registry, the broker's adoption and the
  pool together (a restarted broker resumes what runs; the reaper follows the guest; the cause of a cancellation decides between
  teardown and detachment). \<open>Reload_Props\<close>: server, binder, sampler and pool under one configuration.

  \<^bold>\<open>Bounds.\<close> A wait with a deadline is the list of what its polls saw, or their number (\<open>polls\<close>), and is total; the lists are
  arbitrary, so a theorem over them covers every timeout. The drain takes the list of its attempts and gives \<open>None\<close> when
  they run out; \<open>drain_returns\<close> says exactly when it does not. A listing of GitHub follows pages until the API ends it, as a
  \<open>partial_function\<close>: \<open>None\<close> is a loop that never ends, and the properties show \<open>Some\<close> for an API that serves finitely many pages.
  Integers that cross the wire keep their width; counts of Go's \<open>int\<close> are unbounded, and the floating point numbers of host statistics are rationals.

  \<^bold>\<open>Not modelled.\<close> The protobuf messages and their codec (\<open>guest.pb.go\<close>, generated), Connect's framing and HTTP/2, the
  listener and mux of the HTTP server; gopsutil; the installation of the logger; version data, the
  clock and the defaults of flags (constants and calls of the library); flag parsing; the text of unit templates; the
  self-update library and its scheduler.
\<close>

end
